(* ===== verification/Prelude.thy ===== *)
theory Prelude
  imports Main "HOL-Library.Multiset" "HOL-Library.Sublist"
begin

text \<open>
  Shared vocabulary of the development: the error values every component returns, the
  association lists that stand for JavaScript objects, the first-occurrence view of a
  JavaScript \<open>Set\<close>, and the list lemmas the component theories share.
  Lemmas that carry component proofs are collected in \<open>obe_simps\<close> (rewriting) and
  \<open>obe_intros\<close> (invariant preservation).
\<close>

named_theorems obe_simps
named_theorems obe_intros

type_synonym id = string

subsection \<open>Lists\<close>

text \<open>
  \<open>[...new Set(xs)]\<close>: a JavaScript \<open>Set\<close> enumerates its members in the order of
  their first insertion.
\<close>

fun uniq_acc :: "'a list \<Rightarrow> 'a list \<Rightarrow> 'a list" where
  "uniq_acc seen [] = []"
| "uniq_acc seen (x # xs) =
     (if x \<in> set seen then uniq_acc seen xs else x # uniq_acc (x # seen) xs)"

definition uniq :: "'a list \<Rightarrow> 'a list" where
  "uniq xs = uniq_acc [] xs"

lemma set_uniq_acc: "set (uniq_acc seen xs) = set xs - set seen"
  by (induction seen xs rule: uniq_acc.induct) auto

lemma set_uniq [simp]: "set (uniq xs) = set xs"
  by (simp add: uniq_def set_uniq_acc)

lemma distinct_uniq_acc: "distinct (uniq_acc seen xs)"
  by (induction seen xs rule: uniq_acc.induct) (auto simp: set_uniq_acc)

lemma distinct_uniq [simp]: "distinct (uniq xs)"
  by (simp add: uniq_def distinct_uniq_acc)

lemma uniq_acc_id: "distinct xs \<Longrightarrow> set xs \<inter> set seen = {} \<Longrightarrow> uniq_acc seen xs = xs"
  by (induction seen xs rule: uniq_acc.induct) auto

lemma uniq_id: "distinct xs \<Longrightarrow> uniq xs = xs"
  by (simp add: uniq_def uniq_acc_id)

lemma find_SomeD: "find P xs = Some x \<Longrightarrow> x \<in> set xs \<and> P x"
  by (induction xs) (auto split: if_splits)

lemma distinct_of_map: "distinct (map f xs) \<Longrightarrow> distinct xs"
  by (simp add: distinct_map)

lemma dropWhile_length_le: "length (dropWhile p xs) \<le> length xs"
  by (induction xs) auto

lemma dropWhile_no_head: "xs = [] \<or> \<not> p (hd xs) \<Longrightarrow> dropWhile p xs = xs"
  by (cases xs) auto

lemma takeWhile_append_stop:
  "\<forall>x \<in> set xs. p x \<Longrightarrow> ys = [] \<or> \<not> p (hd ys) \<Longrightarrow> takeWhile p (xs @ ys) = xs"
  by (induction xs) (auto, cases ys, auto)

lemma dropWhile_append_stop:
  "\<forall>x \<in> set xs. p x \<Longrightarrow> ys = [] \<or> \<not> p (hd ys) \<Longrightarrow> dropWhile p (xs @ ys) = ys"
  by (induction xs) (auto, cases ys, auto)

lemma takeWhile_id: "\<forall>x \<in> set xs. p x \<Longrightarrow> takeWhile p xs = xs"
  by (induction xs) auto

lemma dropWhile_all: "\<forall>x \<in> set xs. p x \<Longrightarrow> dropWhile p xs = []"
  by (induction xs) auto

text \<open>\<open>hay.includes(needle)\<close> on strings: the needle starts at some position.\<close>

fun str_includes :: "'a list \<Rightarrow> 'a list \<Rightarrow> bool" where
  "str_includes [] needle = (needle = [])"
| "str_includes (x # xs) needle = (prefix needle (x # xs) \<or> str_includes xs needle)"

lemma str_includes_sublist: "str_includes hay needle = sublist needle hay"
proof (induction hay)
  case Nil
  show ?case by simp
next
  case (Cons x xs)
  then show ?case by (auto simp: sublist_Cons_right)
qed

subsection \<open>Association lists with at most one entry per key\<close>

definition akeys :: "('k \<times> 'v) list \<Rightarrow> 'k list" where
  "akeys kvs = map fst kvs"

lemma akeys_simps [simp]:
  "akeys [] = []" "akeys ((k, v) # kvs) = k # akeys kvs"
  "akeys (kvs @ kvs') = akeys kvs @ akeys kvs'"
  by (simp_all add: akeys_def)

lemma map_of_None_akeys [simp]: "map_of kvs k = None \<longleftrightarrow> k \<notin> set (akeys kvs)"
  by (simp add: akeys_def map_of_eq_None_iff)

lemma map_of_notin_akeys [simp]: "k \<notin> set (akeys kvs) \<Longrightarrow> map_of kvs k = None"
  by simp

lemma map_of_Some_akeys: "map_of kvs k = Some v \<Longrightarrow> k \<in> set (akeys kvs)"
  by (metis map_of_None_akeys option.distinct(1))

lemma map_of_snoc:
  assumes "k \<notin> set (akeys kvs)"
  shows "[k \<mapsto> v] ++ map_of kvs = (map_of kvs)(k \<mapsto> v)"
proof
  fix k'
  have "map_of kvs k = None"
    using assms by simp
  then show "([k \<mapsto> v] ++ map_of kvs) k' = ((map_of kvs)(k \<mapsto> v)) k'"
    by (cases "k' = k"; cases "map_of kvs k'") (simp_all add: map_add_def del: map_of_None_akeys)
qed

text \<open>\<open>delete obj[k]\<close>.\<close>

definition adel :: "'k \<Rightarrow> ('k \<times> 'v) list \<Rightarrow> ('k \<times> 'v) list" where
  "adel k kvs = filter (\<lambda>kv. fst kv \<noteq> k) kvs"

lemma adel_simps [simp]:
  "adel k [] = []"
  "adel k (kv # kvs) = (if fst kv = k then adel k kvs else kv # adel k kvs)"
  by (simp_all add: adel_def)

lemma akeys_adel [simp]: "akeys (adel k kvs) = filter (\<lambda>k'. k' \<noteq> k) (akeys kvs)"
  by (induction kvs) auto

lemma map_of_adel [simp]: "map_of (adel k kvs) = (map_of kvs)(k := None)"
  by (induction kvs) (auto simp: fun_eq_iff)

lemma set_adel: "set (adel k kvs) = {kv \<in> set kvs. fst kv \<noteq> k}"
  by (auto simp: adel_def)

text \<open>\<open>map.set(k, v)\<close>: an existing key keeps its place, a new one goes last.\<close>

fun aput :: "'k \<Rightarrow> 'v \<Rightarrow> ('k \<times> 'v) list \<Rightarrow> ('k \<times> 'v) list" where
  "aput k v [] = [(k, v)]"
| "aput k v ((k', v') # kvs) = (if k = k' then (k, v) # kvs else (k', v') # aput k v kvs)"

lemma map_of_aput [simp]: "map_of (aput k v kvs) = (map_of kvs)(k \<mapsto> v)"
  by (induction k v kvs rule: aput.induct) (auto simp: fun_eq_iff)

lemma akeys_aput:
  "akeys (aput k v kvs) = (if k \<in> set (akeys kvs) then akeys kvs else akeys kvs @ [k])"
  by (induction k v kvs rule: aput.induct) auto

lemma distinct_akeys_aput [simp]: "distinct (akeys (aput k v kvs)) = distinct (akeys kvs)"
  by (simp add: akeys_aput)

lemma set_akeys_aput [simp]: "set (akeys (aput k v kvs)) = insert k (set (akeys kvs))"
  by (auto simp: akeys_aput)

lemma aput_append: "k \<notin> set (akeys kvs) \<Longrightarrow> aput k v kvs = kvs @ [(k, v)]"
  by (induction k v kvs rule: aput.induct) auto

subsection \<open>Errors\<close>

text \<open>
  A thrown \<open>Error\<close>: its \<open>statusCode\<close> property (\<open>None\<close> when the code throws a plain
  \<open>Error\<close>) and what it says. Messages are kept as structured values with the data they
  interpolate; the wording is not modelled.
\<close>

datatype 'm err = Err (status_code: "nat option") (err_msg: 'm)

text \<open>\<open>err.statusCode || 500\<close>, as every HTTP handler answers.\<close>

definition http_status :: "'m err \<Rightarrow> nat" where
  "http_status e = (case status_code e of None \<Rightarrow> 500 | Some c \<Rightarrow> if c = 0 then 500 else c)"

lemma sum_bind_cases:
  "(case x of Inl e \<Rightarrow> Inl e | Inr a \<Rightarrow> f a) = Inr b \<longleftrightarrow> (\<exists>a. x = Inr a \<and> f a = Inr b)"
  by (cases x) auto


text \<open>A loop whose body may throw: the first error ends it.\<close>

fun try_fold :: "('a \<Rightarrow> 's \<Rightarrow> 'e + 's) \<Rightarrow> 'a list \<Rightarrow> 's \<Rightarrow> 'e + 's" where
  "try_fold f [] s = Inr s"
| "try_fold f (x # xs) s = (case f x s of Inl e \<Rightarrow> Inl e | Inr s' \<Rightarrow> try_fold f xs s')"

lemma try_fold_append:
  "try_fold f (xs @ ys) s = (case try_fold f xs s of Inl e \<Rightarrow> Inl e | Inr s' \<Rightarrow> try_fold f ys s')"
  by (induction xs arbitrary: s) (auto split: sum.splits)

lemma try_fold_invariant:
  assumes "try_fold f xs s = Inr s'" "P s"
    and "\<And>x t t'. x \<in> set xs \<Longrightarrow> P t \<Longrightarrow> f x t = Inr t' \<Longrightarrow> P t'"
  shows "P s'"
  using assms
proof (induction xs arbitrary: s)
  case (Cons x xs)
  then obtain t where "f x s = Inr t" "try_fold f xs t = Inr s'"
    by (auto split: sum.splits)
  then show ?case
    using Cons.IH [of t] Cons.prems(2,3) by auto
qed simp

end
