(* ===== verification/JsNumber.thy ===== *)
theory JsNumber
  imports Prelude Complex_Main
begin

text \<open>
  The numbers of the source language: IEEE 754 binary64 values, as an exact rational, an
  infinity or NaN (the sign of zero is not kept). \<open>rnd64\<close> rounds a fraction to the
  nearest double, ties to even; \<open>parse_number\<close> is \<open>Number(string)\<close> and
  \<open>num_str\<close> is \<open>String(number)\<close>. Characters are code units below 256.
\<close>

datatype jsnum = Fin rat | PInf | NInf | NaN

subsection \<open>Characters and strings\<close>

definition code :: "char \<Rightarrow> nat" where
  "code c = of_char c"

lemma code_inject [simp]: "code a = code b \<longleftrightarrow> a = b"
  by (simp add: code_def)

text \<open>
  The class \<open>\s\<close> of regular expressions, which is also what \<open>trim\<close> strips: TAB, LF,
  VT, FF, CR, space and NO-BREAK SPACE.
\<close>

definition is_ws :: "char \<Rightarrow> bool" where
  "is_ws c \<longleftrightarrow> code c \<in> {9, 10, 11, 12, 13, 32, 160}"

definition is_digit :: "char \<Rightarrow> bool" where
  "is_digit c \<longleftrightarrow> 48 \<le> code c \<and> code c \<le> 57"

definition is_upper :: "char \<Rightarrow> bool" where
  "is_upper c \<longleftrightarrow>
     (65 \<le> code c \<and> code c \<le> 90) \<or> (192 \<le> code c \<and> code c \<le> 222 \<and> code c \<noteq> 215)"

text \<open>
  \<open>toLowerCase\<close> on code units below 256: the lower-case letter is 32 above the
  upper-case one, that is, the same code with bit 5 set.
\<close>

fun lower_char :: "char \<Rightarrow> char" where
  "lower_char (Char b0 b1 b2 b3 b4 b5 b6 b7) =
     (if is_upper (Char b0 b1 b2 b3 b4 b5 b6 b7)
      then Char b0 b1 b2 b3 b4 True b6 b7 else Char b0 b1 b2 b3 b4 b5 b6 b7)"

definition to_lower :: "string \<Rightarrow> string" where
  "to_lower s = map lower_char s"

definition js_trim :: "string \<Rightarrow> string" where
  "js_trim s = rev (dropWhile is_ws (rev (dropWhile is_ws s)))"

subsection \<open>Rounding to binary64\<close>

text \<open>Number of binary digits of a natural number.\<close>

fun bits :: "nat \<Rightarrow> nat" where
  "bits n = (if n = 0 then 0 else Suc (bits (n div 2)))"

declare bits.simps [simp del]

text \<open>\<open>n / d\<close> rounded to an integer, ties to even.\<close>

definition div_even :: "nat \<Rightarrow> nat \<Rightarrow> nat" where
  "div_even n d =
     (let q = n div d; r = n mod d in
      if 2 * r < d then q else if d < 2 * r then Suc q else if even q then q else Suc q)"

text \<open>
  A positive fraction \<open>n / d\<close>: \<open>e\<close> is the exponent of the last place, chosen so that
  the significand has 53 bits and no smaller than the subnormal exponent \<open>-1074\<close>.
\<close>

definition rnd64_exp :: "nat \<Rightarrow> nat \<Rightarrow> int" where
  "rnd64_exp n d =
     (let e0 = int (bits n) - int (bits d) - 53;
          below = (if 0 \<le> e0 + 53 then n < d * 2 ^ nat (e0 + 53)
                   else n * 2 ^ nat (- (e0 + 53)) < d)
      in max (-1074) (if below then e0 else e0 + 1))"

definition rnd64 :: "nat \<Rightarrow> nat \<Rightarrow> jsnum" where
  "rnd64 n d =
     (if n = 0 then Fin 0 else
      let e = rnd64_exp n d in
      if 0 \<le> e then
        (let v = div_even n (d * 2 ^ nat e) * 2 ^ nat e in
         if 2 ^ 1024 \<le> v then PInf else Fin (of_nat v))
      else Fin (of_nat (div_even (n * 2 ^ nat (- e)) d) / 2 ^ nat (- e)))"

fun num_neg :: "jsnum \<Rightarrow> jsnum" where
  "num_neg (Fin q) = Fin (- q)"
| "num_neg PInf = NInf"
| "num_neg NInf = PInf"
| "num_neg NaN = NaN"

text \<open>The mathematical value \<open>m \<sqdot> 10 ^ e\<close> as the nearest double.\<close>

definition rnd_decimal :: "nat \<Rightarrow> int \<Rightarrow> jsnum" where
  "rnd_decimal m e =
     (if 0 \<le> e then rnd64 (m * 10 ^ nat e) 1 else rnd64 m (10 ^ nat (- e)))"

subsection \<open>Number(string)\<close>

definition digit_val :: "char \<Rightarrow> nat" where
  "digit_val c = code c - 48"

definition digits_val :: "string \<Rightarrow> nat" where
  "digits_val ds = foldl (\<lambda>n c. 10 * n + digit_val c) 0 ds"

fun parse_exponent :: "string \<Rightarrow> int option" where
  "parse_exponent (c # ds) =
     (if c = CHR ''-'' then
        (if ds \<noteq> [] \<and> list_all is_digit ds then Some (- int (digits_val ds)) else None)
      else if c = CHR ''+'' then
        (if ds \<noteq> [] \<and> list_all is_digit ds then Some (int (digits_val ds)) else None)
      else if list_all is_digit (c # ds) then Some (int (digits_val (c # ds))) else None)"
| "parse_exponent [] = None"

text \<open>An unsigned decimal literal: \<open>12\<close>, \<open>12.5\<close>, \<open>.5\<close>, \<open>1e3\<close>, \<open>Infinity\<close>.\<close>

definition parse_udec :: "string \<Rightarrow> jsnum" where
  "parse_udec t =
     (if t = ''Infinity'' then PInf else
      let ip = takeWhile is_digit t; r = dropWhile is_digit t;
          dot = (case r of c # _ \<Rightarrow> c = CHR ''.'' | [] \<Rightarrow> False);
          fp = (if dot then takeWhile is_digit (tl r) else []);
          r2 = (if dot then dropWhile is_digit (tl r) else r);
          m = digits_val (ip @ fp); k = - int (length fp)
      in if ip = [] \<and> fp = [] then NaN
         else case r2 of
             [] \<Rightarrow> rnd_decimal m k
           | c # u \<Rightarrow>
               if c = CHR ''e'' \<or> c = CHR ''E'' then
                 (case parse_exponent u of None \<Rightarrow> NaN | Some x \<Rightarrow> rnd_decimal m (k + x))
               else NaN)"

text \<open>Binary, octal and hexadecimal literals, which take no sign.\<close>

definition radix_digit :: "char \<Rightarrow> nat" where
  "radix_digit c =
     (let n = code c in
      if 48 \<le> n \<and> n \<le> 57 then n - 48
      else if 97 \<le> n \<and> n \<le> 102 then n - 87
      else if 65 \<le> n \<and> n \<le> 70 then n - 55 else 99)"

definition parse_radix :: "nat \<Rightarrow> string \<Rightarrow> jsnum" where
  "parse_radix b ds =
     (if ds = [] \<or> (\<exists>c \<in> set ds. b \<le> radix_digit c) then NaN
      else rnd64 (foldl (\<lambda>n c. b * n + radix_digit c) 0 ds) 1)"

definition parse_number :: "string \<Rightarrow> jsnum" where
  "parse_number s =
     (let t = js_trim s in
      if t = [] then Fin 0
      else if take 2 t \<in> {''0x'', ''0X''} then parse_radix 16 (drop 2 t)
      else if take 2 t \<in> {''0o'', ''0O''} then parse_radix 8 (drop 2 t)
      else if take 2 t \<in> {''0b'', ''0B''} then parse_radix 2 (drop 2 t)
      else if hd t = CHR ''-'' then num_neg (parse_udec (tl t))
      else if hd t = CHR ''+'' then parse_udec (tl t)
      else parse_udec t)"

definition is_finite :: "jsnum \<Rightarrow> bool" where
  "is_finite n \<longleftrightarrow> (case n of Fin _ \<Rightarrow> True | _ \<Rightarrow> False)"

text \<open>\<open>a > b\<close>: false when either side is NaN.\<close>

fun num_gt :: "jsnum \<Rightarrow> jsnum \<Rightarrow> bool" where
  "num_gt NaN _ = False"
| "num_gt _ NaN = False"
| "num_gt (Fin a) (Fin b) = (b < a)"
| "num_gt PInf b = (b \<noteq> PInf)"
| "num_gt a NInf = (a \<noteq> NInf)"
| "num_gt _ _ = False"

text \<open>\<open>a || b\<close> on numbers: zero and NaN are falsy.\<close>

definition num_or :: "jsnum \<Rightarrow> jsnum \<Rightarrow> jsnum" where
  "num_or a b = (if a = Fin 0 \<or> a = NaN then b else a)"


subsection \<open>String(number)\<close>

definition digit_char :: "nat \<Rightarrow> char" where
  "digit_char d = ''0123456789'' ! d"

fun show_nat :: "nat \<Rightarrow> string" where
  "show_nat n =
     (if n < 10 then [digit_char n] else show_nat (n div 10) @ [digit_char (n mod 10)])"

declare show_nat.simps [simp del]

definition show_int :: "int \<Rightarrow> string" where
  "show_int i = (if i < 0 then CHR ''-'' # show_nat (nat (- i)) else show_nat (nat i))"

definition rat_scale :: "rat \<Rightarrow> int \<Rightarrow> rat" where
  "rat_scale x k = (if 0 \<le> k then x * 10 ^ nat k else x / 10 ^ nat (- k))"

text \<open>The position \<open>p\<close> of the decimal point: \<open>10 ^ (p - 1) \<le> x < 10 ^ p\<close>.\<close>

fun lead_zeros :: "nat \<Rightarrow> rat \<Rightarrow> nat" where
  "lead_zeros 0 x = 0"
| "lead_zeros (Suc f) x = (if 1 \<le> 10 * x then 0 else Suc (lead_zeros f (10 * x)))"

definition dec_point :: "rat \<Rightarrow> int" where
  "dec_point x =
     (if 1 \<le> x then int (length (show_nat (nat \<lfloor>x\<rfloor>))) else - int (lead_zeros 330 x))"

text \<open>
  The shortest decimal that reads back as \<open>x > 0\<close>: the significand \<open>s\<close> and the power
  of ten \<open>e\<close> with \<open>k = 1, 2, \<dots>\<close> digits until \<open>s \<sqdot> 10 ^ e\<close> rounds to \<open>x\<close>. Of the two
  candidates below and above, the nearer one is preferred. Seventeen digits always do.
\<close>

fun shortest :: "nat list \<Rightarrow> rat \<Rightarrow> int \<Rightarrow> nat \<times> int" where
  "shortest [] x p = (nat \<lfloor>rat_scale x (18 - p)\<rfloor>, p - 18)"
| "shortest (k # ks) x p =
     (let y = rat_scale x (int k - p); lo = nat \<lfloor>y\<rfloor>; hi = lo + 1;
          ok_lo = (rnd_decimal lo (p - int k) = Fin x);
          ok_hi = (rnd_decimal hi (p - int k) = Fin x)
      in if ok_lo \<and> (\<not> ok_hi \<or> y - of_nat lo \<le> of_nat hi - y) then (lo, p - int k)
         else if ok_hi then (hi, p - int k)
         else shortest ks x p)"

definition strip_zeros :: "string \<Rightarrow> string" where
  "strip_zeros ds = rev (dropWhile (\<lambda>c. c = CHR ''0'') (rev ds))"

definition pos_num_str :: "rat \<Rightarrow> string" where
  "pos_num_str x =
     (let (s, e) = shortest [1, 2, 3, 4, 5, 6, 7, 8, 9, 10, 11, 12, 13, 14, 15, 16, 17] x (dec_point x);
          all = show_nat s; n = e + int (length all); ds = strip_zeros all; k = int (length ds)
      in if k \<le> n \<and> n \<le> 21 then ds @ replicate (nat (n - k)) (CHR ''0'')
         else if 0 < n \<and> n \<le> 21 then take (nat n) ds @ ''.'' @ drop (nat n) ds
         else if -6 < n \<and> n \<le> 0 then ''0.'' @ replicate (nat (- n)) (CHR ''0'') @ ds
         else (let ex = (if n - 1 < 0 then ''e-'' else ''e+'') @ show_nat (nat \<bar>n - 1\<bar>) in
               if k = 1 then ds @ ex else take 1 ds @ ''.'' @ drop 1 ds @ ex))"

fun num_str :: "jsnum \<Rightarrow> string" where
  "num_str (Fin q) =
     (if q = 0 then ''0'' else if q < 0 then CHR ''-'' # pos_num_str (- q) else pos_num_str q)"
| "num_str PInf = ''Infinity''"
| "num_str NInf = ''-Infinity''"
| "num_str NaN = ''NaN''"


subsection \<open>Exactness on safe integers\<close>

text \<open>
  \<open>Number\<close> reads the decimal digits of an integer up to \<open>Number.MAX_SAFE_INTEGER\<close>
  (\<open>2 ^ 53 - 1\<close>) exactly.
\<close>

lemma bits_less: "n < 2 ^ k \<Longrightarrow> bits n \<le> k"
proof (induction k arbitrary: n)
  case 0
  then show ?case by (simp add: bits.simps)
next
  case (Suc k)
  then have "bits (n div 2) \<le> k" by auto
  then show ?case by (subst bits.simps) simp
qed

lemma div_even_1 [simp]: "div_even n 1 = n" "div_even n (Suc 0) = n"
  by (simp_all add: div_even_def)

lemma rnd64_exact:
  assumes "n < 2 ^ 53"
  shows "rnd64 n 1 = Fin (of_nat n)"
proof (cases "n = 0")
  case True
  then show ?thesis by (simp add: rnd64_def)
next
  case False
  define e where "e = rnd64_exp n 1"
  have "bits 1 = 1"
    by (simp add: bits.simps)
  with bits_less [OF assms] have "e \<le> 0"
    by (simp add: e_def rnd64_exp_def Let_def)
  show ?thesis
  proof (cases "e = 0")
    case True
    have "(2::nat) ^ 53 \<le> 2 ^ 1024"
      by (rule power_increasing) simp_all
    then have "\<not> 2 ^ 1024 \<le> n"
      using assms by linarith
    then show ?thesis
      using False True by (simp add: rnd64_def e_def [symmetric] Let_def del: One_nat_def)
  next
    case False
    then show ?thesis
      using \<open>e \<le> 0\<close> by (simp add: rnd64_def e_def [symmetric] Let_def del: One_nat_def)
  qed
qed

lemma code_digit_char: "d < 10 \<Longrightarrow> code (digit_char d) = 48 + d"
proof -
  assume "d < 10"
  then have "d \<in> {0, 1, 2, 3, 4, 5, 6, 7, 8, 9}" by auto
  then show ?thesis by (auto simp: digit_char_def code_def)
qed

lemma is_digit_digit_char [simp]: "d < 10 \<Longrightarrow> is_digit (digit_char d)"
  by (simp add: is_digit_def code_digit_char)

lemma digits_val_append [simp]: "digits_val (ds @ [c]) = 10 * digits_val ds + digit_val c"
  by (simp add: digits_val_def)

lemma show_nat_digits: "list_all is_digit (show_nat n)"
  by (induction n rule: show_nat.induct) (subst show_nat.simps, simp)

lemma show_nat_not_Nil [simp]: "show_nat n \<noteq> []"
  by (subst show_nat.simps) simp

lemma digits_val_show_nat [simp]: "digits_val (show_nat n) = n"
proof (induction n rule: show_nat.induct)
  case (1 n)
  show ?case
  proof (cases "n < 10")
    case True
    then show ?thesis
      by (subst show_nat.simps) (simp add: digits_val_def digit_val_def code_digit_char)
  next
    case False
    then show ?thesis
      using 1 by (subst show_nat.simps) (simp add: digit_val_def code_digit_char)
  qed
qed

lemma digit_not_ws: "is_digit c \<Longrightarrow> \<not> is_ws c"
  by (auto simp: is_digit_def is_ws_def)

lemma js_trim_id:
  assumes "s = [] \<or> \<not> is_ws (hd s) \<and> \<not> is_ws (last s)"
  shows "js_trim s = s"
proof (cases "s = []")
  case False
  with assms have "dropWhile is_ws s = s" "dropWhile is_ws (rev s) = rev s"
    by (auto intro!: dropWhile_no_head simp: hd_rev)
  then show ?thesis by (simp add: js_trim_def)
qed (simp add: js_trim_def)

lemma js_trim_ends:
  assumes "js_trim s \<noteq> []"
  shows "\<not> is_ws (hd (js_trim s)) \<and> \<not> is_ws (last (js_trim s))"
proof -
  define t where "t = dropWhile is_ws (rev (dropWhile is_ws s))"
  have trim: "js_trim s = rev t"
    by (simp add: js_trim_def t_def)
  obtain u where split: "rev (dropWhile is_ws s) = u @ t"
    using takeWhile_dropWhile_id [of is_ws "rev (dropWhile is_ws s)", symmetric]
    unfolding t_def by blast
  have "t \<noteq> []"
    using assms trim by simp
  then have "\<not> is_ws (hd t)"
    using hd_dropWhile [of is_ws "rev (dropWhile is_ws s)"] unfolding t_def by simp
  moreover have "dropWhile is_ws s = rev t @ rev u"
    using arg_cong [OF split, of rev] by simp
  then have "hd (rev t) = hd (dropWhile is_ws s)" "dropWhile is_ws s \<noteq> []"
    using \<open>t \<noteq> []\<close> by simp_all
  then have "\<not> is_ws (hd (rev t))"
    using hd_dropWhile [of is_ws s] by simp
  ultimately show ?thesis
    using \<open>t \<noteq> []\<close> by (simp add: trim last_rev)
qed

lemma js_trim_idem [simp]: "js_trim (js_trim s) = js_trim s"
  using js_trim_ends [of s] by (intro js_trim_id) blast

lemma parse_udec_digits:
  assumes "list_all is_digit ds" "ds \<noteq> []"
  shows "parse_udec ds = rnd_decimal (digits_val ds) 0"
proof -
  have all: "\<forall>c \<in> set ds. is_digit c"
    using assms by (simp add: list_all_iff)
  then have "ds \<noteq> ''Infinity''"
    by (auto simp: is_digit_def code_def)
  then show ?thesis
    using assms(2)
    by (simp add: parse_udec_def Let_def takeWhile_id [OF all] dropWhile_all [OF all])
qed

lemma parse_number_show_nat: "parse_number (show_nat n) = rnd64 n 1"
  and parse_number_neg_nat: "parse_number (CHR ''-'' # show_nat n) = num_neg (rnd64 n 1)"
proof -
  have digits: "list_all is_digit (show_nat n)"
    by (rule show_nat_digits)
  have val: "parse_udec (show_nat n) = rnd64 n 1"
    by (simp add: parse_udec_digits digits rnd_decimal_def)
  have dig: "\<forall>c \<in> set (show_nat n). is_digit c"
    using digits by (simp add: list_all_iff)
  then have hd: "is_digit (hd (show_nat n))" and last: "is_digit (last (show_nat n))"
    by simp_all
  have no_radix: "take 2 (show_nat n) \<notin> {[a, CHR ''x''], [a, CHR ''X''], [a, CHR ''o''],
      [a, CHR ''O''], [a, CHR ''b''], [a, CHR ''B'']}" for a
  proof
    assume "take 2 (show_nat n) \<in> {[a, CHR ''x''], [a, CHR ''X''], [a, CHR ''o''],
      [a, CHR ''O''], [a, CHR ''b''], [a, CHR ''B'']}"
    then have "\<exists>c \<in> set (take 2 (show_nat n)). \<not> is_digit c"
      by (auto simp: is_digit_def code_def)
    then show False
      using dig by (auto dest: in_set_takeD)
  qed
  have not_sign: "hd (show_nat n) \<noteq> CHR ''-''" "hd (show_nat n) \<noteq> CHR ''+''"
    using hd by (auto simp: is_digit_def code_def)
  have "js_trim (show_nat n) = show_nat n"
    by (rule js_trim_id) (use digit_not_ws [OF last] digit_not_ws [OF hd] in simp)
  then show "parse_number (show_nat n) = rnd64 n 1"
    using val not_sign no_radix [of "CHR ''0''"] by (simp add: parse_number_def Let_def)
  have "js_trim (CHR ''-'' # show_nat n) = CHR ''-'' # show_nat n"
    by (rule js_trim_id) (use digit_not_ws [OF last] in \<open>simp add: is_ws_def code_def\<close>)
  then show "parse_number (CHR ''-'' # show_nat n) = num_neg (rnd64 n 1)"
    using val by (simp add: parse_number_def take_Cons' Let_def)
qed

lemma parse_number_show_int:
  assumes "\<bar>i\<bar> < 2 ^ 53"
  shows "parse_number (show_int i) = Fin (of_int i)"
proof -
  have "rnd64 (nat \<bar>i\<bar>) 1 = Fin (of_nat (nat \<bar>i\<bar>))"
    using assms by (intro rnd64_exact) (simp add: nat_less_iff)
  then show ?thesis
    by (cases "i < 0") (simp_all add: show_int_def parse_number_show_nat parse_number_neg_nat del: One_nat_def)
qed

lemma rnd64_above_safe: "rnd64 9007199254740992 1 = Fin 9007199254740992"
  "rnd64 9007199254740993 1 = Fin 9007199254740992"
  by (simp_all add: rnd64_def rnd64_exp_def bits.simps div_even_def Let_def)

end
