(* ===== verification/JsValue.thy ===== *)
theory JsValue
  imports JsNumber
begin

text \<open>
  The values that flow through the import pipeline: what a parser puts into a cell, what
  coercion makes of it, and what a filter or update document holds. \<open>undefined\<close> is the
  absence of a value (\<open>None\<close>). Objects are association lists in enumeration order with
  one entry per key; keys that are members of \<open>Object.prototype\<close> other than
  \<open>__proto__\<close> are treated as ordinary absent keys.
\<close>

datatype val =
    VNull
  | VBool bool
  | VNum jsnum
  | VStr string
  | VDate int          \<comment> \<open>milliseconds since the epoch\<close>
  | VArr "val list"
  | VObj "(string \<times> val) list"

type_synonym obj = "(string \<times> val) list"

text \<open>
  The conversions the language leaves to the implementation and the time zone: reading a date
  string (\<open>None\<close> for an invalid date), printing a date, and the ISO form \<open>JSON.stringify\<close>
  writes.
\<close>

record js_env =
  date_parse :: "string \<Rightarrow> int option"
  date_print :: "int \<Rightarrow> string"
  date_iso :: "int \<Rightarrow> string"

subsection \<open>Objects\<close>

abbreviation oget :: "obj \<Rightarrow> string \<Rightarrow> val option" where
  "oget o' k \<equiv> map_of o' k"

text \<open>
  Array-index keys (canonical decimal numerals below \<open>2 ^ 32 - 1\<close>) are enumerated first, in
  ascending order; all other keys follow in insertion order. \<open>oset\<close> is the assignment
  \<open>obj[k] = v\<close> with that order; assigning \<open>__proto__\<close> creates no property.
\<close>

definition is_index_key :: "string \<Rightarrow> bool" where
  "is_index_key k \<longleftrightarrow>
     k \<noteq> [] \<and> list_all is_digit k \<and> (k = ''0'' \<or> hd k \<noteq> CHR ''0'')
     \<and> digits_val k < 2 ^ 32 - 1"

definition key_before :: "string \<Rightarrow> string \<Rightarrow> bool" where
  "key_before k k' \<longleftrightarrow>
     is_index_key k \<and> (\<not> is_index_key k' \<or> digits_val k < digits_val k')"

fun oins :: "string \<Rightarrow> 'v \<Rightarrow> (string \<times> 'v) list \<Rightarrow> (string \<times> 'v) list" where
  "oins k v [] = [(k, v)]"
| "oins k v ((k', v') # kvs) =
     (if key_before k k' then (k, v) # (k', v') # kvs else (k', v') # oins k v kvs)"

fun oput :: "string \<Rightarrow> 'v \<Rightarrow> (string \<times> 'v) list \<Rightarrow> (string \<times> 'v) list" where
  "oput k v [] = []"
| "oput k v ((k', v') # kvs) = (if k = k' then (k, v) # kvs else (k', v') # oput k v kvs)"

definition oset :: "string \<Rightarrow> 'v \<Rightarrow> (string \<times> 'v) list \<Rightarrow> (string \<times> 'v) list" where
  "oset k v kvs =
     (if k = ''__proto__'' then kvs
      else if k \<in> set (akeys kvs) then oput k v kvs else oins k v kvs)"

lemma map_of_oins: "k \<notin> set (akeys kvs) \<Longrightarrow> map_of (oins k v kvs) = (map_of kvs)(k \<mapsto> v)"
  by (induction k v kvs rule: oins.induct) (auto simp: fun_eq_iff)

lemma map_of_oput: "k \<in> set (akeys kvs) \<Longrightarrow> map_of (oput k v kvs) = (map_of kvs)(k \<mapsto> v)"
  by (induction k v kvs rule: oput.induct) (auto simp: fun_eq_iff)

lemma map_of_oset [simp]:
  "k \<noteq> ''__proto__'' \<Longrightarrow> map_of (oset k v kvs) = (map_of kvs)(k \<mapsto> v)"
  by (simp add: oset_def map_of_oins map_of_oput)

lemma akeys_oput [simp]: "akeys (oput k v kvs) = akeys kvs"
  by (induction k v kvs rule: oput.induct) auto

lemma set_akeys_oins: "set (akeys (oins k v kvs)) = insert k (set (akeys kvs))"
  by (induction k v kvs rule: oins.induct) auto

lemma distinct_akeys_oins:
  "distinct (akeys kvs) \<Longrightarrow> k \<notin> set (akeys kvs) \<Longrightarrow> distinct (akeys (oins k v kvs))"
  by (induction k v kvs rule: oins.induct) (auto simp: set_akeys_oins)

lemma set_akeys_oset:
  "set (akeys (oset k v kvs)) = (if k = ''__proto__'' then set (akeys kvs) else insert k (set (akeys kvs)))"
  by (auto simp: oset_def set_akeys_oins)

lemma distinct_akeys_oset [intro]: "distinct (akeys kvs) \<Longrightarrow> distinct (akeys (oset k v kvs))"
  by (simp add: oset_def distinct_akeys_oins)

lemma oins_append: "\<forall>k' \<in> set (akeys kvs). \<not> key_before k k' \<Longrightarrow> oins k v kvs = kvs @ [(k, v)]"
  by (induction k v kvs rule: oins.induct) auto

lemma oset_append:
  "k \<noteq> ''__proto__'' \<Longrightarrow> \<not> is_index_key k \<Longrightarrow> k \<notin> set (akeys kvs) \<Longrightarrow> oset k v kvs = kvs @ [(k, v)]"
  by (simp add: oset_def oins_append key_before_def)

subsection \<open>Conversions\<close>

fun join :: "string \<Rightarrow> string list \<Rightarrow> string" where
  "join sep [] = []"
| "join sep [x] = x"
| "join sep (x # y # xs) = x @ sep @ join sep (y # xs)"

text \<open>\<open>s.split(sep)\<close> for a one-character separator.\<close>

fun split_on :: "char \<Rightarrow> string \<Rightarrow> string list" where
  "split_on sep [] = [[]]"
| "split_on sep (c # cs) =
     (if c = sep then [] # split_on sep cs
      else (case split_on sep cs of s # ss \<Rightarrow> (c # s) # ss | [] \<Rightarrow> [[c]]))"

lemma split_on_id: "sep \<notin> set s \<Longrightarrow> split_on sep s = [s]"
  by (induction s) auto

lemma split_on_append: "sep \<notin> set s \<Longrightarrow> split_on sep (s @ sep # t) = s # split_on sep t"
  by (induction s) auto

lemma split_on_join:
  "ss \<noteq> [] \<Longrightarrow> \<forall>s \<in> set ss. sep \<notin> set s \<Longrightarrow> split_on sep (join [sep] ss) = ss"
proof (induction "[sep]" ss rule: join.induct)
  case (2 x)
  then show ?case by (simp add: split_on_id)
next
  case (3 x y xs)
  then show ?case by (simp add: split_on_append)
qed simp

text \<open>\<open>String(v)\<close>; an array prints its elements joined by commas, null as nothing.\<close>

fun js_str :: "js_env \<Rightarrow> val \<Rightarrow> string" where
  "js_str env VNull = ''null''"
| "js_str env (VBool b) = (if b then ''true'' else ''false'')"
| "js_str env (VNum n) = num_str n"
| "js_str env (VStr s) = s"
| "js_str env (VDate t) = date_print env t"
| "js_str env (VArr vs) = join '','' (map (\<lambda>v. if v = VNull then [] else js_str env v) vs)"
| "js_str env (VObj _) = ''[object Object]''"

text \<open>\<open>Number(v)\<close>.\<close>

fun to_number :: "js_env \<Rightarrow> val \<Rightarrow> jsnum" where
  "to_number env VNull = Fin 0"
| "to_number env (VBool b) = Fin (if b then 1 else 0)"
| "to_number env (VNum n) = n"
| "to_number env (VStr s) = parse_number s"
| "to_number env (VDate t) = Fin (of_int t)"
| "to_number env (VArr vs) = parse_number (js_str env (VArr vs))"
| "to_number env (VObj _) = NaN"

text \<open>
  \<open>new Date(v)\<close>: \<open>None\<close> is an invalid date. A number is a time value, valid within
  \<open>8.64e15\<close> milliseconds of the epoch and truncated towards zero; a string, and an
  object through its string, is parsed.
\<close>

definition time_clip :: "jsnum \<Rightarrow> int option" where
  "time_clip n =
     (case n of Fin q \<Rightarrow>
        (if \<bar>q\<bar> \<le> 8640000000000000 then Some (if 0 \<le> q then \<lfloor>q\<rfloor> else \<lceil>q\<rceil>) else None)
      | _ \<Rightarrow> None)"

fun to_date :: "js_env \<Rightarrow> val \<Rightarrow> int option" where
  "to_date env VNull = Some 0"
| "to_date env (VBool b) = Some (if b then 1 else 0)"
| "to_date env (VNum n) = time_clip n"
| "to_date env (VStr s) = date_parse env s"
| "to_date env (VDate t) = Some t"
| "to_date env (VArr vs) = date_parse env (js_str env (VArr vs))"
| "to_date env (VObj _) = date_parse env ''[object Object]''"

text \<open>\<open>x == null\<close> on an optional property: absent or null.\<close>

definition nullish :: "val option \<Rightarrow> bool" where
  "nullish v \<longleftrightarrow> v = None \<or> v = Some VNull"

lemma nullish_simps [simp]:
  "nullish None" "nullish (Some VNull)"
  "\<not> nullish (Some (VStr s))" "\<not> nullish (Some (VNum n))" "\<not> nullish (Some (VBool b))"
  "\<not> nullish (Some (VDate t))"
  by (simp_all add: nullish_def)

text \<open>\<open>x == null || x === ""\<close>, the emptiness test of the required-field checks.\<close>

definition blank :: "val option \<Rightarrow> bool" where
  "blank v \<longleftrightarrow> nullish v \<or> v = Some (VStr [])"

text \<open>
  \<open>Set.has\<close>, \<open>Map.has\<close> and \<open>Array.includes\<close> compare primitives by value (NaN equals NaN) but
  objects, and so dates, by identity: a value read from one document is never identical to
  one read from another.
\<close>

definition same_value :: "val \<Rightarrow> val \<Rightarrow> bool" where
  "same_value a b \<longleftrightarrow>
     a = b \<and> (case a of VDate _ \<Rightarrow> False | VArr _ \<Rightarrow> False | VObj _ \<Rightarrow> False | _ \<Rightarrow> True)"

definition vmember :: "val \<Rightarrow> val list \<Rightarrow> bool" where
  "vmember v vs \<longleftrightarrow> (\<exists>w \<in> set vs. same_value v w)"

lemma vmember_VStr [simp]: "vmember (VStr s) vs \<longleftrightarrow> VStr s \<in> set vs"
  by (auto simp: vmember_def same_value_def)

end
