(* ===== verification/DependencyGraph.thy ===== *)
theory DependencyGraph
  imports JsValue
begin

text \<open>
  orchestration/dependencyGraph.js: Kahn's algorithm over the dependency graph of a session.
  A graph is a \<open>Map\<close> from vertices to \<open>Set\<close>s of vertices, kept as an association list in
  insertion order with duplicate-free adjacency lists.
\<close>

type_synonym graph = "(string \<times> string list) list"

definition adj :: "graph \<Rightarrow> string \<Rightarrow> string list" where
  "adj g v = (case map_of g v of None \<Rightarrow> [] | Some us \<Rightarrow> us)"

subsection \<open>Indegrees and the queue\<close>

type_synonym degrees = "(string \<times> int) list"

text \<open>The loops that count incoming edges, vertex by vertex.\<close>

definition count_edge :: "string \<Rightarrow> degrees \<Rightarrow> degrees" where
  "count_edge dep ind =
     (let ind1 = (if dep \<in> set (akeys ind) then ind else aput dep 0 ind)
      in aput dep ((case map_of ind1 dep of None \<Rightarrow> 0 | Some d \<Rightarrow> d) + 1) ind1)"

definition count_vertex :: "graph \<Rightarrow> string \<Rightarrow> degrees \<Rightarrow> degrees" where
  "count_vertex g v ind =
     fold count_edge (adj g v) (if v \<in> set (akeys ind) then ind else aput v 0 ind)"

definition indegrees :: "graph \<Rightarrow> degrees" where
  "indegrees g = fold (count_vertex g) (akeys g) []"

definition initial_queue :: "degrees \<Rightarrow> string list" where
  "initial_queue ind = map fst (filter (\<lambda>(v, deg). deg = 0) ind)"

text \<open>One outgoing edge of the vertex taken from the queue.\<close>

definition relax :: "string \<Rightarrow> degrees \<times> string list \<Rightarrow> degrees \<times> string list" where
  "relax dep = (\<lambda>(ind, queue).
     (let newDeg = (case map_of ind dep of None \<Rightarrow> 1 | Some d \<Rightarrow> d) - 1
      in (aput dep newDeg ind, if newDeg = 0 then queue @ [dep] else queue)))"

text \<open>The vertices that can still enter the queue: every push closes one of them for good.\<close>

definition unlocked :: "degrees \<Rightarrow> string \<Rightarrow> bool" where
  "unlocked ind v \<longleftrightarrow> (case map_of ind v of None \<Rightarrow> True | Some d \<Rightarrow> 1 \<le> d)"

definition edge_targets :: "graph \<Rightarrow> string set" where
  "edge_targets g = (\<Union>(v, us) \<in> set g. set us)"

definition kahn_measure :: "graph \<Rightarrow> degrees \<Rightarrow> string list \<Rightarrow> nat" where
  "kahn_measure g ind queue = card {v \<in> edge_targets g. unlocked ind v} + length queue"

lemma finite_edge_targets [simp]: "finite (edge_targets g)"
  by (auto simp: edge_targets_def)

lemma adj_targets: "set (adj g v) \<subseteq> edge_targets g"
  by (cases "map_of g v") (use map_of_SomeD in \<open>fastforce simp: adj_def edge_targets_def\<close>)+

lemma relax_measure:
  assumes "dep \<in> edge_targets g"
  shows "kahn_measure g (fst (relax dep (ind, queue))) (snd (relax dep (ind, queue)))
    \<le> kahn_measure g ind queue"
proof -
  define newDeg where "newDeg = (case map_of ind dep of None \<Rightarrow> 1 | Some d \<Rightarrow> d) - (1 :: int)"
  have relaxed: "relax dep (ind, queue) =
      (aput dep newDeg ind, if newDeg = 0 then queue @ [dep] else queue)"
    by (simp add: relax_def newDeg_def Let_def)
  let ?old = "{v \<in> edge_targets g. unlocked ind v}"
  let ?new = "{v \<in> edge_targets g. unlocked (aput dep newDeg ind) v}"
  have sub: "?new \<subseteq> ?old"
    by (auto simp: unlocked_def newDeg_def split: option.splits if_splits)
  show ?thesis
  proof (cases "newDeg = 0")
    case True
    then have "dep \<in> ?old" "dep \<notin> ?new"
      using assms by (auto simp: unlocked_def newDeg_def split: option.splits)
    then have "card ?new < card ?old"
      using sub by (intro psubset_card_mono) auto
    then show ?thesis
      using True by (simp add: relaxed kahn_measure_def)
  next
    case False
    then show ?thesis
      using card_mono [OF _ sub] by (simp add: relaxed kahn_measure_def)
  qed
qed

lemma fold_relax_measure:
  "set deps \<subseteq> edge_targets g \<Longrightarrow> fold relax deps (ind, queue) = (ind', queue') \<Longrightarrow>
   kahn_measure g ind' queue' \<le> kahn_measure g ind queue"
proof (induction deps arbitrary: ind queue)
  case (Cons dep deps)
  obtain ind1 queue1 where step: "relax dep (ind, queue) = (ind1, queue1)"
    by (cases "relax dep (ind, queue)")
  then have "kahn_measure g ind' queue' \<le> kahn_measure g ind1 queue1"
    using Cons.IH [of ind1 queue1] Cons.prems by simp
  also have "\<dots> \<le> kahn_measure g ind queue"
    using relax_measure [of dep g ind queue] step Cons.prems by simp
  finally show ?case .
qed simp

lemma kahn_decreases:
  assumes "fold relax (adj g v) (ind, queue) = (ind', queue')"
  shows "kahn_measure g ind' queue' < kahn_measure g ind (v # queue)"
  using fold_relax_measure [OF adj_targets assms] by (simp add: kahn_measure_def)

subsection \<open>isAcyclic\<close>

text \<open>The loop of \<open>isAcyclic\<close>, which counts the vertices it takes from the queue.\<close>

function visit_loop :: "graph \<Rightarrow> degrees \<Rightarrow> string list \<Rightarrow> nat \<Rightarrow> nat" where
  "visit_loop g ind [] visited = visited"
| "visit_loop g ind (v # queue) visited =
     (let (ind', queue') = fold relax (adj g v) (ind, queue)
      in visit_loop g ind' queue' (visited + 1))"
  by pat_completeness auto
termination
  by (relation "measure (\<lambda>(g, ind, queue, visited). kahn_measure g ind queue)")
    (use kahn_decreases in \<open>simp_all add: prod.case_eq_if\<close>)

definition isAcyclic :: "graph \<Rightarrow> bool" where
  "isAcyclic g =
     (let ind = indegrees g in visit_loop g ind (initial_queue ind) 0 = length ind)"

subsection \<open>topologicalSort\<close>

definition add_vertex :: "string \<Rightarrow> graph \<Rightarrow> graph" where
  "add_vertex v g = (if v \<in> set (akeys g) then g else aput v [] g)"

definition add_edge :: "string \<Rightarrow> string \<Rightarrow> graph \<Rightarrow> graph" where
  "add_edge dep entity g =
     (let g1 = add_vertex dep g
      in if entity \<in> set (adj g1 dep) then g1 else aput dep (adj g1 dep @ [entity]) g1)"

definition add_entity :: "string \<times> string list \<Rightarrow> graph \<Rightarrow> graph" where
  "add_entity = (\<lambda>(entity, deps) g. fold (\<lambda>dep. add_edge dep entity) deps (add_vertex entity g))"

definition dependency_graph :: "(string \<times> string list) list \<Rightarrow> graph" where
  "dependency_graph dependenciesByEntity = fold add_entity dependenciesByEntity []"

function sort_loop :: "graph \<Rightarrow> degrees \<Rightarrow> string list \<Rightarrow> string list \<Rightarrow> string list" where
  "sort_loop g ind [] out = out"
| "sort_loop g ind (v # queue) out =
     (let (ind', queue') = fold relax (adj g v) (ind, queue)
      in sort_loop g ind' queue' (out @ [v]))"
  by pat_completeness auto
termination
  by (relation "measure (\<lambda>(g, ind, queue, out). kahn_measure g ind queue)")
    (use kahn_decreases in \<open>simp_all add: prod.case_eq_if\<close>)

datatype graph_error = CircularDependency "string list" | SortIncomplete int

definition topologicalSort ::
  "(string \<times> string list) list \<Rightarrow> graph_error err + string list" where
  "topologicalSort dependenciesByEntity =
     (let g = dependency_graph dependenciesByEntity in
      if \<not> isAcyclic g then Inl (Err (Some 400) (CircularDependency (akeys g)))
      else let ind = indegrees g; out = sort_loop g ind (initial_queue ind) [] in
        if length out \<noteq> length g
        then Inl (Err (Some 400) (SortIncomplete (int (length g) - int (length out))))
        else Inr out)"

subsection \<open>computeSessionExecutionOrder\<close>

record session_job =
  sj_importJobId :: id
  sj_entityKey :: string

definition local_deps :: "string list \<Rightarrow> (string \<times> string list) list \<Rightarrow> (string \<times> string list) list" where
  "local_deps presentEntities dependenciesByEntity =
     fold (\<lambda>entity deps.
       oset entity
         (filter (\<lambda>d. d \<in> set presentEntities)
           (case map_of dependenciesByEntity entity of None \<Rightarrow> [] | Some ds \<Rightarrow> ds)) deps)
       presentEntities []"

text \<open>The lists \<open>orderedIds\<close> and \<open>orderedEntityKeys\<close> grow together; \<open>added\<close> is their ids.\<close>

definition add_job :: "id \<Rightarrow> string \<Rightarrow> (id \<times> string) list \<Rightarrow> (id \<times> string) list" where
  "add_job jobId entity ordered =
     (if jobId \<in> set (map fst ordered) then ordered else ordered @ [(jobId, entity)])"

definition jobs_of :: "string \<Rightarrow> session_job list \<Rightarrow> id list" where
  "jobs_of entity jobs = map sj_importJobId (filter (\<lambda>j. sj_entityKey j = entity) jobs)"

definition computeSessionExecutionOrder ::
  "session_job list \<Rightarrow> (string \<times> string list) list \<Rightarrow> graph_error err + (id list \<times> string list)" where
  "computeSessionExecutionOrder jobs dependenciesByEntity =
     (let presentEntities = uniq (map sj_entityKey jobs) in
      case topologicalSort (local_deps presentEntities dependenciesByEntity) of
        Inl e \<Rightarrow> Inl e
      | Inr orderedEntities \<Rightarrow>
          (let grouped = fold (\<lambda>entity. fold (\<lambda>jobId. add_job jobId entity) (jobs_of entity jobs))
                           orderedEntities [];
               ordered = fold (\<lambda>j. add_job (sj_importJobId j) (sj_entityKey j)) jobs grouped
           in Inr (map fst ordered, map snd ordered)))"

end
