(* ===== verification/DependencyGraphCorrect.thy ===== *)
theory DependencyGraphCorrect
  imports DependencyGraph
begin

text \<open>
  Correctness of Kahn's algorithm as the code runs it: the vertices it takes from the queue form a
  topological order, it gets to all of them exactly when the graph has no cycle, and the order of
  a session's jobs respects every declared dependency between them.
\<close>

subsection \<open>Well-formed graphs\<close>

definition graph_ok :: "graph \<Rightarrow> bool" where
  "graph_ok g \<longleftrightarrow>
     distinct (akeys g) \<and> (\<forall>v. distinct (adj g v) \<and> set (adj g v) \<subseteq> set (akeys g))"

definition edges :: "graph \<Rightarrow> (string \<times> string) set" where
  "edges g = {(u, v). v \<in> set (adj g u)}"

lemma adj_keys: "v \<in> set (adj g u) \<Longrightarrow> u \<in> set (akeys g)"
  by (cases "u \<in> set (akeys g)") (auto simp: adj_def)

lemma edges_keys: "graph_ok g \<Longrightarrow> edges g \<subseteq> set (akeys g) \<times> set (akeys g)"
  by (auto simp: edges_def graph_ok_def dest: adj_keys)

definition preds :: "graph \<Rightarrow> string list \<Rightarrow> string \<Rightarrow> string set" where
  "preds g out v = {u. v \<in> set (adj g u)} - set out"

lemma finite_preds [simp]: "finite (preds g out v)"
  by (rule finite_subset [of _ "set (akeys g)"]) (auto simp: preds_def dest: adj_keys)

subsection \<open>Counting indegrees\<close>

definition deg :: "degrees \<Rightarrow> string \<Rightarrow> int" where
  "deg ind v = (case map_of ind v of None \<Rightarrow> 0 | Some d \<Rightarrow> d)"

lemma count_edge_effect:
  "deg (count_edge dep ind) v = deg ind v + (if v = dep then 1 else 0)"
  "set (akeys (count_edge dep ind)) = insert dep (set (akeys ind))"
  "distinct (akeys ind) \<Longrightarrow> distinct (akeys (count_edge dep ind))"
  by (auto simp: count_edge_def deg_def Let_def split: option.split)

lemma fold_count_edge:
  "deg (fold count_edge ds ind) v = deg ind v + int (count_list ds v)"
  "set (akeys (fold count_edge ds ind)) = set ds \<union> set (akeys ind)"
  "distinct (akeys ind) \<Longrightarrow> distinct (akeys (fold count_edge ds ind))"
  by (induction ds arbitrary: ind) (auto simp: count_edge_effect)

lemma count_vertex_effect:
  "deg (count_vertex g u ind) v = deg ind v + int (count_list (adj g u) v)"
  "set (akeys (count_vertex g u ind)) = insert u (set (adj g u) \<union> set (akeys ind))"
  "distinct (akeys ind) \<Longrightarrow> distinct (akeys (count_vertex g u ind))"
proof -
  have "deg (aput u 0 ind) v = deg ind v" if "u \<notin> set (akeys ind)"
    using that by (auto simp: deg_def)
  then show "deg (count_vertex g u ind) v = deg ind v + int (count_list (adj g u) v)"
    by (simp add: count_vertex_def fold_count_edge)
qed (auto simp: count_vertex_def fold_count_edge)

lemma fold_count_vertex:
  "deg (fold (count_vertex g) us ind) v = deg ind v + int (\<Sum>u\<leftarrow>us. count_list (adj g u) v)"
  "set (akeys (fold (count_vertex g) us ind)) =
     set us \<union> (\<Union>u \<in> set us. set (adj g u)) \<union> set (akeys ind)"
  "distinct (akeys ind) \<Longrightarrow> distinct (akeys (fold (count_vertex g) us ind))"
  by (induction us arbitrary: ind) (auto simp: count_vertex_effect)

lemma count_list_distinct: "distinct xs \<Longrightarrow> count_list xs v = (if v \<in> set xs then 1 else 0)"
  by (induction xs) auto

lemma indegrees_keys:
  assumes "graph_ok g"
  shows "set (akeys (indegrees g)) = set (akeys g)" "distinct (akeys (indegrees g))"
  using assms by (auto simp: indegrees_def fold_count_vertex graph_ok_def)

lemma indegrees_count:
  assumes "graph_ok g" "v \<in> set (akeys g)"
  shows "map_of (indegrees g) v = Some (int (card (preds g [] v)))"
proof -
  have "(\<Sum>u\<leftarrow>akeys g. count_list (adj g u) v) = (\<Sum>u \<in> set (akeys g). if v \<in> set (adj g u) then 1 else 0)"
    using assms(1) by (simp add: graph_ok_def sum_list_distinct_conv_sum_set count_list_distinct)
  also have "\<dots> = card {u \<in> set (akeys g). v \<in> set (adj g u)}"
    by (simp add: sum.If_cases Int_def)
  also have "{u \<in> set (akeys g). v \<in> set (adj g u)} = preds g [] v"
    by (auto simp: preds_def dest: adj_keys)
  finally have "deg (indegrees g) v = int (card (preds g [] v))"
    by (simp add: indegrees_def fold_count_vertex) (simp add: deg_def)
  moreover have "v \<in> set (akeys (indegrees g))"
    using assms by (simp add: indegrees_keys)
  ultimately show ?thesis
    by (cases "map_of (indegrees g) v") (auto simp: deg_def)
qed

subsection \<open>Relaxing the edges of a vertex\<close>

lemma fold_relax_effect:
  assumes "distinct ds" "\<forall>d \<in> set ds. map_of ind d = Some (D d)"
    and "fold relax ds (ind, queue) = (ind', queue')"
  shows "map_of ind' v = (if v \<in> set ds then Some (D v - 1) else map_of ind v)"
    and "queue' = queue @ filter (\<lambda>d. D d = 1) ds"
proof -
  have "map_of ind' v = (if v \<in> set ds then Some (D v - 1) else map_of ind v)
      \<and> queue' = queue @ filter (\<lambda>d. D d = 1) ds"
    using assms
  proof (induction ds arbitrary: ind queue)
    case (Cons d ds)
    have "relax d (ind, queue) = (aput d (D d - 1) ind, if D d = 1 then queue @ [d] else queue)"
      using Cons.prems(2) by (simp add: relax_def Let_def)
    then have "fold relax ds (aput d (D d - 1) ind, if D d = 1 then queue @ [d] else queue) = (ind', queue')"
      using Cons.prems(3) by simp
    moreover have "\<forall>d' \<in> set ds. map_of (aput d (D d - 1) ind) d' = Some (D d')"
      using Cons.prems by auto
    ultimately show ?case
      using Cons.IH Cons.prems(1) by fastforce
  qed simp
  then show "map_of ind' v = (if v \<in> set ds then Some (D v - 1) else map_of ind v)"
    "queue' = queue @ filter (\<lambda>d. D d = 1) ds" by blast+
qed

subsection \<open>The invariant of the loop\<close>

definition in_order :: "graph \<Rightarrow> string list \<Rightarrow> bool" where
  "in_order g out \<longleftrightarrow> (\<forall>xs v ys. out = xs @ v # ys \<longrightarrow> {u. v \<in> set (adj g u)} \<subseteq> set xs)"

definition kahn_inv :: "graph \<Rightarrow> degrees \<Rightarrow> string list \<Rightarrow> string list \<Rightarrow> bool" where
  "kahn_inv g ind queue out \<longleftrightarrow>
     distinct (out @ queue) \<and> set (out @ queue) \<subseteq> set (akeys g) \<and>
     (\<forall>v \<in> set (akeys g). map_of ind v = Some (int (card (preds g out v)))) \<and>
     (\<forall>v \<in> set (akeys g). v \<in> set (out @ queue) \<longleftrightarrow> preds g out v = {}) \<and>
     in_order g out"

lemma in_order_snoc:
  assumes "in_order g out" "preds g out v = {}"
  shows "in_order g (out @ [v])"
  unfolding in_order_def
proof (intro allI impI)
  fix xs w ys
  assume split: "out @ [v] = xs @ w # ys"
  show "{u. w \<in> set (adj g u)} \<subseteq> set xs"
  proof (cases ys rule: rev_cases)
    case Nil
    then show ?thesis
      using split assms(2) by (auto simp: preds_def)
  next
    case (snoc ys' z)
    then show ?thesis
      using split assms(1) by (auto simp: in_order_def)
  qed
qed

lemma preds_snoc: "preds g (out @ [v]) w = preds g out w - {v}"
  by (auto simp: preds_def)

lemma kahn_inv_step:
  assumes ok: "graph_ok g" and inv: "kahn_inv g ind (v # queue) out"
    and step: "fold relax (adj g v) (ind, queue) = (ind', queue')"
  shows "kahn_inv g ind' queue' (out @ [v])"
proof -
  define D where "D w = int (card (preds g out w))" for w
  have adj_ok: "distinct (adj g v)" "set (adj g v) \<subseteq> set (akeys g)"
    using ok by (simp_all add: graph_ok_def)
  have v: "v \<in> set (akeys g)" "v \<notin> set out" "preds g out v = {}"
    using inv by (auto simp: kahn_inv_def)
  have D: "map_of ind w = Some (D w)" if "w \<in> set (akeys g)" for w
    using inv that by (simp add: kahn_inv_def D_def)
  have known: "\<forall>d \<in> set (adj g v). map_of ind d = Some (D d)"
    using D adj_ok(2) by blast
  have ind': "map_of ind' w = (if w \<in> set (adj g v) then Some (D w - 1) else map_of ind w)" for w
    by (rule fold_relax_effect(1) [OF adj_ok(1) known step])
  have queue': "queue' = queue @ filter (\<lambda>d. D d = 1) (adj g v)"
    by (rule fold_relax_effect(2) [OF adj_ok(1) known step])
  have member: "v \<in> preds g out w \<longleftrightarrow> w \<in> set (adj g v)" for w
    using v by (simp add: preds_def)
  have count: "D w - (if w \<in> set (adj g v) then 1 else 0) = int (card (preds g (out @ [v]) w))" for w
  proof (cases "w \<in> set (adj g v)")
    case True
    then have "card (preds g out w) = Suc (card (preds g out w - {v}))"
      by (intro card.remove) (simp_all add: member)
    then show ?thesis using True by (simp add: D_def preds_snoc)
  next
    case False
    then show ?thesis using member by (simp add: D_def preds_snoc)
  qed
  have pushed: "w \<in> set (adj g v) \<and> D w = 1 \<longleftrightarrow> preds g out w \<noteq> {} \<and> preds g (out @ [v]) w = {}" for w
  proof (cases "w \<in> set (adj g v)")
    case True
    then have "v \<in> preds g out w" by (simp add: member)
    then have "D w = 1 \<longleftrightarrow> preds g out w = {v}"
      by (simp add: D_def) (metis One_nat_def card_1_singletonE is_singletonI is_singleton_altdef singletonD)
    then show ?thesis
      using True \<open>v \<in> preds g out w\<close> by (auto simp: preds_snoc)
  next
    case False
    then have "preds g (out @ [v]) w = preds g out w"
      using member [of w] by (simp add: preds_snoc)
    then show ?thesis using False by blast
  qed
  have old: "w \<in> set (out @ v # queue) \<longleftrightarrow> preds g out w = {}" if "w \<in> set (akeys g)" for w
    using inv that by (simp add: kahn_inv_def)
  have "distinct (out @ [v] @ queue')"
    using inv adj_ok pushed old unfolding queue' kahn_inv_def by auto
  moreover have "set (out @ [v] @ queue') \<subseteq> set (akeys g)"
    using inv adj_ok(2) unfolding queue' kahn_inv_def by auto
  moreover have "map_of ind' w = Some (int (card (preds g (out @ [v]) w)))" if "w \<in> set (akeys g)" for w
    using D [OF that] ind' [of w] count [of w] by (simp split: if_splits)
  moreover have "w \<in> set (out @ [v] @ queue') \<longleftrightarrow> preds g (out @ [v]) w = {}" if "w \<in> set (akeys g)" for w
    using old [OF that] pushed [of w] by (auto simp: queue' preds_snoc)
  moreover have "in_order g (out @ [v])"
    using in_order_snoc v(3) inv by (simp add: kahn_inv_def)
  ultimately show ?thesis
    by (simp add: kahn_inv_def)
qed

lemma sort_loop_inv:
  "graph_ok g \<Longrightarrow> kahn_inv g ind queue out \<Longrightarrow> \<exists>ind'. kahn_inv g ind' [] (sort_loop g ind queue out)"
proof (induction g ind queue out rule: sort_loop.induct)
  case (2 g ind v queue out)
  obtain ind' queue' where step: "fold relax (adj g v) (ind, queue) = (ind', queue')"
    by (cases "fold relax (adj g v) (ind, queue)")
  from 2(1) [OF step [symmetric] refl 2(2) kahn_inv_step [OF 2(2,3) step]] show ?case
    by (simp add: step)
qed auto

lemma visit_loop_count: "visit_loop g ind queue (length out) = length (sort_loop g ind queue out)"
proof (induction g ind queue out rule: sort_loop.induct)
  case (2 g ind v queue out)
  obtain ind' queue' where step: "fold relax (adj g v) (ind, queue) = (ind', queue')"
    by (cases "fold relax (adj g v) (ind, queue)")
  from 2 [OF step [symmetric] refl] show ?case
    by (simp add: step)
qed simp

definition kahn_order :: "graph \<Rightarrow> string list" where
  "kahn_order g = sort_loop g (indegrees g) (initial_queue (indegrees g)) []"

lemma kahn_inv_start:
  assumes "graph_ok g"
  shows "kahn_inv g (indegrees g) (initial_queue (indegrees g)) []"
proof -
  let ?ind = "indegrees g"
  have dist: "distinct (map fst ?ind)" and keys: "fst ` set ?ind = set (akeys g)"
    using indegrees_keys [OF assms] by (simp_all add: akeys_def)
  have "distinct (initial_queue ?ind)"
    using dist by (simp add: initial_queue_def distinct_map inj_on_def)
  moreover have mem: "v \<in> set (initial_queue ?ind) \<longleftrightarrow> map_of ?ind v = Some 0" for v
    using dist by (force simp: initial_queue_def)
  moreover have "set (initial_queue ?ind) \<subseteq> set (akeys g)"
    using keys by (force simp: initial_queue_def)
  ultimately show ?thesis
    using indegrees_count [OF assms] by (auto simp: kahn_inv_def in_order_def)
qed

lemma kahn_order_facts:
  assumes "graph_ok g"
  shows "distinct (kahn_order g)" "set (kahn_order g) \<subseteq> set (akeys g)" "in_order g (kahn_order g)"
    "\<forall>v \<in> set (akeys g). v \<in> set (kahn_order g) \<longleftrightarrow> preds g (kahn_order g) v = {}"
  using sort_loop_inv [OF assms kahn_inv_start [OF assms]]
  by (auto simp: kahn_order_def [symmetric] kahn_inv_def)

subsection \<open>Cycles\<close>

definition position :: "string list \<Rightarrow> string \<Rightarrow> nat" where
  "position out v = length (takeWhile (\<lambda>x. x \<noteq> v) out)"

lemma in_order_position:
  assumes "in_order g out" "distinct out" "v \<in> set out" "v \<in> set (adj g u)"
  shows "u \<in> set out \<and> position out u < position out v"
proof -
  obtain xs ys where split: "out = xs @ v # ys"
    using assms(3) by (auto simp: in_set_conv_decomp)
  then have u: "u \<in> set xs"
    using assms(1,4) by (auto simp: in_order_def)
  obtain us ws where xs: "xs = us @ u # ws" "u \<notin> set us"
    using split_list_first [OF u] by blast
  have "\<forall>x \<in> set xs. x \<noteq> v"
    using assms(2) split by auto
  then have "position out v = length xs"
    using takeWhile_append_stop [of xs "\<lambda>x. x \<noteq> v" "v # ys"] by (simp add: position_def split)
  moreover have "\<forall>x \<in> set us. x \<noteq> u"
    using xs(2) by auto
  then have "position out u = length us"
    using takeWhile_append_stop [of us "\<lambda>x. x \<noteq> u" "u # ws @ v # ys"]
    by (simp add: position_def split xs(1))
  ultimately show ?thesis
    using xs(1) split by simp
qed

lemma kahn_order_complete:
  assumes "graph_ok g"
  shows "set (kahn_order g) = set (akeys g) \<longleftrightarrow> acyclic (edges g)"
proof
  assume all: "set (kahn_order g) = set (akeys g)"
  have "position (kahn_order g) u < position (kahn_order g) v" if "(u, v) \<in> edges g" for u v
    using in_order_position [OF kahn_order_facts(3,1) [OF assms], of v u] that all
      edges_keys [OF assms] by (auto simp: edges_def)
  then have "acyclic ((edges g)\<inverse>)"
    by (intro acyclicI_order [where f = "position (kahn_order g)"]) auto
  then show "acyclic (edges g)"
    by (simp add: acyclic_converse)
next
  assume "acyclic (edges g)"
  moreover have "finite (edges g)"
    by (rule finite_subset [OF edges_keys [OF assms]]) simp
  ultimately have wf: "wf (edges g)"
    by (rule finite_acyclic_wf [rotated])
  show "set (kahn_order g) = set (akeys g)"
  proof (rule ccontr)
    assume "set (kahn_order g) \<noteq> set (akeys g)"
    then have "set (akeys g) - set (kahn_order g) \<noteq> {}"
      using kahn_order_facts(2) [OF assms] by blast
    then obtain z where z: "z \<in> set (akeys g) - set (kahn_order g)"
      and least: "\<And>y. (y, z) \<in> edges g \<Longrightarrow> y \<notin> set (akeys g) - set (kahn_order g)"
      using wfE_min [OF wf, of _ "set (akeys g) - set (kahn_order g)"] by blast
    have "preds g (kahn_order g) z \<noteq> {}"
      using kahn_order_facts(4) [OF assms] z by blast
    then obtain u where "(u, z) \<in> edges g" "u \<notin> set (kahn_order g)"
      by (auto simp: preds_def edges_def)
    then show False
      using least [of u] edges_keys [OF assms] by blast
  qed
qed

lemma kahn_order_length:
  assumes "graph_ok g"
  shows "length (kahn_order g) = length g \<longleftrightarrow> acyclic (edges g)"
proof -
  have "length g = card (set (akeys g))"
    using assms unfolding graph_ok_def akeys_def by (metis distinct_card length_map)
  moreover have "length (kahn_order g) = card (set (kahn_order g))"
    using kahn_order_facts(1) [OF assms] by (simp add: distinct_card)
  ultimately show ?thesis
    using kahn_order_facts(2) [OF assms] kahn_order_complete [OF assms]
    by (metis List.finite_set card_subset_eq)
qed

lemma isAcyclic_acyclic:
  assumes "graph_ok g"
  shows "isAcyclic g \<longleftrightarrow> acyclic (edges g)"
proof -
  have "length (indegrees g) = length g"
    using indegrees_keys [OF assms] assms unfolding graph_ok_def akeys_def
    by (metis distinct_card length_map)
  then show ?thesis
    using kahn_order_length [OF assms] visit_loop_count [of g "indegrees g" "initial_queue (indegrees g)" "[]"]
    by (simp add: isAcyclic_def Let_def kahn_order_def)
qed


subsection \<open>Building the graph\<close>

lemma adj_aput [simp]: "adj (aput u ds g) v = (if v = u then ds else adj g v)"
  by (simp add: adj_def)

lemma adj_notin [simp]: "v \<notin> set (akeys g) \<Longrightarrow> adj g v = []"
  by (simp add: adj_def)

lemma add_vertex_effect [simp]:
  "adj (add_vertex v g) u = adj g u" "set (akeys (add_vertex v g)) = insert v (set (akeys g))"
  "distinct (akeys (add_vertex v g)) = distinct (akeys g)"
  by (auto simp: add_vertex_def)

lemma add_edge_effect:
  "set (adj (add_edge dep entity g) u) = (if u = dep then {entity} else {}) \<union> set (adj g u)"
  "set (akeys (add_edge dep entity g)) = insert dep (set (akeys g))"
  "graph_ok g \<Longrightarrow> entity \<in> set (akeys g) \<Longrightarrow> graph_ok (add_edge dep entity g)"
  by (auto simp: add_edge_def graph_ok_def Let_def)

lemma fold_add_edge_effect:
  "set (adj (fold (\<lambda>dep. add_edge dep entity) deps g) u) = (if u \<in> set deps then {entity} else {}) \<union> set (adj g u)"
  "set (akeys (fold (\<lambda>dep. add_edge dep entity) deps g)) = set deps \<union> set (akeys g)"
  "graph_ok g \<Longrightarrow> entity \<in> set (akeys g) \<Longrightarrow> graph_ok (fold (\<lambda>dep. add_edge dep entity) deps g)"
  by (induction deps arbitrary: g) (auto simp: add_edge_effect)

lemma add_entity_effect:
  "set (adj (add_entity (entity, deps) g) u) = (if u \<in> set deps then {entity} else {}) \<union> set (adj g u)"
  "set (akeys (add_entity (entity, deps) g)) = insert entity (set deps) \<union> set (akeys g)"
  "graph_ok g \<Longrightarrow> graph_ok (add_entity (entity, deps) g)"
proof -
  show "graph_ok g \<Longrightarrow> graph_ok (add_entity (entity, deps) g)"
    unfolding add_entity_def prod.case
    by (rule fold_add_edge_effect(3)) (auto simp: graph_ok_def)
qed (auto simp: add_entity_def fold_add_edge_effect)

lemma fold_add_entity_effect:
  "set (adj (fold add_entity decls g) u) = {e. \<exists>ds. (e, ds) \<in> set decls \<and> u \<in> set ds} \<union> set (adj g u)"
  "set (akeys (fold add_entity decls g)) = (\<Union>(e, ds) \<in> set decls. insert e (set ds)) \<union> set (akeys g)"
  "graph_ok g \<Longrightarrow> graph_ok (fold add_entity decls g)"
proof (induction decls arbitrary: g)
  case (Cons d decls)
  obtain e ds where d: "d = (e, ds)" by (cases d)
  { case 1 show ?case using Cons(1) [of "add_entity d g"] d by (auto simp: add_entity_effect) }
  { case 2 show ?case using Cons(2) [of "add_entity d g"] d by (auto simp: add_entity_effect) }
  { case 3 then show ?case using Cons(3) [of "add_entity d g"] d by (simp add: add_entity_effect) }
qed simp_all

lemma dependency_graph_facts:
  "graph_ok (dependency_graph decls)"
  "edges (dependency_graph decls) = {(u, e). \<exists>ds. (e, ds) \<in> set decls \<and> u \<in> set ds}"
  "set (akeys (dependency_graph decls)) = (\<Union>(e, ds) \<in> set decls. insert e (set ds))"
proof -
  have "graph_ok []" by (simp add: graph_ok_def)
  then show "graph_ok (dependency_graph decls)"
    by (simp add: dependency_graph_def fold_add_entity_effect)
qed (auto simp: dependency_graph_def edges_def fold_add_entity_effect)

text \<open>The declared dependencies: the second must come before the first.\<close>

definition depends :: "(string \<times> string list) list \<Rightarrow> (string \<times> string) set" where
  "depends decls = {(e, d). \<exists>ds. (e, ds) \<in> set decls \<and> d \<in> set ds}"

lemma edges_depends: "edges (dependency_graph decls) = (depends decls)\<inverse>"
  by (auto simp: dependency_graph_facts depends_def)

lemma topologicalSort_eq:
  "topologicalSort decls =
     (if acyclic (depends decls) then Inr (kahn_order (dependency_graph decls))
      else Inl (Err (Some 400) (CircularDependency (akeys (dependency_graph decls)))))"
  using isAcyclic_acyclic [OF dependency_graph_facts(1), of decls]
    kahn_order_length [OF dependency_graph_facts(1), of decls]
  by (simp add: topologicalSort_def Let_def kahn_order_def edges_depends acyclic_converse)

definition before :: "'a list \<Rightarrow> 'a \<Rightarrow> 'a \<Rightarrow> bool" where
  "before xs a b \<longleftrightarrow> (\<exists>us vs ws. xs = us @ a # vs @ b # ws)"

lemma in_order_before:
  assumes "in_order g out" "v \<in> set out" "v \<in> set (adj g u)"
  shows "before out u v"
proof -
  obtain xs ys where split: "out = xs @ v # ys"
    using assms(2) by (auto simp: in_set_conv_decomp)
  then have "u \<in> set xs"
    using assms(1,3) by (auto simp: in_order_def)
  then obtain us ws where "xs = us @ u # ws"
    by (auto simp: in_set_conv_decomp)
  then show ?thesis
    using split by (auto simp: before_def)
qed

lemma topologicalSort_order:
  assumes "topologicalSort decls = Inr order"
  shows "distinct order" "set order = (\<Union>(e, ds) \<in> set decls. insert e (set ds))"
    "(e, d) \<in> depends decls \<Longrightarrow> before order d e"
proof -
  let ?g = "dependency_graph decls"
  have acyc: "acyclic (edges ?g)" and order: "order = kahn_order ?g"
    using assms by (auto simp: topologicalSort_eq edges_depends acyclic_converse split: if_splits)
  note facts = kahn_order_facts [OF dependency_graph_facts(1), of decls]
  have all: "set order = set (akeys ?g)"
    using kahn_order_complete [OF dependency_graph_facts(1)] acyc order by blast
  show "distinct order" using facts(1) order by simp
  show "set order = (\<Union>(e, ds) \<in> set decls. insert e (set ds))"
    using all dependency_graph_facts(3) by simp
  show "before order d e" if "(e, d) \<in> depends decls"
  proof (rule in_order_before)
    show "in_order ?g order" using facts(3) order by simp
    show "e \<in> set (adj ?g d)"
      using that edges_depends [of decls] by (auto simp: edges_def)
    show "e \<in> set order"
      using that all dependency_graph_facts(3) [of decls] by (force simp: depends_def)
  qed
qed

text \<open>
  C13. The sort succeeds exactly when the declared dependencies have no cycle, and then lists every
  entity and every dependency exactly once, each dependency before the entities that need it; a
  cycle is answered with the 400 error, and the later "incomplete" error is never raised.
\<close>

theorem topologicalSort_correct:
  "(case topologicalSort decls of
      Inl e \<Rightarrow> \<not> acyclic (depends decls) \<and>
        e = Err (Some 400) (CircularDependency (akeys (dependency_graph decls)))
    | Inr order \<Rightarrow> acyclic (depends decls) \<and> distinct order
        \<and> set order = (\<Union>(e, ds) \<in> set decls. insert e (set ds))
        \<and> depends decls \<subseteq> {(e, d). before order d e})"
  using topologicalSort_order [of decls]
  by (cases "acyclic (depends decls)") (auto simp: topologicalSort_eq)


subsection \<open>The order of a session's jobs\<close>

lemma local_deps_fold:
  "distinct (akeys acc) \<Longrightarrow> distinct (akeys (fold (\<lambda>e. oset e (f e)) es acc))"
  "e \<noteq> ''__proto__'' \<Longrightarrow> map_of (fold (\<lambda>e. oset e (f e)) es acc) e =
     (if e \<in> set es then Some (f e) else map_of acc e)"
proof -
  show "distinct (akeys acc) \<Longrightarrow> distinct (akeys (fold (\<lambda>e. oset e (f e)) es acc))"
    by (induction es arbitrary: acc) (simp_all add: distinct_akeys_oset)
  assume e: "e \<noteq> ''__proto__''"
  have step: "map_of (oset x (f x) acc) e = (if e = x then Some (f x) else map_of acc e)" for x acc
    using e by (cases "x = ''__proto__''") (simp_all add: oset_def [of "''__proto__''"])
  show "map_of (fold (\<lambda>e. oset e (f e)) es acc) e = (if e \<in> set es then Some (f e) else map_of acc e)"
  proof (induction es arbitrary: acc)
    case (Cons a es)
    then show ?case using step [of a acc] by auto
  qed simp
qed

lemma local_deps_mem:
  "e \<noteq> ''__proto__'' \<Longrightarrow> (e, ds) \<in> set (local_deps es decls) \<longleftrightarrow>
     e \<in> set es \<and> ds = filter (\<lambda>d. d \<in> set es) (case map_of decls e of None \<Rightarrow> [] | Some ds \<Rightarrow> ds)"
proof -
  assume e: "e \<noteq> ''__proto__''"
  let ?f = "\<lambda>e. filter (\<lambda>d. d \<in> set es) (case map_of decls e of None \<Rightarrow> [] | Some ds \<Rightarrow> ds)"
  have "distinct (map fst (local_deps es decls))"
    using local_deps_fold(1) [of "[]" ?f es] by (simp add: local_deps_def akeys_def)
  then have "(e, ds) \<in> set (local_deps es decls) \<longleftrightarrow> map_of (local_deps es decls) e = Some ds"
    by (simp add: map_of_eq_Some_iff)
  then show ?thesis
    using local_deps_fold(2) [OF e, of ?f es "[]"] by (auto simp: local_deps_def)
qed

lemma fold_add_job:
  "distinct (map fst new) \<Longrightarrow> set (map fst new) \<inter> set (map fst ordered) = {} \<Longrightarrow>
   fold (\<lambda>(jobId, e). add_job jobId e) new ordered = ordered @ new"
proof (induction new arbitrary: ordered)
  case (Cons x new)
  obtain jobId e where x: "x = (jobId, e)" by (cases x)
  have "fold (\<lambda>(jobId, e). add_job jobId e) new (ordered @ [x]) = (ordered @ [x]) @ new"
    using Cons.prems x by (intro Cons.IH) auto
  moreover have "add_job jobId e ordered = ordered @ [x]"
    using Cons.prems x by (simp add: add_job_def)
  ultimately show ?case
    using x by simp
qed simp

lemma fold_add_job_entity:
  "fold (\<lambda>jobId. add_job jobId e) ids ordered
     = fold (\<lambda>(jobId, e). add_job jobId e) (map (\<lambda>jobId. (jobId, e)) ids) ordered"
  by (induction ids arbitrary: ordered) simp_all

definition blocks :: "session_job list \<Rightarrow> string list \<Rightarrow> (id \<times> string) list" where
  "blocks jobs es = concat (map (\<lambda>e. map (\<lambda>jobId. (jobId, e)) (jobs_of e jobs)) es)"

lemma blocks_simps [simp]:
  "blocks jobs [] = []"
  "blocks jobs (e # es) = map (\<lambda>jobId. (jobId, e)) (jobs_of e jobs) @ blocks jobs es"
  "blocks jobs (es @ fs) = blocks jobs es @ blocks jobs fs"
  by (simp_all add: blocks_def)

lemma set_blocks: "set (blocks jobs es) = {(sj_importJobId j, sj_entityKey j) | j. j \<in> set jobs \<and> sj_entityKey j \<in> set es}"
  by (auto simp: blocks_def jobs_of_def)

lemma blocks_ids:
  "fst ` set (blocks jobs es) = sj_importJobId ` {j \<in> set jobs. sj_entityKey j \<in> set es}"
  "set (jobs_of e jobs) = sj_importJobId ` {j \<in> set jobs. sj_entityKey j = e}"
  by (auto simp: set_blocks jobs_of_def image_iff)

lemma distinct_blocks:
  assumes "distinct (map sj_importJobId jobs)"
  shows "distinct es \<Longrightarrow> distinct (map fst (blocks jobs es))"
proof (induction es)
  case (Cons e es)
  have inj: "inj_on sj_importJobId (set jobs)"
    using assms by (simp add: distinct_map)
  have "distinct (jobs_of e jobs)"
    using assms by (simp add: jobs_of_def distinct_map_filter)
  moreover have "set (jobs_of e jobs) \<inter> fst ` set (blocks jobs es) = {}"
    unfolding blocks_ids using Cons.prems(1)
    by (subst inj_on_image_Int [OF inj, symmetric]) auto
  ultimately show ?case
    using Cons by (simp add: comp_def)
qed simp

lemma fold_blocks:
  "fold (\<lambda>e. fold (\<lambda>jobId. add_job jobId e) (jobs_of e jobs)) es acc
     = fold (\<lambda>(jobId, e). add_job jobId e) (blocks jobs es) acc"
  by (induction es arbitrary: acc) (simp_all add: fold_add_job_entity)

lemma fold_add_job_rest:
  "fold (\<lambda>j. add_job (sj_importJobId j) (sj_entityKey j)) jobs ordered =
     fold (\<lambda>(jobId, e). add_job jobId e) (map (\<lambda>j. (sj_importJobId j, sj_entityKey j)) jobs) ordered"
  by (induction jobs arbitrary: ordered) simp_all

lemma fold_add_job_filter:
  "distinct (map fst new) \<Longrightarrow> fold (\<lambda>(jobId, e). add_job jobId e) new ordered =
     ordered @ filter (\<lambda>x. fst x \<notin> set (map fst ordered)) new"
proof (induction new arbitrary: ordered)
  case (Cons x new)
  obtain jobId e where x: "x = (jobId, e)" by (cases x)
  have "filter (\<lambda>y. fst y \<notin> set (map fst (ordered @ [x]))) new = filter (\<lambda>y. fst y \<notin> set (map fst ordered)) new"
    using Cons.prems x by (intro filter_cong) auto
  moreover have "fold (\<lambda>(jobId, e). add_job jobId e) (x # new) ordered =
      fold (\<lambda>(jobId, e). add_job jobId e) new (if fst x \<in> set (map fst ordered) then ordered else ordered @ [x])"
    by (simp add: add_job_def x)
  ultimately show ?case
    using Cons.IH [of ordered] Cons.IH [of "ordered @ [x]"] Cons.prems by simp
qed simp

lemma computeSessionExecutionOrder_blocks:
  assumes "distinct (map sj_importJobId jobs)"
    and "topologicalSort (local_deps (uniq (map sj_entityKey jobs)) decls) = Inr es"
  shows "\<exists>rest. computeSessionExecutionOrder jobs decls
      = Inr (map fst (blocks jobs es @ rest), map snd (blocks jobs es @ rest))
    \<and> rest = filter (\<lambda>x. snd x \<notin> set es) (map (\<lambda>j. (sj_importJobId j, sj_entityKey j)) jobs)"
proof -
  let ?pairs = "map (\<lambda>j. (sj_importJobId j, sj_entityKey j)) jobs"
  have "distinct es"
    using topologicalSort_order(1) assms(2) by blast
  then have grouped: "fold (\<lambda>(jobId, e). add_job jobId e) (blocks jobs es) [] = blocks jobs es"
    using fold_add_job [of "blocks jobs es" "[]"] distinct_blocks [OF assms(1)] by simp
  have inj: "inj_on sj_importJobId (set jobs)" and dist: "distinct (map fst ?pairs)"
    using assms(1) by (simp_all add: distinct_map comp_def)
  have "filter (\<lambda>x. fst x \<notin> set (map fst (blocks jobs es))) ?pairs = filter (\<lambda>x. snd x \<notin> set es) ?pairs"
    using inj by (intro filter_cong) (auto simp: blocks_ids inj_on_def)
  then show ?thesis
    using fold_add_job_filter [OF dist, of "blocks jobs es"] assms(2) grouped
    by (simp add: computeSessionExecutionOrder_def Let_def fold_blocks fold_add_job_rest)
qed


lemma before_append: "before xs a b \<Longrightarrow> before (xs @ ys) a b"
  unfolding before_def by (metis append.assoc append_Cons)

lemma before_blocks:
  assumes "before es d e" "i \<in> set (jobs_of d jobs)" "k \<in> set (jobs_of e jobs)"
  shows "before (map fst (blocks jobs es)) i k"
proof -
  obtain us vs ws where es: "es = us @ d # vs @ e # ws"
    using assms(1) by (auto simp: before_def)
  obtain xs ys where i: "jobs_of d jobs = xs @ i # ys"
    using split_list [OF assms(2)] by blast
  obtain xs' ys' where k: "jobs_of e jobs = xs' @ k # ys'"
    using split_list [OF assms(3)] by blast
  have "map fst (blocks jobs es) = (map fst (blocks jobs us) @ xs) @ i #
      (ys @ map fst (blocks jobs vs) @ xs') @ k # (ys' @ map fst (blocks jobs ws))"
    by (simp add: es i k comp_def)
  then show ?thesis
    unfolding before_def by blast
qed

text \<open>
  The execution order of a session is a permutation of its jobs, each listed with its own entity
  key, in which every job comes after all jobs of the entities its entity is declared to depend on.
\<close>

lemma computeSessionExecutionOrder_correct:
  assumes "distinct (map sj_importJobId jobs)"
    and "computeSessionExecutionOrder jobs decls = Inr (ids, keys)"
  shows "mset (zip ids keys) = mset (map (\<lambda>j. (sj_importJobId j, sj_entityKey j)) jobs)
    \<and> (\<forall>j \<in> set jobs. \<forall>j' \<in> set jobs. sj_entityKey j \<noteq> ''__proto__'' \<longrightarrow>
         sj_entityKey j' \<in> set (case map_of decls (sj_entityKey j) of None \<Rightarrow> [] | Some ds \<Rightarrow> ds) \<longrightarrow>
         before ids (sj_importJobId j') (sj_importJobId j))"
proof -
  let ?pairs = "map (\<lambda>j. (sj_importJobId j, sj_entityKey j)) jobs"
  let ?present = "uniq (map sj_entityKey jobs)"
  obtain es where es: "topologicalSort (local_deps ?present decls) = Inr es"
    using assms(2) by (auto simp: computeSessionExecutionOrder_def Let_def split: sum.splits)
  define rest where "rest = filter (\<lambda>x. snd x \<notin> set es) ?pairs"
  have eqs: "ids = map fst (blocks jobs es @ rest)" "keys = map snd (blocks jobs es @ rest)"
    using computeSessionExecutionOrder_blocks [OF assms(1) es] assms(2) rest_def by auto
  have dist: "distinct (map fst ?pairs)"
    using assms(1) by (simp add: comp_def)
  have "distinct rest"
    unfolding rest_def using distinct_of_map [OF dist] by (rule distinct_filter)
  moreover have "distinct (blocks jobs es)"
    using distinct_of_map [OF distinct_blocks [OF assms(1) topologicalSort_order(1) [OF es]]] .
  ultimately have "distinct (blocks jobs es @ rest)"
    by (auto simp: rest_def set_blocks)
  moreover have "set (blocks jobs es @ rest) = set ?pairs"
    by (auto simp: rest_def set_blocks)
  moreover have "distinct ?pairs"
    using dist by (rule distinct_of_map)
  ultimately have "mset (blocks jobs es @ rest) = mset ?pairs"
    using set_eq_iff_mset_eq_distinct by blast
  moreover have "before ids (sj_importJobId j') (sj_importJobId j)"
    if "j \<in> set jobs" "j' \<in> set jobs" "sj_entityKey j \<noteq> ''__proto__''"
      "sj_entityKey j' \<in> set (case map_of decls (sj_entityKey j) of None \<Rightarrow> [] | Some ds \<Rightarrow> ds)" for j j'
  proof -
    have "(sj_entityKey j, sj_entityKey j') \<in> depends (local_deps ?present decls)"
      using that local_deps_mem [OF that(3), of _ ?present decls] by (auto simp: depends_def)
    then have "before es (sj_entityKey j') (sj_entityKey j)"
      by (rule topologicalSort_order(3) [OF es])
    then have "before (map fst (blocks jobs es)) (sj_importJobId j') (sj_importJobId j)"
      by (rule before_blocks) (use that in \<open>auto simp: jobs_of_def\<close>)
    then show ?thesis
      using before_append by (simp add: eqs)
  qed
  ultimately show ?thesis
    by (auto simp: eqs zip_map_fst_snd)
qed

subsection \<open>No dependencies\<close>

lemma fold_add_entity_free:
  "\<forall>d \<in> set decls. snd d = [] \<Longrightarrow> distinct (akeys g @ akeys decls) \<Longrightarrow> fold add_entity decls g = g @ decls"
proof (induction decls arbitrary: g)
  case (Cons d decls)
  then have "add_entity d g = g @ [d]"
    by (cases d) (auto simp: add_entity_def add_vertex_def aput_append)
  then show ?case
    using Cons.IH [of "g @ [d]"] Cons.prems by (cases d) auto
qed simp

lemma fold_count_vertex_free:
  "\<forall>v. adj g v = [] \<Longrightarrow> distinct (akeys ind @ vs) \<Longrightarrow> fold (count_vertex g) vs ind = ind @ map (\<lambda>v. (v, 0)) vs"
proof (induction vs arbitrary: ind)
  case (Cons v vs)
  then have "count_vertex g v ind = ind @ [(v, 0)]"
    by (auto simp: count_vertex_def aput_append)
  then show ?case
    using Cons.IH [of "ind @ [(v, 0)]"] Cons.prems by auto
qed simp

lemma loops_free:
  assumes "\<forall>v. adj g v = []"
  shows "sort_loop g ind queue out = out @ queue" "visit_loop g ind queue n = n + length queue"
  using assms by (induction queue arbitrary: out n) simp_all

text \<open>Entities that declare nothing keep their order.\<close>

lemma topologicalSort_free:
  assumes "\<forall>d \<in> set decls. snd d = []" "distinct (akeys decls)"
  shows "topologicalSort decls = Inr (akeys decls)"
proof -
  have g: "dependency_graph decls = decls"
    using fold_add_entity_free [OF assms(1), of "[]"] assms(2) by (simp add: dependency_graph_def)
  have adj: "\<forall>v. adj decls v = []"
    using assms(1) by (fastforce simp: adj_def split: option.split dest: map_of_SomeD)
  have ind: "indegrees decls = map (\<lambda>v. (v, 0)) (akeys decls)"
    using fold_count_vertex_free [OF adj, of "[]" "akeys decls"] assms(2) by (simp add: indegrees_def)
  have "initial_queue (indegrees decls) = akeys decls"
    by (simp add: ind initial_queue_def filter_map comp_def)
  then show ?thesis
    by (simp add: topologicalSort_def isAcyclic_def g loops_free [OF adj] ind akeys_def)
qed

lemma fold_oset_append:
  "\<forall>e \<in> set es. e \<noteq> ''__proto__'' \<and> \<not> is_index_key e \<Longrightarrow> distinct (akeys acc @ es) \<Longrightarrow>
   fold (\<lambda>e. oset e (f e)) es acc = acc @ map (\<lambda>e. (e, f e)) es"
proof (induction es arbitrary: acc)
  case (Cons e es)
  then show ?case
    using Cons.IH [of "acc @ [(e, f e)]"] by (simp add: oset_append)
qed simp

lemma computeSessionExecutionOrder_free:
  assumes "distinct (map sj_importJobId jobs)" "distinct (map sj_entityKey jobs)"
    and "\<forall>j \<in> set jobs. sj_entityKey j \<noteq> ''__proto__'' \<and> \<not> is_index_key (sj_entityKey j)
      \<and> (case map_of decls (sj_entityKey j) of None \<Rightarrow> [] | Some ds \<Rightarrow> ds) = []"
  shows "computeSessionExecutionOrder jobs decls = Inr (map sj_importJobId jobs, map sj_entityKey jobs)"
proof -
  let ?keys = "map sj_entityKey jobs"
  let ?f = "\<lambda>e. filter (\<lambda>d. d \<in> set ?keys) (case map_of decls e of None \<Rightarrow> [] | Some ds \<Rightarrow> ds)"
  have deps: "local_deps ?keys decls = map (\<lambda>e. (e, ?f e)) ?keys"
    using fold_oset_append [of ?keys "[]" ?f] assms(2,3) by (simp add: local_deps_def)
  have "topologicalSort (local_deps ?keys decls) = Inr ?keys"
    using topologicalSort_free [of "local_deps ?keys decls"] assms(2,3) unfolding deps
    by (simp add: akeys_def comp_def)
  moreover have "uniq ?keys = ?keys"
    using assms(2) by (rule uniq_id)
  ultimately obtain rest where "computeSessionExecutionOrder jobs decls
      = Inr (map fst (blocks jobs ?keys @ rest), map snd (blocks jobs ?keys @ rest))"
    "rest = filter (\<lambda>x. snd x \<notin> set ?keys) (map (\<lambda>j. (sj_importJobId j, sj_entityKey j)) jobs)"
    using computeSessionExecutionOrder_blocks [OF assms(1), of decls ?keys] by auto
  moreover from this have "rest = []"
    by (simp add: filter_empty_conv)
  moreover have "blocks jobs ?keys = map (\<lambda>j. (sj_importJobId j, sj_entityKey j)) jobs"
  proof -
    have "jobs_of (sj_entityKey j) jobs = [sj_importJobId j]" if "j \<in> set jobs" for j
      using that assms(2) by (induction jobs) (auto simp: jobs_of_def filter_empty_conv image_iff)
    then have *: "map (\<lambda>j. map (\<lambda>i. (i, sj_entityKey j)) (jobs_of (sj_entityKey j) jobs)) jobs
        = map (\<lambda>j. [(sj_importJobId j, sj_entityKey j)]) jobs"
      by simp
    show ?thesis
      unfolding blocks_def map_map comp_def * by (simp add: concat_map_singleton)
  qed
  ultimately show ?thesis
    by (simp add: comp_def)
qed

end
