(* ===== verification/SqlDump.thy ===== *)
theory SqlDump
  imports JsValue
begin

text \<open>
  core/parsing/sqlDumpParser.js: reading the rows of one table out of a SQL dump made of
  INSERT statements. A position \<open>i\<close> in the text is the suffix that starts there, so a
  function that advances \<open>i\<close> returns the rest of the text.
\<close>

datatype sql_error =
    UnterminatedString
  | ExpectedDelimiter
  | UnterminatedTuple
  | NoInserts
  | TableNotFound string "string list"
  | ManyTables "string list"
  | NoColumnNames string

abbreviation sql_err :: "sql_error \<Rightarrow> sql_error err" where
  "sql_err m \<equiv> Err (Some 400) m"

definition quote :: char where "quote = CHR 0x27"
definition bslash :: char where "bslash = CHR 0x5C"
definition dquote :: char where "dquote = CHR 0x22"
definition bquote :: char where "bquote = CHR 0x60"

subsection \<open>Identifiers\<close>

text \<open>\<open>s.replace(/cc/g, "c")\<close>: every doubled occurrence becomes one.\<close>

fun undouble :: "char \<Rightarrow> string \<Rightarrow> string" where
  "undouble q (a # b # cs) =
     (if a = q \<and> b = q then q # undouble q cs else a # undouble q (b # cs))"
| "undouble q cs = cs"

definition enclosed :: "char \<Rightarrow> char \<Rightarrow> string \<Rightarrow> bool" where
  "enclosed l r s \<longleftrightarrow> s \<noteq> [] \<and> hd s = l \<and> last s = r"

definition unquoteIdent :: "string \<Rightarrow> string" where
  "unquoteIdent raw =
     (let segments = split_on (CHR ''.'') (js_trim raw);
          ident = js_trim (last segments);
          inner = butlast (tl ident);
          ident = (if enclosed bquote bquote ident \<or> enclosed dquote dquote ident
                      \<or> enclosed quote quote ident then inner
                   else if enclosed (CHR ''['') (CHR '']'') ident then inner
                   else ident)
      in undouble dquote (undouble bquote ident))"

definition splitColumns :: "string \<Rightarrow> string list" where
  "splitColumns colsRaw =
     filter (\<lambda>c. 0 < length c) (map unquoteIdent (split_on (CHR '','') colsRaw))"

subsection \<open>String literals and value tuples\<close>

text \<open>The character a backslash escape stands for.\<close>

definition unescape :: "char \<Rightarrow> char" where
  "unescape nx =
     (if nx = CHR ''n'' then CHR 0x0A
      else if nx = CHR ''t'' then CHR 0x09
      else if nx = CHR ''r'' then CHR 0x0D
      else if nx = CHR ''0'' then CHR 0x00
      else if nx = CHR ''b'' then CHR 0x08
      else if nx = CHR ''Z'' then CHR 0x1A
      else nx)"

text \<open>
  The loop of \<open>readSqlString\<close>, entered just after the opening quote: the decoded value and
  the text after the closing quote.
\<close>

fun readSqlString :: "string \<Rightarrow> string \<Rightarrow> sql_error err + (string \<times> string)" where
  "readSqlString out [] = Inl (sql_err UnterminatedString)"
| "readSqlString out [c] =
     (if c = bslash then Inl (sql_err UnterminatedString)
      else if c = quote then Inr (out, [])
      else Inl (sql_err UnterminatedString))"
| "readSqlString out (c # nx # cs) =
     (if c = bslash then readSqlString (out @ [unescape nx]) cs
      else if c = quote then
        (if nx = quote then readSqlString (out @ [quote]) cs else Inr (out, nx # cs))
      else readSqlString (out @ [c]) (nx # cs))"

text \<open>\<open>/^-?\d+(\.\d+)?$/\<close>\<close>

definition is_sql_number :: "string \<Rightarrow> bool" where
  "is_sql_number t =
     (let u = (case t of c # cs \<Rightarrow> if c = CHR ''-'' then cs else t | [] \<Rightarrow> t);
          ip = takeWhile is_digit u; r = dropWhile is_digit u
      in ip \<noteq> [] \<and>
         (case r of [] \<Rightarrow> True
          | c # fs \<Rightarrow> c = CHR ''.'' \<and> fs \<noteq> [] \<and> list_all is_digit fs))"

definition interpretUnquoted :: "string \<Rightarrow> val" where
  "interpretUnquoted token =
     (let t = js_trim token in
      if t = [] then VStr []
      else if to_lower t = ''null'' then VNull
      else if is_sql_number t then VNum (parse_number t)
      else VStr t)"

definition at_char :: "char \<Rightarrow> string \<Rightarrow> bool" where
  "at_char c s \<longleftrightarrow> (case s of [] \<Rightarrow> False | x # _ \<Rightarrow> x = c)"

text \<open>One value of a tuple: a string literal, or the token up to the next delimiter.\<close>

definition read_value :: "string \<Rightarrow> sql_error err + (val \<times> string)" where
  "read_value s =
     (if at_char quote s then
        (case readSqlString [] (tl s) of
           Inl e \<Rightarrow> Inl e
         | Inr (value, next) \<Rightarrow> Inr (VStr value, next))
      else
        (let stop = (\<lambda>c. c \<noteq> CHR '','' \<and> c \<noteq> CHR '')'')
         in Inr (interpretUnquoted (takeWhile stop s), dropWhile stop s)))"

lemma readSqlString_shorter:
  "readSqlString out s = Inr (v, rest) \<Longrightarrow> length rest < length s"
  by (induction out s rule: readSqlString.induct) (auto split: if_splits)

lemma read_value_shorter: "read_value s = Inr (v, rest) \<Longrightarrow> length rest \<le> length s"
  by (auto simp: read_value_def at_char_def Let_def dropWhile_length_le le_Suc_eq
      dest!: readSqlString_shorter split: if_splits sum.splits list.splits)

text \<open>\<open>parseTuple\<close>, entered just after the opening parenthesis.\<close>

function parseTuple :: "val list \<Rightarrow> string \<Rightarrow> sql_error err + (val list \<times> string)" where
  "parseTuple values s =
     (if s = [] then Inl (sql_err UnterminatedTuple)
      else let s1 = dropWhile is_ws s in
      if at_char (CHR '')'') s1 then Inr (values, tl s1)
      else (case read_value s1 of
          Inl e \<Rightarrow> Inl e
        | Inr (v, s2) \<Rightarrow>
            (case dropWhile is_ws s2 of
               [] \<Rightarrow> Inl (sql_err ExpectedDelimiter)
             | c # s4 \<Rightarrow>
                 if c = CHR '','' then parseTuple (values @ [v]) s4
                 else if c = CHR '')'' then Inr (values @ [v], s4)
                 else Inl (sql_err ExpectedDelimiter))))"
  by pat_completeness auto
termination
proof (relation "measure (\<lambda>(vs, s). length s)", goal_cases)
  case (2 us s s1 p v s2 c s4)
  have "length (c # s4) \<le> length s2"
    using dropWhile_length_le [of is_ws s2] 2 by simp
  also have "\<dots> \<le> length s1"
    using 2 read_value_shorter by blast
  also have "\<dots> \<le> length s"
    using 2 dropWhile_length_le [of is_ws s] by simp
  finally show ?case by simp
qed simp

declare parseTuple.simps [simp del]

lemma parseTuple_shorter:
  "parseTuple us s = Inr (vs, rest) \<Longrightarrow> length rest < length s"
proof (induction us s rule: parseTuple.induct)
  case (1 us s)
  have ws1: "length (dropWhile is_ws s) \<le> length s"
    by (rule dropWhile_length_le)
  show ?case
  proof (cases "at_char (CHR '')'') (dropWhile is_ws s)")
    case True
    then show ?thesis
      using 1(2) ws1
      by (subst (asm) parseTuple.simps) (auto simp: at_char_def split: if_splits list.splits)
  next
    case False
    then obtain v s2 c s4 where rv: "read_value (dropWhile is_ws s) = Inr (v, s2)"
      and ws2: "dropWhile is_ws s2 = c # s4" and ne: "s \<noteq> []"
      using 1(2) by (subst (asm) parseTuple.simps) (auto simp: Let_def split: if_splits sum.splits list.splits)
    have le: "Suc (length s4) \<le> length s"
      using dropWhile_length_le [of is_ws s2] ws2 read_value_shorter [OF rv] ws1 by simp
    show ?thesis
      using 1(1) [OF ne refl False rv refl ws2] 1(2) False rv ws2 ne le
      by (subst (asm) (2) parseTuple.simps) (auto simp: Let_def split: if_splits)
  qed
qed


subsection \<open>The INSERT prefix\<close>

text \<open>
  \<open>/INSERT\s+INTO\s+([^\s(]+)\s*(?:\(([^)]*)\))?\s+VALUES/gi\<close>. Every alternative of this
  expression is decided by the next character, so the match is read off from left to right:
  after the table name, an opening parenthesis can only start the column list, and without
  one the blanks after the name (at least one) must be followed by \<open>VALUES\<close>.
\<close>

definition keyword :: "string \<Rightarrow> string \<Rightarrow> string option" where
  "keyword kw s =
     (if to_lower (take (length kw) s) = kw then Some (drop (length kw) s) else None)"

text \<open>\<open>\s+\<close>: at least one blank, then all of them.\<close>

definition blanks1 :: "string \<Rightarrow> string option" where
  "blanks1 s = (case s of [] \<Rightarrow> None | c # cs \<Rightarrow> if is_ws c then Some (dropWhile is_ws cs) else None)"

definition values_kw :: "string \<Rightarrow> string option" where
  "values_kw s = Option.bind (blanks1 s) (keyword ''values'')"

text \<open>The table name, the raw column list when there is one, and the text after \<open>VALUES\<close>.\<close>

definition match_insert :: "string \<Rightarrow> (string \<times> string option \<times> string) option" where
  "match_insert s =
     Option.bind (keyword ''insert'' s) (\<lambda>s1.
     Option.bind (blanks1 s1) (\<lambda>s2.
     Option.bind (keyword ''into'' s2) (\<lambda>s3.
     Option.bind (blanks1 s3) (\<lambda>s4.
       let in_name = (\<lambda>c. \<not> is_ws c \<and> c \<noteq> CHR ''('');
           name = takeWhile in_name s4; s5 = dropWhile in_name s4; s6 = dropWhile is_ws s5
       in if name = [] then None
          else if at_char (CHR ''('') s6 then
            (let cols = takeWhile (\<lambda>c. c \<noteq> CHR '')'') (tl s6);
                 s7 = dropWhile (\<lambda>c. c \<noteq> CHR '')'') (tl s6)
             in if s7 = [] then None
                else map_option (\<lambda>rest. (name, Some cols, rest)) (values_kw (tl s7)))
          else map_option (\<lambda>rest. (name, None, rest)) (values_kw s5)))))"

text \<open>\<open>INSERT_PREFIX.exec(sql)\<close> from \<open>lastIndex\<close>: the first match at or after it.\<close>

fun exec_insert :: "string \<Rightarrow> (string \<times> string option \<times> string) option" where
  "exec_insert [] = None"
| "exec_insert (c # cs) =
     (case match_insert (c # cs) of Some m \<Rightarrow> Some m | None \<Rightarrow> exec_insert cs)"

subsection \<open>Scanning a dump\<close>

type_synonym row = obj

text \<open>
  \<open>columns.forEach((col, idx) => \{ row[col] = idx < values.length ? values[idx] : null \})\<close>
\<close>

fun build_row :: "string list \<Rightarrow> val list \<Rightarrow> row \<Rightarrow> row" where
  "build_row [] vs row = row"
| "build_row (col # cols) vs row =
     build_row cols (tl vs) (oset col (case vs of v # _ \<Rightarrow> v | [] \<Rightarrow> VNull) row)"

definition skip_sep :: "string \<Rightarrow> string" where
  "skip_sep s = dropWhile (\<lambda>c. is_ws c \<or> c = CHR '','') s"

datatype walk_result =
    Walk_error "sql_error err"
  | Walk_exceeded
  | Walk_done "row list" string

text \<open>
  One statement's tuples from just after \<open>VALUES\<close>. \<open>cols\<close> is \<open>Some\<close> when this is the target
  table and the statement names columns: then the rows are kept, and the row past \<open>limit\<close>
  stops the scan.
\<close>

function walk_tuples :: "string list option \<Rightarrow> jsnum \<Rightarrow> row list \<Rightarrow> string \<Rightarrow> walk_result" where
  "walk_tuples cols limit rows s =
     (let s1 = skip_sep s in
      case s1 of
        [] \<Rightarrow> Walk_done rows []
      | c # s2 \<Rightarrow>
          if c = CHR '';'' then Walk_done rows s2
          else if c \<noteq> CHR ''('' then Walk_done rows s1
          else (case parseTuple [] s2 of
              Inl e \<Rightarrow> Walk_error e
            | Inr (vs, next) \<Rightarrow>
                (case cols of
                   None \<Rightarrow> walk_tuples cols limit rows next
                 | Some columns \<Rightarrow>
                     (let rows' = rows @ [build_row columns vs []] in
                      if num_gt (Fin (of_nat (length rows'))) limit then Walk_exceeded
                      else walk_tuples cols limit rows' next))))"
  by pat_completeness auto
termination
proof (relation "measure (\<lambda>(cols, limit, rows, s). length s)", goal_cases)
  case (2 cols limit rows s s1 c s2 p us rest)
  then show ?case
    using parseTuple_shorter [of "[]" s2] dropWhile_length_le [of "\<lambda>c. is_ws c \<or> c = CHR '',''" s]
    by (fastforce simp: skip_sep_def)
next
  case (3 cols limit rows s s1 c s2 p us rest columns rows')
  then show ?case
    using parseTuple_shorter [of "[]" s2] dropWhile_length_le [of "\<lambda>c. is_ws c \<or> c = CHR '',''" s]
    by (fastforce simp: skip_sep_def)
qed simp

declare walk_tuples.simps [simp del]

text \<open>The result of \<open>scanSqlDump\<close>.\<close>

record scan =
  tableNames :: "string list"
  scan_rows :: "row list"
  targetHadColumns :: bool
  exceeded :: bool

lemma keyword_shorter: "keyword kw s = Some r \<Longrightarrow> length r \<le> length s"
  by (auto simp: keyword_def split: if_splits)

lemma blanks1_shorter: "blanks1 s = Some r \<Longrightarrow> length r < length s"
  by (auto simp: blanks1_def le_imp_less_Suc dropWhile_length_le split: list.splits if_splits)

lemma values_kw_shorter: "values_kw s = Some r \<Longrightarrow> length r < length s"
  by (auto simp: values_kw_def bind_eq_Some_conv dest!: blanks1_shorter keyword_shorter)

lemma match_insert_shorter:
  assumes "match_insert s = Some (name, cols, rest)"
  shows "length rest < length s"
proof -
  obtain s1 s2 s3 s4 where kw: "keyword ''insert'' s = Some s1" "blanks1 s1 = Some s2"
      "keyword ''into'' s2 = Some s3" "blanks1 s3 = Some s4"
    using assms by (auto simp: match_insert_def bind_eq_Some_conv)
  have s4: "length s4 < length s"
    using kw by (auto dest!: keyword_shorter blanks1_shorter)
  define s5 where "s5 = dropWhile (\<lambda>c. \<not> is_ws c \<and> c \<noteq> CHR ''('') s4"
  define s6 where "s6 = dropWhile is_ws s5"
  define s7 where "s7 = dropWhile (\<lambda>c. c \<noteq> CHR '')'') (tl s6)"
  have le: "length s5 \<le> length s4" "length s6 \<le> length s5" "length s7 \<le> length (tl s6)"
    unfolding s5_def s6_def s7_def by (rule dropWhile_length_le)+
  have "values_kw (tl s7) = Some rest \<or> values_kw s5 = Some rest"
    using assms kw
    by (auto simp: match_insert_def Let_def s5_def s6_def s7_def split: if_splits)
  then show ?thesis
    using s4 le by (auto dest!: values_kw_shorter)
qed

lemma exec_insert_shorter:
  "exec_insert s = Some (name, cols, rest) \<Longrightarrow> length rest < length s"
  by (induction s) (auto dest: match_insert_shorter split: option.splits)

text \<open>The equation of \<open>walk_tuples\<close>, one case at a time.\<close>

lemma walk_tuples_end:
  "skip_sep s = [] \<Longrightarrow> walk_tuples cols limit rows s = Walk_done rows []"
  by (subst walk_tuples.simps) simp

lemma walk_tuples_semicolon:
  "skip_sep s = CHR '';'' # s2 \<Longrightarrow> walk_tuples cols limit rows s = Walk_done rows s2"
  by (subst walk_tuples.simps) simp

lemma walk_tuples_stop:
  "skip_sep s = c # s2 \<Longrightarrow> c \<noteq> CHR '';'' \<Longrightarrow> c \<noteq> CHR ''('' \<Longrightarrow>
   walk_tuples cols limit rows s = Walk_done rows (c # s2)"
  by (subst walk_tuples.simps) simp

lemma walk_tuples_error:
  "skip_sep s = CHR ''('' # s2 \<Longrightarrow> parseTuple [] s2 = Inl e \<Longrightarrow>
   walk_tuples cols limit rows s = Walk_error e"
  by (subst walk_tuples.simps) simp

lemma walk_tuples_skip:
  "skip_sep s = CHR ''('' # s2 \<Longrightarrow> parseTuple [] s2 = Inr (us, rest) \<Longrightarrow>
   walk_tuples None limit rows s = walk_tuples None limit rows rest"
  by (subst walk_tuples.simps) simp

lemma walk_tuples_keep:
  "skip_sep s = CHR ''('' # s2 \<Longrightarrow> parseTuple [] s2 = Inr (us, rest) \<Longrightarrow>
   walk_tuples (Some columns) limit rows s =
     (if num_gt (Fin (of_nat (Suc (length rows)))) limit then Walk_exceeded
      else walk_tuples (Some columns) limit (rows @ [build_row columns us []]) rest)"
  by (subst walk_tuples.simps) simp

lemmas walk_tuples_eqs =
  walk_tuples_end walk_tuples_semicolon walk_tuples_stop walk_tuples_error
  walk_tuples_skip walk_tuples_keep

text \<open>Induction along the tuples of a statement, for a property of the text alone.\<close>

lemma walk_induct [case_names finish semicolon stop error tuple]:
  assumes "\<And>s. skip_sep s = [] \<Longrightarrow> P s"
    and "\<And>s s2. skip_sep s = CHR '';'' # s2 \<Longrightarrow> P s"
    and "\<And>s c s2. skip_sep s = c # s2 \<Longrightarrow> c \<noteq> CHR '';'' \<Longrightarrow> c \<noteq> CHR ''('' \<Longrightarrow> P s"
    and "\<And>s s2 e. skip_sep s = CHR ''('' # s2 \<Longrightarrow> parseTuple [] s2 = Inl e \<Longrightarrow> P s"
    and "\<And>s s2 us rest. skip_sep s = CHR ''('' # s2 \<Longrightarrow> parseTuple [] s2 = Inr (us, rest) \<Longrightarrow>
           length rest < length s \<Longrightarrow> P rest \<Longrightarrow> P s"
  shows "P s"
proof (induction s rule: length_induct)
  case (1 s)
  have le: "length (skip_sep s) \<le> length s"
    by (simp add: skip_sep_def dropWhile_length_le)
  show ?case
  proof (cases "skip_sep s")
    case Nil
    then show ?thesis by (rule assms(1))
  next
    case (Cons c s2)
    show ?thesis
    proof (cases "c = CHR ''(''")
      case False
      then show ?thesis
        using assms(2,3) Cons by (cases "c = CHR '';''") auto
    next
      case True
      show ?thesis
      proof (cases "parseTuple [] s2")
        case (Inl e)
        then show ?thesis using assms(4) Cons True by simp
      next
        case (Inr r)
        obtain us rest where r: "r = (us, rest)" by (cases r)
        have "length rest < length s"
          using parseTuple_shorter [of "[]" s2 us rest] Inr r le Cons by simp
        then show ?thesis
          using 1 assms(5) Cons True Inr r by blast
      qed
    qed
  qed
qed

lemma walk_tuples_shorter:
  "walk_tuples cols limit rows s = Walk_done rows' rest \<Longrightarrow> length rest \<le> length s"
proof (induction s arbitrary: rows rule: walk_induct)
  case (tuple s s2 us next')
  then show ?case
    by (cases cols) (fastforce simp: walk_tuples_eqs split: if_splits)+
next
  case (semicolon s s2)
  then show ?case
    using dropWhile_length_le [of "\<lambda>c. is_ws c \<or> c = CHR '',''" s]
    by (simp add: walk_tuples_eqs skip_sep_def)
next
  case (stop s c s2)
  then show ?case
    using dropWhile_length_le [of "\<lambda>c. is_ws c \<or> c = CHR '',''" s]
    by (auto simp: walk_tuples_eqs skip_sep_def)
qed (simp_all add: walk_tuples_eqs)

function scan_loop ::
  "string option \<Rightarrow> jsnum \<Rightarrow> scan \<Rightarrow> string \<Rightarrow> sql_error err + scan" where
  "scan_loop target limit st sql =
     (case exec_insert sql of
        None \<Rightarrow> Inr st
      | Some (m1, m2, rest) \<Rightarrow>
          (let tableName = unquoteIdent m1; columns = map_option splitColumns m2;
               names = (if tableName \<in> set (tableNames st) then tableNames st
                        else tableNames st @ [tableName]);
               isTarget = (target = Some tableName);
               hadColumns = (if isTarget then columns \<noteq> None \<and> columns \<noteq> Some []
                             else targetHadColumns st);
               keep = (if isTarget \<and> hadColumns then columns else None)
           in case walk_tuples keep limit (scan_rows st) rest of
                Walk_error e \<Rightarrow> Inl e
              | Walk_exceeded \<Rightarrow>
                  Inr \<lparr>tableNames = names, scan_rows = [], targetHadColumns = hadColumns,
                       exceeded = True\<rparr>
              | Walk_done rows s' \<Rightarrow>
                  scan_loop target limit
                    \<lparr>tableNames = names, scan_rows = rows, targetHadColumns = hadColumns,
                     exceeded = False\<rparr> s'))"
  by pat_completeness auto
termination
  by (relation "measure (\<lambda>(target, limit, st, sql). length sql)")
    (auto dest!: exec_insert_shorter dest: walk_tuples_shorter [THEN le_less_trans])

declare scan_loop.simps [simp del]

definition scanSqlDump :: "string option \<Rightarrow> jsnum \<Rightarrow> string \<Rightarrow> sql_error err + scan" where
  "scanSqlDump target limit sql =
     scan_loop target limit
       \<lparr>tableNames = [], scan_rows = [], targetHadColumns = False, exceeded = False\<rparr> sql"

definition listSqlTables :: "string \<Rightarrow> sql_error err + string list" where
  "listSqlTables sql =
     (case scanSqlDump None PInf sql of Inl e \<Rightarrow> Inl e | Inr st \<Rightarrow> Inr (tableNames st))"

record sql_table =
  t_tableName :: string
  t_rows :: "row list"
  t_exceeded :: bool

text \<open>Which of the dump's tables to import.\<close>

definition choose_table :: "string option \<Rightarrow> string list \<Rightarrow> sql_error err + string" where
  "choose_table sqlTable names =
     (if names = [] then Inl (sql_err NoInserts)
      else case sqlTable of
          Some (c # cs) \<Rightarrow>
            (let tableName = unquoteIdent (c # cs) in
             if tableName \<notin> set names then Inl (sql_err (TableNotFound tableName names))
             else Inr tableName)
        | _ \<Rightarrow> (case names of [tableName] \<Rightarrow> Inr tableName
                | _ \<Rightarrow> Inl (sql_err (ManyTables names))))"

definition extractSqlTable ::
  "string \<Rightarrow> string option \<Rightarrow> jsnum \<Rightarrow> sql_error err + sql_table" where
  "extractSqlTable sql sqlTable limit =
     (case listSqlTables sql of
        Inl e \<Rightarrow> Inl e
      | Inr names \<Rightarrow>
          (case choose_table sqlTable names of
             Inl e \<Rightarrow> Inl e
           | Inr tableName \<Rightarrow>
               (case scanSqlDump (Some tableName) limit sql of
                  Inl e \<Rightarrow> Inl e
                | Inr st \<Rightarrow>
                    if \<not> exceeded st \<and> \<not> targetHadColumns st
                    then Inl (sql_err (NoColumnNames tableName))
                    else Inr \<lparr>t_tableName = tableName,
                              t_rows = (if exceeded st then [] else scan_rows st),
                              t_exceeded = exceeded st\<rparr>)))"

end
