(* ===== verification/SqlDumpCorrect.thy ===== *)
theory SqlDumpCorrect
  imports SqlDump
begin

text \<open>
  Correctness of the SQL dump parser: a dump printed the way \<open>mysqldump --complete-insert\<close>
  and \<open>pg_dump --column-inserts\<close> print it is read back row for row, and the row ceiling
  bounds what is kept. The printers below are the specification side; they model no code.
\<close>

subsection \<open>A printer for INSERT dumps\<close>

definition sql_escape :: "char \<Rightarrow> string" where
  "sql_escape c =
     (if c = quote then [quote, quote] else if c = bslash then [bslash, bslash] else [c])"

definition sql_quote :: "string \<Rightarrow> string" where
  "sql_quote s = quote # concat (map sql_escape s) @ [quote]"

fun print_val :: "val \<Rightarrow> string" where
  "print_val (VStr s) = sql_quote s"
| "print_val (VNum (Fin q)) = show_int \<lfloor>q\<rfloor>"
| "print_val _ = ''NULL''"

text \<open>The values the printer covers: text, NULL and safe integers.\<close>

fun printable :: "val \<Rightarrow> bool" where
  "printable (VStr s) = True"
| "printable VNull = True"
| "printable (VNum (Fin q)) = (q = of_int \<lfloor>q\<rfloor> \<and> \<bar>\<lfloor>q\<rfloor>\<bar> < 2 ^ 53)"
| "printable _ = False"

definition print_tuple :: "val list \<Rightarrow> string" where
  "print_tuple vs = ''('' @ join '','' (map print_val vs) @ '')''"

definition print_ident :: "string \<Rightarrow> string" where
  "print_ident s = bquote # s @ [bquote]"

type_synonym statement = "string \<times> string list \<times> val list list"

fun print_insert :: "statement \<Rightarrow> string" where
  "print_insert (t, cols, rows) =
     ''INSERT INTO '' @ print_ident t @ '' ('' @ join '','' (map print_ident cols) @ '') VALUES ''
     @ join '','' (map print_tuple rows) @ '';'' @ [CHR 0x0A]"

definition ident_char :: "char \<Rightarrow> bool" where
  "ident_char c \<longleftrightarrow>
     is_digit c \<or> (65 \<le> code c \<and> code c \<le> 90) \<or> (97 \<le> code c \<and> code c \<le> 122) \<or> c = CHR ''_''"

definition ident :: "string \<Rightarrow> bool" where
  "ident s \<longleftrightarrow> s \<noteq> [] \<and> (\<forall>c \<in> set s. ident_char c)"

fun statement_ok :: "statement \<Rightarrow> bool" where
  "statement_ok (t, cols, rows) \<longleftrightarrow>
     ident t \<and> cols \<noteq> [] \<and> (\<forall>c \<in> set cols. ident c) \<and>
     (\<forall>vs \<in> set rows. vs \<noteq> [] \<and> (\<forall>v \<in> set vs. printable v))"

subsection \<open>String literals\<close>

lemma readSqlString_printed:
  "\<not> at_char quote rest \<Longrightarrow>
   readSqlString out (concat (map sql_escape s) @ quote # rest) = Inr (out @ s, rest)"
proof (induction s arbitrary: out)
  case Nil
  then show ?case
    by (cases rest) (auto simp: at_char_def quote_def bslash_def)
next
  case (Cons c s)
  obtain d ds where tail: "concat (map sql_escape s) @ quote # rest = d # ds"
    by (cases "concat (map sql_escape s) @ quote # rest") auto
  have esc: "unescape bslash = bslash" "quote \<noteq> bslash" "bslash \<noteq> quote"
      "sql_escape quote = [quote, quote]" "sql_escape bslash = [bslash, bslash]"
    by (simp_all add: unescape_def bslash_def quote_def sql_escape_def)
  consider "c = quote" | "c = bslash" | "c \<noteq> quote" "c \<noteq> bslash"
    by blast
  then show ?case
  proof cases
    case 3
    then have "sql_escape c = [c]" by (simp add: sql_escape_def)
    then show ?thesis
      using 3 Cons.IH [of "out @ [c]"] Cons.prems tail by simp
  qed (use esc Cons in simp_all)
qed

text \<open>
  A string literal that doubles its quotes and backslashes, the common ground of what
  pg_dump and mysqldump emit, is decoded to exactly the text it was printed from, whatever
  characters it holds, and reading stops just after the closing quote.
\<close>

lemma readSqlString_roundtrip:
  assumes "\<not> at_char quote rest"
  shows "readSqlString [] (tl (sql_quote s) @ rest) = Inr (s, rest)"
  using readSqlString_printed [OF assms, of "[]" s] by (simp add: sql_quote_def)

theorem readSqlString_roundtrip_witness:
  "readSqlString [] (tl (sql_quote [quote, CHR '';'', bslash]) @ '',2)'')
     = Inr ([quote, CHR '';'', bslash], '',2)'')"
  by (rule readSqlString_roundtrip) (simp add: at_char_def quote_def)

subsection \<open>Values and tuples\<close>

definition delimiter :: "char \<Rightarrow> bool" where
  "delimiter c \<longleftrightarrow> c = CHR '','' \<or> c = CHR '')''"

lemma interpretUnquoted_null: "interpretUnquoted ''NULL'' = VNull"
proof -
  have "js_trim ''NULL'' = ''NULL''"
    by (rule js_trim_id) (simp add: is_ws_def code_def)
  moreover have "to_lower ''NULL'' = ''null''"
    by (simp add: to_lower_def is_upper_def code_def)
  ultimately show ?thesis by (simp add: interpretUnquoted_def)
qed

lemma hd_show_int: "hd (show_int i) = CHR ''-'' \<or> is_digit (hd (show_int i))"
  using show_nat_digits [of "nat i"] by (cases "show_nat (nat i)") (auto simp: show_int_def)

lemma set_show_int: "c \<in> set (show_int i) \<Longrightarrow> c = CHR ''-'' \<or> is_digit c"
  using show_nat_digits by (auto simp: show_int_def list_all_iff split: if_splits)

lemma show_int_not_Nil [simp]: "show_int i \<noteq> []"
  by (simp add: show_int_def)

lemma js_trim_show_int: "js_trim (show_int i) = show_int i"
proof (rule js_trim_id)
  have "\<not> is_ws c" if "c \<in> set (show_int i)" for c
    using set_show_int [OF that] digit_not_ws by (auto simp: is_ws_def code_def)
  then show "show_int i = [] \<or> \<not> is_ws (hd (show_int i)) \<and> \<not> is_ws (last (show_int i))"
    by simp
qed

lemma is_sql_number_show_int: "is_sql_number (show_int i)"
proof -
  have all: "\<forall>c \<in> set (show_nat n). is_digit c" for n
    using show_nat_digits by (simp add: list_all_iff)
  have "hd (show_nat n) \<noteq> CHR ''-''" for n
    using all [of n] by (cases "show_nat n") (auto simp: is_digit_def code_def)
  then have "(case show_int i of c # cs \<Rightarrow> if c = CHR ''-'' then cs else show_int i | [] \<Rightarrow> show_int i)
      = show_nat (nat \<bar>i\<bar>)"
    by (auto simp: show_int_def split: list.split) (metis list.sel(1))
  then show ?thesis
    by (simp add: is_sql_number_def takeWhile_id [OF all] dropWhile_all [OF all])
qed

lemma interpretUnquoted_number: "interpretUnquoted (show_int i) = VNum (parse_number (show_int i))"
proof -
  have "to_lower (show_int i) \<noteq> ''null''"
  proof
    assume null: "to_lower (show_int i) = ''null''"
    then have "lower_char (hd (show_int i)) = CHR ''n''"
      by (cases "show_int i") (auto simp: to_lower_def)
    moreover have "lower_char (hd (show_int i)) = hd (show_int i)"
      using hd_show_int [of i]
      by (cases "hd (show_int i)") (auto simp: is_upper_def is_digit_def code_def)
    ultimately show False
      using hd_show_int [of i] by (auto simp: is_digit_def code_def)
  qed
  then show ?thesis
    by (simp add: interpretUnquoted_def js_trim_show_int is_sql_number_show_int)
qed

lemma interpretUnquoted_int:
  "\<bar>i\<bar> < 2 ^ 53 \<Longrightarrow> interpretUnquoted (show_int i) = VNum (Fin (of_int i))"
  by (simp add: interpretUnquoted_number parse_number_show_int)

lemma read_value_token:
  assumes "\<forall>c \<in> set tok. \<not> delimiter c" "tok \<noteq> []" "hd tok \<noteq> quote" "delimiter d"
  shows "read_value (tok @ d # rest) = Inr (interpretUnquoted tok, d # rest)"
proof -
  have "\<not> at_char quote (tok @ d # rest)"
    using assms by (cases tok) (auto simp: at_char_def)
  moreover have "takeWhile (\<lambda>c. c \<noteq> CHR '','' \<and> c \<noteq> CHR '')'') (tok @ d # rest) = tok"
    by (rule takeWhile_append_stop) (use assms in \<open>auto simp: delimiter_def\<close>)
  moreover have "dropWhile (\<lambda>c. c \<noteq> CHR '','' \<and> c \<noteq> CHR '')'') (tok @ d # rest) = d # rest"
    by (rule dropWhile_append_stop) (use assms in \<open>auto simp: delimiter_def\<close>)
  ultimately show ?thesis by (simp add: read_value_def)
qed

lemma digit_or_minus_not_delimiter: "c = CHR ''-'' \<or> is_digit c \<Longrightarrow> \<not> delimiter c \<and> c \<noteq> quote"
  by (auto simp: delimiter_def is_digit_def code_def quote_def)

lemma read_value_printed:
  assumes "printable v" "delimiter d"
  shows "read_value (print_val v @ d # rest) = Inr (v, d # rest)"
proof (cases v)
  case (VStr s)
  have "\<not> at_char quote (d # rest)"
    using assms(2) by (auto simp: delimiter_def at_char_def quote_def)
  then have "readSqlString [] (concat (map sql_escape s) @ quote # d # rest) = Inr (s, d # rest)"
    using readSqlString_printed [of "d # rest" "[]" s] by simp
  then show ?thesis
    using VStr by (simp add: read_value_def at_char_def sql_quote_def)
next
  case VNull
  have "read_value (''NULL'' @ d # rest) = Inr (interpretUnquoted ''NULL'', d # rest)"
    by (rule read_value_token) (use assms(2) in \<open>auto simp: delimiter_def quote_def\<close>)
  then show ?thesis using VNull by (simp add: interpretUnquoted_null)
next
  case (VNum n)
  then obtain q where q: "v = VNum (Fin q)" and int: "q = of_int \<lfloor>q\<rfloor>" and safe: "\<bar>\<lfloor>q\<rfloor>\<bar> < 2 ^ 53"
    using assms(1) by (cases n) auto
  have "read_value (show_int \<lfloor>q\<rfloor> @ d # rest)
      = Inr (interpretUnquoted (show_int \<lfloor>q\<rfloor>), d # rest)"
    using set_show_int hd_show_int digit_or_minus_not_delimiter assms(2)
    by (intro read_value_token) (blast, simp, metis+)
  then show ?thesis
    using q int interpretUnquoted_int [OF safe] by simp
qed (use assms in auto)

lemma print_val_start:
  "printable v \<Longrightarrow> print_val v \<noteq> [] \<and> \<not> is_ws (hd (print_val v)) \<and> hd (print_val v) \<noteq> CHR '')''"
proof (induction v rule: printable.induct)
  case (3 q)
  then show ?case
    using hd_show_int [of "\<lfloor>q\<rfloor>"] digit_not_ws
    by (auto simp: is_ws_def code_def is_digit_def)
qed (auto simp: sql_quote_def quote_def is_ws_def code_def)

lemma dropWhile_print_val:
  "printable v \<Longrightarrow> dropWhile is_ws (print_val v @ s) = print_val v @ s"
  using print_val_start by (intro dropWhile_no_head) (auto simp: hd_append)

lemma delimiter_not_ws: "delimiter d \<Longrightarrow> \<not> is_ws d"
  by (auto simp: delimiter_def is_ws_def code_def)

lemma parseTuple_step:
  assumes "printable v" "delimiter d"
  shows "parseTuple us (print_val v @ d # s) =
    (if d = CHR '','' then parseTuple (us @ [v]) s else Inr (us @ [v], s))"
proof -
  have "\<not> at_char (CHR '')'') (print_val v @ d # s)"
    using print_val_start [OF assms(1)] by (cases "print_val v") (auto simp: at_char_def)
  moreover have "dropWhile is_ws (d # s) = d # s"
    using assms(2) by (simp add: delimiter_not_ws)
  ultimately show ?thesis
    using assms dropWhile_print_val [OF assms(1), of "d # s"] read_value_printed [OF assms, of s]
      print_val_start [OF assms(1)]
    by (subst parseTuple.simps) (auto simp: Let_def delimiter_def)
qed

lemma parseTuple_printed:
  assumes "vs \<noteq> []" "\<forall>v \<in> set vs. printable v"
  shows "parseTuple us (join '','' (map print_val vs) @ CHR '')'' # s) = Inr (us @ vs, s)"
  using assms
proof (induction vs arbitrary: us)
  case (Cons v vs)
  show ?case
  proof (cases vs)
    case Nil
    then show ?thesis
      using Cons.prems parseTuple_step [of v "CHR '')''" us s] by (simp add: delimiter_def)
  next
    case (Cons w ws)
    then have "parseTuple us (join '','' (map print_val (v # vs)) @ CHR '')'' # s)
        = parseTuple (us @ [v]) (join '','' (map print_val vs) @ CHR '')'' # s)"
      using Cons.prems parseTuple_step [of v "CHR '',''" us] by (simp add: delimiter_def)
    then show ?thesis
      using Cons.IH [of "us @ [v]"] Cons.prems Cons by simp
  qed
qed simp

subsection \<open>Identifiers and column lists\<close>

lemma undouble_id: "q \<notin> set s \<Longrightarrow> undouble q s = s"
  by (induction q s rule: undouble.induct) auto

lemma ident_char_code: "ident_char c \<Longrightarrow> 48 \<le> code c \<and> (code c \<le> 57 \<or> 65 \<le> code c) \<and> code c \<noteq> 96 \<and> code c \<le> 122"
  unfolding ident_char_def is_digit_def by (elim disjE) (simp_all add: code_def)

lemma ident_char_facts:
  assumes "ident_char c"
  shows "\<not> is_ws c" "c \<noteq> CHR ''.''" "c \<noteq> CHR '',''" "c \<noteq> CHR ''(''" "c \<noteq> CHR '')''"
    "c \<noteq> bquote" "c \<noteq> dquote" "c \<noteq> quote"
proof -
  note code = ident_char_code [OF assms]
  show "\<not> is_ws c"
    using code by (auto simp: is_ws_def)
  show "c \<noteq> CHR ''.''" "c \<noteq> CHR '',''" "c \<noteq> CHR ''(''" "c \<noteq> CHR '')''"
    "c \<noteq> bquote" "c \<noteq> dquote" "c \<noteq> quote"
    using code by (auto simp: code_def bquote_def dquote_def quote_def)
qed

lemma ident_notin:
  assumes "ident s"
  shows "CHR ''.'' \<notin> set s" "CHR '','' \<notin> set s" "bquote \<notin> set s" "dquote \<notin> set s"
    "CHR '')'' \<notin> set s"
proof -
  have ic: "ident_char c" if "c \<in> set s" for c
    using assms that by (simp add: ident_def)
  show "CHR ''.'' \<notin> set s" "CHR '','' \<notin> set s" "bquote \<notin> set s" "dquote \<notin> set s"
    "CHR '')'' \<notin> set s"
    using ident_char_facts(2,3,5,6,7) [OF ic] by fast+
qed

lemma bquote_not_ws: "\<not> is_ws bquote"
  by (simp add: bquote_def is_ws_def code_def)

lemma unquoteIdent_printed:
  assumes "ident s"
  shows "unquoteIdent (print_ident s) = s"
proof -
  have trim: "js_trim (print_ident s) = print_ident s"
    by (rule js_trim_id) (simp add: print_ident_def bquote_not_ws)
  have "CHR ''.'' \<notin> set (print_ident s)"
    using ident_notin(1) [OF assms] by (simp add: print_ident_def bquote_def)
  then have "split_on (CHR ''.'') (print_ident s) = [print_ident s]"
    by (rule split_on_id)
  moreover have "enclosed bquote bquote (print_ident s)"
    by (simp add: enclosed_def print_ident_def)
  moreover have "butlast (tl (print_ident s)) = s"
    by (simp add: print_ident_def)
  ultimately show ?thesis
    using ident_notin [OF assms] by (simp add: unquoteIdent_def Let_def trim undouble_id)
qed

lemma unquoteIdent_ident:
  assumes "ident t"
  shows "unquoteIdent t = t"
proof -
  have "js_trim t = t" "split_on (CHR ''.'') t = [t]"
    using assms ident_char_facts(1) ident_notin(1) [OF assms] last_in_set hd_in_set
    by (auto simp: ident_def intro!: js_trim_id split_on_id)
  moreover have "\<not> enclosed q q t \<and> \<not> enclosed (CHR ''['') r t" if "\<not> ident_char q" for q r
  proof -
    have "\<not> ident_char (CHR ''['')" by (simp add: ident_char_def is_digit_def code_def)
    then show ?thesis
      using assms that hd_in_set unfolding ident_def enclosed_def by metis
  qed
  moreover have "\<not> ident_char bquote" "\<not> ident_char dquote" "\<not> ident_char quote"
    using ident_char_facts(6-8) by blast+
  ultimately show ?thesis
    using ident_notin [OF assms] by (simp add: unquoteIdent_def Let_def undouble_id)
qed

lemma splitColumns_printed:
  assumes "cols \<noteq> []" "\<forall>c \<in> set cols. ident c"
  shows "splitColumns (join '','' (map print_ident cols)) = cols"
proof -
  have "\<forall>s \<in> set (map print_ident cols). CHR '','' \<notin> set s"
    using assms(2) ident_notin(2) by (auto simp: print_ident_def bquote_def)
  then have "split_on (CHR '','') (join '','' (map print_ident cols)) = map print_ident cols"
    using assms(1) by (intro split_on_join) simp_all
  moreover have "map (unquoteIdent \<circ> print_ident) cols = cols"
    using assms(2) by (intro map_idI) (simp add: unquoteIdent_printed)
  moreover have "filter (\<lambda>c. 0 < length c) cols = cols"
    using assms(2) by (intro filter_True) (auto simp: ident_def)
  ultimately show ?thesis by (simp add: splitColumns_def)
qed

subsection \<open>Statements\<close>

lemma ws_space: "is_ws (CHR '' '')"
  by (simp add: is_ws_def code_def)

lemma match_insert_printed:
  assumes "ident t" "\<forall>c \<in> set cols. ident c"
  shows "match_insert (''INSERT INTO '' @ print_ident t @ '' ('' @ join '','' (map print_ident cols)
      @ '') VALUES '' @ body) = Some (print_ident t, Some (join '','' (map print_ident cols)), '' '' @ body)"
proof -
  define cs where "cs = join '','' (map print_ident cols)"
  have lower: "to_lower ''INSERT'' = ''insert''" "to_lower ''INTO'' = ''into''"
      "to_lower ''VALUES'' = ''values''"
    by (simp_all add: to_lower_def is_upper_def code_def)
  have close: "CHR '')'' \<notin> set cs"
    unfolding cs_def using assms(2)
  proof (induction "'',''" "map print_ident cols" arbitrary: cols rule: join.induct)
    case (2 x)
    then show ?case
      using ident_notin(5) by (auto simp: print_ident_def bquote_def)
  next
    case (3 x y xs)
    then obtain c cs' where cols: "cols = c # cs'" "map print_ident cs' = y # xs"
      by (cases cols) auto
    have "CHR '')'' \<notin> set (join '','' (map print_ident cs'))"
      using 3(1) [of cs'] 3(3) cols by simp
    then show ?case
      using 3(3) cols ident_notin(5) [of c] by (auto simp: print_ident_def bquote_def)
  qed simp
  define in_name where "in_name = (\<lambda>c. \<not> is_ws c \<and> c \<noteq> CHR ''('')"
  have name: "\<forall>c \<in> set (print_ident t). in_name c"
    using assms(1) ident_char_facts(1,4) bquote_not_ws
    by (auto simp: print_ident_def ident_def in_name_def bquote_def)
  have tk: "takeWhile in_name (print_ident t @ CHR '' '' # u) = print_ident t"
    and dr: "dropWhile in_name (print_ident t @ CHR '' '' # u) = CHR '' '' # u" for u
    using name ws_space by (simp_all add: takeWhile_append_stop dropWhile_append_stop in_name_def)
  have paren: "\<not> is_ws (CHR ''('')" "\<not> is_ws (CHR ''I'')" "\<not> is_ws (CHR ''V'')"
    by (simp_all add: is_ws_def code_def)
  have tk2: "takeWhile (\<lambda>c. c \<noteq> CHR '')'') (cs @ CHR '')'' # u) = cs"
    and dr2: "dropWhile (\<lambda>c. c \<noteq> CHR '')'') (cs @ CHR '')'' # u) = CHR '')'' # u" for u
    using close by (auto intro!: takeWhile_append_stop dropWhile_append_stop)
  have start: "dropWhile is_ws (print_ident t @ u) = print_ident t @ u" for u
    by (simp add: print_ident_def bquote_not_ws)
  show ?thesis
    unfolding cs_def [symmetric]
    by (simp add: match_insert_def keyword_def lower blanks1_def ws_space paren start
        in_name_def [symmetric] tk dr tk2 dr2 at_char_def values_kw_def Let_def)
      (simp add: print_ident_def)
qed

lemma skip_sep_prefix:
  "\<forall>c \<in> set pre. is_ws c \<or> c = CHR '','' \<Longrightarrow> skip_sep (pre @ s) = skip_sep s"
  by (induction pre) (auto simp: skip_sep_def)

lemma skip_sep_id: "\<not> is_ws c \<Longrightarrow> c \<noteq> CHR '','' \<Longrightarrow> skip_sep (c # s) = c # s"
  by (simp add: skip_sep_def)

definition tuple_rows :: "string list option \<Rightarrow> val list list \<Rightarrow> row list" where
  "tuple_rows keep vss =
     (case keep of None \<Rightarrow> [] | Some cols \<Rightarrow> map (\<lambda>vs. build_row cols vs []) vss)"

lemma walk_tuples_printed:
  assumes "\<forall>vs \<in> set vss. vs \<noteq> [] \<and> (\<forall>v \<in> set vs. printable v)"
    and "\<forall>c \<in> set pre. is_ws c \<or> c = CHR '',''"
  shows "walk_tuples keep PInf rows (pre @ join '','' (map print_tuple vss) @ CHR '';'' # s)
    = Walk_done (rows @ tuple_rows keep vss) s"
  using assms
proof (induction vss arbitrary: pre rows)
  case Nil
  have "skip_sep (pre @ CHR '';'' # s) = CHR '';'' # s"
    using Nil by (simp add: skip_sep_prefix skip_sep_id is_ws_def code_def)
  then show ?case
    by (simp add: walk_tuples_semicolon tuple_rows_def split: option.split)
next
  case (Cons vs vss)
  define pre' where "pre' = (if vss = [] then [] else [CHR '',''])"
  define tail where "tail = pre' @ join '','' (map print_tuple vss) @ CHR '';'' # s"
  have split: "join '','' (map print_tuple (vs # vss)) @ CHR '';'' # s
      = CHR ''('' # join '','' (map print_val vs) @ CHR '')'' # tail"
    by (cases vss) (simp_all add: print_tuple_def tail_def pre'_def)
  have skip: "skip_sep (pre @ join '','' (map print_tuple (vs # vss)) @ CHR '';'' # s)
      = CHR ''('' # join '','' (map print_val vs) @ CHR '')'' # tail"
    using Cons.prems(2) by (simp only: split) (simp add: skip_sep_prefix skip_sep_id is_ws_def code_def)
  have parse: "parseTuple [] (join '','' (map print_val vs) @ CHR '')'' # tail) = Inr (vs, tail)"
    using parseTuple_printed [of vs "[]" tail] Cons.prems(1) by simp
  have "walk_tuples keep PInf rows' tail = Walk_done (rows' @ tuple_rows keep vss) s" for rows'
    unfolding tail_def using Cons.prems(1) by (intro Cons.IH) (auto simp: pre'_def)
  then show ?case
    using walk_tuples_skip [OF skip parse] walk_tuples_keep [OF skip parse]
    by (cases keep) (simp_all add: tuple_rows_def)
qed


subsection \<open>Whole dumps\<close>

definition print_dump :: "statement list \<Rightarrow> string" where
  "print_dump sts = concat (map print_insert sts)"

text \<open>What one printed statement adds to the state of the scan.\<close>

fun scan_statement :: "string option \<Rightarrow> statement \<Rightarrow> scan \<Rightarrow> scan" where
  "scan_statement target (t, cols, vss) st =
     st\<lparr>tableNames := (if t \<in> set (tableNames st) then tableNames st else tableNames st @ [t]),
        scan_rows := scan_rows st @
          (if target = Some t then map (\<lambda>vs. build_row cols vs []) vss else []),
        targetHadColumns := (target = Some t \<or> targetHadColumns st)\<rparr>"

lemma exec_insert_newline: "exec_insert (CHR 0x0A # s) = exec_insert s"
proof -
  have "to_lower (take (length ''insert'') (CHR 0x0A # s)) \<noteq> ''insert''"
    by (simp add: to_lower_def is_upper_def code_def)
  then show ?thesis
    by (simp add: match_insert_def keyword_def)
qed

lemma exec_insert_match: "match_insert s = Some m \<Longrightarrow> exec_insert s = Some m"
  by (cases s) (simp_all add: match_insert_def keyword_def to_lower_def)

lemma exec_insert_printed:
  assumes "ident t" "\<forall>c \<in> set cols. ident c"
  shows "exec_insert (print_insert (t, cols, vss) @ s) =
    Some (print_ident t, Some (join '','' (map print_ident cols)),
      '' '' @ join '','' (map print_tuple vss) @ CHR '';'' # CHR 0x0A # s)"
proof -
  define body where "body = join '','' (map print_tuple vss) @ CHR '';'' # CHR 0x0A # s"
  have "print_insert (t, cols, vss) @ s = ''INSERT INTO '' @ print_ident t @ '' ('' @
      join '','' (map print_ident cols) @ '') VALUES '' @ body"
    by (simp add: body_def)
  then show ?thesis
    unfolding body_def [symmetric]
    using exec_insert_match [OF match_insert_printed [OF assms, of body]] by (simp only:)
qed

lemma scan_loop_printed:
  assumes "\<forall>x \<in> set sts. statement_ok x" "\<not> exceeded st" "pre = [] \<or> pre = [CHR 0x0A]"
  shows "scan_loop target PInf st (pre @ print_dump sts) = Inr (fold (scan_statement target) sts st)"
  using assms
proof (induction sts arbitrary: st pre)
  case Nil
  then show ?case
    by (subst scan_loop.simps) (auto simp: print_dump_def exec_insert_newline simp del: exec_insert.simps(2))
next
  case (Cons x sts)
  obtain t cols vss where x: "x = (t, cols, vss)" by (cases x)
  have ok: "ident t" "\<forall>c \<in> set cols. ident c" "cols \<noteq> []"
      "\<forall>vs \<in> set vss. vs \<noteq> [] \<and> (\<forall>v \<in> set vs. printable v)"
    using Cons.prems(1) x by auto
  define body where "body = join '','' (map print_tuple vss) @ CHR '';'' # CHR 0x0A # print_dump sts"
  have exec: "exec_insert (pre @ print_dump (x # sts)) =
      Some (print_ident t, Some (join '','' (map print_ident cols)), '' '' @ body)"
    using exec_insert_printed [OF ok(1,2), of vss "print_dump sts"] Cons.prems(3)
    by (auto simp: print_dump_def x exec_insert_newline body_def
        simp del: print_insert.simps exec_insert.simps(2))
  have walk: "walk_tuples keep PInf rows ('' '' @ body) =
      Walk_done (rows @ tuple_rows keep vss) (CHR 0x0A # print_dump sts)" for keep rows
    unfolding body_def using ok(4) by (intro walk_tuples_printed) (auto simp: ws_space)
  have ih: "scan_loop target PInf st' ([CHR 0x0A] @ print_dump sts)
      = Inr (fold (scan_statement target) sts st')" if "\<not> exceeded st'" for st'
    using Cons.prems(1) that by (intro Cons.IH) auto
  show ?case
    using Cons.prems(2) ok ih
    by (subst scan_loop.simps, cases st)
      (simp add: exec [unfolded x] walk [simplified] x unquoteIdent_printed splitColumns_printed tuple_rows_def Let_def)
qed

lemma fold_scan_statement:
  "exceeded (fold (scan_statement target) sts st) = exceeded st"
  "set (tableNames (fold (scan_statement target) sts st)) = set (tableNames st) \<union> fst ` set sts"
  "targetHadColumns (fold (scan_statement target) sts st) =
     (targetHadColumns st \<or> target \<in> Some ` fst ` set sts)"
  "scan_rows (fold (scan_statement target) sts st) = scan_rows st @
     concat (map (\<lambda>(t, cols, vss). if target = Some t then map (\<lambda>vs. build_row cols vs []) vss else []) sts)"
  by (induction sts arbitrary: st) (auto simp: image_iff split: if_splits)

definition rows_of :: "string \<Rightarrow> statement list \<Rightarrow> row list" where
  "rows_of t sts = concat (map (\<lambda>(t', cols, vss).
     if t' = t then map (\<lambda>vs. build_row cols vs []) vss else []) sts)"

lemma extractSqlTable_printed:
  assumes "\<forall>x \<in> set sts. statement_ok x" and "t \<in> fst ` set sts"
  shows "extractSqlTable (print_dump sts) (Some t) PInf =
    Inr \<lparr>t_tableName = t, t_rows = rows_of t sts, t_exceeded = False\<rparr>"
proof -
  define final where "final = (\<lambda>target. fold (scan_statement target) sts
      \<lparr>tableNames = [], scan_rows = [], targetHadColumns = False, exceeded = False\<rparr>)"
  have final: "\<not> exceeded (final target)" "set (tableNames (final target)) = fst ` set sts"
      "targetHadColumns (final target) \<longleftrightarrow> target \<in> Some ` fst ` set sts"
      "scan_rows (final target) = concat (map (\<lambda>(t, cols, vss).
         if target = Some t then map (\<lambda>vs. build_row cols vs []) vss else []) sts)" for target
    by (simp_all only: final_def fold_scan_statement) simp_all
  have scan: "scanSqlDump target PInf (print_dump sts) = Inr (final target)" for target
    using scan_loop_printed [OF assms(1), of _ "[]"] by (simp add: scanSqlDump_def final_def)
  have id: "ident t"
    using assms by fastforce
  have "choose_table (Some t) (tableNames (final None)) = Inr t"
    using final(2) [of None] unquoteIdent_ident [OF id] id assms(2)
    by (cases "tableNames (final None)"; cases t) (auto simp: choose_table_def ident_def)
  moreover have "targetHadColumns (final (Some t))"
    using assms(2) by (force simp: final(3))
  moreover have "scan_rows (final (Some t)) = rows_of t sts"
    by (simp add: final(4) rows_of_def eq_commute cong: if_cong)
  ultimately show ?thesis
    by (simp add: extractSqlTable_def listSqlTables_def scan final(1))
qed

text \<open>
  C1. The rows of one table survive a dump and its parse: printing any list of INSERT statements
  that name their columns (over any number of tables, interleaved in any order, with quotes,
  semicolons, parentheses, commas and newlines inside the literals) and extracting one of the
  tables returns exactly that table's rows, in order, each with its columns' values.
\<close>

theorem extractSqlTable_roundtrip:
  assumes "\<forall>x \<in> set sts. statement_ok x" and "t \<in> fst ` set sts"
  shows "extractSqlTable (print_dump sts) (Some t) PInf =
    Inr \<lparr>t_tableName = t, t_rows = rows_of t sts, t_exceeded = False\<rparr>"
  using assms by (rule extractSqlTable_printed)

definition demo_dump :: "statement list" where
  "demo_dump = [(''a'', [''x''], [[VStr [quote, CHR '';'']], [VNull]]), (''b'', [''y''], [[VStr '')'']])]"

lemma demo_dump_ok: "\<forall>x \<in> set demo_dump. statement_ok x" "''a'' \<in> fst ` set demo_dump"
  by (auto simp: demo_dump_def ident_def ident_char_def code_def)

theorem extractSqlTable_roundtrip_witness:
  "extractSqlTable (print_dump demo_dump) (Some ''a'') PInf
   = Inr \<lparr>t_tableName = ''a'', t_rows = rows_of ''a'' demo_dump, t_exceeded = False\<rparr>"
  by (rule extractSqlTable_roundtrip) (rule demo_dump_ok)+

subsection \<open>Rows\<close>

lemma build_row_other:
  "k \<notin> set cols \<Longrightarrow> map_of (build_row cols vs r) k = map_of r k"
proof (induction cols vs r rule: build_row.induct)
  case (2 col cols vs r)
  then show ?case by (cases "col = ''__proto__''") (simp add: oset_def, simp)
qed simp

lemma build_row_lookup:
  "distinct cols \<Longrightarrow> i < length cols \<Longrightarrow> cols ! i \<noteq> ''__proto__'' \<Longrightarrow>
   map_of (build_row cols vs r) (cols ! i) = Some (if i < length vs then vs ! i else VNull)"
proof (induction cols vs r arbitrary: i rule: build_row.induct)
  case (2 col cols vs r)
  show ?case
  proof (cases i)
    case 0
    then show ?thesis
      using 2(2,4) by (cases vs) (simp_all add: build_row_other)
  next
    case (Suc j)
    then show ?thesis
      using 2 by (cases vs) simp_all
  qed
qed simp

text \<open>
  Within one INSERT with distinct column names, every column of the resulting row holds the
  value at its position, and null when the tuple is too short: no value is shifted, dropped or
  attributed to another column.
\<close>

lemma build_row_columns:
  assumes "distinct cols" "i < length cols" "cols ! i \<noteq> ''__proto__''"
  shows "oget (build_row cols vs []) (cols ! i) = Some (if i < length vs then vs ! i else VNull)"
  using assms by (rule build_row_lookup)

theorem build_row_columns_witness:
  "oget (build_row [''a'', ''b''] [VNull, VBool True] []) ([''a'', ''b''] ! 1)
     = Some (if 1 < length [VNull, VBool True] then [VNull, VBool True] ! 1 else VNull)"
  by (rule build_row_columns) simp_all

subsection \<open>The row ceiling\<close>

lemma num_gt_Fin_nat [simp]:
  "num_gt (Fin (of_nat m)) (Fin (of_nat n)) \<longleftrightarrow> n < m" "\<not> num_gt (Fin q) PInf"
  by simp_all

lemma walk_tuples_PInf:
  "walk_tuples cols PInf rows s \<noteq> Walk_exceeded"
  by (induction s arbitrary: rows rule: walk_induct)
    (cases cols; simp add: walk_tuples_eqs del: of_nat_Suc)+

lemma walk_tuples_grows:
  "walk_tuples cols limit rows s = Walk_done rows' rest \<Longrightarrow> length rows \<le> length rows'"
proof (induction s arbitrary: rows rule: walk_induct)
  case (tuple s s2 us rest)
  then show ?case
    by (cases cols) (fastforce simp: walk_tuples_eqs split: if_splits)+
qed (simp_all add: walk_tuples_eqs)

lemma walk_tuples_bound:
  "walk_tuples cols (Fin (of_nat n)) rows s = Walk_done rows' rest \<Longrightarrow> length rows \<le> n \<Longrightarrow>
   length rows' \<le> n"
proof (induction s arbitrary: rows rule: walk_induct)
  case (tuple s s2 us rest)
  then show ?case
    by (cases cols) (fastforce simp: walk_tuples_eqs simp del: of_nat_Suc split: if_splits)+
qed (simp_all add: walk_tuples_eqs)

lemma walk_tuples_limited:
  "walk_tuples cols PInf rows s = Walk_done rows' rest \<Longrightarrow> length rows \<le> n \<Longrightarrow>
   walk_tuples cols (Fin (of_nat n)) rows s =
     (if length rows' \<le> n then Walk_done rows' rest else Walk_exceeded)"
proof (induction s arbitrary: rows rule: walk_induct)
  case (tuple s s2 us next')
  show ?case
  proof (cases cols)
    case None
    then show ?thesis using tuple by (simp add: walk_tuples_eqs)
  next
    case (Some columns)
    let ?rows = "rows @ [build_row columns us []]"
    have more: "walk_tuples cols PInf ?rows next' = Walk_done rows' rest"
      using tuple.prems(1) Some tuple.hyps(1,2) by (simp add: walk_tuples_eqs del: of_nat_Suc)
    show ?thesis
    proof (cases "length ?rows \<le> n")
      case True
      then show ?thesis
        using tuple.IH [OF more True] Some tuple.hyps(1,2)
        by (simp add: walk_tuples_eqs del: of_nat_Suc)
    next
      case False
      then show ?thesis
        using walk_tuples_grows [OF more] Some tuple.hyps(1,2)
        by (simp add: walk_tuples_eqs del: of_nat_Suc)
    qed
  qed
next
  case (stop s c s2)
  then show ?case by (simp add: walk_tuples_stop [OF stop(1-3)] split: if_splits)
qed (auto simp: walk_tuples_eqs)


text \<open>One pass of the scan loop, with the statement it reads named.\<close>

definition keeps :: "string option \<Rightarrow> string \<Rightarrow> string option \<Rightarrow> string list option" where
  "keeps target m1 m2 =
     (if target = Some (unquoteIdent m1) \<and> map_option splitColumns m2 \<noteq> Some []
      then map_option splitColumns m2 else None)"

definition note_statement :: "string option \<Rightarrow> string \<Rightarrow> string option \<Rightarrow> row list \<Rightarrow> bool \<Rightarrow> scan \<Rightarrow> scan" where
  "note_statement target m1 m2 rows over st =
     \<lparr>tableNames = (if unquoteIdent m1 \<in> set (tableNames st) then tableNames st
                    else tableNames st @ [unquoteIdent m1]),
      scan_rows = rows,
      targetHadColumns = (if target = Some (unquoteIdent m1)
         then m2 \<noteq> None \<and> map_option splitColumns m2 \<noteq> Some [] else targetHadColumns st),
      exceeded = over\<rparr>"

lemma scan_loop_step:
  "scan_loop target limit st sql =
     (case exec_insert sql of
        None \<Rightarrow> Inr st
      | Some (m1, m2, rest) \<Rightarrow>
          (case walk_tuples (keeps target m1 m2) limit (scan_rows st) rest of
             Walk_error e \<Rightarrow> Inl e
           | Walk_exceeded \<Rightarrow> Inr (note_statement target m1 m2 [] True st)
           | Walk_done rows s' \<Rightarrow>
               scan_loop target limit (note_statement target m1 m2 rows False st) s'))"
  by (subst scan_loop.simps)
    (auto simp: keeps_def note_statement_def Let_def split: option.split walk_result.split)

lemma note_statement_simps [simp]:
  "scan_rows (note_statement target m1 m2 rows over st) = rows"
  "exceeded (note_statement target m1 m2 rows over st) = over"
  by (simp_all add: note_statement_def)

lemma scan_loop_bound:
  "scan_loop target (Fin (of_nat n)) st sql = Inr st' \<Longrightarrow> length (scan_rows st) \<le> n \<Longrightarrow>
   length (scan_rows st') \<le> n"
proof (induction sql arbitrary: st rule: length_induct)
  case (1 sql)
  show ?case
  proof (cases "exec_insert sql")
    case None
    then show ?thesis using 1 by (simp add: scan_loop_step [of _ _ _ sql])
  next
    case (Some m)
    obtain m1 m2 rest where m: "m = (m1, m2, rest)" by (cases m)
    note eq = scan_loop_step [of target "Fin (of_nat n)" st sql, unfolded Some m, simplified]
    show ?thesis
    proof (cases "walk_tuples (keeps target m1 m2) (Fin (of_nat n)) (scan_rows st) rest")
      case (Walk_done rows s')
      have "length s' < length sql"
        using walk_tuples_shorter [OF Walk_done] exec_insert_shorter [of sql m1 m2 rest] Some m by simp
      then show ?thesis
        using 1 eq walk_tuples_bound [OF Walk_done 1(3)] Walk_done by auto
    qed (use 1 eq in auto)
  qed
qed

lemma scan_loop_unlimited:
  assumes "scan_loop target PInf st sql = Inr st'" "\<not> exceeded st"
  shows "\<not> exceeded st' \<and> length (scan_rows st) \<le> length (scan_rows st')"
  using assms
proof (induction sql arbitrary: st rule: length_induct)
  case (1 sql)
  show ?case
  proof (cases "exec_insert sql")
    case None
    then show ?thesis using 1 by (simp add: scan_loop_step [of _ _ _ sql])
  next
    case (Some m)
    obtain m1 m2 rest where m: "m = (m1, m2, rest)" by (cases m)
    note eq = scan_loop_step [of target PInf st sql, unfolded Some m, simplified]
    obtain rows s' where walk: "walk_tuples (keeps target m1 m2) PInf (scan_rows st) rest = Walk_done rows s'"
      using 1(2) eq walk_tuples_PInf [of "keeps target m1 m2" "scan_rows st" rest]
      by (cases "walk_tuples (keeps target m1 m2) PInf (scan_rows st) rest") auto
    have "length s' < length sql"
      using walk_tuples_shorter [OF walk] exec_insert_shorter [of sql m1 m2 rest] Some m by simp
    moreover have "scan_loop target PInf (note_statement target m1 m2 rows False st) s' = Inr st'"
      using 1(2) eq walk by simp
    ultimately show ?thesis
      using 1(1) walk_tuples_grows [OF walk] by fastforce
  qed
qed

lemma scan_loop_limited:
  assumes "scan_loop target PInf st sql = Inr st'" "length (scan_rows st) \<le> n" "\<not> exceeded st"
  shows "\<not> exceeded st' \<and> length (scan_rows st) \<le> length (scan_rows st') \<and>
    (if length (scan_rows st') \<le> n then scan_loop target (Fin (of_nat n)) st sql = Inr st'
     else \<exists>st''. scan_loop target (Fin (of_nat n)) st sql = Inr st'' \<and> exceeded st'')"
  using assms
proof (induction sql arbitrary: st rule: length_induct)
  case (1 sql)
  show ?case
  proof (cases "exec_insert sql")
    case None
    then show ?thesis using 1 by (simp add: scan_loop_step [of _ _ _ sql])
  next
    case (Some m)
    obtain m1 m2 rest where m: "m = (m1, m2, rest)" by (cases m)
    note eq = scan_loop_step [of target _ st sql, unfolded Some m, simplified]
    obtain rows s' where walk: "walk_tuples (keeps target m1 m2) PInf (scan_rows st) rest = Walk_done rows s'"
      using 1(2) eq [of PInf] walk_tuples_PInf [of "keeps target m1 m2" "scan_rows st" rest]
      by (cases "walk_tuples (keeps target m1 m2) PInf (scan_rows st) rest") auto
    have short: "length s' < length sql"
      using walk_tuples_shorter [OF walk] exec_insert_shorter [of sql m1 m2 rest] Some m by simp
    let ?st = "note_statement target m1 m2 rows False st"
    have more: "scan_loop target PInf ?st s' = Inr st'"
      using 1(2) eq [of PInf] walk by simp
    note limited = walk_tuples_limited [OF walk 1(3)]
    note ih = 1(1) [rule_format, OF short more]
    show ?thesis
    proof (cases "length rows \<le> n")
      case True
      then show ?thesis
        using ih limited eq [of "Fin (of_nat n)"] walk_tuples_grows [OF walk] by simp
    next
      case False
      have "\<not> exceeded st' \<and> length rows \<le> length (scan_rows st')"
        using scan_loop_unlimited [OF more] by simp
      then show ?thesis
        using False limited eq [of "Fin (of_nat n)"] walk_tuples_grows [OF walk] by simp
    qed
  qed
qed


lemma extractSqlTable_limited:
  assumes "extractSqlTable sql sqlTable PInf = Inr T"
  shows "extractSqlTable sql sqlTable (Fin (of_nat n)) =
    Inr (if length (t_rows T) \<le> n then T else T\<lparr>t_rows := [], t_exceeded := True\<rparr>)"
proof -
  let ?init = "\<lparr>tableNames = [], scan_rows = [], targetHadColumns = False, exceeded = False\<rparr>"
  obtain names tableName st where names: "listSqlTables sql = Inr names"
      "choose_table sqlTable names = Inr tableName"
    and scan: "scan_loop (Some tableName) PInf ?init sql = Inr st"
    and T: "exceeded st \<or> targetHadColumns st" "T = \<lparr>t_tableName = tableName,
        t_rows = (if exceeded st then [] else scan_rows st), t_exceeded = exceeded st\<rparr>"
    using assms
    by (auto simp: extractSqlTable_def scanSqlDump_def split: sum.splits if_splits)
  show ?thesis
    using scan_loop_limited [OF scan, of n] names T
    by (auto simp: extractSqlTable_def scanSqlDump_def split: if_splits)
qed

lemma demo_dump_rows: "length (rows_of ''a'' demo_dump) = 2"
  by (simp add: demo_dump_def rows_of_def)

lemma extractSqlTable_within_or_none:
  assumes "extractSqlTable sql sqlTable (Fin (of_nat n)) = Inr T"
  shows "length (t_rows T) \<le> n \<and> (t_exceeded T \<longrightarrow> t_rows T = [])"
proof -
  obtain st tableName where
    "scan_loop (Some tableName) (Fin (of_nat n))
       \<lparr>tableNames = [], scan_rows = [], targetHadColumns = False, exceeded = False\<rparr> sql = Inr st"
    and "t_rows T = (if exceeded st then [] else scan_rows st)" "t_exceeded T = exceeded st"
    using assms
    by (auto simp: extractSqlTable_def scanSqlDump_def split: sum.splits if_splits)
  then show ?thesis
    using scan_loop_bound by fastforce
qed

lemma extractSqlTable_within:
  "extractSqlTable sql sqlTable (Fin (of_nat n)) = Inr T \<Longrightarrow> length (t_rows T) \<le> n"
  using extractSqlTable_within_or_none by blast

lemma extractSqlTable_unlimited: "extractSqlTable sql sqlTable PInf = Inr T \<Longrightarrow> \<not> t_exceeded T"
  using extractSqlTable_limited [of sql sqlTable T "length (t_rows T)"] scan_loop_unlimited
  by (fastforce simp: extractSqlTable_def scanSqlDump_def split: sum.splits if_splits)

text \<open>
  Extraction never returns more rows than its ceiling, whatever the text: past the ceiling it
  reports the overflow and returns no rows at all, so memory is bounded by the tier's limit.
\<close>

lemma extractSqlTable_bounded:
  assumes "extractSqlTable sql sqlTable (Fin (of_nat n)) = Inr T"
  shows "length (t_rows T) \<le> n \<and> (t_exceeded T \<longrightarrow> t_rows T = [])"
  using assms by (rule extractSqlTable_within_or_none)

theorem extractSqlTable_bounded_witness:
  "length (rows_of ''a'' demo_dump) \<le> 2"
  using extractSqlTable_bounded [of "print_dump demo_dump" "Some ''a''" 2
      "\<lparr>t_tableName = ''a'', t_rows = rows_of ''a'' demo_dump, t_exceeded = False\<rparr>"]
    extractSqlTable_limited [OF extractSqlTable_printed [OF demo_dump_ok], of 2] demo_dump_rows
  by simp

text \<open>
  C2. The ceiling changes nothing else: a dump that extracts without a ceiling gives the same table
  under one it fits into, and the overflow answer exactly when it has more rows.
\<close>

theorem extractSqlTable_ceiling:
  assumes "extractSqlTable sql sqlTable PInf = Inr T"
  shows "extractSqlTable sql sqlTable (Fin (of_nat n)) =
    Inr (if length (t_rows T) \<le> n then T else T\<lparr>t_rows := [], t_exceeded := True\<rparr>)"
  using assms by (rule extractSqlTable_limited)

theorem extractSqlTable_ceiling_witness:
  "extractSqlTable (print_dump demo_dump) (Some ''a'') (Fin (of_nat 1)) =
     Inr \<lparr>t_tableName = ''a'', t_rows = [], t_exceeded = True\<rparr>"
  using extractSqlTable_ceiling [OF extractSqlTable_printed [OF demo_dump_ok], of 1] demo_dump_rows
  by simp

text \<open>
  Unquoted integers of a dump are read exactly as long as they are below two to the 53.
\<close>

lemma interpretUnquoted_safe_integer:
  assumes "\<bar>i\<bar> < 2 ^ 53"
  shows "interpretUnquoted (show_int i) = VNum (Fin (of_int i))"
  using assms by (rule interpretUnquoted_int)

theorem interpretUnquoted_safe_integer_witness:
  "interpretUnquoted (show_int (-9007199254740991)) = VNum (Fin (of_int (-9007199254740991)))"
  by (rule interpretUnquoted_safe_integer) simp

text \<open>
  Beyond that bound two different BIGINT keys of a dump become the same value.
\<close>

lemma interpretUnquoted_bigint_collision:
  "interpretUnquoted (show_int 9007199254740993) = VNum (Fin 9007199254740992)
   \<and> interpretUnquoted (show_int 9007199254740992) = VNum (Fin 9007199254740992)"
  by (simp add: interpretUnquoted_number) (simp add: show_int_def parse_number_show_nat rnd64_above_safe del: One_nat_def)

subsection \<open>Statements without a column list\<close>

definition print_bare :: "string \<Rightarrow> val list list \<Rightarrow> string" where
  "print_bare t vss =
     ''INSERT INTO '' @ print_ident t @ '' VALUES '' @ join '','' (map print_tuple vss) @ '';'' @ [CHR 0x0A]"

lemma match_insert_bare:
  assumes "ident t"
  shows "match_insert (''INSERT INTO '' @ print_ident t @ '' VALUES '' @ body)
    = Some (print_ident t, None, '' '' @ body)"
proof -
  have lower: "to_lower ''INSERT'' = ''insert''" "to_lower ''INTO'' = ''into''"
      "to_lower ''VALUES'' = ''values''"
    by (simp_all add: to_lower_def is_upper_def code_def)
  define in_name where "in_name = (\<lambda>c. \<not> is_ws c \<and> c \<noteq> CHR ''('')"
  have name: "\<forall>c \<in> set (print_ident t). in_name c"
    using assms ident_char_facts(1,4) bquote_not_ws
    by (auto simp: print_ident_def ident_def in_name_def bquote_def)
  have tk: "takeWhile in_name (print_ident t @ CHR '' '' # u) = print_ident t"
    and dr: "dropWhile in_name (print_ident t @ CHR '' '' # u) = CHR '' '' # u" for u
    using name ws_space by (simp_all add: takeWhile_append_stop dropWhile_append_stop in_name_def)
  have start: "dropWhile is_ws (print_ident t @ u) = print_ident t @ u" for u
    by (simp add: print_ident_def bquote_not_ws)
  have letters: "\<not> is_ws (CHR ''I'')" "\<not> is_ws (CHR ''V'')"
    by (simp_all add: is_ws_def code_def)
  show ?thesis
    by (simp add: match_insert_def keyword_def lower blanks1_def ws_space letters start
        in_name_def [symmetric] tk dr at_char_def values_kw_def Let_def)
      (simp add: print_ident_def)
qed

text \<open>
  C3. The rows of a statement without column names are dropped, and the import goes on with the
  rest, as soon as a later statement for the same table names its columns: the refusal the code
  promises for such dumps only happens when the last statement for the table is the bare one.
\<close>

theorem extractSqlTable_mixed_drops_rows:
  assumes "ident t" "\<forall>vs \<in> set vss. vs \<noteq> [] \<and> (\<forall>v \<in> set vs. printable v)"
    and "\<forall>x \<in> set sts. statement_ok x" "t \<in> fst ` set sts"
  shows "extractSqlTable (print_bare t vss @ print_dump sts) (Some t) PInf =
    extractSqlTable (print_dump sts) (Some t) PInf"
proof -
  define body where "body = join '','' (map print_tuple vss) @ CHR '';'' # CHR 0x0A # print_dump sts"
  have exec: "exec_insert (print_bare t vss @ print_dump sts) = Some (print_ident t, None, '' '' @ body)"
    using exec_insert_match [OF match_insert_bare [OF assms(1), of body]]
    by (simp add: print_bare_def body_def del: exec_insert.simps)
  have walk: "walk_tuples None PInf [] ('' '' @ body) = Walk_done [] (CHR 0x0A # print_dump sts)"
    using walk_tuples_printed [of vss "'' ''" None "[]" "CHR 0x0A # print_dump sts"] assms(2)
    by (simp add: body_def tuple_rows_def ws_space)
  let ?init = "\<lparr>tableNames = [], scan_rows = [], targetHadColumns = False, exceeded = False\<rparr>"
  have bare: "scanSqlDump target PInf (print_bare t vss @ print_dump sts)
      = Inr (fold (scan_statement target) sts (?init\<lparr>tableNames := [t]\<rparr>))" for target
    using scan_loop_printed [OF assms(3), of "?init\<lparr>tableNames := [t]\<rparr>" "[CHR 0x0A]" target]
      walk exec assms(1)
    by (cases "target = Some t") (simp_all add: scanSqlDump_def scan_loop_step [of _ _ ?init]
        keeps_def note_statement_def unquoteIdent_printed)
  define final where "final = (\<lambda>target. fold (scan_statement target) sts (?init\<lparr>tableNames := [t]\<rparr>))"
  have bare: "scanSqlDump target PInf (print_bare t vss @ print_dump sts) = Inr (final target)" for target
    by (simp only: bare final_def)
  have final: "\<not> exceeded (final target)" "set (tableNames (final target)) = insert t (fst ` set sts)"
      "targetHadColumns (final target) \<longleftrightarrow> target \<in> Some ` fst ` set sts"
      "scan_rows (final target) = concat (map (\<lambda>(t, cols, vss).
         if target = Some t then map (\<lambda>vs. build_row cols vs []) vss else []) sts)" for target
    by (simp_all only: final_def fold_scan_statement) simp_all
  have "choose_table (Some t) (tableNames (final None)) = Inr t"
    using final(2) [of None] unquoteIdent_ident [OF assms(1)] assms(1)
    by (cases "tableNames (final None)"; cases t) (auto simp: choose_table_def ident_def)
  moreover have "targetHadColumns (final (Some t))"
    using assms(4) by (force simp: final(3))
  moreover have "scan_rows (final (Some t)) = rows_of t sts"
    by (simp add: final(4) rows_of_def eq_commute cong: if_cong)
  ultimately have "extractSqlTable (print_bare t vss @ print_dump sts) (Some t) PInf =
      Inr \<lparr>t_tableName = t, t_rows = rows_of t sts, t_exceeded = False\<rparr>"
    by (simp add: extractSqlTable_def listSqlTables_def bare final(1))
  then show ?thesis
    using extractSqlTable_printed [OF assms(3,4)] by simp
qed

theorem extractSqlTable_mixed_drops_rows_witness:
  "extractSqlTable (print_bare ''a'' [[VStr ''lost'']] @ print_dump demo_dump) (Some ''a'') PInf =
   extractSqlTable (print_dump demo_dump) (Some ''a'') PInf"
  by (rule extractSqlTable_mixed_drops_rows [OF _ _ demo_dump_ok])
    (auto simp: ident_def ident_char_def code_def)

end
