(* ===== verification/Registry.thy ===== *)
theory Registry
  imports JsValue
begin

text \<open>
  registry/registerTarget.js, the registry of target descriptors, and the value coercion of
  registry/importTargetRegistry.service.js. The registry is a \<open>Map\<close>, kept as the list of
  its entries in insertion order. A descriptor's functions belong to the code that registers
  it: they are fields of the record that holds it, over a type \<open>'w\<close> of database states.
\<close>

subsection \<open>Descriptors\<close>

record field =
  f_key :: string
  f_label :: string
  f_type :: string
  f_required :: bool
  f_aliases :: "string list option"
  f_enum :: "val list option"

text \<open>What a descriptor's function may throw, and the driver errors the commit engine inspects.\<close>

record db_error =
  e_code :: "nat option"
  e_message :: string

text \<open>\<open>resolveReferences\<close> returns a \<open>Map\<close> from values to documents for each field key.\<close>

type_synonym lookups = "(string \<times> (val \<times> val) list) list"

record 'w target =
  d_namespace :: string
  d_entityKey :: string
  d_label :: string
  d_icon :: "string option"
  d_destination :: "string option"
  d_fields :: "field list"
  d_identityField :: string
  d_dependencies :: "string list option"
  d_commitInTransaction :: bool
  d_referenceFields :: "string list option"
  d_resolveReferences ::
    "(id \<Rightarrow> (string \<times> val list) list \<Rightarrow> 'w \<Rightarrow> db_error + lookups) option"
  d_findExistingIdentities :: "(id \<Rightarrow> val list \<Rightarrow> 'w \<Rightarrow> db_error + val list) option"
  d_commitRow :: "id \<Rightarrow> obj option \<Rightarrow> id option \<Rightarrow> 'w \<Rightarrow> (db_error + (id \<times> string)) \<times> 'w"

datatype registry_error =
    MissingKeys string string
  | AlreadyRegistered string
  | NoDescriptor string string "string list"

subsection \<open>The registry\<close>

type_synonym 'w registry = "(string \<times> 'w target) list"

definition registry_key :: "string \<Rightarrow> string \<Rightarrow> string" where
  "registry_key ns ek = ns @ '':'' @ ek"

definition registerTarget :: "'w target \<Rightarrow> 'w registry \<Rightarrow> registry_error err + 'w registry" where
  "registerTarget descriptor reg =
     (if d_namespace descriptor = [] \<or> d_entityKey descriptor = []
      then Inl (Err None (MissingKeys (d_namespace descriptor) (d_entityKey descriptor)))
      else let key = registry_key (d_namespace descriptor) (d_entityKey descriptor) in
        if key \<in> set (akeys reg) then Inl (Err None (AlreadyRegistered key))
        else Inr (reg @ [(key, descriptor)]))"

definition listAllKeys :: "'w registry \<Rightarrow> string list" where
  "listAllKeys reg = akeys reg"

definition getTargetDescriptor ::
  "string \<Rightarrow> string \<Rightarrow> 'w registry \<Rightarrow> registry_error err + 'w target" where
  "getTargetDescriptor ns ek reg =
     (case map_of reg (registry_key ns ek) of
        None \<Rightarrow> Inl (Err (Some 400) (NoDescriptor ns ek (listAllKeys reg)))
      | Some descriptor \<Rightarrow> Inr descriptor)"

definition listTargetModules :: "'w registry \<Rightarrow> string list" where
  "listTargetModules reg = uniq (map (\<lambda>key. hd (split_on (CHR '':'') key)) (akeys reg))"

record entity =
  ent_entityKey :: string
  ent_label :: string
  ent_icon :: "string option"
  ent_destination :: "string option"
  ent_fields :: "field list"

definition listTargetEntities :: "string \<Rightarrow> 'w registry \<Rightarrow> entity list" where
  "listTargetEntities ns reg =
     concat (map (\<lambda>(key, descriptor).
       (case split_on (CHR '':'') key of
          n # ek # _ \<Rightarrow>
            if n = ns then
              [\<lparr>ent_entityKey = ek, ent_label = d_label descriptor, ent_icon = d_icon descriptor,
                ent_destination = d_destination descriptor, ent_fields = d_fields descriptor\<rparr>]
            else []
        | _ \<Rightarrow> [])) reg)"

definition resetRegistry :: "'w registry \<Rightarrow> 'w registry" where
  "resetRegistry reg = []"

definition MODULE_LABELS :: "(string \<times> string) list" where
  "MODULE_LABELS =
     [(''shared'', ''Organization''), (''hr'', ''HR''), (''businessops'', ''Marketplace''),
      (''communication'', ''Communication''), (''finance'', ''Finance'')]"

subsection \<open>Value coercion\<close>

datatype coerce_error = NotANumber string val | NotADate string val

definition is_true_word :: "string \<Rightarrow> bool" where
  "is_true_word s \<longleftrightarrow> to_lower s \<in> {''true'', ''1'', ''yes'', ''y''}"

text \<open>\<open>VNull\<close> is the \<open>null\<close> the function returns for an empty value.\<close>

definition coerceFieldValue ::
  "js_env \<Rightarrow> string \<Rightarrow> val \<Rightarrow> string \<Rightarrow> coerce_error err + val" where
  "coerceFieldValue env type rawValue fieldLabel =
     (if rawValue = VNull \<or> rawValue = VStr [] then Inr VNull
      else if type = ''number'' then
        (let n = to_number env rawValue in
         if is_finite n then Inr (VNum n) else Inl (Err (Some 400) (NotANumber fieldLabel rawValue)))
      else if type = ''date'' then
        (case to_date env rawValue of
           None \<Rightarrow> Inl (Err (Some 400) (NotADate fieldLabel rawValue))
         | Some d \<Rightarrow> Inr (VDate d))
      else if type = ''boolean'' then
        (case rawValue of
           VBool b \<Rightarrow> Inr (VBool b)
         | _ \<Rightarrow> Inr (VBool (is_true_word (js_str env rawValue))))
      else Inr (VStr (js_trim (js_str env rawValue))))"

text \<open>The values a field of a given type may hold after coercion.\<close>

definition has_type :: "string \<Rightarrow> val \<Rightarrow> bool" where
  "has_type type v =
     (if type = ''number'' then (\<exists>n. v = VNum n \<and> is_finite n)
      else if type = ''date'' then (\<exists>d. v = VDate d)
      else if type = ''boolean'' then (\<exists>b. v = VBool b)
      else (\<exists>s. v = VStr s \<and> js_trim s = s))"

lemma coerceFieldValue_has_type:
  "coerceFieldValue env type v l = Inr w \<Longrightarrow> w = VNull \<or> has_type type w"
  by (auto simp: coerceFieldValue_def has_type_def Let_def split: if_splits option.splits val.splits)

lemma coerceFieldValue_typed:
  "has_type type w \<Longrightarrow> w \<noteq> VStr [] \<Longrightarrow> coerceFieldValue env type w l = Inr w"
  by (auto simp: coerceFieldValue_def has_type_def Let_def split: if_splits)


subsection \<open>Write-once tables\<close>

text \<open>
  What the engine relies on when it registers and looks up by key: an entry is accepted exactly
  when it is well formed and its key is free, it can then be looked up under its key, and
  nothing else changes.
\<close>

locale write_once =
  fixes wf :: "'d \<Rightarrow> bool"
    and key :: "'d \<Rightarrow> 'k"
    and register :: "'d \<Rightarrow> 's \<Rightarrow> 'e + 's"
    and lookup :: "'s \<Rightarrow> 'k \<Rightarrow> 'd option"
    and empty :: 's
  assumes register_accepts: "(\<exists>s'. register d s = Inr s') \<longleftrightarrow> wf d \<and> lookup s (key d) = None"
    and lookup_register: "register d s = Inr s' \<Longrightarrow> lookup s' = (lookup s)(key d \<mapsto> d)"
    and lookup_empty: "lookup empty k = None"
begin

lemma register_all:
  assumes "\<forall>d \<in> set ds. wf d \<and> lookup s (key d) = None" "distinct (map key ds)"
  obtains s' where "try_fold register ds s = Inr s'"
    "lookup s' = (\<lambda>k. case find (\<lambda>d. key d = k) ds of Some d \<Rightarrow> Some d | None \<Rightarrow> lookup s k)"
proof -
  have "\<exists>s'. try_fold register ds s = Inr s' \<and>
      lookup s' = (\<lambda>k. case find (\<lambda>d. key d = k) ds of Some d \<Rightarrow> Some d | None \<Rightarrow> lookup s k)"
    using assms
  proof (induction ds arbitrary: s)
    case (Cons d ds)
    then obtain s1 where s1: "register d s = Inr s1"
      using register_accepts [of d s] by auto
    have look: "lookup s1 = (lookup s)(key d \<mapsto> d)"
      using lookup_register [OF s1] .
    have "\<forall>d' \<in> set ds. wf d' \<and> lookup s1 (key d') = None"
      using Cons.prems look by (auto simp: rev_image_eqI)
    with Cons.IH [of s1] Cons.prems obtain s' where s': "try_fold register ds s1 = Inr s'"
      "lookup s' = (\<lambda>k. case find (\<lambda>d. key d = k) ds of Some d \<Rightarrow> Some d | None \<Rightarrow> lookup s1 k)"
      by auto
    have "find (\<lambda>d'. key d' = key d) ds = None"
      using Cons.prems(2) by (auto simp: find_None_iff image_iff)
    then have "lookup s' = (\<lambda>k. case find (\<lambda>d. key d = k) (d # ds) of Some d \<Rightarrow> Some d | None \<Rightarrow> lookup s k)"
      using s'(2) look by (auto simp: fun_eq_iff split: option.split)
    then show ?case using s1 s'(1) by auto
  qed simp
  then show ?thesis using that by blast
qed

lemma register_twice: "register d s = Inr s' \<Longrightarrow> key d' = key d \<Longrightarrow> \<exists>e. register d' s' = Inl e"
  using register_accepts [of d' s'] lookup_register [of d s s']
  by (cases "register d' s'") auto

end

definition target_key :: "'w target \<Rightarrow> string" where
  "target_key d = registry_key (d_namespace d) (d_entityKey d)"

definition target_ok :: "'w target \<Rightarrow> bool" where
  "target_ok d \<longleftrightarrow> d_namespace d \<noteq> [] \<and> d_entityKey d \<noteq> []"

interpretation reg: write_once target_ok target_key registerTarget map_of "[]"
proof
  fix d :: "'w target" and s s' k
  show "(\<exists>s'. registerTarget d s = Inr s') \<longleftrightarrow> target_ok d \<and> map_of s (target_key d) = None"
    by (auto simp: registerTarget_def target_ok_def target_key_def Let_def)
  show "map_of s' = (map_of s)(target_key d \<mapsto> d)" if "registerTarget d s = Inr s'"
    using that by (auto simp: registerTarget_def target_key_def Let_def map_of_snoc split: if_splits)
  show "map_of [] k = (None :: 'w target option)" by simp
qed

text \<open>
  C8. Registering any list of descriptors that name a namespace and an entity, under pairwise
  different keys, succeeds from an empty registry, and the registry then resolves each of them
  and nothing else: every other pair of names gets the 400 error.
\<close>

theorem registerTarget_resolves:
  assumes "\<forall>d \<in> set ds. d_namespace d \<noteq> [] \<and> d_entityKey d \<noteq> []"
    and "distinct (map (\<lambda>d. registry_key (d_namespace d) (d_entityKey d)) ds)"
  shows "\<exists>r. try_fold registerTarget ds [] = Inr r
    \<and> (\<forall>d \<in> set ds. getTargetDescriptor (d_namespace d) (d_entityKey d) r = Inr d)
    \<and> (\<forall>ns ek. registry_key ns ek \<notin> (\<lambda>d. registry_key (d_namespace d) (d_entityKey d)) ` set ds
         \<longrightarrow> getTargetDescriptor ns ek r = Inl (Err (Some 400) (NoDescriptor ns ek (akeys r))))"
proof -
  have keys: "map (\<lambda>d. registry_key (d_namespace d) (d_entityKey d)) ds = map target_key ds"
    by (simp add: target_key_def)
  obtain r where r: "try_fold registerTarget ds [] = Inr r"
    and look: "map_of r = (\<lambda>k. case find (\<lambda>d. target_key d = k) ds of Some d \<Rightarrow> Some d | None \<Rightarrow> map_of [] k)"
    using reg.register_all [of ds "[]"] assms keys by (auto simp: target_ok_def)
  have dist: "distinct (map target_key ds)"
    using assms(2) keys by simp
  have "map_of r (target_key d) = Some d" if "d \<in> set ds" for d
  proof -
    have "find (\<lambda>d'. target_key d' = target_key d) ds \<noteq> None"
      using that by (auto simp: find_None_iff simp del: not_None_eq)
    then obtain d' where "find (\<lambda>d'. target_key d' = target_key d) ds = Some d'"
      by blast
    moreover from this have "d' = d"
      using dist that by (auto simp: find_Some_iff distinct_map inj_on_def)
    ultimately show ?thesis by (simp add: look)
  qed
  moreover have "map_of r k = None" if "k \<notin> target_key ` set ds" for k
  proof -
    have "find (\<lambda>d. target_key d = k) ds = None"
      using that by (auto simp: find_None_iff)
    then show ?thesis by (simp add: look)
  qed
  ultimately show ?thesis
    using r by (auto simp: getTargetDescriptor_def listAllKeys_def target_key_def)
qed


definition plain_target :: "string \<Rightarrow> string \<Rightarrow> field list \<Rightarrow> unit target" where
  "plain_target ns ek fs =
     \<lparr>d_namespace = ns, d_entityKey = ek, d_label = ek, d_icon = None, d_destination = None,
      d_fields = fs, d_identityField = ''id'', d_dependencies = None, d_commitInTransaction = False,
      d_referenceFields = None, d_resolveReferences = None, d_findExistingIdentities = None,
      d_commitRow = (\<lambda>_ _ _ w. (Inr (''1'', ek), w))\<rparr>"

theorem registerTarget_resolves_witness:
  "\<exists>r. try_fold registerTarget [plain_target ''shared'' ''role'' [], plain_target ''hr'' ''role'' []] [] = Inr r
    \<and> getTargetDescriptor ''hr'' ''role'' r = Inr (plain_target ''hr'' ''role'' [])"
  using registerTarget_resolves [of "[plain_target ''shared'' ''role'' [], plain_target ''hr'' ''role'' []]"]
  by (auto simp: plain_target_def registry_key_def)

subsection \<open>Listings\<close>

lemma registerTarget_Inr: "registerTarget d s = Inr t \<Longrightarrow> t = s @ [(target_key d, d)]"
  by (auto simp: registerTarget_def target_key_def Let_def split: if_splits)

lemma registerTarget_all:
  "try_fold registerTarget ds s = Inr r \<Longrightarrow> r = s @ map (\<lambda>d. (target_key d, d)) ds"
proof (induction ds arbitrary: s)
  case (Cons d ds)
  then have "try_fold registerTarget ds (s @ [(target_key d, d)]) = Inr r"
    by (auto dest: registerTarget_Inr split: sum.splits)
  from Cons.IH [OF this] show ?case by simp
qed simp

lemma split_registry_key:
  "CHR '':'' \<notin> set ns \<Longrightarrow> CHR '':'' \<notin> set ek \<Longrightarrow> split_on (CHR '':'') (registry_key ns ek) = [ns, ek]"
  by (simp add: registry_key_def split_on_append split_on_id)

text \<open>
  When no name contains a colon, the listings agree with what was registered: the modules
  are exactly the registered namespaces, each once, and the entities of a module are exactly the
  descriptors registered under it, in registration order.
\<close>

lemma listings_registered:
  assumes "try_fold registerTarget ds [] = Inr r"
    and "\<forall>d \<in> set ds. CHR '':'' \<notin> set (d_namespace d) \<and> CHR '':'' \<notin> set (d_entityKey d)"
  shows "set (listTargetModules r) = d_namespace ` set ds \<and> distinct (listTargetModules r)
    \<and> map ent_entityKey (listTargetEntities ns r)
        = map d_entityKey (filter (\<lambda>d. d_namespace d = ns) ds)"
proof -
  have r: "r = map (\<lambda>d. (target_key d, d)) ds"
    using registerTarget_all [OF assms(1)] by simp
  have split: "split_on (CHR '':'') (target_key d) = [d_namespace d, d_entityKey d]" if "d \<in> set ds" for d
    using assms(2) that by (simp add: target_key_def split_registry_key)
  have "set (listTargetModules r) = d_namespace ` set ds"
    by (auto simp: listTargetModules_def r akeys_def split image_iff)
  moreover have "map ent_entityKey (listTargetEntities ns r)
      = map d_entityKey (filter (\<lambda>d. d_namespace d = ns) ds)"
    using split unfolding r by (induction ds) (auto simp: listTargetEntities_def)
  ultimately show ?thesis by (simp add: listTargetModules_def)
qed

lemma two_registered: "try_fold registerTarget [plain_target ''hr'' ''leave'' [], plain_target ''hr'' ''role'' []] [] =
   Inr [(''hr:leave'', plain_target ''hr'' ''leave'' []), (''hr:role'', plain_target ''hr'' ''role'' [])]"
  by (simp add: registerTarget_def plain_target_def registry_key_def)

theorem listings_registered_witness:
  "map ent_entityKey (listTargetEntities ''hr''
     [(''hr:leave'', plain_target ''hr'' ''leave'' []), (''hr:role'', plain_target ''hr'' ''role'' [])])
   = [''leave'', ''role'']"
  using listings_registered [OF two_registered, of "''hr''"] by (simp add: plain_target_def)

subsection \<open>Coercion\<close>


definition test_env :: js_env where
  "test_env = \<lparr>date_parse = (\<lambda>_. None), date_print = show_int, date_iso = show_int\<rparr>"


end
