(* ===== verification/Mapping.thy ===== *)
theory Mapping
  imports Registry
begin

text \<open>
  core/mapping/applyMapping.js, the part that touches no store: name normalisation, edit
  distance, mapping suggestions and the reshaping of one row.
\<close>

subsection \<open>normalize and levenshtein\<close>

definition is_alnum_lower :: "char \<Rightarrow> bool" where
  "is_alnum_lower c \<longleftrightarrow> (97 \<le> code c \<and> code c \<le> 122) \<or> is_digit c"

definition normalize :: "string \<Rightarrow> string" where
  "normalize s = filter is_alnum_lower (to_lower s)"

text \<open>
  The table is filled row by row: \<open>lev_cells\<close> computes \<open>dp[i][1..n]\<close> from left to right, given
  \<open>dp[i-1]\<close> from the diagonal cell on and the cell to the left.
\<close>

fun lev_cells :: "char \<Rightarrow> string \<Rightarrow> nat list \<Rightarrow> nat \<Rightarrow> nat list" where
  "lev_cells a (b # bs) (diag # up # ups) left =
     (let cell = (if a = b then diag else 1 + min up (min left diag))
      in cell # lev_cells a bs (up # ups) cell)"
| "lev_cells a _ _ left = []"

definition lev_row :: "string \<Rightarrow> char \<Rightarrow> nat list \<Rightarrow> nat list" where
  "lev_row b a prev = Suc (hd prev) # lev_cells a b prev (Suc (hd prev))"

definition levenshtein :: "string \<Rightarrow> string \<Rightarrow> nat" where
  "levenshtein a b =
     (if length a = 0 then length b
      else if length b = 0 then length a
      else last (fold (lev_row b) a [0..<Suc (length b)]))"

subsection \<open>suggestMapping\<close>

record candidate =
  c_key :: string
  c_forms :: "string list"

record suggestion =
  sg_sourceColumn :: string
  sg_targetFieldKey :: "string option"
  sg_confidence :: "string option"

definition candidate_of :: "field \<Rightarrow> candidate" where
  "candidate_of f =
     \<lparr>c_key = f_key f,
      c_forms = filter (\<lambda>s. s \<noteq> [])
        (map normalize (f_key f # f_label f # (case f_aliases f of None \<Rightarrow> [] | Some as \<Rightarrow> as)))\<rparr>"

definition exact_match :: "string list \<Rightarrow> string \<Rightarrow> candidate \<Rightarrow> bool" where
  "exact_match used src c \<longleftrightarrow> c_key c \<notin> set used \<and> src \<in> set (c_forms c)"

definition contains_match :: "string list \<Rightarrow> string \<Rightarrow> candidate \<Rightarrow> bool" where
  "contains_match used src c \<longleftrightarrow>
     c_key c \<notin> set used \<and>
     (\<exists>f \<in> set (c_forms c). 2 < length f \<and> (str_includes src f \<or> str_includes f src))"

text \<open>The closest unused candidate; \<open>None\<close> stands for the initial distance \<open>Infinity\<close>.\<close>

definition closer :: "string \<Rightarrow> candidate \<Rightarrow> string \<Rightarrow> (candidate \<times> nat) option \<Rightarrow> (candidate \<times> nat) option" where
  "closer src c f best =
     (let dist = levenshtein src f in
      case best of
        None \<Rightarrow> Some (c, dist)
      | Some (b, bestDist) \<Rightarrow> if dist < bestDist then Some (c, dist) else best)"

definition closest :: "string list \<Rightarrow> string \<Rightarrow> candidate list \<Rightarrow> (candidate \<times> nat) option" where
  "closest used src cands =
     fold (\<lambda>c best. if c_key c \<in> set used then best else fold (closer src c) (c_forms c) best) cands None"

text \<open>The match for one column: the key it claims and the confidence.\<close>

definition match_column :: "candidate list \<Rightarrow> string list \<Rightarrow> string \<Rightarrow> (string \<times> string) option" where
  "match_column cands used sourceColumn =
     (let src = normalize sourceColumn in
      if src = [] then None
      else case find (exact_match used src) cands of
          Some c \<Rightarrow> Some (c_key c, ''exact'')
        | None \<Rightarrow>
            (case find (contains_match used src) cands of
               Some c \<Rightarrow> Some (c_key c, ''fuzzy'')
             | None \<Rightarrow>
                 (case closest used src cands of
                    Some (best, bestDist) \<Rightarrow>
                      if 3 < length src \<and> bestDist \<le> 2 then Some (c_key best, ''fuzzy'') else None
                  | None \<Rightarrow> None)))"

fun suggest_columns :: "candidate list \<Rightarrow> string list \<Rightarrow> string list \<Rightarrow> suggestion list" where
  "suggest_columns cands used [] = []"
| "suggest_columns cands used (col # cols) =
     (case match_column cands used col of
        None \<Rightarrow>
          \<lparr>sg_sourceColumn = col, sg_targetFieldKey = None, sg_confidence = None\<rparr>
            # suggest_columns cands used cols
      | Some (key, conf) \<Rightarrow>
          \<lparr>sg_sourceColumn = col, sg_targetFieldKey = Some key, sg_confidence = Some conf\<rparr>
            # suggest_columns cands (key # used) cols)"

definition suggestMapping :: "string list \<Rightarrow> field list \<Rightarrow> suggestion list" where
  "suggestMapping sourceColumns targetFields =
     suggest_columns (map candidate_of targetFields) [] sourceColumns"

subsection \<open>Reshaping one row\<close>

text \<open>
  \<open>fieldsByKey\<close> is a \<open>Map\<close>: of several fields with one key the last wins. \<open>fieldMap\<close>'s entries
  are the pairs of source column and target key.
\<close>

definition fields_by_key :: "field list \<Rightarrow> string \<Rightarrow> field option" where
  "fields_by_key fs = map_of (rev (map (\<lambda>f. (f_key f, f)) fs))"

definition map_entry ::
  "js_env \<Rightarrow> (string \<Rightarrow> field option) \<Rightarrow> string \<times> string \<Rightarrow> obj \<times> obj \<Rightarrow> obj \<times> obj" where
  "map_entry env byKey = (\<lambda>(sourceColumn, targetKey) (mapped, remaining).
     (case oget remaining sourceColumn of
        None \<Rightarrow> (mapped, remaining)
      | Some v \<Rightarrow>
          ((case byKey targetKey of
              None \<Rightarrow> mapped
            | Some descriptor \<Rightarrow>
                (case coerceFieldValue env (f_type descriptor) v (f_label descriptor) of
                   Inl e \<Rightarrow> mapped
                 | Inr w \<Rightarrow> if w = VNull then mapped else oset targetKey w mapped)),
           adel sourceColumn remaining)))"

definition map_row ::
  "js_env \<Rightarrow> (string \<Rightarrow> field option) \<Rightarrow> (string \<times> string) list \<Rightarrow> obj \<Rightarrow> obj \<times> obj" where
  "map_row env byKey entries rawRow = fold (map_entry env byKey) entries ([], rawRow)"

subsection \<open>Edit distance: the table computes the least number of edits\<close>

inductive edits :: "'a list \<Rightarrow> 'a list \<Rightarrow> nat \<Rightarrow> bool" where
  edits_done: "edits [] [] 0"
| edits_keep: "edits xs ys k \<Longrightarrow> edits (x # xs) (x # ys) k"
| edits_delete: "edits xs ys k \<Longrightarrow> edits (x # xs) ys (Suc k)"
| edits_insert: "edits xs ys k \<Longrightarrow> edits xs (y # ys) (Suc k)"
| edits_replace: "edits xs ys k \<Longrightarrow> edits (x # xs) (y # ys) (Suc k)"

fun edit_distance :: "'a list \<Rightarrow> 'a list \<Rightarrow> nat" where
  "edit_distance [] ys = length ys"
| "edit_distance (x # xs) [] = Suc (length xs)"
| "edit_distance (x # xs) (y # ys) =
     (if x = y then edit_distance xs ys
      else 1 + min (edit_distance xs (y # ys)) (min (edit_distance (x # xs) ys) (edit_distance xs ys)))"

lemma edit_distance_Nil [simp]: "edit_distance xs [] = length xs"
  by (cases xs) simp_all

lemma edits_Nil_left: "edits [] ys (length ys)"
  by (induction ys) (auto intro: edits.intros)

lemma edits_Nil_right: "edits xs [] (length xs)"
  by (induction xs) (auto intro: edits.intros)

lemma edits_edit_distance: "edits xs ys (edit_distance xs ys)"
proof (induction xs ys rule: edit_distance.induct)
  case (3 x xs y ys)
  then show ?case
    by (auto simp: min_def intro: edits.intros)
qed (use edits_Nil_left edits_Nil_right in \<open>auto intro: edits.intros\<close>)

lemma edit_distance_sym: "edit_distance xs ys = edit_distance ys xs"
  by (induction xs ys rule: edit_distance.induct) auto

lemma edit_distance_drop: "edit_distance xs ys \<le> Suc (edit_distance xs (y # ys))"
  and edit_distance_add: "edit_distance (x # xs) ys \<le> Suc (edit_distance xs ys)"
proof -
  have "(\<forall>y ys. edit_distance xs ys \<le> Suc (edit_distance xs (y # ys))) \<and>
      (\<forall>x ys. edit_distance (x # xs) ys \<le> Suc (edit_distance xs ys))"
  proof (induction xs)
    case Nil
    have "edit_distance [x] ys \<le> Suc (length ys)" for x :: 'a and ys
      by (cases ys) auto
    then show ?case by simp
  next
    case (Cons a as)
    have add: "edit_distance (a # as) ys \<le> Suc (edit_distance as ys)" for ys
      using Cons by blast
    have drop: "edit_distance (a # as) ys \<le> Suc (edit_distance (a # as) (y # ys))" for y ys
      using add [of ys] Cons [THEN conjunct1, rule_format, of ys y] by (auto simp: min_def)
    have "edit_distance (x # a # as) ys \<le> Suc (edit_distance (a # as) ys)" for x ys
      using drop by (cases ys) auto
    with drop show ?case by blast
  qed
  then show "edit_distance xs ys \<le> Suc (edit_distance xs (y # ys))"
    "edit_distance (x # xs) ys \<le> Suc (edit_distance xs ys)"
    by blast+
qed

lemma edit_distance_le: "edits xs ys k \<Longrightarrow> edit_distance xs ys \<le> k"
proof (induction rule: edits.induct)
  case (edits_delete xs ys k x)
  then show ?case using edit_distance_add [of x xs ys] by simp
next
  case (edits_insert xs ys k y)
  then show ?case using edit_distance_add [of y ys xs] by (simp add: edit_distance_sym)
qed auto

lemma edits_append: "edits xs ys k \<Longrightarrow> edits us vs m \<Longrightarrow> edits (xs @ us) (ys @ vs) (k + m)"
  by (induction rule: edits.induct) (auto intro: edits.intros)

lemma edits_rev: "edits xs ys k \<Longrightarrow> edits (rev xs) (rev ys) k"
proof (induction rule: edits.induct)
  case (edits_keep xs ys k x)
  then show ?case
    using edits_append [OF edits_keep.IH edits.edits_keep [OF edits_done, of x]] by simp
next
  case (edits_delete xs ys k x)
  then show ?case
    using edits_append [OF edits_delete.IH edits.edits_delete [OF edits_done, of x]] by simp
next
  case (edits_insert xs ys k y)
  then show ?case
    using edits_append [OF edits_insert.IH edits.edits_insert [OF edits_done, of y]] by simp
next
  case (edits_replace xs ys k x y)
  then show ?case
    using edits_append [OF edits_replace.IH edits.edits_replace [OF edits_done, of x y]] by simp
qed (simp add: edits_done)

text \<open>
  A row of the table: the distances of \<open>as\<close> to \<open>us\<close>, to \<open>us\<close> extended by the first
  character of \<open>bs\<close>, and so on, with both words read backwards.
\<close>

fun distances :: "'a list \<Rightarrow> 'a list \<Rightarrow> 'a list \<Rightarrow> nat list" where
  "distances as us [] = [edit_distance as us]"
| "distances as us (b # bs) = edit_distance as us # distances as (b # us) bs"

lemma distances_Cons: "distances as us bs = edit_distance as us # tl (distances as us bs)"
  by (cases bs) simp_all

lemma lev_cells_distances:
  "lev_cells a bs (distances as us bs) (edit_distance (a # as) us) = tl (distances (a # as) us bs)"
proof (induction bs arbitrary: us)
  case (Cons b bs)
  have "lev_cells a (b # bs) (distances as us (b # bs)) (edit_distance (a # as) us)
      = edit_distance (a # as) (b # us) # lev_cells a bs (distances as (b # us) bs) (edit_distance (a # as) (b # us))"
  proof -
    obtain ds where "distances as (b # us) bs = edit_distance as (b # us) # ds"
      using distances_Cons by blast
    then show ?thesis by (simp add: Let_def)
  qed
  then show ?case
    using Cons.IH [of "b # us"] distances_Cons [of "a # as" "b # us" bs] by simp
qed simp

lemma lev_row_distances: "lev_row b a (distances as [] b) = distances (a # as) [] b"
proof -
  obtain ds where ds: "distances as [] b = length as # ds"
    using distances_Cons [of as "[]" b] by (metis edit_distance_Nil)
  obtain es where es: "distances (a # as) [] b = Suc (length as) # es"
    using distances_Cons [of "a # as" "[]" b] by (metis edit_distance_Nil length_Cons)
  show ?thesis
    using lev_cells_distances [of a b as "[]"] by (simp add: lev_row_def ds es)
qed

lemma fold_lev_row: "fold (lev_row b) a (distances as [] b) = distances (rev a @ as) [] b"
  by (induction a arbitrary: as) (simp_all add: lev_row_distances)

lemma distances_Nil: "distances [] us bs = [length us..<Suc (length us + length bs)]"
  by (induction bs arbitrary: us) (simp_all add: upt_conv_Cons del: upt_Suc)

lemma last_distances: "last (distances as us bs) = edit_distance as (rev bs @ us)"
  by (induction bs arbitrary: us) (simp_all, metis distances_Cons list.distinct(1))

lemma levenshtein_edit_distance: "levenshtein a b = edit_distance (rev a) (rev b)"
proof -
  have "fold (lev_row b) a [0..<Suc (length b)] = distances (rev a) [] b"
    using fold_lev_row [of b a "[]"] distances_Nil [of "[]" b] by simp
  then show ?thesis
    by (simp add: levenshtein_def last_distances)
qed

text \<open>
  C10. The table algorithm returns the true edit distance: some sequence of that many insertions,
  deletions and replacements turns one word into the other, and no shorter one does.
\<close>

theorem levenshtein_least:
  "edits a b (levenshtein a b) \<and> levenshtein a b = (LEAST k. edits a b k)"
proof -
  have "edits a b (levenshtein a b)"
    using edits_rev [OF edits_edit_distance [of "rev a" "rev b"]] by (simp add: levenshtein_edit_distance)
  moreover have "levenshtein a b \<le> k" if "edits a b k" for k
    using edit_distance_le [OF edits_rev [OF that]] by (simp add: levenshtein_edit_distance)
  ultimately show ?thesis
    by (auto intro!: Least_equality [symmetric])
qed

subsection \<open>Suggestions\<close>

lemma fold_closer:
  "fold (closer src c) forms best = Some (b, d) \<Longrightarrow> b = c \<or> (\<exists>d'. best = Some (b, d'))"
proof (induction forms arbitrary: best)
  case (Cons f forms)
  from Cons.IH [of "closer src c f best"] Cons.prems show ?case
    by (auto simp: closer_def Let_def split: option.splits if_splits)
qed simp

lemma closest_member:
  assumes "closest used src cands = Some (b, d)"
  shows "b \<in> set cands \<and> c_key b \<notin> set used"
proof -
  have "(\<exists>d'. best = Some (b, d')) \<or> b \<in> set cands \<and> c_key b \<notin> set used"
    if "fold (\<lambda>c best. if c_key c \<in> set used then best else fold (closer src c) (c_forms c) best) cands best
      = Some (b, d)" for best
    using that
  proof (induction cands arbitrary: best)
    case (Cons c cands)
    from Cons.IH [of "if c_key c \<in> set used then best else fold (closer src c) (c_forms c) best"] Cons.prems
    show ?case using fold_closer [of src c "c_forms c" best b] by (auto split: if_splits)
  qed simp
  then show ?thesis
    using assms unfolding closest_def by blast
qed

lemma match_column_key:
  "match_column cands used col = Some (k, conf) \<Longrightarrow> k \<in> c_key ` set cands \<and> k \<notin> set used"
  by (auto simp: match_column_def Let_def exact_match_def contains_match_def
      dest!: closest_member find_SomeD split: if_splits option.splits)

abbreviation claimed :: "suggestion list \<Rightarrow> string list" where
  "claimed sgs \<equiv> List.map_filter sg_targetFieldKey sgs"

lemma suggest_columns_claimed:
  "set (claimed (suggest_columns cands used cols)) \<subseteq> c_key ` set cands - set used
   \<and> distinct (claimed (suggest_columns cands used cols))"
proof (induction cols arbitrary: used)
  case (Cons col cols)
  show ?case
  proof (cases "match_column cands used col")
    case None
    then show ?thesis using Cons [of used] by (simp add: map_filter_simps)
  next
    case (Some m)
    obtain k conf where m: "m = (k, conf)" by (cases m)
    have "k \<in> c_key ` set cands \<and> k \<notin> set used"
      using match_column_key Some m by blast
    then show ?thesis
      using Cons [of "k # used"] Some m by (auto simp: map_filter_simps)
  qed
qed (simp add: map_filter_simps)

lemma suggest_columns_sources: "map sg_sourceColumn (suggest_columns cands used cols) = cols"
  by (induction cols arbitrary: used) (auto split: option.split)

text \<open>
  C11. Suggestions cover every source column, in order, only ever name keys of the target's fields,
  and never give one field to two columns; so the field map they make up passes the whitelist and
  duplicate checks of applyMapping.
\<close>

theorem suggestMapping_claims:
  "map sg_sourceColumn (suggestMapping cols fs) = cols
   \<and> set (List.map_filter sg_targetFieldKey (suggestMapping cols fs)) \<subseteq> f_key ` set fs
   \<and> distinct (List.map_filter sg_targetFieldKey (suggestMapping cols fs))"
proof -
  have "c_key ` set (map candidate_of fs) = f_key ` set fs"
    by (force simp: candidate_of_def)
  then show ?thesis
    using suggest_columns_claimed [of "map candidate_of fs" "[]" cols]
    by (simp add: suggestMapping_def suggest_columns_sources)
qed

subsection \<open>Rows\<close>

text \<open>The value a field gets from the cell of a column.\<close>

definition mapped_value :: "js_env \<Rightarrow> (string \<Rightarrow> field option) \<Rightarrow> string \<Rightarrow> val option \<Rightarrow> val option" where
  "mapped_value env byKey targetKey cell =
     (case (cell, byKey targetKey) of
        (Some v, Some f) \<Rightarrow>
          (case coerceFieldValue env (f_type f) v (f_label f) of
             Inr w \<Rightarrow> if w = VNull then None else Some w
           | Inl e \<Rightarrow> None)
      | _ \<Rightarrow> None)"

lemma map_entry_simps:
  "snd (map_entry env byKey (src, tgt) (mapped, remaining)) = adel src remaining"
  "tgt \<noteq> ''__proto__'' \<Longrightarrow> oget (fst (map_entry env byKey (src, tgt) (mapped, remaining))) =
     (case mapped_value env byKey tgt (oget remaining src) of
        None \<Rightarrow> oget mapped | Some w \<Rightarrow> (oget mapped)(tgt \<mapsto> w))"
proof -
  have "src \<notin> set (akeys remaining) \<Longrightarrow> adel src remaining = remaining"
    by (induction remaining) auto
  then show "snd (map_entry env byKey (src, tgt) (mapped, remaining)) = adel src remaining"
    by (auto simp: map_entry_def split: option.split)
  show "tgt \<noteq> ''__proto__'' \<Longrightarrow> oget (fst (map_entry env byKey (src, tgt) (mapped, remaining))) =
     (case mapped_value env byKey tgt (oget remaining src) of
        None \<Rightarrow> oget mapped | Some w \<Rightarrow> (oget mapped)(tgt \<mapsto> w))"
    by (auto simp: map_entry_def mapped_value_def split: option.split sum.split)
qed

lemma fold_map_entry_snd:
  "snd (fold (map_entry env byKey) entries (mapped, remaining)) =
     filter (\<lambda>kv. fst kv \<notin> fst ` set entries) remaining"
proof (induction entries arbitrary: mapped remaining)
  case (Cons e entries)
  obtain src tgt where e: "e = (src, tgt)" by (cases e)
  obtain m where step: "map_entry env byKey e (mapped, remaining) = (m, adel src remaining)"
    using map_entry_simps(1) [of env byKey src tgt mapped remaining] e by (metis prod.collapse)
  show ?case
    using Cons.IH [of m "adel src remaining"] step e by (auto simp: adel_def intro: filter_cong)
qed simp

lemma fold_map_entry_fst:
  assumes "distinct (map fst entries)" "distinct (map snd entries)"
    "\<forall>(src, tgt) \<in> set entries. tgt \<noteq> ''__proto__''"
  shows "oget (fst (fold (map_entry env byKey) entries (mapped, remaining))) k =
    (case map_of (map prod.swap entries) k of
       None \<Rightarrow> oget mapped k
     | Some src \<Rightarrow> (case mapped_value env byKey k (oget remaining src) of
         None \<Rightarrow> oget mapped k | Some w \<Rightarrow> Some w))"
  using assms
proof (induction entries arbitrary: mapped remaining)
  case (Cons e entries)
  obtain src tgt where e: "e = (src, tgt)" by (cases e)
  obtain m where step: "map_entry env byKey e (mapped, remaining) = (m, adel src remaining)"
    using map_entry_simps(1) [of env byKey src tgt mapped remaining] e by (metis prod.collapse)
  have m: "oget m = (case mapped_value env byKey tgt (oget remaining src) of
        None \<Rightarrow> oget mapped | Some w \<Rightarrow> (oget mapped)(tgt \<mapsto> w))"
    using map_entry_simps(2) [of tgt env byKey src mapped remaining] step e Cons.prems(3) by simp
  have ih: "oget (fst (fold (map_entry env byKey) entries (m, adel src remaining))) k =
    (case map_of (map prod.swap entries) k of
       None \<Rightarrow> oget m k
     | Some src' \<Rightarrow> (case mapped_value env byKey k (oget (adel src remaining) src') of
         None \<Rightarrow> oget m k | Some w \<Rightarrow> Some w))"
    using Cons.prems by (intro Cons.IH) auto
  have other: "src' \<noteq> src \<and> k \<noteq> tgt" if "map_of (map prod.swap entries) k = Some src'" for src'
  proof -
    have "(src', k) \<in> set entries"
      using map_of_SomeD [OF that] by auto
    then show ?thesis using Cons.prems(1,2) e by force
  qed
  show ?case
  proof (cases "k = tgt")
    case True
    then have "map_of (map prod.swap entries) k = None"
      using other by (cases "map_of (map prod.swap entries) k") auto
    then show ?thesis
      using ih step e True m by (simp split: option.split)
  next
    case False
    then have "oget m k = oget mapped k"
      using m by (simp split: option.split)
    then show ?thesis
      using ih step e False other by (auto split: option.split)
  qed
qed simp


text \<open>
  C12. Mapping one row loses and invents nothing: a field is set exactly when its column is present
  and its cell coerces to a value, which it then holds, and every column the map does not mention
  stays among the custom fields with its value, in its place.
\<close>

theorem map_row_partition:
  assumes "distinct (map fst entries)" "distinct (map snd entries)"
    and "\<forall>(src, tgt) \<in> set entries. tgt \<noteq> ''__proto__''"
  shows "oget (fst (map_row env byKey entries raw)) k =
      Option.bind (map_of (map prod.swap entries) k) (\<lambda>src. mapped_value env byKey k (oget raw src))
    \<and> snd (map_row env byKey entries raw) = filter (\<lambda>kv. fst kv \<notin> fst ` set entries) raw"
  using fold_map_entry_fst [OF assms, of env byKey "[]" raw k] fold_map_entry_snd [of env byKey entries "[]" raw]
  by (auto simp: map_row_def split: option.split)

theorem map_row_partition_witness:
  "snd (map_row test_env (fields_by_key []) [(''Name'', ''name'')] [(''Name'', VNull), (''Age'', VNum (Fin 3))])
     = [(''Age'', VNum (Fin 3))]"
  using map_row_partition [of "[(''Name'', ''name'')]" test_env "fields_by_key []"] by simp

lemma mapped_value_typed:
  "mapped_value env byKey k cell = Some w \<Longrightarrow> \<exists>f. byKey k = Some f \<and> has_type (f_type f) w"
  by (auto simp: mapped_value_def split: option.splits sum.splits if_splits
      dest: coerceFieldValue_has_type)

end
