(* ===== verification/StreamParser.thy ===== *)
theory StreamParser
  imports SqlDumpCorrect
begin

text \<open>
  core/parsing/streamingParser.js: parsing an uploaded file under a row ceiling. The file
  system and the three parsing packages (csv-parse, stream-json, exceljs) are not part of the
  repository: they are the fields of \<open>libs\<close>. A Node stream is the list of events it emits, in
  order; a promise that no event settles is \<open>None\<close>.
\<close>

subsection \<open>The packages the parser calls\<close>

datatype 'c event = Data 'c | Ended | Closed | Failed string

text \<open>A non-empty cell: its column number, its value, and the text exceljs displays for it.\<close>

type_synonym cell = "nat \<times> val \<times> string option"

type_synonym worksheet = "(nat \<times> cell list) list"

record libs =
  readFile :: "string \<Rightarrow> string option"
  csv_events :: "string \<Rightarrow> obj event list"
  json_events :: "string \<Rightarrow> val option event list"
  xlsx_read :: "string \<Rightarrow> string + worksheet list"
  lib_env :: js_env

datatype parse_error =
    UnsupportedFile string
  | FileError string
  | StreamError string
  | JsonEmpty
  | JsonObjectRoot
  | JsonUnexpected char
  | JsonLeadingWhitespace
  | ExcelError string
  | NoWorksheet
  | SqlFailed sql_error
  | UnknownFormat string

text \<open>What \<open>parseStreaming\<close> resolves to.\<close>

record parsed =
  p_records :: "obj list"
  p_exceeded :: bool
  p_tableName :: "string option"

subsection \<open>Format detection\<close>

text \<open>\<open>/\.ext$/i.test(s)\<close>\<close>

definition has_ext :: "string \<Rightarrow> string \<Rightarrow> bool" where
  "has_ext ext s \<longleftrightarrow> suffix (CHR ''.'' # ext) (to_lower s)"

definition detectSourceFormat :: "string \<Rightarrow> parse_error err + string" where
  "detectSourceFormat filePath =
     (if has_ext ''csv'' filePath then Inr ''csv''
      else if has_ext ''xlsx'' filePath then Inr ''excel''
      else if has_ext ''xls'' filePath then Inr ''excel''
      else if has_ext ''json'' filePath then Inr ''json''
      else if has_ext ''sql'' filePath then Inr ''sql''
      else Inl (Err None (UnsupportedFile filePath)))"

subsection \<open>Bounded collection\<close>

record 'v collector =
  col_records :: "'v list"
  col_settled :: "(parse_error err + ('v list \<times> bool)) option"

text \<open>The listeners of \<open>collectBounded\<close>; \<open>finish\<close> and \<open>fail\<close> do nothing once settled.\<close>

definition settle ::
  "parse_error err + ('v list \<times> bool) \<Rightarrow> 'v collector \<Rightarrow> 'v collector" where
  "settle result st = (if col_settled st = None then st\<lparr>col_settled := Some result\<rparr> else st)"

fun on_event :: "jsnum \<Rightarrow> ('c \<Rightarrow> 'v option) \<Rightarrow> 'c event \<Rightarrow> 'v collector \<Rightarrow> 'v collector" where
  "on_event limit extract (Data chunk) st =
     (if col_settled st \<noteq> None then st
      else case extract chunk of
          None \<Rightarrow> st
        | Some value \<Rightarrow>
            (let records = col_records st @ [value] in
             if num_gt (Fin (of_nat (length records))) limit
             then settle (Inr ([], True)) (st\<lparr>col_records := []\<rparr>)
             else st\<lparr>col_records := records\<rparr>))"
| "on_event limit extract Ended st = settle (Inr (col_records st, False)) st"
| "on_event limit extract Closed st = settle (Inr (col_records st, False)) st"
| "on_event limit extract (Failed m) st = settle (Inl (Err None (StreamError m))) st"

definition collectBounded ::
  "'c event list \<Rightarrow> jsnum \<Rightarrow> ('c \<Rightarrow> 'v option) \<Rightarrow> (parse_error err + ('v list \<times> bool)) option" where
  "collectBounded events limit extract =
     col_settled (fold (on_event limit extract) events \<lparr>col_records = [], col_settled = None\<rparr>)"

definition as_parsed :: "string option \<Rightarrow> obj list \<times> bool \<Rightarrow> parsed" where
  "as_parsed table = (\<lambda>(records, over). \<lparr>p_records = records, p_exceeded = over, p_tableName = table\<rparr>)"

type_synonym parse_result = "(parse_error err + parsed) option"

subsection \<open>CSV\<close>

definition parseCsvBounded :: "libs \<Rightarrow> string \<Rightarrow> jsnum \<Rightarrow> parse_result" where
  "parseCsvBounded L filePath limit =
     (case readFile L filePath of
        None \<Rightarrow> Some (Inl (Err None (FileError filePath)))
      | Some content \<Rightarrow>
          map_option (map_sum id (as_parsed None))
            (collectBounded (csv_events L content) limit Some))"

subsection \<open>JSON\<close>

definition MAX_LEADING_WHITESPACE :: nat where
  "MAX_LEADING_WHITESPACE = 100"

text \<open>The loop reads one byte per turn; \<open>n\<close> is the number of turns left.\<close>

fun json_root_loop :: "nat \<Rightarrow> string \<Rightarrow> parse_error option" where
  "json_root_loop 0 bytes = Some JsonLeadingWhitespace"
| "json_root_loop (Suc n) [] = Some JsonEmpty"
| "json_root_loop (Suc n) (ch # bytes) =
     (if ch = CHR ''['' then None
      else if is_ws ch then json_root_loop n bytes
      else if ch = CHR ''{'' then Some JsonObjectRoot
      else Some (JsonUnexpected ch))"

definition assertJsonRootIsArray :: "string \<Rightarrow> parse_error err + unit" where
  "assertJsonRootIsArray content =
     (case json_root_loop MAX_LEADING_WHITESPACE content of
        Some e \<Rightarrow> Inl (Err None e)
      | None \<Rightarrow> Inr ())"

text \<open>\<open>data?.value\<close> is skipped unless it is an object that is neither null nor an array.\<close>

fun json_record :: "val option \<Rightarrow> obj option" where
  "json_record (Some (VObj kvs)) = Some kvs"
| "json_record _ = None"

definition parseJsonBounded :: "libs \<Rightarrow> string \<Rightarrow> jsnum \<Rightarrow> parse_result" where
  "parseJsonBounded L filePath limit =
     (case readFile L filePath of
        None \<Rightarrow> Some (Inl (Err None (FileError filePath)))
      | Some content \<Rightarrow>
          (case assertJsonRootIsArray content of
             Inl e \<Rightarrow> Some (Inl e)
           | Inr _ \<Rightarrow>
               map_option (map_sum id (as_parsed None))
                 (collectBounded (json_events L content) limit json_record)))"

subsection \<open>Excel\<close>

text \<open>\<open>v ?? ""\<close>\<close>

definition or_empty :: "val option \<Rightarrow> val" where
  "or_empty v = (case v of None \<Rightarrow> VStr [] | Some VNull \<Rightarrow> VStr [] | Some w \<Rightarrow> w)"

definition rich_text :: "js_env \<Rightarrow> val \<Rightarrow> string" where
  "rich_text env v =
     (case v of
        VArr rs \<Rightarrow> concat (map (\<lambda>r. case r of
            VObj kvs \<Rightarrow> (case oget kvs ''text'' of
                None \<Rightarrow> [] | Some VNull \<Rightarrow> [] | Some t \<Rightarrow> js_str env t)
          | _ \<Rightarrow> []) rs)
      | _ \<Rightarrow> [])"

definition excelCellValue :: "js_env \<Rightarrow> val \<Rightarrow> string option \<Rightarrow> val" where
  "excelCellValue env v text =
     (case v of
        VNull \<Rightarrow> VStr []
      | VDate d \<Rightarrow> VDate d
      | VObj kvs \<Rightarrow>
          (if ''result'' \<in> set (akeys kvs) then or_empty (oget kvs ''result'')
           else if ''text'' \<in> set (akeys kvs) then
             (case oget kvs ''text'' of
                Some (VStr s) \<Rightarrow> VStr (js_trim s)
              | t \<Rightarrow> or_empty t)
           else if ''richText'' \<in> set (akeys kvs) then
             VStr (js_trim (rich_text env (or_empty (oget kvs ''richText''))))
           else if ''error'' \<in> set (akeys kvs) then VStr []
           else VStr (case text of None \<Rightarrow> [] | Some s \<Rightarrow> s))
      | VArr _ \<Rightarrow> VStr (case text of None \<Rightarrow> [] | Some s \<Rightarrow> s)
      | VStr s \<Rightarrow> VStr (js_trim s)
      | _ \<Rightarrow> v)"

definition excel_headers :: "js_env \<Rightarrow> worksheet \<Rightarrow> (nat \<times> string) list" where
  "excel_headers env ws =
     (case map_of ws 1 of
        None \<Rightarrow> []
      | Some cells \<Rightarrow> map (\<lambda>(col, v, _). (col, js_trim (js_str env (or_empty (Some v))))) cells)"

definition excel_record :: "js_env \<Rightarrow> (nat \<times> string) list \<Rightarrow> cell list \<Rightarrow> obj" where
  "excel_record env headers cells =
     fold (\<lambda>(col, v, text) record.
       (case map_of headers col of
          None \<Rightarrow> record
        | Some [] \<Rightarrow> record
        | Some header \<Rightarrow> oset header (excelCellValue env v text) record)) cells []"

definition excel_records :: "js_env \<Rightarrow> worksheet \<Rightarrow> obj list" where
  "excel_records env ws =
     map (\<lambda>(_, cells). excel_record env (excel_headers env ws) cells)
       (filter (\<lambda>(n, cells). n \<noteq> 1 \<and> cells \<noteq> []) ws)"

definition parseExcelBounded :: "libs \<Rightarrow> string \<Rightarrow> jsnum \<Rightarrow> parse_result" where
  "parseExcelBounded L filePath limit =
     (case xlsx_read L filePath of
        Inl m \<Rightarrow> Some (Inl (Err None (ExcelError m)))
      | Inr [] \<Rightarrow> Some (Inl (Err None NoWorksheet))
      | Inr (ws # _) \<Rightarrow>
          (let records = excel_records (lib_env L) ws in
           if num_gt (Fin (of_nat (length records))) limit
           then Some (Inr (as_parsed None ([], True)))
           else Some (Inr (as_parsed None (records, False)))))"

subsection \<open>SQL and the dispatcher\<close>

definition parseSqlBounded :: "libs \<Rightarrow> string \<Rightarrow> jsnum \<Rightarrow> string option \<Rightarrow> parse_result" where
  "parseSqlBounded L filePath limit sqlTable =
     (case readFile L filePath of
        None \<Rightarrow> Some (Inl (Err None (FileError filePath)))
      | Some sql \<Rightarrow>
          (case extractSqlTable sql sqlTable limit of
             Inl (Err c m) \<Rightarrow> Some (Inl (Err c (SqlFailed m)))
           | Inr T \<Rightarrow>
               Some (Inr \<lparr>p_records = (if t_exceeded T then [] else t_rows T),
                          p_exceeded = t_exceeded T, p_tableName = Some (t_tableName T)\<rparr>)))"

definition parseStreaming ::
  "libs \<Rightarrow> string \<Rightarrow> string \<Rightarrow> jsnum \<Rightarrow> string option \<Rightarrow> parse_result" where
  "parseStreaming L filePath sourceFormat limit sqlTable =
     (if sourceFormat = ''csv'' then parseCsvBounded L filePath limit
      else if sourceFormat = ''json'' then parseJsonBounded L filePath limit
      else if sourceFormat = ''excel'' then parseExcelBounded L filePath limit
      else if sourceFormat = ''sql'' then parseSqlBounded L filePath limit sqlTable
      else Some (Inl (Err None (UnknownFormat sourceFormat))))"


subsection \<open>The contract of a bounded parser\<close>

text \<open>
  What the guardrail relies on, for every format: no more records than the ceiling, none at all
  once it is exceeded, and below the ceiling the same result as without one.
\<close>

definition cut :: "nat \<Rightarrow> parsed \<Rightarrow> parsed" where
  "cut n p = (if length (p_records p) \<le> n then p else p\<lparr>p_records := [], p_exceeded := True\<rparr>)"

locale bounded_parser =
  fixes parse :: "jsnum \<Rightarrow> parse_result"
  assumes parse_within: "parse (Fin (of_nat n)) = Some (Inr p) \<Longrightarrow> length (p_records p) \<le> n"
    and parse_over: "parse limit = Some (Inr p) \<Longrightarrow> p_exceeded p \<Longrightarrow> p_records p = []"
    and parse_ceiling: "parse PInf = Some (Inr p) \<Longrightarrow> parse (Fin (of_nat n)) = Some (Inr (cut n p))"
begin

lemma parse_accepts_iff:
  assumes "parse PInf = Some (Inr p)" "\<not> p_exceeded p"
  shows "(\<exists>q. parse (Fin (of_nat n)) = Some (Inr q) \<and> \<not> p_exceeded q \<and> p_records q = p_records p)
    \<longleftrightarrow> length (p_records p) \<le> n"
  using parse_ceiling [OF assms(1), of n] assms(2) by (auto simp: cut_def)

lemma parse_monotone:
  assumes "parse PInf = Some (Inr p)" "\<not> p_exceeded p" "m \<le> n"
    and "parse (Fin (of_nat m)) = Some (Inr q)" "\<not> p_exceeded q"
  shows "parse (Fin (of_nat n)) = Some (Inr q)"
  using parse_ceiling [OF assms(1), of n] parse_ceiling [OF assms(1), of m] assms(2-)
  by (auto simp: cut_def split: if_splits)

end

subsection \<open>Bounded collection keeps the contract\<close>

abbreviation collecting :: "'v list \<Rightarrow> 'v collector" where
  "collecting rs \<equiv> \<lparr>col_records = rs, col_settled = None\<rparr>"

lemma settled_stays:
  "col_settled st = Some r \<Longrightarrow> col_settled (fold (on_event limit extract) evs st) = Some r"
proof (induction evs arbitrary: st)
  case (Cons ev evs)
  then show ?case by (cases ev) (simp_all add: settle_def)
qed simp

lemma fold_on_event_cases:
  "col_settled (fold (on_event limit extract) (ev # evs) (collecting rs)) =
     (case ev of
        Data c \<Rightarrow>
          (case extract c of
             None \<Rightarrow> col_settled (fold (on_event limit extract) evs (collecting rs))
           | Some v \<Rightarrow>
               if num_gt (Fin (of_nat (Suc (length rs)))) limit then Some (Inr ([], True))
               else col_settled (fold (on_event limit extract) evs (collecting (rs @ [v]))))
      | Failed m \<Rightarrow> Some (Inl (Err None (StreamError m)))
      | _ \<Rightarrow> Some (Inr (rs, False)))"
  by (auto simp: settle_def settled_stays split: event.split option.split)

lemma collect_within:
  "col_settled (fold (on_event (Fin (of_nat n)) extract) evs (collecting rs)) = Some (Inr (vs, over)) \<Longrightarrow>
   length rs \<le> n \<Longrightarrow> length vs \<le> n"
proof (induction evs arbitrary: rs)
  case (Cons ev evs)
  then show ?case
    unfolding fold_on_event_cases
    by (cases ev) (auto split: option.splits if_splits)
qed simp

lemma collect_over:
  "col_settled (fold (on_event limit extract) evs (collecting rs)) = Some (Inr (vs, True)) \<Longrightarrow> vs = []"
proof (induction evs arbitrary: rs)
  case (Cons ev evs)
  then show ?case
    unfolding fold_on_event_cases by (cases ev) (auto split: option.splits if_splits)
qed simp

lemma collect_grows:
  "col_settled (fold (on_event PInf extract) evs (collecting rs)) = Some (Inr (vs, over)) \<Longrightarrow>
   \<not> over \<and> length rs \<le> length vs"
proof (induction evs arbitrary: rs)
  case (Cons ev evs)
  then show ?case
    unfolding fold_on_event_cases by (cases ev) (fastforce split: option.splits if_splits)+
qed simp

lemma collect_ceiling:
  "col_settled (fold (on_event PInf extract) evs (collecting rs)) = Some (Inr (vs, over)) \<Longrightarrow>
   length rs \<le> n \<Longrightarrow>
   col_settled (fold (on_event (Fin (of_nat n)) extract) evs (collecting rs)) =
     Some (Inr (if length vs \<le> n then (vs, over) else ([], True)))"
proof (induction evs arbitrary: rs)
  case (Cons ev evs)
  show ?case
  proof (cases ev)
    case (Data c)
    show ?thesis
    proof (cases "extract c")
      case None
      then show ?thesis using Cons Data by (simp add: fold_on_event_cases del: fold.simps)
    next
      case (Some v)
      have rest: "col_settled (fold (on_event PInf extract) evs (collecting (rs @ [v]))) = Some (Inr (vs, over))"
        using Cons.prems(1) Data Some by (simp add: fold_on_event_cases del: fold.simps of_nat_Suc)
      show ?thesis
      proof (cases "Suc (length rs) \<le> n")
        case True
        then show ?thesis
          using Cons.IH [OF rest] Data Some
          by (simp add: fold_on_event_cases del: fold.simps of_nat_Suc)
      next
        case False
        then show ?thesis
          using collect_grows [OF rest] Data Some
          by (simp add: fold_on_event_cases del: fold.simps of_nat_Suc)
      qed
    qed
  qed (use Cons in \<open>auto simp: fold_on_event_cases simp del: fold.simps\<close>)
qed simp

lemma collectBounded_contract:
  "collectBounded evs (Fin (of_nat n)) extract = Some (Inr (vs, over)) \<Longrightarrow> length vs \<le> n"
  "collectBounded evs limit extract = Some (Inr (vs, True)) \<Longrightarrow> vs = []"
  "collectBounded evs PInf extract = Some (Inr (vs, over)) \<Longrightarrow>
     collectBounded evs (Fin (of_nat n)) extract =
       Some (Inr (if length vs \<le> n then (vs, over) else ([], True)))"
  unfolding collectBounded_def using collect_within collect_over collect_ceiling
  by (fastforce, fastforce) (rule collect_ceiling, simp_all)


lemma as_parsed_simps [simp]:
  "p_records (as_parsed t (vs, over)) = vs" "p_exceeded (as_parsed t (vs, over)) = over"
  "cut n (as_parsed t (vs, over)) = as_parsed t (if length vs \<le> n then (vs, over) else ([], True))"
  by (simp_all add: as_parsed_def cut_def)

lemma mapped_Inr: "map_sum id f r = Inr p \<longleftrightarrow> (\<exists>a. r = Inr a \<and> p = f a)"
  by (cases r) auto

lemma collected_parser:
  "bounded_parser (\<lambda>limit. map_option (map_sum id (as_parsed t)) (collectBounded evs limit extract))"
proof
  fix n p limit
  show "length (p_records p) \<le> n"
    if "map_option (map_sum id (as_parsed t)) (collectBounded evs (Fin (rat_of_nat n)) extract) = Some (Inr p)"
    using that collectBounded_contract(1) [of evs n "extract"] by (auto simp: mapped_Inr)
  show "p_records p = []"
    if "map_option (map_sum id (as_parsed t)) (collectBounded evs limit extract) = Some (Inr p)" "p_exceeded p"
    using that collectBounded_contract(2) [of evs limit "extract"] by (auto simp: mapped_Inr)
  show "map_option (map_sum id (as_parsed t)) (collectBounded evs (Fin (rat_of_nat n)) extract) = Some (Inr (cut n p))"
    if "map_option (map_sum id (as_parsed t)) (collectBounded evs PInf extract) = Some (Inr p)"
    using that collectBounded_contract(3) [of evs "extract" _ _ n]
    by (auto simp: mapped_Inr)
qed

lemma failing_parser: "bounded_parser (\<lambda>limit. Some (Inl e))"
  by unfold_locales simp_all

interpretation csv: bounded_parser "parseCsvBounded L filePath" for L filePath
  using collected_parser failing_parser
  unfolding parseCsvBounded_def by (cases "readFile L filePath") simp_all

interpretation json: bounded_parser "parseJsonBounded L filePath" for L filePath
proof (cases "readFile L filePath")
  case (Some content)
  then show "bounded_parser (parseJsonBounded L filePath)"
    using collected_parser failing_parser
    unfolding parseJsonBounded_def by (cases "assertJsonRootIsArray content") simp_all
next
  case None
  then show "bounded_parser (parseJsonBounded L filePath)"
    using failing_parser unfolding parseJsonBounded_def by simp
qed

interpretation excel: bounded_parser "parseExcelBounded L filePath" for L filePath
  by unfold_locales
    (auto simp: parseExcelBounded_def Let_def split: sum.splits list.splits if_splits)

interpretation sql: bounded_parser "\<lambda>limit. parseSqlBounded L filePath limit sqlTable" for L filePath sqlTable
proof
  fix n p limit
  show "length (p_records p) \<le> n"
    if "parseSqlBounded L filePath (Fin (rat_of_nat n)) sqlTable = Some (Inr p)"
    using that extractSqlTable_within
    by (auto simp: parseSqlBounded_def split: option.splits sum.splits err.splits if_splits)
  show "p_records p = []" if "parseSqlBounded L filePath limit sqlTable = Some (Inr p)" "p_exceeded p"
    using that by (auto simp: parseSqlBounded_def split: option.splits sum.splits err.splits)
  show "parseSqlBounded L filePath (Fin (rat_of_nat n)) sqlTable = Some (Inr (cut n p))"
    if "parseSqlBounded L filePath PInf sqlTable = Some (Inr p)"
    using that extractSqlTable_limited [of _ sqlTable _ n] extractSqlTable_unlimited
    by (fastforce simp: parseSqlBounded_def cut_def split: option.splits sum.splits err.splits if_splits)
qed

lemma parseStreaming_cases:
  "parseStreaming L filePath fmt limit st =
     (if fmt = ''csv'' then parseCsvBounded L filePath
      else if fmt = ''json'' then parseJsonBounded L filePath
      else if fmt = ''excel'' then parseExcelBounded L filePath
      else if fmt = ''sql'' then (\<lambda>limit. parseSqlBounded L filePath limit st)
      else (\<lambda>_. Some (Inl (Err None (UnknownFormat fmt))))) limit"
  by (simp add: parseStreaming_def)

interpretation streaming: bounded_parser "\<lambda>limit. parseStreaming L filePath fmt limit st"
  for L filePath fmt st
  unfolding parseStreaming_cases
  using csv.bounded_parser_axioms json.bounded_parser_axioms excel.bounded_parser_axioms
    sql.bounded_parser_axioms failing_parser
  by (auto simp del: if_True)


subsection \<open>Properties\<close>

text \<open>
  C4. Whatever the format, the packages and the file do, a parse under a row ceiling that succeeds
  holds at most that many records, and none once the ceiling was exceeded.
\<close>

theorem parseStreaming_within:
  assumes "parseStreaming L filePath fmt (Fin (of_nat n)) st = Some (Inr p)"
  shows "length (p_records p) \<le> n \<and> (p_exceeded p \<longrightarrow> p_records p = [])"
  using streaming.parse_within streaming.parse_over assms by blast

definition demo_libs :: libs where
  "demo_libs =
     \<lparr>readFile = (\<lambda>p. if p = ''a'' then Some ''[{},{}]'' else None),
      csv_events = (\<lambda>_. [Ended]), json_events = (\<lambda>_. [Data (Some (VObj [])), Data (Some (VObj [])), Ended]),
      xlsx_read = (\<lambda>_. Inr []), lib_env = \<lparr>date_parse = (\<lambda>_. None), date_print = (\<lambda>_. []), date_iso = (\<lambda>_. [])\<rparr>\<rparr>"

lemma demo_parse:
  "parseStreaming demo_libs ''a'' ''json'' (Fin (of_nat 2)) None =
     Some (Inr \<lparr>p_records = [[], []], p_exceeded = False, p_tableName = None\<rparr>)"
  "parseStreaming demo_libs ''a'' ''json'' PInf None =
     Some (Inr \<lparr>p_records = [[], []], p_exceeded = False, p_tableName = None\<rparr>)"
  by (simp_all add: parseStreaming_def parseJsonBounded_def demo_libs_def assertJsonRootIsArray_def
      MAX_LEADING_WHITESPACE_def numeral_eq_Suc collectBounded_def settle_def as_parsed_def)

theorem parseStreaming_within_witness:
  "length (p_records \<lparr>p_records = [[], [] :: obj], p_exceeded = False, p_tableName = None\<rparr>) \<le> 2"
  using parseStreaming_within [OF demo_parse(1)] by (rule conjunct1)

text \<open>
  C5. A ceiling only ever cuts: a file that parses without one gives, under a ceiling, the same
  records when they fit and the overflow answer when they do not, for every format.
\<close>

theorem parseStreaming_ceiling:
  assumes "parseStreaming L filePath fmt PInf st = Some (Inr p)"
  shows "parseStreaming L filePath fmt (Fin (of_nat n)) st =
    Some (Inr (if length (p_records p) \<le> n then p else p\<lparr>p_records := [], p_exceeded := True\<rparr>))"
  using streaming.parse_ceiling [OF assms] by (simp add: cut_def)

theorem parseStreaming_ceiling_witness:
  "parseStreaming demo_libs ''a'' ''json'' (Fin (of_nat 1)) None =
     Some (Inr \<lparr>p_records = [], p_exceeded = True, p_tableName = None\<rparr>)"
  using parseStreaming_ceiling [OF demo_parse(2), of 1] by simp

lemma on_event_held:
  "length (col_records st) \<le> n \<Longrightarrow> length (col_records (on_event (Fin (of_nat n)) extract ev st)) \<le> n"
  by (cases ev) (auto simp: settle_def Let_def split: option.split)

text \<open>
  Memory is bounded while a stream is being drained, not only at its end: after any events, the
  collector holds at most as many records as the ceiling allows.
\<close>

lemma collectBounded_memory:
  "length (col_records (fold (on_event (Fin (of_nat n)) extract) events
     \<lparr>col_records = [], col_settled = None\<rparr>)) \<le> n"
proof -
  have "length (col_records (fold (on_event (Fin (of_nat n)) extract) events st)) \<le> n"
    if "length (col_records st) \<le> n" for st
    using that by (induction events arbitrary: st) (simp_all add: on_event_held)
  then show ?thesis by simp
qed

lemma json_root_loop_ok:
  "json_root_loop n bytes = None \<longleftrightarrow>
     (\<exists>ws rest. bytes = ws @ CHR ''['' # rest \<and> (\<forall>c \<in> set ws. is_ws c) \<and> length ws < n)"
proof (induction n bytes rule: json_root_loop.induct)
  case (3 n ch bytes)
  have bracket: "\<not> is_ws (CHR ''['')"
    by (simp add: is_ws_def code_def)
  have ex_list: "(\<exists>ws. P ws) \<longleftrightarrow> P [] \<or> (\<exists>c ws. P (c # ws))" for P :: "string \<Rightarrow> bool"
    by (metis list.exhaust)
  consider "ch = CHR ''[''" | "is_ws ch" | "ch \<noteq> CHR ''[''" "\<not> is_ws ch"
    by blast
  then show ?case
  proof cases
    case 1
    then show ?thesis by (simp, intro exI [of _ "[]"], simp)
  next
    case 2
    then have "(\<exists>ws rest. ch # bytes = ws @ CHR ''['' # rest \<and> (\<forall>c \<in> set ws. is_ws c) \<and> length ws < Suc n)
        \<longleftrightarrow> (\<exists>ws rest. bytes = ws @ CHR ''['' # rest \<and> (\<forall>c \<in> set ws. is_ws c) \<and> length ws < n)"
      using bracket by (subst ex_list) auto
    then show ?thesis using 2 3 bracket by auto
  next
    case 3
    then show ?thesis by (auto simp: Cons_eq_append_conv)
  qed
qed auto

text \<open>
  The root check accepts a JSON file exactly when an opening bracket is preceded by nothing but
  blanks, fewer than a hundred of them. In particular a file that starts with a UTF-8 byte order
  mark is refused, since the mark's first byte is no blank.
\<close>

lemma assertJsonRootIsArray_iff:
  "assertJsonRootIsArray content = Inr () \<longleftrightarrow>
     (\<exists>ws rest. content = ws @ CHR ''['' # rest \<and> list_all is_ws ws \<and> length ws < 100)"
  using json_root_loop_ok [of 100 content]
  by (auto simp: list_all_iff assertJsonRootIsArray_def MAX_LEADING_WHITESPACE_def split: option.splits)

text \<open>
  A JSON array file that starts with the UTF-8 byte order mark is rejected with "unexpected
  character", although the loop means to skip a leading mark.
\<close>

lemma assertJsonRootIsArray_bom:
  "assertJsonRootIsArray (CHR 0xEF # CHR 0xBB # CHR 0xBF # content)
     = Inl (Err None (JsonUnexpected (CHR 0xEF)))"
  by (simp add: assertJsonRootIsArray_def MAX_LEADING_WHITESPACE_def numeral_eq_Suc is_ws_def code_def)

text \<open>
  A formula cell whose result is an error is staged as the error object itself, although error
  cells are meant to become blank.
\<close>

lemma excelCellValue_formula_error:
  "excelCellValue env (VObj [(''formula'', f), (''result'', VObj [(''error'', e)])]) text
     = VObj [(''error'', e)]"
  by (simp add: excelCellValue_def or_empty_def)

end
