(* ===== verification/Guardrail.thy ===== *)
theory Guardrail
  imports StreamParser
begin

text \<open>
  core/guardrail: the tier policy read from the environment (\<open>process.env\<close>, a partial map from
  names to strings) and the two import ceilings, rows and bytes. Rejection messages are values
  that hold what the text interpolates.
\<close>

type_synonym process_env = "string \<Rightarrow> string option"

text \<open>\<open>Number(process.env.X) || d\<close>; \<open>Number(undefined)\<close> is NaN.\<close>

definition env_num :: "process_env \<Rightarrow> string \<Rightarrow> jsnum \<Rightarrow> jsnum" where
  "env_num penv k d = num_or (case penv k of Some s \<Rightarrow> parse_number s | None \<Rightarrow> NaN) d"

text \<open>\<open>process.env.X || d\<close>\<close>

definition env_str :: "process_env \<Rightarrow> string \<Rightarrow> string \<Rightarrow> string" where
  "env_str penv k d = (case penv k of None \<Rightarrow> d | Some s \<Rightarrow> if s = [] then d else s)"

subsection \<open>The tier policy\<close>

record tier =
  storageMode :: string
  tier_limit :: jsnum
  tier_limitBytes :: jsnum

definition envTierPolicy_resolve :: "process_env \<Rightarrow> id \<Rightarrow> tier" where
  "envTierPolicy_resolve penv tenantId =
     (let mode = env_str penv ''ONBOARDER_TIER_STORAGE_MODE'' ''shared'';
          SHARED_LIMIT = env_num penv ''ONBOARDER_SHARED_MAX_ROWS'' (Fin 20000);
          DEDICATED_LIMIT = env_num penv ''ONBOARDER_DEDICATED_MAX_ROWS'' (Fin 50000);
          SHARED_BYTES = env_num penv ''ONBOARDER_SHARED_MAX_BYTES'' (Fin (20 * 1024 * 1024));
          DEDICATED_BYTES = env_num penv ''ONBOARDER_DEDICATED_MAX_BYTES'' (Fin (512 * 1024 * 1024));
          isOwnDb = (mode \<noteq> ''shared'')
      in \<lparr>storageMode = mode,
          tier_limit = (if isOwnDb then DEDICATED_LIMIT else SHARED_LIMIT),
          tier_limitBytes = (if isOwnDb then DEDICATED_BYTES else SHARED_BYTES)\<rparr>)"

subsection \<open>Ceilings named in messages\<close>

definition SHARED_MAX_IMPORT_ROWS :: "process_env \<Rightarrow> jsnum" where
  "SHARED_MAX_IMPORT_ROWS penv = env_num penv ''MIGRATION_SHARED_MAX_IMPORT_ROWS'' (Fin 20000)"

definition DEDICATED_MAX_IMPORT_ROWS :: "process_env \<Rightarrow> jsnum" where
  "DEDICATED_MAX_IMPORT_ROWS penv = env_num penv ''MIGRATION_DEDICATED_MAX_IMPORT_ROWS'' (Fin 50000)"

definition SHARED_MAX_IMPORT_BYTES :: "process_env \<Rightarrow> jsnum" where
  "SHARED_MAX_IMPORT_BYTES penv =
     env_num penv ''MIGRATION_SHARED_MAX_IMPORT_BYTES'' (Fin (20 * 1024 * 1024))"

definition DEDICATED_MAX_IMPORT_BYTES :: "process_env \<Rightarrow> jsnum" where
  "DEDICATED_MAX_IMPORT_BYTES penv =
     env_num penv ''MIGRATION_DEDICATED_MAX_IMPORT_BYTES'' (Fin (512 * 1024 * 1024))"

definition getImportRowLimit :: "process_env \<Rightarrow> id \<Rightarrow> tier" where
  "getImportRowLimit penv tenantId = envTierPolicy_resolve penv tenantId"

subsection \<open>Rejections\<close>

text \<open>The offending quantity: counted, known only to be past the ceiling, or unknown.\<close>

datatype current = Counted jsnum | MoreThan jsnum | Unknown

datatype reason =
    RowsShared (reason_count: current) (reason_limit: jsnum) (files_capped_at: jsnum) (raised_to: jsnum)
  | RowsByod (reason_count: current) (reason_limit: jsnum)
  | RowsDedicated (reason_count: current) (reason_limit: jsnum)
  | BytesShared (reason_size: "jsnum option") (reason_limit: jsnum) (raised_to: jsnum)
  | BytesOwn (reason_size: "jsnum option") (reason_limit: jsnum)

definition buildGuardrailRejectionReason ::
  "process_env \<Rightarrow> string \<Rightarrow> jsnum \<Rightarrow> current \<Rightarrow> reason" where
  "buildGuardrailRejectionReason penv mode limit rowCountLabel =
     (if mode = ''shared'' then
        RowsShared rowCountLabel limit (SHARED_MAX_IMPORT_BYTES penv) (DEDICATED_MAX_IMPORT_ROWS penv)
      else if mode = ''byod'' then RowsByod rowCountLabel limit
      else RowsDedicated rowCountLabel limit)"

definition buildByteRejectionReason ::
  "process_env \<Rightarrow> string \<Rightarrow> jsnum \<Rightarrow> jsnum option \<Rightarrow> reason" where
  "buildByteRejectionReason penv mode limitBytes sizeBytes =
     (if mode = ''shared'' then BytesShared sizeBytes limitBytes (DEDICATED_MAX_IMPORT_BYTES penv)
      else BytesOwn sizeBytes limitBytes)"

record tier_limits =
  max_rows :: jsnum
  max_bytes :: jsnum

definition TIER_LIMITS :: "process_env \<Rightarrow> (string \<times> tier_limits) list" where
  "TIER_LIMITS penv =
     (let shared = \<lparr>max_rows = SHARED_MAX_IMPORT_ROWS penv, max_bytes = SHARED_MAX_IMPORT_BYTES penv\<rparr>;
          own = \<lparr>max_rows = DEDICATED_MAX_IMPORT_ROWS penv, max_bytes = DEDICATED_MAX_IMPORT_BYTES penv\<rparr>
      in [(''shared'', shared), (''dedicated'', own), (''byod'', own), (''local'', own)])"

record cta =
  cta_available :: bool
  fromTier :: string
  toTier :: "string option"
  currentLimit :: "tier_limits option"
  targetLimit :: "tier_limits option"
  actions :: "string list"

definition buildUpgradeCta :: "process_env \<Rightarrow> string \<Rightarrow> cta" where
  "buildUpgradeCta penv mode =
     (if mode = ''shared'' then
        \<lparr>cta_available = True, fromTier = ''shared'', toTier = Some ''own_database'',
         currentLimit = map_of (TIER_LIMITS penv) ''shared'',
         targetLimit = map_of (TIER_LIMITS penv) ''dedicated'',
         actions = [''provision_dedicated'', ''connect_byod'', ''split_file'']\<rparr>
      else
        \<lparr>cta_available = False, fromTier = mode, toTier = None,
         currentLimit = (case map_of (TIER_LIMITS penv) mode of
            None \<Rightarrow> map_of (TIER_LIMITS penv) ''dedicated'' | Some l \<Rightarrow> Some l),
         targetLimit = None,
         actions = [''split_file'', ''contact_support'']\<rparr>)"

record rejection =
  rej_code :: string
  rej_dimension :: string
  rej_storageMode :: string
  rej_limit :: jsnum
  rej_current :: current
  rej_reason :: reason
  rej_upgrade :: cta

definition describeGuardrailRejection ::
  "process_env \<Rightarrow> string \<Rightarrow> string \<Rightarrow> jsnum \<Rightarrow> current \<Rightarrow> rejection" where
  "describeGuardrailRejection penv mode dimension limit current =
     \<lparr>rej_code = ''MIGRATION_IMPORT_LIMIT_EXCEEDED'', rej_dimension = dimension,
      rej_storageMode = mode, rej_limit = limit, rej_current = current,
      rej_reason =
        (if dimension = ''bytes''
         then buildByteRejectionReason penv mode limit
                (case current of Counted n \<Rightarrow> Some n | _ \<Rightarrow> None)
         else buildGuardrailRejectionReason penv mode limit current),
      rej_upgrade = buildUpgradeCta penv mode\<rparr>"

subsection \<open>Decisions\<close>

record verdict =
  allowed :: bool
  v_reason :: "reason option"
  v_limit :: jsnum
  v_storageMode :: string
  v_details :: "rejection option"

definition accept :: "string \<Rightarrow> jsnum \<Rightarrow> verdict" where
  "accept mode limit =
     \<lparr>allowed = True, v_reason = None, v_limit = limit, v_storageMode = mode, v_details = None\<rparr>"

definition reject :: "rejection \<Rightarrow> verdict" where
  "reject details =
     \<lparr>allowed = False, v_reason = Some (rej_reason details), v_limit = rej_limit details,
      v_storageMode = rej_storageMode details, v_details = Some details\<rparr>"

definition checkImportFileSize :: "process_env \<Rightarrow> id \<Rightarrow> jsnum option \<Rightarrow> verdict" where
  "checkImportFileSize penv tenantId sizeBytes =
     (let t = envTierPolicy_resolve penv tenantId in
      case sizeBytes of
        None \<Rightarrow> accept (storageMode t) (tier_limitBytes t)
      | Some sz \<Rightarrow>
          if num_gt sz (tier_limitBytes t)
          then reject (describeGuardrailRejection penv (storageMode t) ''bytes''
                 (tier_limitBytes t) (Counted sz))
          else accept (storageMode t) (tier_limitBytes t))"

definition checkImportGuardrail :: "process_env \<Rightarrow> id \<Rightarrow> jsnum \<Rightarrow> verdict" where
  "checkImportGuardrail penv tenantId rowCount =
     (let t = getImportRowLimit penv tenantId in
      if num_gt rowCount (tier_limit t)
      then reject (describeGuardrailRejection penv (storageMode t) ''rows'' (tier_limit t)
             (Counted rowCount))
      else accept (storageMode t) (tier_limit t))"

record streamed = verdict +
  s_records :: "obj list option"
  s_tableName :: "string option"

definition checkGuardrailStreaming ::
  "process_env \<Rightarrow> libs \<Rightarrow> id \<Rightarrow> string \<Rightarrow> string \<Rightarrow> string option
     \<Rightarrow> (parse_error err + streamed) option" where
  "checkGuardrailStreaming penv L tenantId filePath sourceFormat sqlTable =
     (let t = getImportRowLimit penv tenantId in
      case parseStreaming L filePath sourceFormat (tier_limit t) sqlTable of
        None \<Rightarrow> None
      | Some (Inl e) \<Rightarrow> Some (Inl e)
      | Some (Inr p) \<Rightarrow>
          Some (Inr
            (if p_exceeded p
             then verdict.extend
                    (reject (describeGuardrailRejection penv (storageMode t) ''rows'' (tier_limit t)
                       (MoreThan (tier_limit t))))
                    (streamed.fields None (p_tableName p))
             else verdict.extend (accept (storageMode t) (tier_limit t))
                    (streamed.fields (Some (p_records p)) (p_tableName p)))))"

subsection \<open>Properties\<close>

lemma verdict_extend_simps [simp]:
  "allowed (verdict.extend v m) = allowed v" "v_details (verdict.extend v m) = v_details v"
  "v_limit (verdict.extend v m) = v_limit v" "v_reason (verdict.extend v m) = v_reason v"
  "s_records (verdict.extend v (streamed.fields r t)) = r"
  "s_tableName (verdict.extend v (streamed.fields r t)) = t"
  by (simp_all add: verdict.defs streamed.defs)

lemma verdict_simps [simp]:
  "allowed (accept mode limit)" "v_details (accept mode limit) = None" "v_limit (accept mode limit) = limit"
  "\<not> allowed (reject d)" "v_details (reject d) = Some d" "v_reason (reject d) = Some (rej_reason d)"
  "v_limit (reject d) = rej_limit d"
  by (simp_all add: accept_def reject_def)

text \<open>
  C6. The two row checks decide alike: parsing a file under the tenant's ceiling accepts it exactly
  when counting the rows of the whole file would, it then hands over every record of the file, and
  a rejection carries no records.
\<close>

theorem checkGuardrailStreaming_counts:
  assumes "tier_limit (getImportRowLimit penv tenantId) = Fin (of_nat n)"
    and "parseStreaming L filePath fmt PInf st = Some (Inr p)" "\<not> p_exceeded p"
    and "checkGuardrailStreaming penv L tenantId filePath fmt st = Some (Inr v)"
  shows "allowed v = allowed (checkImportGuardrail penv tenantId (Fin (of_nat (length (p_records p)))))
    \<and> s_records v = (if allowed v then Some (p_records p) else None)"
  using assms streaming.parse_ceiling [OF assms(2), of n]
  by (auto simp: checkGuardrailStreaming_def checkImportGuardrail_def Let_def cut_def split: if_splits)

lemma default_tier:
  "tier_limit (getImportRowLimit (\<lambda>_. None) t) = Fin 20000"
  "storageMode (getImportRowLimit (\<lambda>_. None) t) = ''shared''"
  by (simp_all add: getImportRowLimit_def envTierPolicy_resolve_def env_num_def env_str_def num_or_def Let_def)

lemma small_tier:
  "tier_limit (getImportRowLimit [''ONBOARDER_SHARED_MAX_ROWS'' \<mapsto> ''1''] t) = Fin 1"
  "storageMode (getImportRowLimit [''ONBOARDER_SHARED_MAX_ROWS'' \<mapsto> ''1''] t) = ''shared''"
proof -
  have "''1'' = show_int 1"
    by (simp add: show_int_def digit_char_def show_nat.simps)
  then have "parse_number ''1'' = Fin 1"
    using parse_number_show_int [of 1] by simp
  then show "tier_limit (getImportRowLimit [''ONBOARDER_SHARED_MAX_ROWS'' \<mapsto> ''1''] t) = Fin 1"
    by (simp add: getImportRowLimit_def envTierPolicy_resolve_def env_num_def env_str_def num_or_def Let_def)
  show "storageMode (getImportRowLimit [''ONBOARDER_SHARED_MAX_ROWS'' \<mapsto> ''1''] t) = ''shared''"
    by (simp add: getImportRowLimit_def envTierPolicy_resolve_def env_str_def Let_def)
qed

theorem checkGuardrailStreaming_counts_witness:
  "\<exists>v. checkGuardrailStreaming [''ONBOARDER_SHARED_MAX_ROWS'' \<mapsto> ''1''] demo_libs ''t'' ''a'' ''json'' None
      = Some (Inr v) \<and> \<not> allowed v \<and> s_records v = None"
proof -
  let ?env = "[''ONBOARDER_SHARED_MAX_ROWS'' \<mapsto> ''1'']"
  have parse: "parseStreaming demo_libs ''a'' ''json'' (Fin 1) None =
      Some (Inr \<lparr>p_records = [], p_exceeded = True, p_tableName = None\<rparr>)"
    using streaming.parse_ceiling [OF demo_parse(2), of 1] by (simp add: cut_def)
  obtain v where v: "checkGuardrailStreaming ?env demo_libs ''t'' ''a'' ''json'' None = Some (Inr v)"
    using parse by (simp add: checkGuardrailStreaming_def Let_def small_tier del: fun_upd_apply)
  have "\<not> allowed (checkImportGuardrail ?env ''t'' (Fin 2))"
    by (simp add: checkImportGuardrail_def Let_def small_tier del: fun_upd_apply)
  then show ?thesis
    using checkGuardrailStreaming_counts [of ?env "''t''" 1, OF _ demo_parse(2) _ v] v
    by (simp add: small_tier del: fun_upd_apply)
qed


text \<open>
  The ceiling a rejection enforces and the one its upgrade offer names come from different
  environment variables: with only the tier policy's variable set, an import is refused at one
  row while the offer says the current limit is 20,000.
\<close>

lemma upgrade_offer_disagrees:
  "\<exists>d l. v_details (checkImportGuardrail [''ONBOARDER_SHARED_MAX_ROWS'' \<mapsto> ''1''] t (Fin 2)) = Some d
     \<and> rej_limit d = Fin 1 \<and> currentLimit (rej_upgrade d) = Some l \<and> max_rows l = Fin 20000"
  by (simp add: checkImportGuardrail_def small_tier describeGuardrailRejection_def buildUpgradeCta_def
      TIER_LIMITS_def SHARED_MAX_IMPORT_ROWS_def env_num_def num_or_def Let_def del: fun_upd_apply)
    (simp add: num_or_def)

end
