(* ===== verification/JobStore.thy ===== *)
theory JobStore
  imports Mapping DependencyGraph Guardrail
begin

text \<open>
  The data the engine persists (orchestration/adapters/mongoose/schemas) and the interface of
  orchestration/jobStore.js through which core and orchestration reach it. The state of a store is
  a type \<open>'s\<close>; a document filter is the list of its conditions, and an update is named by what
  its \<open>$set\<close> assigns.
\<close>

subsection \<open>Import jobs\<close>

datatype job_status =
    PendingUpload | Uploaded | GuardrailRejected | Staged | Mapped | Validated | Committing
  | Completed | CompletedWithErrors | CommitFailed | Failed

fun status_name :: "job_status \<Rightarrow> string" where
  "status_name PendingUpload = ''pending_upload''"
| "status_name Uploaded = ''uploaded''"
| "status_name GuardrailRejected = ''guardrail_rejected''"
| "status_name Staged = ''staged''"
| "status_name Mapped = ''mapped''"
| "status_name Validated = ''validated''"
| "status_name Committing = ''committing''"
| "status_name Completed = ''completed''"
| "status_name CompletedWithErrors = ''completed_with_errors''"
| "status_name CommitFailed = ''commit_failed''"
| "status_name Failed = ''failed''"

text \<open>The order in which the schema lists them, which is the order a job goes through them.\<close>

fun status_rank :: "job_status \<Rightarrow> nat" where
  "status_rank PendingUpload = 0"
| "status_rank Uploaded = 1"
| "status_rank GuardrailRejected = 2"
| "status_rank Staged = 3"
| "status_rank Mapped = 4"
| "status_rank Validated = 5"
| "status_rank Committing = 6"
| "status_rank Completed = 7"
| "status_rank CompletedWithErrors = 8"
| "status_rank CommitFailed = 9"
| "status_rank Failed = 10"

lemma status_rank_inject: "status_rank a = status_rank b \<longleftrightarrow> a = b"
  by (cases a; cases b) simp_all

instantiation job_status :: linorder
begin

definition less_eq_job_status :: "job_status \<Rightarrow> job_status \<Rightarrow> bool" where
  "less_eq_job_status a b \<longleftrightarrow> status_rank a \<le> status_rank b"

definition less_job_status :: "job_status \<Rightarrow> job_status \<Rightarrow> bool" where
  "less_job_status a b \<longleftrightarrow> status_rank a < status_rank b"

instance
  by standard (auto simp: less_eq_job_status_def less_job_status_def status_rank_inject)

end

record job_counts =
  totalRows :: nat
  stagedRows :: nat
  validRows :: nat
  invalidRows :: nat
  committedRows :: nat
  skippedRows :: nat
  commitFailedRows :: nat
  errorRows :: nat

record job_file =
  originalName :: string
  publicId :: "string option"
  url :: "string option"
  sizeBytes :: jsnum

record job_guardrail =
  g_passed :: "bool option"
  g_reason :: "reason option"
  g_limit :: "jsnum option"
  g_checkedAt :: "int option"
  g_upgrade :: "cta option"

record job_gcs =
  objectPath :: "string option"
  bucketName :: "string option"
  executionName :: "string option"

type_synonym field_map = "(string \<times> string) list"

text \<open>One assignment of a \<open>$set\<close> document on a job.\<close>

datatype count_field =
    ValidRows | InvalidRows | CommittedRows | CommitFailedRows | SkippedRows | TotalRows | StagedRows

datatype job_set =
    SetStatus job_status
  | SetCount count_field nat
  | SetStartedAt int
  | SetCompletedAt int
  | SetMode string
  | SetError string
  | SetSourceFormat string
  | SetGuardPassed bool
  | SetGuardReason "reason option"
  | SetGuardLimit jsnum
  | SetGuardCheckedAt int
  | SetGuardUpgrade "cta option"
  | SetSessionId id

fun count_path :: "count_field \<Rightarrow> string" where
  "count_path ValidRows = ''counts.validRows''"
| "count_path InvalidRows = ''counts.invalidRows''"
| "count_path CommittedRows = ''counts.committedRows''"
| "count_path CommitFailedRows = ''counts.commitFailedRows''"
| "count_path SkippedRows = ''counts.skippedRows''"
| "count_path TotalRows = ''counts.totalRows''"
| "count_path StagedRows = ''counts.stagedRows''"

fun set_path :: "job_set \<Rightarrow> string" where
  "set_path (SetStatus _) = ''status''"
| "set_path (SetCount f _) = count_path f"
| "set_path (SetStartedAt _) = ''commit.startedAt''"
| "set_path (SetCompletedAt _) = ''commit.completedAt''"
| "set_path (SetMode _) = ''commit.mode''"
| "set_path (SetError _) = ''error''"
| "set_path (SetSourceFormat _) = ''sourceFormat''"
| "set_path (SetGuardPassed _) = ''guardrail.passed''"
| "set_path (SetGuardReason _) = ''guardrail.reason''"
| "set_path (SetGuardLimit _) = ''guardrail.limit''"
| "set_path (SetGuardCheckedAt _) = ''guardrail.checkedAt''"
| "set_path (SetGuardUpgrade _) = ''guardrail.upgrade''"
| "set_path (SetSessionId _) = ''sessionId''"

text \<open>
  A job document. \<open>j_dotted\<close> holds properties whose name contains a dot, which only a store that
  does not follow dotted paths creates.
\<close>

record import_job =
  j_id :: id
  j_tenantId :: id
  j_module :: string
  j_entityKey :: "string option"
  j_sessionId :: "id option"
  j_mappingProfileId :: "id option"
  j_fieldMap :: "field_map option"
  j_sourceFormat :: string
  j_sqlTable :: "string option"
  j_status :: job_status
  j_startedAt :: "int option"
  j_completedAt :: "int option"
  j_mode :: "string option"
  j_file :: job_file
  j_counts :: job_counts
  j_guardrail :: job_guardrail
  j_gcs :: job_gcs
  j_error :: "string option"
  j_createdBy :: "id option"
  j_dotted :: "(string \<times> job_set) list"

fun set_count :: "count_field \<Rightarrow> nat \<Rightarrow> job_counts \<Rightarrow> job_counts" where
  "set_count ValidRows n c = c\<lparr>validRows := n\<rparr>"
| "set_count InvalidRows n c = c\<lparr>invalidRows := n\<rparr>"
| "set_count CommittedRows n c = c\<lparr>committedRows := n\<rparr>"
| "set_count CommitFailedRows n c = c\<lparr>commitFailedRows := n\<rparr>"
| "set_count SkippedRows n c = c\<lparr>skippedRows := n\<rparr>"
| "set_count TotalRows n c = c\<lparr>totalRows := n\<rparr>"
| "set_count StagedRows n c = c\<lparr>stagedRows := n\<rparr>"

text \<open>MongoDB's \<open>$set\<close> follows dotted paths.\<close>

fun apply_set :: "job_set \<Rightarrow> import_job \<Rightarrow> import_job" where
  "apply_set (SetStatus st) j = j\<lparr>j_status := st\<rparr>"
| "apply_set (SetCount f n) j = j\<lparr>j_counts := set_count f n (j_counts j)\<rparr>"
| "apply_set (SetStartedAt t) j = j\<lparr>j_startedAt := Some t\<rparr>"
| "apply_set (SetCompletedAt t) j = j\<lparr>j_completedAt := Some t\<rparr>"
| "apply_set (SetMode m) j = j\<lparr>j_mode := Some m\<rparr>"
| "apply_set (SetError e) j = j\<lparr>j_error := Some e\<rparr>"
| "apply_set (SetSourceFormat f) j = j\<lparr>j_sourceFormat := f\<rparr>"
| "apply_set (SetGuardPassed b) j = j\<lparr>j_guardrail := (j_guardrail j)\<lparr>g_passed := Some b\<rparr>\<rparr>"
| "apply_set (SetGuardReason r) j = j\<lparr>j_guardrail := (j_guardrail j)\<lparr>g_reason := r\<rparr>\<rparr>"
| "apply_set (SetGuardLimit n) j = j\<lparr>j_guardrail := (j_guardrail j)\<lparr>g_limit := Some n\<rparr>\<rparr>"
| "apply_set (SetGuardCheckedAt t) j = j\<lparr>j_guardrail := (j_guardrail j)\<lparr>g_checkedAt := Some t\<rparr>\<rparr>"
| "apply_set (SetGuardUpgrade u) j = j\<lparr>j_guardrail := (j_guardrail j)\<lparr>g_upgrade := u\<rparr>\<rparr>"
| "apply_set (SetSessionId i) j = j\<lparr>j_sessionId := Some i\<rparr>"

lemma apply_set_keeps [simp]:
  "j_id (apply_set u j) = j_id j" "j_tenantId (apply_set u j) = j_tenantId j"
  "j_module (apply_set u j) = j_module j" "j_entityKey (apply_set u j) = j_entityKey j"
  by (cases u; simp)+

lemma fold_apply_set_keeps [simp]:
  "j_id (fold apply_set us j) = j_id j" "j_tenantId (fold apply_set us j) = j_tenantId j"
  "j_module (fold apply_set us j) = j_module j" "j_entityKey (fold apply_set us j) = j_entityKey j"
  by (induction us arbitrary: j) simp_all

subsection \<open>Staged rows\<close>

datatype validation_status = Unvalidated | Valid | Invalid

datatype commit_status = Pending | RowCommitting | Committed | Skipped | CommitError

fun validation_name :: "validation_status \<Rightarrow> string" where
  "validation_name Unvalidated = ''unvalidated''"
| "validation_name Valid = ''valid''"
| "validation_name Invalid = ''invalid''"

fun commit_name :: "commit_status \<Rightarrow> string" where
  "commit_name Pending = ''pending''"
| "commit_name RowCommitting = ''committing''"
| "commit_name Committed = ''committed''"
| "commit_name Skipped = ''skipped''"
| "commit_name CommitError = ''failed''"

datatype row_error =
    RequiredMissing string
  | NotInEnum string val "val list"
  | DuplicateInFile string
  | AlreadyExists string
  | ReferenceNotFound string val
  | ExcludedByReviewer

text \<open>The text of an error, as the code words it (with a hyphen for its dash).\<close>

fun error_text :: "js_env \<Rightarrow> row_error \<Rightarrow> string" where
  "error_text env (RequiredMissing label) = ''\"'' @ label @ ''\" is required''"
| "error_text env (NotInEnum label v vs) =
     ''\"'' @ label @ ''\" value \"'' @ js_str env v @ ''\" is not one of: ''
       @ join '', '' (map (\<lambda>v. if v = VNull then [] else js_str env v) vs)"
| "error_text env (DuplicateInFile f) =
     ''Duplicate within this file '' @ ''-'' @ '' another row already uses this '' @ f"
| "error_text env (AlreadyExists f) =
     ''Already exists '' @ ''-'' @ '' a record with this '' @ f @ '' already exists''"
| "error_text env (ReferenceNotFound label v) =
     ''\"'' @ label @ ''\" value \"'' @ js_str env v @ ''\" was not found''"
| "error_text env ExcludedByReviewer = ''Excluded by reviewer''"

record srow =
  s_id :: id
  s_tenantId :: id
  s_importJobId :: id
  s_rowIndex :: nat
  s_rawRow :: obj
  s_customFields :: obj
  s_mappedFields :: "obj option"
  s_externalId :: "string option"
  s_entityKey :: "string option"
  s_validationStatus :: "validation_status option"
  s_validationErrors :: "row_error list"
  s_commitStatus :: commit_status
  s_committedEntityId :: "id option"
  s_committedEntityModel :: "string option"
  s_commitError :: "string option"

text \<open>The assignments the code makes on staged rows.\<close>

datatype row_set =
    SetMapped obj obj
  | SetValidation validation_status "row_error list"
  | SetCommitting
  | SetCommitted id string
  | SetCommittedEarlier
  | SetCommitFailed string
  | SetExternalId string string

fun apply_row_set :: "row_set \<Rightarrow> srow \<Rightarrow> srow" where
  "apply_row_set (SetMapped m c) r = r\<lparr>s_mappedFields := Some m, s_customFields := c\<rparr>"
| "apply_row_set (SetValidation v es) r = r\<lparr>s_validationStatus := Some v, s_validationErrors := es\<rparr>"
| "apply_row_set SetCommitting r = r\<lparr>s_commitStatus := RowCommitting\<rparr>"
| "apply_row_set (SetCommitted i m) r =
     r\<lparr>s_commitStatus := Committed, s_committedEntityId := Some i,
       s_committedEntityModel := Some m, s_commitError := None\<rparr>"
| "apply_row_set SetCommittedEarlier r = r\<lparr>s_commitStatus := Committed, s_commitError := None\<rparr>"
| "apply_row_set (SetCommitFailed e) r = r\<lparr>s_commitStatus := CommitError, s_commitError := Some e\<rparr>"
| "apply_row_set (SetExternalId e k) r = r\<lparr>s_externalId := Some e, s_entityKey := Some k\<rparr>"

lemma apply_row_set_keeps [simp]:
  "s_id (apply_row_set u r) = s_id r" "s_tenantId (apply_row_set u r) = s_tenantId r"
  "s_importJobId (apply_row_set u r) = s_importJobId r" "s_rowIndex (apply_row_set u r) = s_rowIndex r"
  "s_rawRow (apply_row_set u r) = s_rawRow r"
  by (cases u; simp)+

subsection \<open>Filters\<close>

datatype cond = Is val | In "val list" | Gt jsnum | Ne val | Exists bool

type_synonym query = "(string \<times> cond) list"

text \<open>A staged row as the document a filter is matched against.\<close>

definition opt_doc :: "string \<Rightarrow> val option \<Rightarrow> obj" where
  "opt_doc k v = (case v of None \<Rightarrow> [] | Some w \<Rightarrow> [(k, w)])"

definition row_doc :: "js_env \<Rightarrow> srow \<Rightarrow> obj" where
  "row_doc env r =
     [(''_id'', VStr (s_id r)), (''tenantId'', VStr (s_tenantId r)),
      (''importJobId'', VStr (s_importJobId r)),
      (''rowIndex'', VNum (Fin (of_nat (s_rowIndex r)))),
      (''rawRow'', VObj (s_rawRow r)), (''customFields'', VObj (s_customFields r)),
      (''mappedFields'', case s_mappedFields r of None \<Rightarrow> VNull | Some m \<Rightarrow> VObj m),
      (''validationStatus'',
        case s_validationStatus r of None \<Rightarrow> VNull | Some v \<Rightarrow> VStr (validation_name v)),
      (''validationErrors'', VArr (map (\<lambda>e. VStr (error_text env e)) (s_validationErrors r))),
      (''commitStatus'', VStr (commit_name (s_commitStatus r)))]
     @ opt_doc ''externalId'' (map_option VStr (s_externalId r))
     @ opt_doc ''entityKey'' (map_option VStr (s_entityKey r))
     @ opt_doc ''committedEntityId'' (map_option VStr (s_committedEntityId r))
     @ opt_doc ''committedEntityModel'' (map_option VStr (s_committedEntityModel r))
     @ opt_doc ''commitError'' (map_option VStr (s_commitError r))"

definition row_field :: "js_env \<Rightarrow> srow \<Rightarrow> string \<Rightarrow> val option" where
  "row_field env r k = oget (row_doc env r) k"

lemma row_field_simps [simp]:
  "row_field env r ''_id'' = Some (VStr (s_id r))"
  "row_field env r ''tenantId'' = Some (VStr (s_tenantId r))"
  "row_field env r ''importJobId'' = Some (VStr (s_importJobId r))"
  "row_field env r ''rowIndex'' = Some (VNum (Fin (of_nat (s_rowIndex r))))"
  "row_field env r ''commitStatus'' = Some (VStr (commit_name (s_commitStatus r)))"
  "row_field env r ''validationStatus'' =
     Some (case s_validationStatus r of None \<Rightarrow> VNull | Some v \<Rightarrow> VStr (validation_name v))"
  by (simp_all add: row_field_def row_doc_def)

text \<open>The fields jobs are filtered by.\<close>

definition job_field :: "import_job \<Rightarrow> string \<Rightarrow> val option" where
  "job_field j k =
     (if k = ''_id'' then Some (VStr (j_id j))
      else if k = ''tenantId'' then Some (VStr (j_tenantId j))
      else if k = ''status'' then Some (VStr (status_name (j_status j)))
      else None)"

text \<open>The filter \<open>commitBatch\<close> reads its rows with, and the filter for one row.\<close>

definition commit_query :: "id \<Rightarrow> id \<Rightarrow> query" where
  "commit_query tenantId importJobId =
     [(''tenantId'', Is (VStr tenantId)), (''importJobId'', Is (VStr importJobId)),
      (''validationStatus'', Is (VStr ''valid'')),
      (''commitStatus'', In [VStr ''pending'', VStr ''committing''])]"

definition job_query :: "id \<Rightarrow> id \<Rightarrow> query" where
  "job_query tenantId importJobId =
     [(''tenantId'', Is (VStr tenantId)), (''importJobId'', Is (VStr importJobId))]"

definition id_query :: "id \<Rightarrow> query" where
  "id_query i = [(''_id'', Is (VStr i))]"

definition id_tenant_query :: "id \<Rightarrow> id \<Rightarrow> query" where
  "id_tenant_query i tenantId = [(''_id'', Is (VStr i)), (''tenantId'', Is (VStr tenantId))]"

definition committable :: "id \<Rightarrow> id \<Rightarrow> srow \<Rightarrow> bool" where
  "committable tenantId importJobId r \<longleftrightarrow>
     s_tenantId r = tenantId \<and> s_importJobId r = importJobId \<and> s_validationStatus r = Some Valid
     \<and> s_commitStatus r \<in> {Pending, RowCommitting}"

subsection \<open>Errors of the services\<close>

datatype app_error =
    JobNotFound
  | SessionNotFound
  | RowNotFound
  | WrongStatus string
  | UnknownTargetFields "string list"
  | DuplicateTargetFields "string list"
  | ProfileLabelRequired
  | NoTarget registry_error
  | BadValue coerce_error
  | BadGraph graph_error
  | BadFile parse_error
  | UnsupportedUpload "string option" string
  | SessionEmpty
  | NoOwnDatabase string
  | NoObjectPath
  | UploadMissing
  | PublicIdRequired
  | StorageFailed string
  | NotAFunction string
  | MissingEnv string
  | LookupFailed string
  | StoreFailed string
  | InvalidDocument string
  | ParseFailed string parse_error
  | OverByteLimit "reason option" "rejection option"
  | NotAnObjectId id

text \<open>An error of another component, with its status code.\<close>

definition lift_err :: "('m \<Rightarrow> app_error) \<Rightarrow> 'm err + 'a \<Rightarrow> app_error err + 'a" where
  "lift_err f r = (case r of Inl (Err c m) \<Rightarrow> Inl (Err c (f m)) | Inr a \<Rightarrow> Inr a)"

lemma lift_err_simps [simp]:
  "lift_err f (Inl (Err c m)) = Inl (Err c (f m))" "lift_err f (Inr a) = Inr a"
  by (simp_all add: lift_err_def)

lemma lift_err_Inr: "lift_err f r = Inr a \<longleftrightarrow> r = Inr a"
  by (auto simp: lift_err_def split: sum.splits err.splits)

text \<open>\<open>`${module}:${entityKey}`\<close> with an entity key that is null.\<close>

definition key_text :: "string option \<Rightarrow> string" where
  "key_text k = (case k of None \<Rightarrow> ''null'' | Some s \<Rightarrow> s)"

subsection \<open>The interface\<close>

record profile =
  pr_id :: id
  pr_tenantId :: id
  pr_module :: string
  pr_entityKey :: string
  pr_label :: string
  pr_fieldMap :: "field_map option"
  pr_createdBy :: "id option"
  pr_updatedAt :: int

datatype stage = Match query | GroupCount string | SortBy string int | LimitTo nat

record 's store_ops =
  so_getJob :: "id \<Rightarrow> id \<Rightarrow> 's \<Rightarrow> app_error err + import_job"
  so_updateJob :: "id \<Rightarrow> id \<Rightarrow> job_set list \<Rightarrow> 's \<Rightarrow> app_error err + (import_job option \<times> 's)"
  so_saveJob :: "import_job \<Rightarrow> 's \<Rightarrow> 's"
  so_insertRows :: "id \<Rightarrow> id \<Rightarrow> obj list \<Rightarrow> 's \<Rightarrow> nat \<times> 's"
  so_findOneStaged :: "query \<Rightarrow> 's \<Rightarrow> srow option"
  so_bulkWriteStaged :: "(query \<times> row_set) list \<Rightarrow> 's \<Rightarrow> 's"
  so_aggregateStaged :: "stage list \<Rightarrow> 's \<Rightarrow> obj list"
  so_distinctStaged :: "string \<Rightarrow> query \<Rightarrow> 's \<Rightarrow> val list"
  so_cursorStaged :: "query \<Rightarrow> string option \<Rightarrow> nat option \<Rightarrow> 's \<Rightarrow> srow list"
  so_updateOneStaged :: "query \<Rightarrow> row_set \<Rightarrow> 's \<Rightarrow> 's"
  so_updateJobModel :: "query \<Rightarrow> job_set list \<Rightarrow> 's \<Rightarrow> import_job option \<times> 's"
  so_listMappingProfiles :: "id \<Rightarrow> string option \<Rightarrow> string option \<Rightarrow> 's \<Rightarrow> profile list"
  so_upsertMappingProfile ::
    "id \<Rightarrow> string \<Rightarrow> string \<Rightarrow> field_map option \<Rightarrow> string \<Rightarrow> id option \<Rightarrow> int \<Rightarrow> 's \<Rightarrow> profile \<times> 's"
  so_findSampleErrors :: "id \<Rightarrow> id \<Rightarrow> nat \<Rightarrow> 's \<Rightarrow> (nat \<times> row_error list) list"

text \<open>A cursor without a limit, or with limit 0, is not cut.\<close>

definition js_limit :: "nat option \<Rightarrow> 'a list \<Rightarrow> 'a list" where
  "js_limit limit xs = (case limit of None \<Rightarrow> xs | Some n \<Rightarrow> if n = 0 then xs else take n xs)"

subsection \<open>What the engine relies on\<close>

definition of_job :: "id \<Rightarrow> id \<Rightarrow> srow \<Rightarrow> bool" where
  "of_job tenantId importJobId r \<longleftrightarrow> s_tenantId r = tenantId \<and> s_importJobId r = importJobId"

definition update_at :: "id \<Rightarrow> row_set \<Rightarrow> srow \<Rightarrow> srow" where
  "update_at i u r = (if s_id r = i then apply_row_set u r else r)"

lemma update_at_keeps [simp]:
  "s_id (update_at i u r) = s_id r" "s_tenantId (update_at i u r) = s_tenantId r"
  "s_importJobId (update_at i u r) = s_importJobId r" "s_rowIndex (update_at i u r) = s_rowIndex r"
  "s_rawRow (update_at i u r) = s_rawRow r"
  by (simp_all add: update_at_def)

lemma update_at_other: "s_id r \<noteq> i \<Longrightarrow> update_at i u r = r"
  by (simp add: update_at_def)

text \<open>
  The contract of the interface as the commit, mapping and validation engines use it. A store has
  rows with distinct ids; a cursor hands out \<open>view\<close>s of the matching rows, in row order where
  asked to; an update by id changes that row only; \<open>assign\<close> is what the store does with one
  assignment to a job, of which only the effect on the status is promised.
\<close>

locale staging_store =
  fixes ops :: "'s store_ops"
    and rows :: "'s \<Rightarrow> srow list"
    and job_of :: "'s \<Rightarrow> id \<Rightarrow> id \<Rightarrow> import_job option"
    and view :: "srow \<Rightarrow> srow"
    and assign :: "job_set \<Rightarrow> import_job \<Rightarrow> import_job"
    and good :: "'s \<Rightarrow> bool"
  assumes distinct_ids: "good s \<Longrightarrow> distinct (map s_id (rows s))"
    and commit_cursor: "good s \<Longrightarrow> so_cursorStaged ops (commit_query t j) (Some ''rowIndex'') lmt s
      = js_limit lmt (map view (sort_key s_rowIndex (filter (committable t j) (rows s))))"
    and job_cursor: "good s \<Longrightarrow> mset (so_cursorStaged ops (job_query t j) None None s)
      = mset (map view (filter (of_job t j) (rows s)))"
    and update_rows: "good s \<Longrightarrow> rows (so_updateOneStaged ops (id_query i) u s) = map (update_at i u) (rows s)"
    and update_good: "good s \<Longrightarrow> good (so_updateOneStaged ops (id_query i) u s)"
    and update_jobs: "job_of (so_updateOneStaged ops (id_query i) u s) = job_of s"
    and bulk_rows: "good s \<Longrightarrow> rows (so_bulkWriteStaged ops (map (\<lambda>(i, u). (id_query i, u)) ius) s)
      = fold (\<lambda>(i, u). map (update_at i u)) ius (rows s)"
    and bulk_good: "good s \<Longrightarrow> good (so_bulkWriteStaged ops (map (\<lambda>(i, u). (id_query i, u)) ius) s)"
    and bulk_jobs: "job_of (so_bulkWriteStaged ops (map (\<lambda>(i, u). (id_query i, u)) ius) s) = job_of s"
    and get_job: "so_getJob ops t j s
      = (case job_of s t j of None \<Rightarrow> Inl (Err (Some 404) JobNotFound) | Some job \<Rightarrow> Inr job)"
    and save_rows: "rows (so_saveJob ops job s) = rows s"
    and save_good: "good s \<Longrightarrow> job_of s (j_tenantId job) (j_id job) \<noteq> None \<Longrightarrow> good (so_saveJob ops job s)"
    and save_job: "job_of (so_saveJob ops job s) (j_tenantId job) (j_id job) = Some job"
    and job_ids: "good s \<Longrightarrow> job_of s t j = Some job \<Longrightarrow> j_tenantId job = t \<and> j_id job = j"
    and model_rows: "rows (snd (so_updateJobModel ops q us s)) = rows s"
    and model_good: "good s \<Longrightarrow> good (snd (so_updateJobModel ops q us s))"
    and model_job: "good s \<Longrightarrow> job_of s t j = Some job \<Longrightarrow>
      job_of (snd (so_updateJobModel ops (id_tenant_query j t) us s)) t j = Some (fold assign us job)"
    and assign_status: "j_status (assign js job) = j_status (apply_set js job)"
    and view_keeps: "s_id (view r) = s_id r" "s_rowIndex (view r) = s_rowIndex r"
      "s_commitStatus (view r) = s_commitStatus r"
    and view_mapped: "s_mappedFields r = s_mappedFields r' \<Longrightarrow> s_mappedFields (view r) = s_mappedFields (view r')"
begin

lemma distinct_rows: "good s \<Longrightarrow> distinct (rows s)"
  using distinct_ids by (rule distinct_of_map)

lemma same_row: "good s \<Longrightarrow> r \<in> set (rows s) \<Longrightarrow> r' \<in> set (rows s) \<Longrightarrow> s_id r = s_id r' \<Longrightarrow> r = r'"
  using distinct_ids by (auto simp: distinct_map inj_on_def)

lemma status_assign: "j_status (fold assign us (assign (SetStatus st) job)) = j_status (fold apply_set us (apply_set (SetStatus st) job))"
proof -
  have "j_status a = j_status b \<Longrightarrow> j_status (fold assign us a) = j_status (fold apply_set us b)" for a b
  proof (induction us arbitrary: a b)
    case (Cons u us)
    then have "j_status (assign u a) = j_status (apply_set u b)"
      by (cases u) (simp_all add: assign_status)
    then show ?case using Cons.IH by simp
  qed simp
  then show ?thesis by (simp add: assign_status)
qed

end

end
