(* ===== verification/Mongo.thy ===== *)
theory Mongo
  imports JobStore
begin

text \<open>
  The documents of migration sessions, what Mongoose offers the services on the four collections,
  and adapters/mongooseJobStore.js, the job store built on it. MongoDB and Mongoose are not part
  of the program: their operations are the fields of a record \<open>mongo\<close> over a type \<open>'s\<close> of database
  states, and \<open>mongo_db\<close> states the documented behaviour the services rely on. Saving a document
  runs the validators its schema declares; those are the program's and are defined here.
\<close>

subsection \<open>Sessions\<close>

datatype session_status =
  SessionPending | SessionProcessing | SessionCompleted | SessionCompletedWithErrors | SessionFailed

fun session_status_name :: "session_status \<Rightarrow> string" where
  "session_status_name SessionPending = ''pending''"
| "session_status_name SessionProcessing = ''processing''"
| "session_status_name SessionCompleted = ''completed''"
| "session_status_name SessionCompletedWithErrors = ''completed_with_errors''"
| "session_status_name SessionFailed = ''failed''"

record session_entry =
  se_importJobId :: id
  se_module :: string
  se_entityKey :: string

text \<open>The status of a job within its session; the code stores any string here before it saves.\<close>

record entry_status =
  es_importJobId :: id
  es_status :: string
  es_error :: "string option"

record session_counts =
  sc_total :: nat
  sc_completed :: nat
  sc_failed :: nat
  sc_skipped :: nat

record session =
  ms_id :: id
  ms_tenantId :: id
  ms_label :: "string option"
  ms_status :: session_status
  ms_jobs :: "session_entry list"
  ms_executionOrder :: "id list"
  ms_dependencyGraph :: "(string \<times> string list) list"
  ms_jobStatuses :: "entry_status list"
  ms_counts :: session_counts
  ms_error :: "string option"
  ms_createdBy :: "id option"

definition ENTRY_STATUSES :: "string list" where
  "ENTRY_STATUSES =
     [''pending'', ''processing'', ''completed'', ''completed_with_errors'', ''failed'', ''skipped'']"

text \<open>A required string must not be empty; an enum admits the strings it lists.\<close>

definition session_valid :: "session \<Rightarrow> bool" where
  "session_valid session \<longleftrightarrow>
     (\<forall>e \<in> set (ms_jobs session). se_module e \<noteq> [] \<and> se_entityKey e \<noteq> [])
     \<and> (\<forall>e \<in> set (ms_jobStatuses session). es_status e \<in> set ENTRY_STATUSES)"

definition SOURCE_FORMATS :: "string list" where
  "SOURCE_FORMATS = [''csv'', ''json'', ''excel'', ''sql'']"

definition absent_or_empty :: "string option \<Rightarrow> bool" where
  "absent_or_empty v \<longleftrightarrow> v = None \<or> v = Some []"

text \<open>The validators of an import job: an archived file, or an object in the upload bucket.\<close>

definition job_valid :: "import_job \<Rightarrow> bool" where
  "job_valid job \<longleftrightarrow>
     j_module job \<noteq> [] \<and> j_sourceFormat job \<in> set SOURCE_FORMATS
     \<and> originalName (j_file job) \<noteq> []
     \<and> (absent_or_empty (objectPath (j_gcs job)) \<longrightarrow> \<not> absent_or_empty (publicId (j_file job)))
     \<and> (case j_mode job of None \<Rightarrow> True | Some m \<Rightarrow> m \<in> {''sync'', ''async''})"

subsection \<open>Mongoose\<close>

record staged_doc =
  sd_tenantId :: id
  sd_importJobId :: id
  sd_rowIndex :: nat
  sd_rawRow :: obj
  sd_customFields :: obj

text \<open>
  \<open>findOne\<close>, the write behind \<open>save\<close> and \<open>create\<close>, \<open>findOneAndUpdate\<close> with \<open>$set\<close> returning the new
  document, \<open>find\<close> with sort, skip and limit, \<open>countDocuments\<close>, \<open>insertMany\<close>, \<open>deleteMany\<close>,
  \<open>bulkWrite\<close> (answering the number of modified documents), \<open>updateOne\<close>, \<open>aggregate\<close>, \<open>distinct\<close>, and
  the generator of object ids. Jobs and sessions are listed newest first.
\<close>

record 's mongo =
  db_objectId :: "'s \<Rightarrow> id \<times> 's"
  db_session :: "query \<Rightarrow> 's \<Rightarrow> session option"
  db_putSession :: "session \<Rightarrow> 's \<Rightarrow> 's"
  db_sessions :: "query \<Rightarrow> jsnum \<Rightarrow> jsnum \<Rightarrow> 's \<Rightarrow> session list"
  db_countSessions :: "query \<Rightarrow> 's \<Rightarrow> nat"
  db_job :: "query \<Rightarrow> 's \<Rightarrow> import_job option"
  db_putJob :: "import_job \<Rightarrow> 's \<Rightarrow> 's"
  db_updateJob :: "query \<Rightarrow> job_set list \<Rightarrow> 's \<Rightarrow> import_job option \<times> 's"
  db_jobs :: "query \<Rightarrow> jsnum \<Rightarrow> jsnum \<Rightarrow> 's \<Rightarrow> import_job list"
  db_countJobs :: "query \<Rightarrow> 's \<Rightarrow> nat"
  db_insertRows :: "staged_doc list \<Rightarrow> 's \<Rightarrow> app_error err option \<times> 's"
  db_deleteRows :: "query \<Rightarrow> 's \<Rightarrow> nat \<times> 's"
  db_rows :: "query \<Rightarrow> string option \<Rightarrow> jsnum \<Rightarrow> jsnum option \<Rightarrow> 's \<Rightarrow> srow list"
  db_countRows :: "query \<Rightarrow> 's \<Rightarrow> nat"
  db_row :: "query \<Rightarrow> 's \<Rightarrow> srow option"
  db_bulkRows :: "(query \<times> row_set) list \<Rightarrow> 's \<Rightarrow> nat \<times> 's"
  db_updateRow :: "query \<Rightarrow> row_set \<Rightarrow> 's \<Rightarrow> 's"
  db_aggregateRows :: "stage list \<Rightarrow> 's \<Rightarrow> obj list"
  db_distinctRows :: "string \<Rightarrow> query \<Rightarrow> 's \<Rightarrow> val list"
  db_profiles :: "query \<Rightarrow> 's \<Rightarrow> profile list"
  db_upsertProfile :: "query \<Rightarrow> field_map option \<Rightarrow> id option \<Rightarrow> int \<Rightarrow> 's \<Rightarrow> profile \<times> 's"

text \<open>\<open>document.save()\<close> and \<open>Model.create\<close>: nothing is written when a validator refuses.\<close>

definition save_session :: "'s mongo \<Rightarrow> session \<Rightarrow> 's \<Rightarrow> app_error err + 's" where
  "save_session db session s =
     (if session_valid session then Inr (db_putSession db session s)
      else Inl (Err None (InvalidDocument ''MigrationSession'')))"

definition save_job :: "'s mongo \<Rightarrow> import_job \<Rightarrow> 's \<Rightarrow> app_error err + 's" where
  "save_job db job s =
     (if job_valid job then Inr (db_putJob db job s)
      else Inl (Err None (InvalidDocument ''ImportJob'')))"

subsection \<open>The job store over Mongoose\<close>

definition mongoose_getJob :: "'s mongo \<Rightarrow> id \<Rightarrow> id \<Rightarrow> 's \<Rightarrow> app_error err + import_job" where
  "mongoose_getJob db tenantId importJobId s =
     (case db_job db (id_tenant_query importJobId tenantId) s of
        None \<Rightarrow> Inl (Err (Some 404) JobNotFound)
      | Some job \<Rightarrow> Inr job)"

text \<open>A job that is not there is not an error here: the answer is null.\<close>

definition mongoose_updateJob ::
  "'s mongo \<Rightarrow> id \<Rightarrow> id \<Rightarrow> job_set list \<Rightarrow> 's \<Rightarrow> app_error err + (import_job option \<times> 's)" where
  "mongoose_updateJob db tenantId importJobId updates s =
     Inr (db_updateJob db (id_tenant_query importJobId tenantId) updates s)"

definition staged_docs :: "id \<Rightarrow> id \<Rightarrow> nat \<Rightarrow> obj list \<Rightarrow> staged_doc list" where
  "staged_docs tenantId importJobId offset records =
     map (\<lambda>(indexInChunk, row).
         \<lparr>sd_tenantId = tenantId, sd_importJobId = importJobId, sd_rowIndex = offset + indexInChunk,
          sd_rawRow = row, sd_customFields = row\<rparr>)
       (enumerate 0 records)"

definition mongoose_insertRows :: "'s mongo \<Rightarrow> id \<Rightarrow> id \<Rightarrow> obj list \<Rightarrow> 's \<Rightarrow> nat \<times> 's" where
  "mongoose_insertRows db tenantId importJobId records s =
     (if records = [] then (0, s)
      else (length records, snd (db_insertRows db (staged_docs tenantId importJobId 0 records) s)))"

definition filter_query :: "id \<Rightarrow> string option \<Rightarrow> string option \<Rightarrow> query" where
  "filter_query tenantId md ek =
     [(''tenantId'', Is (VStr tenantId))]
     @ (if absent_or_empty md then [] else [(''module'', Is (VStr (the md)))])
     @ (if absent_or_empty ek then [] else [(''entityKey'', Is (VStr (the ek)))])"

definition mongoose_getSession :: "'s mongo \<Rightarrow> id \<Rightarrow> id \<Rightarrow> 's \<Rightarrow> app_error err + session" where
  "mongoose_getSession db tenantId sessionId s =
     (case db_session db (id_tenant_query sessionId tenantId) s of
        None \<Rightarrow> Inl (Err (Some 404) SessionNotFound)
      | Some session \<Rightarrow> Inr session)"

definition createMongooseJobStore :: "'s mongo \<Rightarrow> 's store_ops" where
  "createMongooseJobStore db =
     \<lparr>so_getJob = mongoose_getJob db,
      so_updateJob = mongoose_updateJob db,
      so_saveJob = db_putJob db,
      so_insertRows = mongoose_insertRows db,
      so_findOneStaged = db_row db,
      so_bulkWriteStaged = (\<lambda>ops s. snd (db_bulkRows db ops s)),
      so_aggregateStaged = db_aggregateRows db,
      so_distinctStaged = db_distinctRows db,
      so_cursorStaged = (\<lambda>q srt limit s.
        db_rows db q srt (Fin 0)
          (case limit of None \<Rightarrow> None | Some n \<Rightarrow> if n = 0 then None else Some (Fin (of_nat n))) s),
      so_updateOneStaged = db_updateRow db,
      so_updateJobModel = db_updateJob db,
      so_listMappingProfiles = (\<lambda>tenantId md ek s. db_profiles db (filter_query tenantId md ek) s),
      so_upsertMappingProfile = (\<lambda>tenantId moduleName entityKey fieldMap profileLabel createdBy now s.
        db_upsertProfile db
          [(''tenantId'', Is (VStr tenantId)), (''module'', Is (VStr moduleName)),
           (''entityKey'', Is (VStr entityKey)), (''label'', Is (VStr (js_trim profileLabel)))]
          fieldMap createdBy now s),
      so_findSampleErrors = (\<lambda>tenantId importJobId limit s.
        map (\<lambda>r. (s_rowIndex r, s_validationErrors r))
          (db_rows db
            [(''tenantId'', Is (VStr tenantId)), (''importJobId'', Is (VStr importJobId)),
             (''validationStatus'', Is (VStr ''invalid''))]
            (Some ''rowIndex'') (Fin 0)
            (if limit = 0 then None else Some (Fin (of_nat limit))) s))\<rparr>"

subsection \<open>What the services rely on\<close>

text \<open>The staged record \<open>insertMany\<close> creates: the schema's defaults and a fresh id.\<close>

definition new_row :: "id \<Rightarrow> staged_doc \<Rightarrow> srow" where
  "new_row i d =
     \<lparr>s_id = i, s_tenantId = sd_tenantId d, s_importJobId = sd_importJobId d, s_rowIndex = sd_rowIndex d,
      s_rawRow = sd_rawRow d, s_customFields = sd_customFields d, s_mappedFields = Some [],
      s_externalId = None, s_entityKey = None, s_validationStatus = Some Unvalidated,
      s_validationErrors = [], s_commitStatus = Pending, s_committedEntityId = None,
      s_committedEntityModel = None, s_commitError = None\<rparr>"

definition of_tenant :: "('d \<Rightarrow> id) \<Rightarrow> id \<Rightarrow> 'd option \<Rightarrow> 'd option" where
  "of_tenant tenant t d = (case d of None \<Rightarrow> None | Some x \<Rightarrow> if tenant x = t then Some x else None)"

lemma of_tenant_simps [simp]:
  "of_tenant tenant t None = None"
  "of_tenant tenant t (Some x) = (if tenant x = t then Some x else None)"
  by (simp_all add: of_tenant_def)

lemma of_tenant_Some: "of_tenant tenant t d = Some x \<longleftrightarrow> d = Some x \<and> tenant x = t"
  by (auto simp: of_tenant_def split: option.splits)

definition job_rows_query :: "id \<Rightarrow> query" where
  "job_rows_query importJobId = [(''importJobId'', Is (VStr importJobId))]"

definition row_limit :: "nat option \<Rightarrow> jsnum option" where
  "row_limit limit = (case limit of None \<Rightarrow> None | Some n \<Rightarrow> if n = 0 then None else Some (Fin (of_nat n)))"

text \<open>
  The collections as finite maps from ids to documents and a list of staged records with distinct
  ids, of which no two of one job share a row index (the schema's unique index). Finding by id,
  replacing and updating touch that document only; a sorted find is sorted by row index; bulk
  writes apply their operations one by one.
\<close>

locale mongo_db =
  fixes db :: "'s mongo"
    and sessions :: "'s \<Rightarrow> id \<Rightarrow> session option"
    and jobs :: "'s \<Rightarrow> id \<Rightarrow> import_job option"
    and rows :: "'s \<Rightarrow> srow list"
    and good :: "'s \<Rightarrow> bool"
  assumes distinct_rows: "good s \<Longrightarrow> distinct (map s_id (rows s))"
    and unique_index: "good s \<Longrightarrow> r \<in> set (rows s) \<Longrightarrow> r' \<in> set (rows s) \<Longrightarrow>
      s_importJobId r = s_importJobId r' \<Longrightarrow> s_rowIndex r = s_rowIndex r' \<Longrightarrow> r = r'"
    and session_id: "good s \<Longrightarrow> sessions s i = Some x \<Longrightarrow> ms_id x = i"
    and job_id: "good s \<Longrightarrow> jobs s i = Some job \<Longrightarrow> j_id job = i"
    and object_id: "db_objectId db s = (i, s') \<Longrightarrow> sessions s' = sessions s \<and> jobs s' = jobs s \<and> rows s' = rows s"
      "good s \<Longrightarrow> db_objectId db s = (i, s') \<Longrightarrow> good s' \<and> sessions s i = None \<and> jobs s i = None"
    and find_session: "db_session db (id_query i) s = sessions s i"
      "db_session db (id_tenant_query i t) s = of_tenant ms_tenantId t (sessions s i)"
    and put_session: "sessions (db_putSession db x s) = (sessions s)(ms_id x \<mapsto> x)"
      "jobs (db_putSession db x s) = jobs s" "rows (db_putSession db x s) = rows s"
      "good s \<Longrightarrow> good (db_putSession db x s)"
    and find_job: "db_job db (id_query i) s = jobs s i"
      "db_job db (id_tenant_query i t) s = of_tenant j_tenantId t (jobs s i)"
    and put_job: "jobs (db_putJob db job s) = (jobs s)(j_id job \<mapsto> job)"
      "sessions (db_putJob db job s) = sessions s" "rows (db_putJob db job s) = rows s"
      "good s \<Longrightarrow> good (db_putJob db job s)"
    and update_job: "q = id_query i \<or> q = id_tenant_query i t \<Longrightarrow>
      fst (db_updateJob db q us s) = map_option (fold apply_set us) (db_job db q s)"
      "q = id_query i \<or> q = id_tenant_query i t \<Longrightarrow>
      jobs (snd (db_updateJob db q us s)) = (case db_job db q s of None \<Rightarrow> jobs s
        | Some job \<Rightarrow> (jobs s)(i \<mapsto> fold apply_set us job))"
      "sessions (snd (db_updateJob db q us s)) = sessions s" "rows (snd (db_updateJob db q us s)) = rows s"
      "good s \<Longrightarrow> good (snd (db_updateJob db q us s))"
    and commit_rows: "good s \<Longrightarrow> \<exists>xs. mset xs = mset (filter (committable t j) (rows s))
      \<and> sorted (map s_rowIndex xs)
      \<and> db_rows db (commit_query t j) (Some ''rowIndex'') (Fin 0) (row_limit lmt) s = js_limit lmt xs"
    and job_rows: "good s \<Longrightarrow>
      mset (db_rows db (job_query t j) None (Fin 0) None s) = mset (filter (of_job t j) (rows s))"
    and update_row: "good s \<Longrightarrow> rows (db_updateRow db (id_query i) u s) = map (update_at i u) (rows s)"
      "good s \<Longrightarrow> good (db_updateRow db (id_query i) u s)"
      "jobs (db_updateRow db (id_query i) u s) = jobs s" "sessions (db_updateRow db (id_query i) u s) = sessions s"
    and bulk_rows: "good s \<Longrightarrow> rows (snd (db_bulkRows db (map (\<lambda>(i, u). (id_query i, u)) ius) s))
        = fold (\<lambda>(i, u). map (update_at i u)) ius (rows s)"
      "good s \<Longrightarrow> good (snd (db_bulkRows db (map (\<lambda>(i, u). (id_query i, u)) ius) s))"
      "jobs (snd (db_bulkRows db (map (\<lambda>(i, u). (id_query i, u)) ius) s)) = jobs s"
      "sessions (snd (db_bulkRows db (map (\<lambda>(i, u). (id_query i, u)) ius) s)) = sessions s"
    and delete_rows: "good s \<Longrightarrow>
        rows (snd (db_deleteRows db (job_rows_query i) s)) = filter (\<lambda>r. s_importJobId r \<noteq> i) (rows s)"
      "good s \<Longrightarrow> good (snd (db_deleteRows db (job_rows_query i) s))"
      "jobs (snd (db_deleteRows db (job_rows_query i) s)) = jobs s"
      "sessions (snd (db_deleteRows db (job_rows_query i) s)) = sessions s"
    and insert_rows: "good s \<Longrightarrow> db_insertRows db docs s = (None, s') \<Longrightarrow>
        \<exists>ids. length ids = length docs \<and> mset (rows s') = mset (rows s @ map2 new_row ids docs)"
      "good s \<Longrightarrow> good (snd (db_insertRows db docs s))"
      "jobs (snd (db_insertRows db docs s)) = jobs s" "sessions (snd (db_insertRows db docs s)) = sessions s"
begin

lemma sorted_rows:
  assumes "good s" "mset xs = mset (filter (committable t j) (rows s))" "sorted (map s_rowIndex xs)"
  shows "xs = sort_key s_rowIndex (filter (committable t j) (rows s))"
proof -
  have "inj_on s_rowIndex (set xs)"
  proof (rule inj_onI)
    fix r r' assume r: "r \<in> set xs" "r' \<in> set xs" "s_rowIndex r = s_rowIndex r'"
    have "set xs = set (filter (committable t j) (rows s))"
      using assms(2) by (rule mset_eq_setD)
    then show "r = r'"
      using unique_index [OF assms(1), of r r'] r by (auto simp: committable_def)
  qed
  moreover have "set (filter (committable t j) (rows s)) = set xs"
    using mset_eq_setD [OF assms(2)] by simp
  ultimately show ?thesis
    using sort_key_inj_key_eq [OF assms(2) [symmetric], of s_rowIndex] assms(3) by simp
qed

end

text \<open>Every provider of these operations provides, through the Mongoose job store, the engine's interface.\<close>

sublocale mongo_db \<subseteq> store: staging_store "createMongooseJobStore db" rows
  "\<lambda>s t i. of_tenant j_tenantId t (jobs s i)" "\<lambda>r. r" apply_set good
proof unfold_locales
  fix s t j lmt assume "good s"
  then show "so_cursorStaged (createMongooseJobStore db) (commit_query t j) (Some ''rowIndex'') lmt s
      = js_limit lmt (map (\<lambda>r. r) (sort_key s_rowIndex (filter (committable t j) (rows s))))"
    using commit_rows [of s t j lmt] sorted_rows [of s _ t j]
    by (auto simp: createMongooseJobStore_def row_limit_def)
next
  fix s t j us job q assume "good s"  "of_tenant j_tenantId t (jobs s j) = Some job"
  then show "of_tenant j_tenantId t (jobs (snd (so_updateJobModel (createMongooseJobStore db) (id_tenant_query j t) us s)) j)
      = Some (fold apply_set us job)"
    using update_job(2) [of "id_tenant_query j t" j t us s] find_job(2) [of j t s]
    by (auto simp: createMongooseJobStore_def of_tenant_Some)
qed (auto simp: createMongooseJobStore_def distinct_rows job_rows update_row bulk_rows mongoose_getJob_def find_job
    put_job update_job of_tenant_Some job_id split: option.split)

end
