(* ===== verification/Session.thy ===== *)
theory Session
  imports Mongo DependencyGraphCorrect
begin

text \<open>
  orchestration/sessionManager.js: sessions group import jobs, order them by the dependencies of
  their entities, and let a row refer to a row that another job of the session has staged. A call
  that can fail half-way answers its result together with the database it leaves behind.
\<close>

type_synonym ('a, 's) reply = "(app_error err + 'a) \<times> 's"

subsection \<open>Declared dependencies\<close>

definition KNOWN_MODULES :: "string list" where
  "KNOWN_MODULES = [''hr'', ''businessops'']"

fun first_descriptor :: "string list \<Rightarrow> string \<Rightarrow> 'w registry \<Rightarrow> 'w target option" where
  "first_descriptor [] entityKey reg = None"
| "first_descriptor (moduleName # ms) entityKey reg =
     (case getTargetDescriptor moduleName entityKey reg of
        Inr descriptor \<Rightarrow> Some descriptor
      | Inl _ \<Rightarrow> first_descriptor ms entityKey reg)"

definition declared_deps :: "'w registry \<Rightarrow> string \<Rightarrow> string list" where
  "declared_deps reg entityKey =
     (case first_descriptor KNOWN_MODULES entityKey reg of
        None \<Rightarrow> []
      | Some descriptor \<Rightarrow> (case d_dependencies descriptor of None \<Rightarrow> [] | Some deps \<Rightarrow> deps))"

definition collectDependencies :: "'w registry \<Rightarrow> string list \<Rightarrow> (string \<times> string list) list" where
  "collectDependencies reg entityKeys =
     fold (\<lambda>entityKey. oset entityKey (declared_deps reg entityKey)) entityKeys []"

subsection \<open>References within a session\<close>

text \<open>\<open>fieldKey.replace(/Name$/i, "").toLowerCase()\<close>, and the entity a reference field hints at.\<close>

definition base_name :: "string \<Rightarrow> string" where
  "base_name fieldKey =
     to_lower (if suffix ''name'' (to_lower fieldKey) then take (length fieldKey - 4) fieldKey else fieldKey)"

definition fieldToEntity :: "(string \<times> string) list" where
  "fieldToEntity =
     [(''orgunit'', ''orgunit''), (''org'', ''orgunit''), (''branch'', ''branch''), (''role'', ''role'')]"

definition field_entity :: "string \<Rightarrow> string" where
  "field_entity fieldKey =
     (case map_of fieldToEntity (base_name fieldKey) of None \<Rightarrow> base_name fieldKey | Some e \<Rightarrow> e)"

definition session_rows_query :: "id list \<Rightarrow> string \<Rightarrow> val list \<Rightarrow> query" where
  "session_rows_query sessionJobIds entityKey missingValues =
     [(''importJobId'', In (map VStr sessionJobIds)), (''entityKey'', Is (VStr entityKey)),
      (''externalId'', In missingValues),
      (''validationStatus'', In [VStr ''valid'', VStr ''unvalidated''])]"

definition ext_val :: "srow \<Rightarrow> val" where
  "ext_val row = (case s_externalId row of None \<Rightarrow> VNull | Some e \<Rightarrow> VStr e)"

text \<open>\<open>{ _id: null, externalId, _staged: true, ...row.mappedFields }\<close>\<close>

definition staged_ref :: "srow \<Rightarrow> val" where
  "staged_ref row =
     VObj (fold (\<lambda>(k, v). oset k v) (case s_mappedFields row of None \<Rightarrow> [] | Some m \<Rightarrow> m)
       [(''_id'', VNull), (''externalId'', ext_val row), (''_staged'', VBool True)])"

definition lookup_map :: "lookups \<Rightarrow> string \<Rightarrow> (val \<times> val) list" where
  "lookup_map resolved fieldKey = (case map_of resolved fieldKey of None \<Rightarrow> [] | Some m \<Rightarrow> m)"

definition values_of :: "(string \<times> val list) list \<Rightarrow> string \<Rightarrow> val list" where
  "values_of distinctValuesByKey fieldKey =
     (case map_of distinctValuesByKey fieldKey of None \<Rightarrow> [] | Some vs \<Rightarrow> vs)"

definition missing_values :: "(string \<times> val list) list \<Rightarrow> lookups \<Rightarrow> string \<Rightarrow> val list" where
  "missing_values distinctValuesByKey resolved fieldKey =
     filter (\<lambda>v. \<not> vmember v (map fst (lookup_map resolved fieldKey))) (values_of distinctValuesByKey fieldKey)"

definition resolve_field ::
  "'s mongo \<Rightarrow> id list \<Rightarrow> (string \<times> val list) list \<Rightarrow> 's \<Rightarrow> string \<Rightarrow> lookups \<Rightarrow> lookups" where
  "resolve_field db sessionJobIds distinctValuesByKey s fieldKey resolved =
     (let missingValues = missing_values distinctValuesByKey resolved fieldKey in
      if values_of distinctValuesByKey fieldKey = [] \<or> missingValues = [] then resolved
      else
        let sessionRows = db_rows db (session_rows_query sessionJobIds (field_entity fieldKey) missingValues)
              None (Fin 0) None s
        in oset fieldKey (fold (\<lambda>row. aput (ext_val row) (staged_ref row)) sessionRows (lookup_map resolved fieldKey))
             resolved)"

text \<open>
  \<open>own\<close> is what the descriptor's own \<open>resolveReferences\<close> answers, \<open>{}\<close> when it has none. The Maps
  in it are shared with the caller, who merges the answer back into them: an entry is then
  already there.
\<close>

definition resolveSessionReferences ::
  "'s mongo \<Rightarrow> id \<Rightarrow> string list option \<Rightarrow> app_error err + lookups \<Rightarrow> (string \<times> val list) list \<Rightarrow> 's
     \<Rightarrow> app_error err + lookups" where
  "resolveSessionReferences db sessionId referenceFields own distinctValuesByKey s =
     (case db_session db (id_query sessionId) s of
        None \<Rightarrow> own
      | Some session \<Rightarrow>
          let sessionJobIds = map se_importJobId (ms_jobs session);
              sessionEntityKeys = map se_entityKey (ms_jobs session);
              matchingFields = filter (\<lambda>fieldKey. field_entity fieldKey \<in> set sessionEntityKeys)
                (case referenceFields of None \<Rightarrow> [] | Some fs \<Rightarrow> fs)
          in if sessionJobIds = [] \<or> matchingFields = [] then own
             else (case own of
                 Inl e \<Rightarrow> Inl e
               | Inr resolved \<Rightarrow>
                   Inr (fold (resolve_field db sessionJobIds distinctValuesByKey s) matchingFields resolved)))"

datatype entity_ref = CommittedEntity id | StagedEntity id

definition resolveSessionEntityByExternalId ::
  "'s mongo \<Rightarrow> id option \<Rightarrow> string \<Rightarrow> string \<Rightarrow> 's \<Rightarrow> entity_ref option" where
  "resolveSessionEntityByExternalId db sessionId entityKey externalId s =
     (if absent_or_empty sessionId \<or> externalId = [] then None
      else case db_session db (id_query (the sessionId)) s of
        None \<Rightarrow> None
      | Some session \<Rightarrow>
          let sessionJobIds = map se_importJobId (filter (\<lambda>j. se_entityKey j = entityKey) (ms_jobs session)) in
          if sessionJobIds = [] then None
          else (case db_row db
                  [(''importJobId'', In (map VStr sessionJobIds)), (''entityKey'', Is (VStr entityKey)),
                   (''externalId'', Is (VStr externalId)), (''validationStatus'', Is (VStr ''valid'')),
                   (''commitStatus'', In [VStr ''pending'', VStr ''committed''])] s of
              None \<Rightarrow> None
            | Some staged \<Rightarrow>
                if s_commitStatus staged = Committed \<and> s_committedEntityId staged \<noteq> None
                then Some (CommittedEntity (the (s_committedEntityId staged)))
                else Some (StagedEntity (s_id staged))))"

subsection \<open>Sessions and their jobs\<close>

definition no_counts :: session_counts where
  "no_counts = \<lparr>sc_total = 0, sc_completed = 0, sc_failed = 0, sc_skipped = 0\<rparr>"

definition saved :: "'s mongo \<Rightarrow> session \<Rightarrow> 's \<Rightarrow> (session, 's) reply" where
  "saved db session s = (case save_session db session s of Inl e \<Rightarrow> (Inl e, s) | Inr s' \<Rightarrow> (Inr session, s'))"

definition createSession ::
  "'s mongo \<Rightarrow> id \<Rightarrow> string option \<Rightarrow> id option \<Rightarrow> 's \<Rightarrow> (session, 's) reply" where
  "createSession db tenantId label createdBy s =
     (case db_objectId db s of (i, s) \<Rightarrow>
        saved db
          \<lparr>ms_id = i, ms_tenantId = tenantId, ms_label = label, ms_status = SessionPending, ms_jobs = [],
           ms_executionOrder = [], ms_dependencyGraph = [], ms_jobStatuses = [], ms_counts = no_counts,
           ms_error = None, ms_createdBy = createdBy\<rparr> s)"

definition add_entry :: "session_entry \<Rightarrow> session \<Rightarrow> session" where
  "add_entry e session =
     (let jobs = ms_jobs session @ [e]
      in session\<lparr>ms_jobs := jobs, ms_counts := (ms_counts session)\<lparr>sc_total := length jobs\<rparr>\<rparr>)"

definition addJobToSession ::
  "'s mongo \<Rightarrow> id \<Rightarrow> id \<Rightarrow> id \<Rightarrow> string \<Rightarrow> string \<Rightarrow> 's \<Rightarrow> (session, 's) reply" where
  "addJobToSession db tenantId sessionId importJobId moduleName entityKey s =
     (case db_job db (id_tenant_query importJobId tenantId) s of
        None \<Rightarrow> (Inl (Err (Some 404) JobNotFound), s)
      | Some job \<Rightarrow>
          (case db_session db (id_tenant_query sessionId tenantId) s of
             None \<Rightarrow> (Inl (Err (Some 404) SessionNotFound), s)
           | Some session \<Rightarrow>
               if ms_status session \<noteq> SessionPending
               then (Inl (Err (Some 409) (WrongStatus (session_status_name (ms_status session)))), s)
               else if importJobId \<in> set (map se_importJobId (ms_jobs session)) then (Inr session, s)
               else
                 let session = add_entry \<lparr>se_importJobId = importJobId, se_module = moduleName,
                                          se_entityKey = entityKey\<rparr> session
                 in (case saved db session s of
                       (Inl e, s) \<Rightarrow> (Inl e, s)
                     | (Inr session, s) \<Rightarrow>
                         (Inr session,
                          snd (db_updateJob db (id_tenant_query importJobId tenantId)
                                [SetSessionId sessionId] s)))))"

definition getSession :: "'s mongo \<Rightarrow> id \<Rightarrow> id \<Rightarrow> 's \<Rightarrow> app_error err + session" where
  "getSession db tenantId sessionId s =
     (case db_session db (id_tenant_query sessionId tenantId) s of
        None \<Rightarrow> Inl (Err (Some 404) SessionNotFound)
      | Some session \<Rightarrow> Inr session)"

subsection \<open>Listing\<close>

text \<open>
  A page of a listing. \<open>Number(page) || 1\<close> is at least 1 after \<open>Math.max\<close>; a size is kept
  between 1 and the given maximum.
\<close>

record 'd listing =
  ls_items :: "'d list"
  ls_total :: nat
  ls_page :: jsnum
  ls_limit :: jsnum

definition num_max :: "jsnum \<Rightarrow> jsnum \<Rightarrow> jsnum" where
  "num_max a b = (if num_gt b a then b else a)"

definition num_min :: "jsnum \<Rightarrow> jsnum \<Rightarrow> jsnum" where
  "num_min a b = (if num_gt a b then b else a)"

definition numericPage :: "js_env \<Rightarrow> val option \<Rightarrow> jsnum" where
  "numericPage env v =
     num_max (Fin 1) (num_or (to_number env (case v of None \<Rightarrow> VNum (Fin 1) | Some w \<Rightarrow> w)) (Fin 1))"

definition numericLimit :: "js_env \<Rightarrow> rat \<Rightarrow> val option \<Rightarrow> jsnum" where
  "numericLimit env maximum v =
     num_min (Fin maximum)
       (num_max (Fin 1) (num_or (to_number env (case v of None \<Rightarrow> VNum (Fin 20) | Some w \<Rightarrow> w)) (Fin 20)))"

text \<open>\<open>(numericPage - 1) * numericLimit\<close>, for a size that is finite and positive.\<close>

fun page_skip :: "jsnum \<Rightarrow> jsnum \<Rightarrow> jsnum" where
  "page_skip (Fin p) (Fin l) = Fin ((p - 1) * l)"
| "page_skip p l = p"

definition status_filter :: "string \<Rightarrow> id \<Rightarrow> string option \<Rightarrow> query" where
  "status_filter path tenantId status =
     [(''tenantId'', Is (VStr tenantId))]
     @ (if absent_or_empty status then [] else [(path, Is (VStr (the status)))])"

definition listSessions ::
  "'s mongo \<Rightarrow> js_env \<Rightarrow> id \<Rightarrow> string option \<Rightarrow> val option \<Rightarrow> val option \<Rightarrow> 's \<Rightarrow> session listing" where
  "listSessions db env tenantId status pg lmt s =
     (let flt = status_filter ''status'' tenantId status;
          p = numericPage env pg;
          l = numericLimit env 100 lmt
      in \<lparr>ls_items = db_sessions db flt (page_skip p l) l s, ls_total = db_countSessions db flt s,
          ls_page = p, ls_limit = l\<rparr>)"

subsection \<open>The execution order\<close>

definition entry_pending :: "id \<Rightarrow> entry_status" where
  "entry_pending i = \<lparr>es_importJobId = i, es_status = ''pending'', es_error = None\<rparr>"

definition computeSessionOrder :: "'s mongo \<Rightarrow> 'w registry \<Rightarrow> id \<Rightarrow> id \<Rightarrow> 's \<Rightarrow> (session, 's) reply" where
  "computeSessionOrder db reg tenantId sessionId s =
     (case db_session db (id_tenant_query sessionId tenantId) s of
        None \<Rightarrow> (Inl (Err (Some 404) SessionNotFound), s)
      | Some session \<Rightarrow>
          if ms_status session \<noteq> SessionPending
          then (Inl (Err (Some 409) (WrongStatus (session_status_name (ms_status session)))), s)
          else if ms_jobs session = [] then (Inl (Err (Some 400) SessionEmpty), s)
          else
            let entityKeys = uniq (map se_entityKey (ms_jobs session));
                dependenciesByEntity = collectDependencies reg entityKeys;
                jobsList = map (\<lambda>j. \<lparr>sj_importJobId = se_importJobId j, sj_entityKey = se_entityKey j\<rparr>)
                             (ms_jobs session)
            in (case lift_err BadGraph (computeSessionExecutionOrder jobsList dependenciesByEntity) of
                  Inl e \<Rightarrow> (Inl e, s)
                | Inr (orderedIds, orderedEntityKeys) \<Rightarrow>
                    saved db (session\<lparr>ms_executionOrder := orderedIds,
                                      ms_dependencyGraph := dependenciesByEntity,
                                      ms_jobStatuses := map entry_pending orderedIds\<rparr>) s))"

subsection \<open>External ids\<close>

definition EXTERNAL_CHUNK :: nat where
  "EXTERNAL_CHUNK = 500"

definition identity_path :: "string \<Rightarrow> string" where
  "identity_path identityField = ''mappedFields.'' @ identityField"

definition external_query :: "id \<Rightarrow> string \<Rightarrow> query" where
  "external_query importJobId identityField =
     [(''importJobId'', Is (VStr importJobId)), (identity_path identityField, Exists True),
      (identity_path identityField, Ne VNull), (''externalId'', Is VNull)]"

definition identity_value :: "string \<Rightarrow> srow \<Rightarrow> val option" where
  "identity_value identityField record =
     (case s_mappedFields record of None \<Rightarrow> None | Some m \<Rightarrow> oget m identityField)"

text \<open>The chunked loop: the database, the buffered operations and the number of rows updated.\<close>

definition push_external ::
  "'s mongo \<Rightarrow> js_env \<Rightarrow> string \<Rightarrow> string \<Rightarrow> srow \<Rightarrow> 's \<times> (query \<times> row_set) list \<times> nat
     \<Rightarrow> 's \<times> (query \<times> row_set) list \<times> nat" where
  "push_external db env entityKey identityField record = (\<lambda>(s, bulkOps, totalUpdated).
     (let identityValue = identity_value identityField record in
      if nullish identityValue then (s, bulkOps, totalUpdated)
      else
        let bulkOps = bulkOps @ [(id_query (s_id record), SetExternalId (js_str env (the identityValue)) entityKey)]
        in if EXTERNAL_CHUNK \<le> length bulkOps
           then (case db_bulkRows db bulkOps s of (n, s) \<Rightarrow> (s, [], totalUpdated + n))
           else (s, bulkOps, totalUpdated)))"

definition flush_external ::
  "'s mongo \<Rightarrow> 's \<times> (query \<times> row_set) list \<times> nat \<Rightarrow> 's \<times> nat" where
  "flush_external db = (\<lambda>(s, bulkOps, totalUpdated).
     (if bulkOps = [] then (s, totalUpdated)
      else case db_bulkRows db bulkOps s of (n, s) \<Rightarrow> (s, totalUpdated + n)))"

definition populate_job ::
  "'s mongo \<Rightarrow> js_env \<Rightarrow> session_entry \<Rightarrow> string \<Rightarrow> 's \<times> nat \<Rightarrow> 's \<times> nat" where
  "populate_job db env job identityField = (\<lambda>(s, totalUpdated).
     flush_external db
       (fold (push_external db env (se_entityKey job) identityField)
          (db_rows db (external_query (se_importJobId job) identityField) None (Fin 0) None s)
          (s, [], totalUpdated)))"

fun populate_jobs ::
  "'s mongo \<Rightarrow> js_env \<Rightarrow> 'w registry \<Rightarrow> session_entry list \<Rightarrow> 's \<times> nat \<Rightarrow> (nat, 's) reply" where
  "populate_jobs db env reg [] (s, totalUpdated) = (Inr totalUpdated, s)"
| "populate_jobs db env reg (job # jobs) (s, totalUpdated) =
     (case lift_err NoTarget (getTargetDescriptor (se_module job) (se_entityKey job) reg) of
        Inl e \<Rightarrow> (Inl e, s)
      | Inr descriptor \<Rightarrow>
          populate_jobs db env reg jobs (populate_job db env job (d_identityField descriptor) (s, totalUpdated)))"

definition populateSessionExternalIds ::
  "'s mongo \<Rightarrow> js_env \<Rightarrow> 'w registry \<Rightarrow> id \<Rightarrow> 's \<Rightarrow> (nat, 's) reply" where
  "populateSessionExternalIds db env reg sessionId s =
     (case db_session db (id_query sessionId) s of
        None \<Rightarrow> (Inr 0, s)
      | Some session \<Rightarrow> populate_jobs db env reg (ms_jobs session) (s, 0))"

end
