(* ===== verification/MemStore.thy ===== *)
theory MemStore
  imports JobStore
begin

text \<open>
  orchestration/adapters/inMemoryJobStore.js, the job store over four JavaScript Maps. Maps are
  association lists in insertion order. The store keeps the very object it is given, so an
  update is visible through it; every read hands out a JSON copy.
\<close>

record mem_store =
  m_jobs :: "(string \<times> import_job) list"
  m_staged :: "(string \<times> srow list) list"
  m_profiles :: "(string \<times> profile) list"
  m_sessions :: "(string \<times> obj) list"
  m_sequence :: nat

definition mem_empty :: mem_store where
  "mem_empty = \<lparr>m_jobs = [], m_staged = [], m_profiles = [], m_sessions = [], m_sequence = 0\<rparr>"

definition mem_key :: "id \<Rightarrow> id \<Rightarrow> string" where
  "mem_key tenantId importJobId = tenantId @ '':'' @ importJobId"

definition mem_id :: "nat \<Rightarrow> id" where
  "mem_id n = ''mem-'' @ show_nat n"

subsection \<open>Copies\<close>

text \<open>
  \<open>JSON.parse(JSON.stringify(v))\<close>: dates become their ISO strings and numbers that are not
  finite become null.
\<close>

fun json_clone :: "js_env \<Rightarrow> val \<Rightarrow> val" where
  "json_clone env (VDate d) = VStr (date_iso env d)"
| "json_clone env (VNum n) = (if is_finite n then VNum n else VNull)"
| "json_clone env (VArr vs) = VArr (map (json_clone env) vs)"
| "json_clone env (VObj kvs) = VObj (map (\<lambda>(k, v). (k, json_clone env v)) kvs)"
| "json_clone env v = v"

definition clone_obj :: "js_env \<Rightarrow> obj \<Rightarrow> obj" where
  "clone_obj env kvs = map (\<lambda>(k, v). (k, json_clone env v)) kvs"

definition clone_row :: "js_env \<Rightarrow> srow \<Rightarrow> srow" where
  "clone_row env r =
     r\<lparr>s_rawRow := clone_obj env (s_rawRow r), s_customFields := clone_obj env (s_customFields r),
       s_mappedFields := map_option (clone_obj env) (s_mappedFields r)\<rparr>"

lemma clone_row_keeps [simp]:
  "s_id (clone_row env r) = s_id r" "s_tenantId (clone_row env r) = s_tenantId r"
  "s_importJobId (clone_row env r) = s_importJobId r" "s_rowIndex (clone_row env r) = s_rowIndex r"
  "s_validationStatus (clone_row env r) = s_validationStatus r"
  "s_validationErrors (clone_row env r) = s_validationErrors r"
  "s_commitStatus (clone_row env r) = s_commitStatus r"
  "s_mappedFields (clone_row env r) = map_option (clone_obj env) (s_mappedFields r)"
  by (simp_all add: clone_row_def)

subsection \<open>Filters\<close>

text \<open>\<open>v?.toString()\<close>.\<close>

definition opt_str :: "js_env \<Rightarrow> val option \<Rightarrow> string option" where
  "opt_str env v = (if nullish v then None else map_option (js_str env) v)"

text \<open>An operator document such as \<open>{ $in: [...] }\<close> prints as \<open>[object Object]\<close>.\<close>

fun cond_val :: "cond \<Rightarrow> val" where
  "cond_val (Is v) = v"
| "cond_val (In vs) = VObj []"
| "cond_val (Gt n) = VObj []"
| "cond_val (Ne v) = VObj []"
| "cond_val (Exists b) = VObj []"

definition mem_matches :: "js_env \<Rightarrow> (string \<Rightarrow> val option) \<Rightarrow> query \<Rightarrow> bool" where
  "mem_matches env fld q \<longleftrightarrow>
     (\<forall>(k, c) \<in> set q. opt_str env (fld k) = opt_str env (Some (cond_val c)))"

text \<open>Only \<open>cursorStaged\<close> understands \<open>$in\<close>.\<close>

definition mem_cursor_matches :: "js_env \<Rightarrow> (string \<Rightarrow> val option) \<Rightarrow> query \<Rightarrow> bool" where
  "mem_cursor_matches env fld q \<longleftrightarrow>
     (\<forall>(k, c) \<in> set q.
        (case c of
           In vs \<Rightarrow> (case fld k of None \<Rightarrow> False | Some v \<Rightarrow> vmember v vs)
         | _ \<Rightarrow> opt_str env (fld k) = opt_str env (Some (cond_val c))))"

definition mem_rows :: "mem_store \<Rightarrow> srow list" where
  "mem_rows s = concat (map snd (m_staged s))"

subsection \<open>Sorting\<close>

text \<open>
  \<open>a < b\<close> on two property values: strings by character code, anything else as numbers
  (\<open>undefined\<close> is NaN).
\<close>

fun str_less :: "string \<Rightarrow> string \<Rightarrow> bool" where
  "str_less _ [] = False"
| "str_less [] (_ # _) = True"
| "str_less (a # as) (b # bs) = (code a < code b \<or> (a = b \<and> str_less as bs))"

fun prim :: "js_env \<Rightarrow> val \<Rightarrow> val" where
  "prim env (VArr vs) = VStr (js_str env (VArr vs))"
| "prim env (VObj kvs) = VStr (js_str env (VObj kvs))"
| "prim env v = v"

definition js_less :: "js_env \<Rightarrow> val option \<Rightarrow> val option \<Rightarrow> bool" where
  "js_less env a b =
     (case (a, b) of
        (Some v, Some w) \<Rightarrow>
          (case (prim env v, prim env w) of
             (VStr x, VStr y) \<Rightarrow> str_less x y
           | (x, y) \<Rightarrow> num_gt (to_number env y) (to_number env x))
      | _ \<Rightarrow> False)"

text \<open>\<open>Array.prototype.sort\<close> is stable: an element goes before the first one it compares below.\<close>

fun insert_by :: "('a \<Rightarrow> 'a \<Rightarrow> bool) \<Rightarrow> 'a \<Rightarrow> 'a list \<Rightarrow> 'a list" where
  "insert_by below x [] = [x]"
| "insert_by below x (y # ys) = (if below x y then x # y # ys else y # insert_by below x ys)"

definition js_sort :: "('a \<Rightarrow> 'a \<Rightarrow> bool) \<Rightarrow> 'a list \<Rightarrow> 'a list" where
  "js_sort below xs = fold (insert_by below) xs []"

subsection \<open>Jobs\<close>

definition mem_getJob :: "id \<Rightarrow> id \<Rightarrow> mem_store \<Rightarrow> app_error err + import_job" where
  "mem_getJob tenantId importJobId s =
     (case map_of (m_jobs s) (mem_key tenantId importJobId) of
        None \<Rightarrow> Inl (Err (Some 404) JobNotFound)
      | Some job \<Rightarrow> Inr job)"

text \<open>\<open>Object.assign\<close>: a dotted name is a property of that name, not a path.\<close>

definition mem_assign :: "job_set \<Rightarrow> import_job \<Rightarrow> import_job" where
  "mem_assign u j =
     (if CHR ''.'' \<in> set (set_path u) then j\<lparr>j_dotted := aput (set_path u) u (j_dotted j)\<rparr>
      else apply_set u j)"

definition mem_updateJob ::
  "id \<Rightarrow> id \<Rightarrow> job_set list \<Rightarrow> mem_store \<Rightarrow> app_error err + (import_job option \<times> mem_store)" where
  "mem_updateJob tenantId importJobId updates s =
     (let key = mem_key tenantId importJobId in
      case map_of (m_jobs s) key of
        None \<Rightarrow> Inl (Err (Some 404) JobNotFound)
      | Some job \<Rightarrow>
          let job' = fold mem_assign updates job
          in Inr (Some job', s\<lparr>m_jobs := aput key job' (m_jobs s)\<rparr>))"

definition mem_saveJob :: "import_job \<Rightarrow> mem_store \<Rightarrow> mem_store" where
  "mem_saveJob job s = s\<lparr>m_jobs := aput (mem_key (j_tenantId job) (j_id job)) job (m_jobs s)\<rparr>"

fun update_first :: "('v \<Rightarrow> bool) \<Rightarrow> ('v \<Rightarrow> 'v) \<Rightarrow> ('k \<times> 'v) list \<Rightarrow> 'v option \<times> ('k \<times> 'v) list" where
  "update_first p f [] = (None, [])"
| "update_first p f ((k, v) # kvs) =
     (if p v then (Some (f v), (k, f v) # kvs)
      else (case update_first p f kvs of (r, kvs') \<Rightarrow> (r, (k, v) # kvs')))"

definition mem_updateJobModel ::
  "js_env \<Rightarrow> query \<Rightarrow> job_set list \<Rightarrow> mem_store \<Rightarrow> import_job option \<times> mem_store" where
  "mem_updateJobModel env q updates s =
     (case update_first (\<lambda>j. mem_matches env (job_field j) q) (fold mem_assign updates) (m_jobs s) of
        (r, jobs) \<Rightarrow> (r, s\<lparr>m_jobs := jobs\<rparr>))"

subsection \<open>Staged rows\<close>

definition mem_row :: "id \<Rightarrow> id \<Rightarrow> id \<Rightarrow> nat \<Rightarrow> obj \<Rightarrow> srow" where
  "mem_row i tenantId importJobId index row =
     \<lparr>s_id = i, s_tenantId = tenantId, s_importJobId = importJobId, s_rowIndex = index,
      s_rawRow = row, s_customFields = row, s_mappedFields = None, s_externalId = None,
      s_entityKey = None, s_validationStatus = None, s_validationErrors = [], s_commitStatus = Pending,
      s_committedEntityId = None, s_committedEntityModel = None, s_commitError = None\<rparr>"

definition push_row :: "id \<Rightarrow> id \<Rightarrow> obj \<Rightarrow> srow list \<times> nat \<Rightarrow> srow list \<times> nat" where
  "push_row tenantId importJobId row =
     (\<lambda>(list, seq). (list @ [mem_row (mem_id (seq + 1)) tenantId importJobId (length list) row], seq + 1))"

definition mem_insertRows :: "id \<Rightarrow> id \<Rightarrow> obj list \<Rightarrow> mem_store \<Rightarrow> nat \<times> mem_store" where
  "mem_insertRows tenantId importJobId records s =
     (if records = [] then (0, s)
      else
        let key = mem_key tenantId importJobId;
            list = (case map_of (m_staged s) key of None \<Rightarrow> [] | Some l \<Rightarrow> l);
            (list', seq) = fold (push_row tenantId importJobId) records (list, m_sequence s)
        in (length records, s\<lparr>m_staged := aput key list' (m_staged s), m_sequence := seq\<rparr>))"

definition mem_findOneStaged :: "js_env \<Rightarrow> query \<Rightarrow> mem_store \<Rightarrow> srow option" where
  "mem_findOneStaged env q s =
     map_option (clone_row env) (find (\<lambda>r. mem_matches env (row_field env r) q) (mem_rows s))"

definition mem_updateOneStaged :: "js_env \<Rightarrow> query \<Rightarrow> row_set \<Rightarrow> mem_store \<Rightarrow> mem_store" where
  "mem_updateOneStaged env q u s =
     s\<lparr>m_staged := map (\<lambda>(k, list).
         (k, map (\<lambda>r. if mem_matches env (row_field env r) q then apply_row_set u r else r) list))
       (m_staged s)\<rparr>"

definition mem_bulkWriteStaged :: "js_env \<Rightarrow> (query \<times> row_set) list \<Rightarrow> mem_store \<Rightarrow> mem_store" where
  "mem_bulkWriteStaged env ops s = fold (\<lambda>(q, u). mem_updateOneStaged env q u) ops s"

fun replace_first :: "('a \<Rightarrow> bool) \<Rightarrow> 'a \<Rightarrow> 'a list \<Rightarrow> 'a list option" where
  "replace_first p y [] = None"
| "replace_first p y (x # xs) =
     (if p x then Some (y # xs) else map_option (Cons x) (replace_first p y xs))"

fun save_in :: "srow \<Rightarrow> (string \<times> srow list) list \<Rightarrow> (string \<times> srow list) list" where
  "save_in r [] = []"
| "save_in r ((k, list) # kls) =
     (case replace_first (\<lambda>x. s_id x = s_id r) r list of
        Some list' \<Rightarrow> (k, list') # kls
      | None \<Rightarrow> (k, list) # save_in r kls)"

definition mem_saveRow :: "srow \<Rightarrow> mem_store \<Rightarrow> mem_store" where
  "mem_saveRow r s = s\<lparr>m_staged := save_in r (m_staged s)\<rparr>"

definition mem_cursorStaged ::
  "js_env \<Rightarrow> query \<Rightarrow> string option \<Rightarrow> nat option \<Rightarrow> mem_store \<Rightarrow> srow list" where
  "mem_cursorStaged env q srt limit s =
     (let records = filter (\<lambda>r. mem_cursor_matches env (row_field env r) q) (map (clone_row env) (mem_rows s));
          records = (case srt of None \<Rightarrow> records
            | Some k \<Rightarrow> js_sort (\<lambda>a b. js_less env (row_field env a k) (row_field env b k)) records)
      in js_limit limit records)"

text \<open>\<open>Set.add\<close> on a list of values in insertion order.\<close>

definition set_add :: "val \<Rightarrow> val list \<Rightarrow> val list" where
  "set_add v vs = (if vmember v vs then vs else vs @ [v])"

definition strip_prefix :: "string \<Rightarrow> string \<Rightarrow> string" where
  "strip_prefix p s = (if prefix p s then drop (length p) s else s)"

definition mem_distinctStaged :: "js_env \<Rightarrow> string \<Rightarrow> query \<Rightarrow> mem_store \<Rightarrow> val list" where
  "mem_distinctStaged env fld q s =
     (let path = strip_prefix ''mappedFields.'' fld in
      fold (\<lambda>r vs.
        if mem_matches env (row_field env r) q then
          (let inner = (case s_mappedFields r of None \<Rightarrow> None | Some m \<Rightarrow> oget m path);
               v = (if nullish inner then row_field env r path else inner)
           in if nullish v then vs else set_add (the v) vs)
        else vs) (mem_rows s) [])"

subsection \<open>Aggregation\<close>

text \<open>The groups of a \<open>$group\<close> stage: a Map from the key, or its absence, to the count.\<close>

definition same_key :: "val option \<Rightarrow> val option \<Rightarrow> bool" where
  "same_key a b =
     (case (a, b) of (None, None) \<Rightarrow> True | (Some v, Some w) \<Rightarrow> same_value v w | _ \<Rightarrow> False)"

fun count_group :: "val option \<Rightarrow> (val option \<times> nat) list \<Rightarrow> (val option \<times> nat) list" where
  "count_group k [] = [(k, 1)]"
| "count_group k ((k', n) # gs) = (if same_key k k' then (k', n + 1) # gs else (k', n) # count_group k gs)"

definition group_doc :: "val option \<times> nat \<Rightarrow> obj" where
  "group_doc g = opt_doc ''_id'' (fst g) @ [(''count'', VNum (Fin (of_nat (snd g))))]"

fun mem_stage :: "js_env \<Rightarrow> stage \<Rightarrow> obj list \<Rightarrow> obj list" where
  "mem_stage env (Match q) records = filter (\<lambda>r. mem_matches env (oget r) q) records"
| "mem_stage env (GroupCount path) records =
     map group_doc (fold (\<lambda>r. count_group (oget r (strip_prefix ''$'' path))) records [])"
| "mem_stage env (SortBy k dir) records =
     js_sort (\<lambda>a b. 0 > (if js_less env (oget a k) (oget b k) then - 1 else 1) * dir) records"
| "mem_stage env (LimitTo n) records = js_limit (Some n) records"

definition mem_aggregateStaged :: "js_env \<Rightarrow> stage list \<Rightarrow> mem_store \<Rightarrow> obj list" where
  "mem_aggregateStaged env stages s =
     fold (mem_stage env) stages (map (\<lambda>r. row_doc env (clone_row env r)) (mem_rows s))"

subsection \<open>Profiles, sample errors, sessions\<close>

text \<open>
  The copies are sorted by subtracting their \<open>updatedAt\<close>, which the copy turned into a string.
\<close>

definition updated_before :: "js_env \<Rightarrow> profile \<Rightarrow> profile \<Rightarrow> bool" where
  "updated_before env a b =
     (case (parse_number (date_iso env (pr_updatedAt b)), parse_number (date_iso env (pr_updatedAt a))) of
        (Fin x, Fin y) \<Rightarrow> x - y < 0
      | _ \<Rightarrow> False)"

definition wanted :: "string option \<Rightarrow> string \<Rightarrow> bool" where
  "wanted flt x \<longleftrightarrow> (case flt of None \<Rightarrow> True | Some y \<Rightarrow> y = [] \<or> x = y)"

definition mem_listMappingProfiles ::
  "js_env \<Rightarrow> id \<Rightarrow> string option \<Rightarrow> string option \<Rightarrow> mem_store \<Rightarrow> profile list" where
  "mem_listMappingProfiles env tenantId md ek s =
     js_sort (updated_before env)
       (filter (\<lambda>p. pr_tenantId p = tenantId \<and> wanted md (pr_module p) \<and> wanted ek (pr_entityKey p))
         (map snd (m_profiles s)))"

definition profile_label :: "string \<Rightarrow> string" where
  "profile_label l = (if js_trim l = [] then ''default'' else js_trim l)"

definition mem_upsertMappingProfile ::
  "id \<Rightarrow> string \<Rightarrow> string \<Rightarrow> field_map option \<Rightarrow> string \<Rightarrow> id option \<Rightarrow> int \<Rightarrow> mem_store \<Rightarrow> profile \<times> mem_store" where
  "mem_upsertMappingProfile tenantId moduleName entityKey fieldMap profileLabel createdBy now s =
     (let i = tenantId @ '':'' @ moduleName @ '':'' @ entityKey @ '':'' @ profile_label profileLabel;
          p = \<lparr>pr_id = i, pr_tenantId = tenantId, pr_module = moduleName, pr_entityKey = entityKey,
               pr_label = profile_label profileLabel, pr_fieldMap = fieldMap, pr_createdBy = createdBy,
               pr_updatedAt = now\<rparr>
      in (p, s\<lparr>m_profiles := aput i p (m_profiles s)\<rparr>))"

definition mem_findSampleErrors :: "id \<Rightarrow> id \<Rightarrow> nat \<Rightarrow> mem_store \<Rightarrow> (nat \<times> row_error list) list" where
  "mem_findSampleErrors tenantId importJobId limit s =
     (let list = (case map_of (m_staged s) (mem_key tenantId importJobId) of None \<Rightarrow> [] | Some l \<Rightarrow> l)
      in map (\<lambda>r. (s_rowIndex r, s_validationErrors r))
           (take limit (filter (\<lambda>r. s_validationStatus r = Some Invalid) list)))"

definition mem_getSession :: "js_env \<Rightarrow> id \<Rightarrow> id \<Rightarrow> mem_store \<Rightarrow> app_error err + obj" where
  "mem_getSession env tenantId sessionId s =
     (case map_of (m_sessions s) (mem_key tenantId sessionId) of
        None \<Rightarrow> Inl (Err (Some 404) SessionNotFound)
      | Some session \<Rightarrow> Inr (clone_obj env session))"

definition mem_reset :: "mem_store \<Rightarrow> mem_store" where
  "mem_reset s = mem_empty"

definition createInMemoryJobStore :: "js_env \<Rightarrow> mem_store store_ops" where
  "createInMemoryJobStore env =
     \<lparr>so_getJob = mem_getJob, so_updateJob = mem_updateJob, so_saveJob = mem_saveJob,
      so_insertRows = mem_insertRows, so_findOneStaged = mem_findOneStaged env,
      so_bulkWriteStaged = mem_bulkWriteStaged env, so_aggregateStaged = mem_aggregateStaged env,
      so_distinctStaged = mem_distinctStaged env, so_cursorStaged = mem_cursorStaged env,
      so_updateOneStaged = mem_updateOneStaged env, so_updateJobModel = mem_updateJobModel env,
      so_listMappingProfiles = mem_listMappingProfiles env,
      so_upsertMappingProfile = mem_upsertMappingProfile,
      so_findSampleErrors = mem_findSampleErrors\<rparr>"

subsection \<open>Sorting and matching\<close>

lemma set_insert_by [simp]: "set (insert_by p x ys) = insert x (set ys)"
  by (induction ys) auto

lemma mset_insert_by [simp]: "mset (insert_by p x ys) = add_mset x (mset ys)"
  by (induction ys) auto

lemma insert_by_key:
  assumes "sorted (map f ys)"
  shows "sorted (map f (insert_by (\<lambda>a b. f a < f b) x ys))
    \<and> filter (\<lambda>z. f z = k) (insert_by (\<lambda>a b. f a < f b) x ys)
      = filter (\<lambda>z. f z = k) ys @ (if f x = k then [x] else [])"
  using assms
proof (induction ys)
  case (Cons y ys)
  show ?case
  proof (cases "f x < f y")
    case True
    then have "filter (\<lambda>z. f z = f x) (y # ys) = []"
      using Cons.prems by (auto simp: filter_empty_conv)
    then show ?thesis using True Cons.prems by auto
  next
    case False
    then show ?thesis using Cons by auto
  qed
qed simp

lemma js_sort_key:
  fixes f :: "'a \<Rightarrow> 'b::linorder"
  shows "js_sort (\<lambda>a b. f a < f b) xs = sort_key f xs"
proof -
  have step: "sorted (map f ys) \<Longrightarrow>
     sorted (map f (fold (insert_by (\<lambda>a b. f a < f b)) xs ys))
     \<and> mset (fold (insert_by (\<lambda>a b. f a < f b)) xs ys) = mset xs + mset ys
     \<and> (\<forall>k. filter (\<lambda>z. f z = k) (fold (insert_by (\<lambda>a b. f a < f b)) xs ys)
          = filter (\<lambda>z. f z = k) ys @ filter (\<lambda>z. f z = k) xs)" for ys
  proof (induction xs arbitrary: ys)
    case (Cons x xs)
    have s: "sorted (map f (insert_by (\<lambda>a b. f a < f b) x ys))"
      using insert_by_key [OF Cons.prems] by blast
    show ?case
      using Cons.IH [OF s] insert_by_key [OF Cons.prems, of x] by simp
  qed simp
  show ?thesis
    using step [of "[]"] unfolding js_sort_def
    by (intro properties_for_sort_key [symmetric]) (simp_all add: eq_commute)
qed

lemma js_less_nat [simp]:
  "js_less env (Some (VNum (Fin (of_nat a)))) (Some (VNum (Fin (of_nat b)))) \<longleftrightarrow> a < b"
  by (simp add: js_less_def)

lemma opt_str_VStr [simp]: "opt_str env (Some (VStr s)) = Some s" "opt_str env (Some VNull) = None"
  by (simp_all add: opt_str_def)

lemma mem_matches_id [simp]:
  "mem_matches env (row_field env r) (id_query i) \<longleftrightarrow> s_id r = i"
  by (simp add: mem_matches_def id_query_def)

lemma mem_cursor_matches_job [simp]:
  "mem_cursor_matches env (row_field env r) (job_query t j) \<longleftrightarrow> of_job t j r"
  by (auto simp: mem_cursor_matches_def job_query_def of_job_def)

lemma mem_cursor_matches_commit [simp]:
  "mem_cursor_matches env (row_field env r) (commit_query t j) \<longleftrightarrow> committable t j r"
proof -
  have "opt_str env (row_field env r ''validationStatus'') = Some ''valid'' \<longleftrightarrow> s_validationStatus r = Some Valid"
  proof (cases "s_validationStatus r")
    case (Some v)
    then show ?thesis by (cases v) simp_all
  qed simp
  moreover have "commit_name (s_commitStatus r) \<in> {''pending'', ''committing''} \<longleftrightarrow> s_commitStatus r \<in> {Pending, RowCommitting}"
    by (cases "s_commitStatus r") simp_all
  ultimately show ?thesis
    by (auto simp: mem_cursor_matches_def commit_query_def committable_def)
qed

subsection \<open>The invariant\<close>

definition mem_ok :: "mem_store \<Rightarrow> bool" where
  "mem_ok s \<longleftrightarrow>
     distinct (akeys (m_staged s)) \<and> distinct (map s_id (mem_rows s))
     \<and> (\<forall>r \<in> set (mem_rows s). \<exists>n. n \<le> m_sequence s \<and> 0 < n \<and> s_id r = mem_id n)
     \<and> (\<forall>(k, list) \<in> set (m_staged s). map s_rowIndex list = [0..<length list])
     \<and> distinct (akeys (m_jobs s))
     \<and> (\<forall>(k, j) \<in> set (m_jobs s). k = mem_key (j_tenantId j) (j_id j)
          \<and> CHR '':'' \<notin> set (j_tenantId j) \<and> CHR '':'' \<notin> set (j_id j))"

lemma mem_okI:
  assumes "distinct (akeys (m_staged s))" "distinct (map s_id (mem_rows s))"
    and "\<And>r. r \<in> set (mem_rows s) \<Longrightarrow> \<exists>n. n \<le> m_sequence s \<and> 0 < n \<and> s_id r = mem_id n"
    and "\<And>k list. (k, list) \<in> set (m_staged s) \<Longrightarrow> map s_rowIndex list = [0..<length list]"
    and "distinct (akeys (m_jobs s))"
    and "\<And>k j. (k, j) \<in> set (m_jobs s) \<Longrightarrow> k = mem_key (j_tenantId j) (j_id j)
      \<and> CHR '':'' \<notin> set (j_tenantId j) \<and> CHR '':'' \<notin> set (j_id j)"
  shows "mem_ok s"
  unfolding mem_ok_def using assms by blast

lemma mem_okD:
  assumes "mem_ok s"
  shows "distinct (akeys (m_staged s))" "distinct (map s_id (mem_rows s))" "distinct (akeys (m_jobs s))"
    and "r \<in> set (mem_rows s) \<Longrightarrow> \<exists>n. n \<le> m_sequence s \<and> 0 < n \<and> s_id r = mem_id n"
    and "(k, list) \<in> set (m_staged s) \<Longrightarrow> map s_rowIndex list = [0..<length list]"
    and "(k, j) \<in> set (m_jobs s) \<Longrightarrow> k = mem_key (j_tenantId j) (j_id j)
      \<and> CHR '':'' \<notin> set (j_tenantId j) \<and> CHR '':'' \<notin> set (j_id j)"
  using assms unfolding mem_ok_def by blast+

lemma mem_id_inject [simp]: "mem_id m = mem_id n \<longleftrightarrow> m = n"
  by (simp add: mem_id_def) (metis digits_val_show_nat)

lemma mem_key_inject:
  assumes "CHR '':'' \<notin> set t" "CHR '':'' \<notin> set i" "mem_key t i = mem_key t' i'"
  shows "t = t' \<and> i = i'"
proof -
  have "split_on (CHR '':'') (mem_key t i) = [t, i]"
    using assms(1,2) by (simp add: mem_key_def split_on_append split_on_id)
  then have two: "split_on (CHR '':'') (mem_key t' i') = [t, i]"
    using assms(3) by simp
  have "CHR '':'' \<notin> set t'"
  proof
    assume "CHR '':'' \<in> set t'"
    then have "1 < length (filter (\<lambda>c. c = CHR '':'') (mem_key t' i'))"
      by (auto simp: mem_key_def filter_empty_conv Suc_lessI length_greater_0_conv)
    moreover have "length (filter (\<lambda>c. c = CHR '':'') (mem_key t i)) = 1"
    proof -
      have "filter (\<lambda>c. c = CHR '':'') t = []" "filter (\<lambda>c. c = CHR '':'') i = []"
        using assms by (auto simp: filter_empty_conv)
      then show ?thesis by (simp add: mem_key_def)
    qed
    ultimately show False using assms(3) by simp
  qed
  then have "split_on (CHR '':'') (mem_key t' i') = t' # split_on (CHR '':'') i'"
    by (simp add: mem_key_def split_on_append)
  then have t: "t = t'" using two by simp
  then show ?thesis using assms(3) by (simp add: mem_key_def)
qed
lemma mem_rows_map:
  "mem_rows (s\<lparr>m_staged := map (\<lambda>(k, list). (k, map f list)) (m_staged s)\<rparr>) = map f (mem_rows s)"
proof -
  have "concat (map snd (map (\<lambda>(k, list). (k, map f list)) kls)) = map f (concat (map snd kls))" for kls
    by (induction kls) auto
  then show ?thesis by (simp add: mem_rows_def)
qed

lemma akeys_map_snd: "akeys (map (\<lambda>(k, v). (k, f v)) kvs) = akeys kvs"
  by (induction kvs) auto

lemma mem_ok_map:
  assumes "mem_ok s" "\<And>r. s_id (f r) = s_id r" "\<And>r. s_rowIndex (f r) = s_rowIndex r"
  shows "mem_ok (s\<lparr>m_staged := map (\<lambda>(k, list). (k, map f list)) (m_staged s)\<rparr>)"
proof -
  have ids: "map s_id (map f (mem_rows s)) = map s_id (mem_rows s)"
    using assms(2) by simp
  have idx: "map s_rowIndex (map f list) = map s_rowIndex list" for list
    using assms(3) by simp
  have "\<forall>r \<in> set (map f (mem_rows s)). \<exists>n. n \<le> m_sequence s \<and> 0 < n \<and> s_id r = mem_id n"
    using assms by (auto simp: mem_ok_def)
  moreover have "\<forall>(k, list) \<in> set (map (\<lambda>(k, list). (k, map f list)) (m_staged s)). map s_rowIndex list = [0..<length list]"
  proof (rule ballI, clarify)
    fix k l' assume "(k, l') \<in> set (map (\<lambda>(k, list). (k, map f list)) (m_staged s))"
    then obtain l where l: "l' = map f l" "(k, l) \<in> set (m_staged s)"
      by auto
    have "map s_rowIndex l = [0..<length l]"
      using assms(1) l(2) unfolding mem_ok_def by blast
    then show "map s_rowIndex l' = [0..<length l']"
      using idx [of l] unfolding l(1) by (simp only: length_map)
  qed
  moreover have "m_staged (s\<lparr>m_staged := x\<rparr>) = x" "m_jobs (s\<lparr>m_staged := x\<rparr>) = m_jobs s"
      "m_sequence (s\<lparr>m_staged := x\<rparr>) = m_sequence s" for x
    by simp_all
  ultimately show ?thesis
    using assms(1) ids [symmetric] unfolding mem_ok_def mem_rows_map
    by (simp only: akeys_map_snd simp_thms) (elim conjE, intro conjI; assumption)
qed

lemma mem_updateOne_map:
  "mem_updateOneStaged env (id_query i) u s =
     s\<lparr>m_staged := map (\<lambda>(k, list). (k, map (update_at i u) list)) (m_staged s)\<rparr>"
proof -
  have "(\<lambda>r. if s_id r = i then apply_row_set u r else r) = update_at i u"
    by (simp add: fun_eq_iff update_at_def)
  then show ?thesis by (simp add: mem_updateOneStaged_def)
qed

lemma mem_ok_updateOne: "mem_ok s \<Longrightarrow> mem_ok (mem_updateOneStaged env q u s)"
  unfolding mem_updateOneStaged_def by (rule mem_ok_map) simp_all

lemma mem_ok_bulk: "mem_ok s \<Longrightarrow> mem_ok (mem_bulkWriteStaged env qus s)"
  unfolding mem_bulkWriteStaged_def by (induction qus arbitrary: s) (auto intro: mem_ok_updateOne)

lemma mem_bulk_ids:
  "mem_rows (mem_bulkWriteStaged env (map (\<lambda>(i, u). (id_query i, u)) ius) s)
     = fold (\<lambda>(i, u). map (update_at i u)) ius (mem_rows s)"
  unfolding mem_bulkWriteStaged_def
  by (induction ius arbitrary: s) (auto simp: mem_updateOne_map mem_rows_map)

lemma mem_updateOne_jobs [simp]: "m_jobs (mem_updateOneStaged env q u s) = m_jobs s"
  by (simp add: mem_updateOneStaged_def)

lemma mem_bulk_jobs [simp]: "m_jobs (mem_bulkWriteStaged env qus s) = m_jobs s"
  unfolding mem_bulkWriteStaged_def by (induction qus arbitrary: s) auto

lemma mem_assign_keeps [simp]:
  "j_id (mem_assign u j) = j_id j" "j_tenantId (mem_assign u j) = j_tenantId j"
  "j_status (mem_assign u j) = j_status (apply_set u j)"
proof -
  show "j_id (mem_assign u j) = j_id j" "j_tenantId (mem_assign u j) = j_tenantId j"
    by (simp_all add: mem_assign_def)
  show "j_status (mem_assign u j) = j_status (apply_set u j)"
  proof (cases u)
    case (SetCount f n)
    then show ?thesis by (simp add: mem_assign_def)
  qed (simp_all add: mem_assign_def)
qed

lemma fold_mem_assign_keeps [simp]:
  "j_id (fold mem_assign us j) = j_id j" "j_tenantId (fold mem_assign us j) = j_tenantId j"
  by (induction us arbitrary: j) simp_all

lemma mem_rows_jobs [simp]: "mem_rows (s\<lparr>m_jobs := js\<rparr>) = mem_rows s"
  by (simp add: mem_rows_def)

lemma set_aput: "set (aput k v kvs) \<subseteq> insert (k, v) (set kvs)"
  by (induction k v kvs rule: aput.induct) auto

lemma mem_ok_job:
  assumes "mem_ok s" "CHR '':'' \<notin> set (j_tenantId job)" "CHR '':'' \<notin> set (j_id job)"
    "k = mem_key (j_tenantId job) (j_id job)"
  shows "mem_ok (s\<lparr>m_jobs := aput k job (m_jobs s)\<rparr>)"
  using assms set_aput [of k job "m_jobs s"] unfolding mem_ok_def by auto

lemma mem_job_ids:
  assumes "mem_ok s" "map_of (m_jobs s) (mem_key t i) = Some job"
  shows "j_tenantId job = t \<and> j_id job = i" and "CHR '':'' \<notin> set t \<and> CHR '':'' \<notin> set i"
proof -
  have "(mem_key t i, job) \<in> set (m_jobs s)"
    using assms(2) by (rule map_of_SomeD)
  then have "mem_key t i = mem_key (j_tenantId job) (j_id job)"
    "CHR '':'' \<notin> set (j_tenantId job)" "CHR '':'' \<notin> set (j_id job)"
    using assms(1) by (auto simp: mem_ok_def)
  then show "j_tenantId job = t \<and> j_id job = i" "CHR '':'' \<notin> set t \<and> CHR '':'' \<notin> set i"
    using mem_key_inject by metis+
qed

lemma update_first_keys:
  "akeys (snd (update_first p f kvs)) = akeys kvs"
  by (induction kvs) (auto split: prod.splits)

lemma update_first_set:
  "(k, v) \<in> set (snd (update_first p f kvs)) \<Longrightarrow> \<exists>v'. (k, v') \<in> set kvs \<and> (v = v' \<or> v = f v')"
proof (induction kvs)
  case (Cons kv kvs)
  obtain k' v' where kv: "kv = (k', v')" by force
  have upd: "snd (update_first p f ((k', v') # kvs))
    = (if p v' then (k', f v') # kvs else (k', v') # snd (update_first p f kvs))"
    by (simp split: prod.splits)
  show ?case
  proof (cases "p v'")
    case True
    then show ?thesis using Cons.prems unfolding kv upd by auto
  next
    case False
    then show ?thesis using Cons.prems Cons.IH unfolding kv upd by auto
  qed
qed simp

lemma mem_ok_updateJobModel: "mem_ok s \<Longrightarrow> mem_ok (snd (mem_updateJobModel env q us s))"
proof -
  assume ok: "mem_ok s"
  define js where "js = snd (update_first (\<lambda>j. mem_matches env (job_field j) q) (fold mem_assign us) (m_jobs s))"
  have s: "snd (mem_updateJobModel env q us s) = s\<lparr>m_jobs := js\<rparr>"
    by (simp add: mem_updateJobModel_def js_def split: prod.splits)
  have "k = mem_key (j_tenantId j) (j_id j) \<and> CHR '':'' \<notin> set (j_tenantId j) \<and> CHR '':'' \<notin> set (j_id j)"
    if "(k, j) \<in> set js" for k j
    using update_first_set [OF that [unfolded js_def]] ok by (auto simp: mem_ok_def)
  moreover have "distinct (akeys js)"
    using ok by (simp add: js_def update_first_keys mem_ok_def)
  ultimately show ?thesis using ok unfolding s mem_ok_def by auto
qed

lemma update_first_unique:
  assumes "distinct (akeys kvs)" "map_of kvs k = Some v" "\<And>k' v'. (k', v') \<in> set kvs \<Longrightarrow> p v' \<longleftrightarrow> k' = k"
  shows "fst (update_first p f kvs) = Some (f v) \<and> map_of (snd (update_first p f kvs)) k = Some (f v)"
  using assms
proof (induction kvs)
  case (Cons kv kvs)
  obtain k' v' where kv: "kv = (k', v')" by force
  show ?case
  proof (cases "k' = k")
    case True
    then show ?thesis using Cons.prems kv by auto
  next
    case False
    then show ?thesis using Cons kv by (auto split: prod.splits)
  qed
qed simp

lemma mem_updateJobModel_job:
  assumes "mem_ok s" "map_of (m_jobs s) (mem_key t i) = Some job"
  shows "map_of (m_jobs (snd (mem_updateJobModel env (id_tenant_query i t) us s))) (mem_key t i)
    = Some (fold mem_assign us job)"
proof -
  have ids: "CHR '':'' \<notin> set t \<and> CHR '':'' \<notin> set i"
    using mem_job_ids [OF assms] by blast
  have "mem_matches env (job_field j) (id_tenant_query i t) \<longleftrightarrow> k = mem_key t i" if "(k, j) \<in> set (m_jobs s)" for k j
  proof -
    have "k = mem_key (j_tenantId j) (j_id j)"
      using that assms(1) by (auto simp: mem_ok_def)
    then show ?thesis
      using mem_key_inject [of t i "j_tenantId j" "j_id j"] ids
      by (auto simp: mem_matches_def id_tenant_query_def job_field_def)
  qed
  then show ?thesis
    using update_first_unique [of "m_jobs s" "mem_key t i" job "\<lambda>j. mem_matches env (job_field j) (id_tenant_query i t)" "fold mem_assign us"]
      assms by (simp add: mem_updateJobModel_def mem_ok_def case_prod_beta)
qed

subsection \<open>The store meets the contract\<close>

interpretation mem: staging_store "createInMemoryJobStore env" mem_rows
  "\<lambda>s t i. map_of (m_jobs s) (mem_key t i)" "clone_row env" mem_assign mem_ok for env
proof
  fix s :: mem_store and t j lmt i us q ius job js u and r :: srow
  show "mem_ok s \<Longrightarrow> distinct (map s_id (mem_rows s))"
    by (simp add: mem_ok_def)
  have flt: "filter (\<lambda>r. p (clone_row env r)) rs = filter p rs"
    if "\<And>r. p (clone_row env r) = p r" for p and rs :: "srow list"
    using that by simp
  show "so_cursorStaged (createInMemoryJobStore env) (commit_query t j) (Some ''rowIndex'') lmt s
      = js_limit lmt (map (clone_row env) (sort_key s_rowIndex (filter (committable t j) (mem_rows s))))"
  proof -
    have c: "(\<lambda>r. committable t j (clone_row env r)) = committable t j"
      by (simp add: committable_def fun_eq_iff)
    have srt: "sort_key s_rowIndex (map (clone_row env) rs) = map (clone_row env) (sort_key s_rowIndex rs)" for rs
    proof -
      have ins: "insort_key s_rowIndex (clone_row env a) (map (clone_row env) xs)
          = map (clone_row env) (insort_key s_rowIndex a xs)" for a xs
        by (induction xs) simp_all
      show ?thesis by (induction rs) (simp_all add: ins)
    qed
    show ?thesis
      by (simp add: createInMemoryJobStore_def mem_cursorStaged_def js_sort_key filter_map comp_def c srt)
  qed
  show "mset (so_cursorStaged (createInMemoryJobStore env) (job_query t j) None None s)
      = mset (map (clone_row env) (filter (of_job t j) (mem_rows s)))"
  proof -
    have c: "(\<lambda>r. of_job t j (clone_row env r)) = of_job t j"
      by (simp add: of_job_def fun_eq_iff)
    show ?thesis
      by (simp add: createInMemoryJobStore_def mem_cursorStaged_def filter_map comp_def c js_limit_def)
  qed
  show "mem_rows (so_updateOneStaged (createInMemoryJobStore env) (id_query i) u s) = map (update_at i u) (mem_rows s)"
    by (simp add: createInMemoryJobStore_def mem_updateOne_map mem_rows_map)
  show "mem_ok s \<Longrightarrow> mem_ok (so_updateOneStaged (createInMemoryJobStore env) (id_query i) u s)"
    by (simp add: createInMemoryJobStore_def mem_ok_updateOne)
  show "mem_rows (so_bulkWriteStaged (createInMemoryJobStore env) (map (\<lambda>(i, u). (id_query i, u)) ius) s)
      = fold (\<lambda>(i, u). map (update_at i u)) ius (mem_rows s)"
    by (simp add: createInMemoryJobStore_def mem_bulk_ids)
  show "mem_ok s \<Longrightarrow> mem_ok (so_bulkWriteStaged (createInMemoryJobStore env) (map (\<lambda>(i, u). (id_query i, u)) ius) s)"
    by (simp add: createInMemoryJobStore_def mem_ok_bulk)
  show "mem_ok s \<Longrightarrow> map_of (m_jobs s) (mem_key (j_tenantId job) (j_id job)) \<noteq> None
      \<Longrightarrow> mem_ok (so_saveJob (createInMemoryJobStore env) job s)"
    using mem_job_ids(2) [of s "j_tenantId job" "j_id job"]
    by (auto simp: createInMemoryJobStore_def mem_saveJob_def simp del: map_of_None_akeys intro!: mem_ok_job)
  show "mem_ok s \<Longrightarrow> map_of (m_jobs s) (mem_key t j) = Some job \<Longrightarrow> j_tenantId job = t \<and> j_id job = j"
    by (rule mem_job_ids(1))
  show "mem_ok s \<Longrightarrow> mem_ok (snd (so_updateJobModel (createInMemoryJobStore env) q us s))"
    by (simp add: createInMemoryJobStore_def mem_ok_updateJobModel)
  show "mem_ok s \<Longrightarrow> map_of (m_jobs s) (mem_key t j) = Some job \<Longrightarrow>
     map_of (m_jobs (snd (so_updateJobModel (createInMemoryJobStore env) (id_tenant_query j t) us s))) (mem_key t j)
       = Some (fold mem_assign us job)"
    by (simp add: createInMemoryJobStore_def mem_updateJobModel_job)
qed (simp_all add: createInMemoryJobStore_def mem_getJob_def mem_saveJob_def mem_updateJobModel_def fun_eq_iff split: prod.splits)

subsection \<open>Reachable stores\<close>

text \<open>One call of a state-changing operation; ids are colon-free, as MongoDB's are.\<close>

inductive mem_step :: "js_env \<Rightarrow> mem_store \<Rightarrow> mem_store \<Rightarrow> bool" for env where
  step_updateJob: "mem_updateJob t i us s = Inr (r, s') \<Longrightarrow> mem_step env s s'"
| step_saveJob: "CHR '':'' \<notin> set (j_tenantId job) \<Longrightarrow> CHR '':'' \<notin> set (j_id job) \<Longrightarrow>
    mem_step env s (mem_saveJob job s)"
| step_updateJobModel: "mem_step env s (snd (mem_updateJobModel env q us s))"
| step_insertRows: "mem_step env s (snd (mem_insertRows t i records s))"
| step_updateOne: "mem_step env s (mem_updateOneStaged env q u s)"
| step_bulkWrite: "mem_step env s (mem_bulkWriteStaged env ops s)"
| step_saveRow: "(\<And>x. x \<in> set (mem_rows s) \<Longrightarrow> s_id x = s_id r \<Longrightarrow> s_rowIndex x = s_rowIndex r) \<Longrightarrow>
    mem_step env s (mem_saveRow r s)"
| step_upsert: "mem_step env s (snd (mem_upsertMappingProfile t m e fm l c now s))"
| step_reset: "mem_step env s (mem_reset s)"

lemma fold_push_row:
  "fold (push_row t i) records (list, n) =
     (list @ map (\<lambda>k. mem_row (mem_id (n + 1 + k)) t i (length list + k) (records ! k)) [0..<length records],
      n + length records)"
proof (induction records arbitrary: list n)
  case (Cons r rs)
  have "map (\<lambda>k. mem_row (mem_id (n + 1 + k)) t i (length list + k) ((r # rs) ! k)) [0..<length (r # rs)]
    = mem_row (mem_id (n + 1)) t i (length list) r
      # map (\<lambda>k. mem_row (mem_id (n + 1 + 1 + k)) t i (length list + 1 + k) (rs ! k)) [0..<length rs]"
    by (simp add: upt_conv_Cons map_Suc_upt [symmetric] comp_def del: upt_Suc)
  then show ?case using Cons.IH by (simp add: push_row_def)
qed simp

definition new_rows :: "id \<Rightarrow> id \<Rightarrow> nat \<Rightarrow> nat \<Rightarrow> obj list \<Rightarrow> srow list" where
  "new_rows t i n start records =
     map (\<lambda>k. mem_row (mem_id (n + 1 + k)) t i (start + k) (records ! k)) [0..<length records]"

definition job_rows :: "id \<Rightarrow> id \<Rightarrow> mem_store \<Rightarrow> srow list" where
  "job_rows t i s = (case map_of (m_staged s) (mem_key t i) of None \<Rightarrow> [] | Some l \<Rightarrow> l)"

lemma mem_insertRows_eq:
  assumes "records \<noteq> []"
  shows "mem_insertRows t i records s =
    (length records,
     s\<lparr>m_staged := aput (mem_key t i)
          (job_rows t i s @ new_rows t i (m_sequence s) (length (job_rows t i s)) records) (m_staged s),
       m_sequence := m_sequence s + length records\<rparr>)"
  using assms unfolding mem_insertRows_def job_rows_def new_rows_def
  by (simp add: Let_def fold_push_row)

lemma mset_aput_concat:
  assumes "distinct (akeys kls)" "old = (case map_of kls k of None \<Rightarrow> [] | Some l \<Rightarrow> l)"
  shows "mset (concat (map snd (aput k (old @ new) kls))) = mset (concat (map snd kls)) + mset new"
  using assms
proof (induction kls)
  case (Cons kl kls)
  obtain k' l where kl: "kl = (k', l)" by force
  show ?case
  proof (cases "k = k'")
    case False
    then show ?thesis using Cons kl by simp
  qed (use Cons.prems kl in simp)
qed simp

lemma s_id_new_rows: "map s_id (new_rows t i n st records) = map (\<lambda>k. mem_id (n + 1 + k)) [0..<length records]"
  by (simp add: new_rows_def mem_row_def comp_def)

lemma set_aput_subset: "(k', v') \<in> set (aput k v kvs) \<Longrightarrow> (k', v') = (k, v) \<or> (k', v') \<in> set kvs"
  using set_aput by fastforce

lemma mem_ok_insertRows:
  assumes ok: "mem_ok s"
  shows "mem_ok (snd (mem_insertRows t i records s))"
proof (cases "records = []")
  case True
  then show ?thesis using ok by (simp add: mem_insertRows_def)
next
  case False
  define nw where "nw = new_rows t i (m_sequence s) (length (job_rows t i s)) records"
  define st where "st = aput (mem_key t i) (job_rows t i s @ nw) (m_staged s)"
  define s' where "s' = s\<lparr>m_staged := st, m_sequence := m_sequence s + length records\<rparr>"
  have s': "snd (mem_insertRows t i records s) = s'"
    using False by (simp add: mem_insertRows_eq s'_def st_def nw_def)
  have sel: "m_staged s' = st" "m_sequence s' = m_sequence s + length records" "m_jobs s' = m_jobs s"
    by (simp_all add: s'_def)
  have dk: "distinct (akeys (m_staged s))"
    using ok by (simp add: mem_ok_def)
  have rows: "mset (mem_rows s') = mset (mem_rows s) + mset nw"
    unfolding mem_rows_def sel st_def
    by (rule mset_aput_concat [OF dk]) (simp add: job_rows_def)
  have set_rows: "set (mem_rows s') = set (mem_rows s) \<union> set nw"
    using rows by (metis set_mset_mset set_mset_union)
  have old: "\<And>r. r \<in> set (mem_rows s) \<Longrightarrow> \<exists>n. n \<le> m_sequence s \<and> 0 < n \<and> s_id r = mem_id n"
    using mem_okD(4) [OF ok] by blast
  have ids_nw: "map s_id nw = map (\<lambda>k. mem_id (m_sequence s + 1 + k)) [0..<length records]"
    unfolding nw_def by (rule s_id_new_rows)
  have new: "\<exists>n. n \<le> m_sequence s + length records \<and> m_sequence s < n \<and> s_id r = mem_id n" if "r \<in> set nw" for r
  proof -
    have "s_id r \<in> set (map s_id nw)" using that by simp
    then obtain k where "k < length records" "s_id r = mem_id (m_sequence s + 1 + k)"
      unfolding ids_nw by auto
    then show ?thesis by (intro exI [of _ "m_sequence s + 1 + k"]) simp
  qed
  have "distinct (map s_id (mem_rows s @ nw))"
  proof -
    have "distinct (map s_id nw)"
      unfolding ids_nw by (simp add: distinct_map inj_on_def)
    moreover have "s_id r \<noteq> s_id r'" if "r \<in> set (mem_rows s)" "r' \<in> set nw" for r r'
      using old [OF that(1)] new [OF that(2)] by auto
    ultimately show ?thesis
      using ok by (auto simp: mem_ok_def)
  qed
  then have 1: "distinct (map s_id (mem_rows s'))"
    using rows by (metis mset_append mset_eq_imp_distinct_iff mset_map)
  have 2: "\<forall>r \<in> set (mem_rows s'). \<exists>n. n \<le> m_sequence s' \<and> 0 < n \<and> s_id r = mem_id n"
    using old new unfolding set_rows sel by fastforce
  have idx: "map s_rowIndex (job_rows t i s) = [0..<length (job_rows t i s)]"
  proof (cases "map_of (m_staged s) (mem_key t i)")
    case (Some l)
    then have "(mem_key t i, l) \<in> set (m_staged s)" by (rule map_of_SomeD)
    then show ?thesis using ok Some by (auto simp: mem_ok_def job_rows_def)
  qed (simp add: job_rows_def)
  have idx_nw: "map s_rowIndex nw = [length (job_rows t i s)..<length (job_rows t i s) + length records]"
    by (simp add: nw_def new_rows_def mem_row_def comp_def map_add_upt add.commute)
  have len_nw: "length nw = length records"
    by (simp add: nw_def new_rows_def)
  have 3: "\<forall>(k, list) \<in> set st. map s_rowIndex list = [0..<length list]"
  proof (rule ballI, clarify)
    fix k l assume "(k, l) \<in> set st"
    then consider "l = job_rows t i s @ nw" | "(k, l) \<in> set (m_staged s)"
      unfolding st_def by (metis set_aput_subset prod.inject)
    then show "map s_rowIndex l = [0..<length l]"
    proof cases
      case 1
      then show ?thesis
        using idx idx_nw len_nw upt_add_eq_append [of 0 "length (job_rows t i s)" "length records"] by simp
    next
      case 2
      then show ?thesis using mem_okD(5) [OF ok] by blast
    qed
  qed
  have 4: "distinct (akeys st)" using dk by (simp add: st_def)
  show ?thesis
    unfolding s' using 1 2 3 4 mem_okD(3,6) [OF ok] unfolding sel [symmetric] by (intro mem_okI) blast+
qed

lemma replace_first_map:
  assumes "replace_first p y xs = Some ys" "\<And>x. x \<in> set xs \<Longrightarrow> p x \<Longrightarrow> g x = g y"
  shows "map g ys = map g xs \<and> set ys \<subseteq> insert y (set xs)"
  using assms by (induction xs arbitrary: ys) (auto split: if_splits)

lemma save_in_map:
  assumes "\<And>x. x \<in> set (concat (map snd kls)) \<Longrightarrow> s_id x = s_id r \<Longrightarrow> g x = g r"
  shows "map (\<lambda>(k, l). (k, map g l)) (save_in r kls) = map (\<lambda>(k, l). (k, map g l)) kls"
  using assms
proof (induction kls)
  case (Cons kl kls)
  obtain k l where kl: "kl = (k, l)" by force
  show ?case
  proof (cases "replace_first (\<lambda>x. s_id x = s_id r) r l")
    case None
    then show ?thesis using Cons kl by auto
  next
    case (Some l')
    then have "map g l' = map g l"
      using replace_first_map [OF Some, of g] Cons.prems kl by auto
    then show ?thesis using Some kl by simp
  qed
qed simp

lemma mem_ok_saveRow:
  assumes ok: "mem_ok s" and same: "\<And>x. x \<in> set (mem_rows s) \<Longrightarrow> s_id x = s_id r \<Longrightarrow> s_rowIndex x = s_rowIndex r"
  shows "mem_ok (mem_saveRow r s)"
proof -
  define st where "st = save_in r (m_staged s)"
  define g where "g = (\<lambda>x :: srow. (s_id x, s_rowIndex x))"
  have st: "map (\<lambda>(k, l). (k, map g l)) st = map (\<lambda>(k, l). (k, map g l)) (m_staged s)"
    unfolding st_def using same by (intro save_in_map) (auto simp: g_def mem_rows_def)
  have keys: "akeys st = akeys (m_staged s)"
    using arg_cong [OF st, of akeys] by (simp add: akeys_map_snd)
  have "map g (concat (map snd kls)) = concat (map snd (map (\<lambda>(k, l). (k, map g l)) kls))" for kls :: "(string \<times> srow list) list"
    by (induction kls) auto
  then have g_rows: "map g (concat (map snd st)) = map g (mem_rows s)"
    using st by (metis mem_rows_def)
  have ids: "map s_id (concat (map snd st)) = map s_id (mem_rows s)"
    using arg_cong [OF g_rows, of "map fst"] by (simp add: g_def comp_def)
  have sim: "\<exists>l'. (k, l') \<in> set (m_staged s) \<and> map g l = map g l'" if "(k, l) \<in> set st" for k l
  proof -
    have "(k, map g l) \<in> set (map (\<lambda>(k, l). (k, map g l)) st)"
      using that by (force)
    then show ?thesis unfolding st by auto
  qed
  have 3: "\<forall>(k, list) \<in> set st. map s_rowIndex list = [0..<length list]"
  proof (intro ballI, clarify)
    fix k l assume "(k, l) \<in> set st"
    then obtain l' where l': "(k, l') \<in> set (m_staged s)" "map g l = map g l'"
      using sim by blast
    have "map s_rowIndex l = map s_rowIndex l'" "length l = length l'"
      using arg_cong [OF l'(2), of "map snd"] arg_cong [OF l'(2), of length] by (simp_all add: g_def comp_def)
    moreover have "map s_rowIndex l' = [0..<length l']"
      using mem_okD(5) [OF ok] l'(1) by blast
    ultimately show "map s_rowIndex l = [0..<length l]" by simp
  qed
  have 2: "\<exists>n. n \<le> m_sequence s \<and> 0 < n \<and> s_id x = mem_id n" if "x \<in> set (concat (map snd st))" for x
  proof -
    have "s_id x \<in> set (map s_id (mem_rows s))"
      unfolding ids [symmetric] using that by simp
    then obtain y where "y \<in> set (mem_rows s)" "s_id x = s_id y" by auto
    then show ?thesis using mem_okD(4) [OF ok] by metis
  qed
  have sel: "m_staged (mem_saveRow r s) = st" "m_sequence (mem_saveRow r s) = m_sequence s"
    "m_jobs (mem_saveRow r s) = m_jobs s" "mem_rows (mem_saveRow r s) = concat (map snd st)"
    by (simp_all add: mem_saveRow_def st_def mem_rows_def)
  show ?thesis
  proof (rule mem_okI)
    show "distinct (akeys (m_staged (mem_saveRow r s)))" "distinct (map s_id (mem_rows (mem_saveRow r s)))"
      "distinct (akeys (m_jobs (mem_saveRow r s)))"
      unfolding sel keys ids by (rule mem_okD [OF ok])+
  qed (use 2 3 mem_okD(6) [OF ok] in \<open>unfold sel, blast+\<close>)
qed

lemma mem_ok_empty: "mem_ok mem_empty"
  by (simp add: mem_ok_def mem_empty_def mem_rows_def)

lemma mem_step_ok: "mem_step env s s' \<Longrightarrow> mem_ok s \<Longrightarrow> mem_ok s'"
proof (induction rule: mem_step.induct)
  case (step_updateJob t i us s r s')
  then obtain job where job: "map_of (m_jobs s) (mem_key t i) = Some job"
    and s': "s' = s\<lparr>m_jobs := aput (mem_key t i) (fold mem_assign us job) (m_jobs s)\<rparr>"
    by (auto simp: mem_updateJob_def Let_def split: option.splits)
  show ?case
    using mem_job_ids [OF step_updateJob.prems job] step_updateJob.prems unfolding s'
    by (intro mem_ok_job) simp_all
next
  case (step_upsert s t m e fm l c now)
  then show ?case by (simp add: mem_ok_def mem_upsertMappingProfile_def Let_def mem_rows_def)
qed (simp_all add: mem_saveJob_def mem_ok_job mem_ok_updateJobModel mem_ok_insertRows mem_ok_updateOne mem_ok_bulk
    mem_ok_saveRow mem_reset_def mem_ok_empty)


subsection \<open>Properties\<close>



lemma aput_new: "k \<notin> set (akeys kvs) \<Longrightarrow> aput k v kvs = kvs @ [(k, v)]"
  by (induction k v kvs rule: aput.induct) auto

lemma sort_key_upt: "map f xs = [0..<n] \<Longrightarrow> sort_key f xs = xs"
  by (rule sort_key_id_if_sorted) simp

lemma map_rawRow_new: "map (\<lambda>r. clone_obj env (s_rawRow r)) (new_rows t i n st records) = map (clone_obj env) records"
  by (rule nth_equalityI) (simp_all add: new_rows_def mem_row_def)

text \<open>
  C15. Rows inserted for a job that has none are read back, in the order they were given, as
  JSON copies numbered from 0, pending and not validated; and the store reports how many.
\<close>

theorem mem_insert_read:
  assumes "mem_key t i \<notin> set (akeys (m_staged s))" "filter (of_job t i) (mem_rows s) = []"
    and "mem_insertRows t i records s = (n, s')"
    and "mem_cursorStaged env (job_query t i) (Some ''rowIndex'') None s' = read"
  shows "n = length records \<and> map s_rawRow read = map (clone_obj env) records
    \<and> map s_rowIndex read = [0..<length records]
    \<and> list_all (\<lambda>r. s_commitStatus r = Pending \<and> s_validationStatus r = None) read"
proof -
  define nw where "nw = new_rows t i (m_sequence s) 0 records"
  have n: "n = length records" and rows: "mem_rows s' = mem_rows s @ nw"
  proof -
    have "job_rows t i s = []"
      using assms(1) by (simp add: job_rows_def)
    then show "n = length records" "mem_rows s' = mem_rows s @ nw"
      using assms(3,1) by (cases "records = []";
        auto simp: mem_insertRows_def [of t i "[]"] mem_insertRows_eq nw_def new_rows_def mem_rows_def aput_new)+
  qed
  have idx: "map s_rowIndex nw = [0..<length records]"
    by (simp add: nw_def new_rows_def mem_row_def comp_def)
  have all: "filter (of_job t i) nw = nw"
    by (simp add: nw_def new_rows_def mem_row_def filter_id_conv of_job_def)
  have clone_job: "of_job t i \<circ> clone_row env = of_job t i"
    by (simp add: of_job_def fun_eq_iff)
  have idx': "map s_rowIndex (map (clone_row env) nw) = [0..<length records]"
    using idx by (simp add: comp_def)
  have "mem_cursorStaged env (job_query t i) (Some ''rowIndex'') None s'
      = sort_key s_rowIndex (map (clone_row env) (filter (of_job t i) (mem_rows s')))"
    by (simp add: mem_cursorStaged_def js_sort_key filter_map clone_job js_limit_def)
  also have "\<dots> = map (clone_row env) nw"
    unfolding rows using assms(2) all sort_key_upt [OF idx'] by simp
  finally have read: "read = map (clone_row env) nw"
    using assms(4) by simp
  have "map s_rawRow read = map (clone_obj env) records"
    using map_rawRow_new [of env t i "m_sequence s" 0 records]
    by (simp add: read nw_def clone_row_def comp_def)
  moreover have "list_all (\<lambda>r. s_commitStatus r = Pending \<and> s_validationStatus r = None) read"
    by (auto simp: read list_all_iff nw_def new_rows_def mem_row_def)
  ultimately show ?thesis
    using n idx' read by simp
qed

theorem mem_insert_read_witness:
  "map s_rawRow (mem_cursorStaged test_env (job_query ''t'' ''j'') (Some ''rowIndex'') None
      (snd (mem_insertRows ''t'' ''j'' [[(''a'', VNum NaN)], []] mem_empty)))
    = [[(''a'', VNull)], []]"
  using mem_insert_read [of "''t''" "''j''" mem_empty "[[(''a'', VNum NaN)], []]" _ _ test_env, OF _ _ surjective_pairing refl]
  by (simp add: mem_empty_def mem_rows_def clone_obj_def is_finite_def)

text \<open>
  The in-memory store never changes a job's counters: the dotted names the services assign
  to (counts.validRows and the others) become properties of their own, where MongoDB follows
  them as paths.
\<close>

lemma mem_updateJob_counts:
  assumes "mem_getJob t i s = Inr job"
  shows "\<exists>job' s'. mem_updateJob t i us s = Inr (Some job', s') \<and> mem_getJob t i s' = Inr job'
    \<and> j_counts job' = j_counts job"
proof -
  have "j_counts (fold mem_assign us job) = j_counts job"
  proof (induction us arbitrary: job)
    case (Cons u us)
    have "CHR ''.'' \<in> set (count_path f)" for f
      by (cases f) simp_all
    then have "j_counts (mem_assign u job) = j_counts job"
      by (cases u) (simp_all add: mem_assign_def)
    then show ?case using Cons.IH by simp
  qed simp
  then show ?thesis
    using assms by (auto simp: mem_updateJob_def mem_getJob_def Let_def split: option.splits dest: map_of_Some_akeys)
qed

definition demo_job :: import_job where
  "demo_job =
     \<lparr>j_id = ''j'', j_tenantId = ''t'', j_module = ''hr'', j_entityKey = None, j_sessionId = None,
      j_mappingProfileId = None, j_fieldMap = None, j_sourceFormat = ''csv'', j_sqlTable = None,
      j_status = Staged, j_startedAt = None, j_completedAt = None, j_mode = None,
      j_file = \<lparr>originalName = ''f.csv'', publicId = None, url = None, sizeBytes = Fin 0\<rparr>,
      j_counts = \<lparr>totalRows = 0, stagedRows = 0, validRows = 0, invalidRows = 0, committedRows = 0,
        skippedRows = 0, commitFailedRows = 0, errorRows = 0\<rparr>,
      j_guardrail = \<lparr>g_passed = None, g_reason = None, g_limit = None, g_checkedAt = None, g_upgrade = None\<rparr>,
      j_gcs = \<lparr>objectPath = None, bucketName = None, executionName = None\<rparr>,
      j_error = None, j_createdBy = None, j_dotted = []\<rparr>"

theorem mem_updateJob_counts_witness:
  "\<exists>job' s'. mem_updateJob ''t'' ''j'' [SetCount ValidRows 7] (mem_saveJob demo_job mem_empty) = Inr (Some job', s')
    \<and> validRows (j_counts job') = 0"
  using mem_updateJob_counts [of "''t''" "''j''" "mem_saveJob demo_job mem_empty" demo_job "[SetCount ValidRows 7]"]
  by (auto simp: mem_getJob_def mem_saveJob_def demo_job_def mem_empty_def mem_key_def)

end
