(* ===== verification/Targets.thy ===== *)
theory Targets
  imports Session MemStore
begin

text \<open>
  examples/offerberries-targets/: the target descriptors shipped with the engine. The models and
  services of the host application they import are parameters: its collections are read with
  \<open>find\<close>, \<open>findOne\<close> and \<open>distinct\<close>, written with \<open>create\<close>, and a service is called by name with its
  arguments and answers the id of the document it made. A query is the object handed to Mongoose;
  a property whose value is undefined is left out of an object; \<open>new Date()\<close> is \<open>now\<close>.
\<close>

subsection \<open>The host application\<close>

record 'w offerberries =
  ob_find :: "string \<Rightarrow> obj \<Rightarrow> 'w \<Rightarrow> db_error + obj list"
  ob_findOne :: "string \<Rightarrow> obj \<Rightarrow> 'w \<Rightarrow> db_error + obj option"
  ob_distinct :: "string \<Rightarrow> obj \<Rightarrow> string \<Rightarrow> 'w \<Rightarrow> db_error + val list"
  ob_create :: "string \<Rightarrow> obj \<Rightarrow> 'w \<Rightarrow> (db_error + id) \<times> 'w"
  ob_call :: "string \<Rightarrow> val list \<Rightarrow> 'w \<Rightarrow> (db_error + id) \<times> 'w"

type_synonym ('a, 'w) action = "'w \<Rightarrow> (db_error + 'a) \<times> 'w"

text \<open>Awaiting a read or a write: an error ends the function.\<close>

definition reading :: "('w \<Rightarrow> db_error + 'a) \<Rightarrow> ('a \<Rightarrow> ('b, 'w) action) \<Rightarrow> ('b, 'w) action" where
  "reading q f w = (case q w of Inl e \<Rightarrow> (Inl e, w) | Inr x \<Rightarrow> f x w)"

definition writing :: "('a, 'w) action \<Rightarrow> ('a \<Rightarrow> ('b, 'w) action) \<Rightarrow> ('b, 'w) action" where
  "writing q f w = (case q w of (Inl e, w) \<Rightarrow> (Inl e, w) | (Inr x, w) \<Rightarrow> f x w)"

definition answer :: "'a \<Rightarrow> ('a, 'w) action" where
  "answer x w = (Inr x, w)"

definition commitErr :: "string \<Rightarrow> db_error" where
  "commitErr m = \<lparr>e_code = None, e_message = m\<rparr>"

definition throwing :: "string \<Rightarrow> ('a, 'w) action" where
  "throwing m w = (Inl (commitErr m), w)"

text \<open>Reading a property of \<open>mappedFields\<close> throws when it is null.\<close>

definition with_fields :: "obj option \<Rightarrow> (obj \<Rightarrow> ('a, 'w) action) \<Rightarrow> ('a, 'w) action" where
  "with_fields m f = (case m of None \<Rightarrow> throwing ''Cannot read properties of null'' | Some mf \<Rightarrow> f mf)"

subsection \<open>Values\<close>

abbreviation fld :: "string \<Rightarrow> string \<Rightarrow> string \<Rightarrow> bool \<Rightarrow> string list \<Rightarrow> field" where
  "fld k l t r aliases \<equiv>
     \<lparr>f_key = k, f_label = l, f_type = t, f_required = r, f_aliases = Some aliases, f_enum = None\<rparr>"

fun falsy :: "val option \<Rightarrow> bool" where
  "falsy None = True"
| "falsy (Some VNull) = True"
| "falsy (Some (VBool b)) = (\<not> b)"
| "falsy (Some (VNum n)) = (n = Fin 0 \<or> n = NaN)"
| "falsy (Some (VStr s)) = (s = [])"
| "falsy (Some v) = False"

text \<open>\<open>v ?? d\<close> and \<open>v || d\<close>, and the text of a value in a template.\<close>

definition nullish_or :: "val option \<Rightarrow> val \<Rightarrow> val" where
  "nullish_or v d = (case v of None \<Rightarrow> d | Some w \<Rightarrow> if w = VNull then d else w)"

definition or_else :: "val option \<Rightarrow> val \<Rightarrow> val" where
  "or_else v d = (if falsy v then d else the v)"

definition text_of :: "js_env \<Rightarrow> val option \<Rightarrow> string" where
  "text_of env v = (case v of None \<Rightarrow> ''undefined'' | Some w \<Rightarrow> js_str env w)"

definition quoted :: "string \<Rightarrow> string" where
  "quoted s = CHR 0x22 # s @ [CHR 0x22]"

definition id_or_null :: "id option \<Rightarrow> val" where
  "id_or_null i = (case i of None \<Rightarrow> VNull | Some s \<Rightarrow> VStr s)"

text \<open>\<open>toUpperCase\<close> on the letters of ASCII.\<close>

definition upper_char :: "char \<Rightarrow> char" where
  "upper_char c = (if 97 \<le> code c \<and> code c \<le> 122 then char_of (code c - 32) else c)"

definition to_upper :: "string \<Rightarrow> string" where
  "to_upper s = map upper_char s"

text \<open>
  \<open>{ tenantId, key: { $in: values } }\<close>, and \<open>{ tenantId, key: value }\<close>; the driver sends an undefined
  value of a query as null.
\<close>

definition in_query :: "id \<Rightarrow> string \<Rightarrow> val list \<Rightarrow> obj" where
  "in_query tenantId key vs = [(''tenantId'', VStr tenantId), (key, VObj [(''$in'', VArr vs)])]"

definition eq_query :: "id \<Rightarrow> string \<Rightarrow> val option \<Rightarrow> obj" where
  "eq_query tenantId key v = [(''tenantId'', VStr tenantId), (key, nullish_or v VNull)]"

text \<open>\<open>new Map(docs.map((d) => [d[key], d]))\<close>; a document without the key can never be looked up.\<close>

definition map_by :: "string \<Rightarrow> obj list \<Rightarrow> (val \<times> val) list" where
  "map_by key docs =
     fold (\<lambda>d m.
       (case oget d key of
          None \<Rightarrow> m
        | Some k \<Rightarrow>
            if vmember k (map fst m)
            then map (\<lambda>(k', v'). if same_value k k' then (k', VObj d) else (k', v')) m
            else m @ [(k, VObj d)])) docs []"

text \<open>The lookup of one reference field among the documents of one collection.\<close>

definition resolve_by ::
  "'w offerberries \<Rightarrow> string \<Rightarrow> string \<Rightarrow> string \<Rightarrow> id \<Rightarrow> (string \<times> val list) list \<Rightarrow> 'w \<Rightarrow> db_error + lookups" where
  "resolve_by ob model key fieldKey tenantId distinctValuesByKey w =
     (let vs = values_of distinctValuesByKey fieldKey in
      if vs = [] then Inr [(fieldKey, [])]
      else map_sum id (\<lambda>docs. [(fieldKey, map_by key docs)]) (ob_find ob model (in_query tenantId key vs) w))"

definition existing_by ::
  "'w offerberries \<Rightarrow> string \<Rightarrow> string \<Rightarrow> id \<Rightarrow> val list \<Rightarrow> 'w \<Rightarrow> db_error + val list" where
  "existing_by ob model key tenantId identityValues w =
     (if identityValues = [] then Inr [] else ob_distinct ob model (in_query tenantId key identityValues) key w)"

text \<open>\<open>async () => new Set()\<close>\<close>

definition none_existing :: "id \<Rightarrow> val list \<Rightarrow> 'w \<Rightarrow> db_error + val list" where
  "none_existing tenantId identityValues w = Inr []"

text \<open>The id and model name a row is committed as.\<close>

definition entity_of :: "string \<Rightarrow> id \<Rightarrow> (id \<times> string, 'w) action" where
  "entity_of entityModel entityId = answer (entityId, entityModel)"

text \<open>\<open>doc._id\<close> of a document that was found.\<close>

definition found_id :: "obj \<Rightarrow> id" where
  "found_id doc = (case oget doc ''_id'' of Some (VStr i) \<Rightarrow> i | _ \<Rightarrow> [])"

subsection \<open>Organization: roles, org units, branches\<close>

definition role_fields :: "field list" where
  "role_fields =
     [fld ''roleName'' ''Role Name'' ''string'' True [''name'', ''job title''],
      fld ''description'' ''Description'' ''string'' False [''desc''],
      fld ''category'' ''Category'' ''string'' False [],
      fld ''baseSalary'' ''Base Salary'' ''number'' True [''salary'', ''basic salary''],
      fld ''salaryType'' ''Salary Type'' ''string'' False [''pay type'']]"

definition role_commitRow ::
  "'w offerberries \<Rightarrow> id \<Rightarrow> obj option \<Rightarrow> id option \<Rightarrow> (id \<times> string, 'w) action" where
  "role_commitRow ob tenantId mappedFields actorId =
     with_fields mappedFields (\<lambda>mf.
       let meta = VObj [(''actorId'', id_or_null actorId), (''ip'', VStr ''127.0.0.1''), (''userAgent'', VStr ''migration-wizard'')];
           rules = opt_doc ''baseSalary'' (oget mf ''baseSalary'')
             @ [(''salaryType'', or_else (oget mf ''salaryType'') (VStr ''monthly'')),
                (''allowances'', VArr []), (''deductions'', VArr []), (''terminalBenefits'', VArr [])];
           role = opt_doc ''roleName'' (oget mf ''roleName'')
             @ [(''description'', nullish_or (oget mf ''description'') (VStr [])),
                (''category'', nullish_or (oget mf ''category'') (VStr ''Staff'')),
                (''salaryRules'', VObj rules), (''permissions'', VArr [])]
       in writing (ob_call ob ''createRole'' [VObj role, meta, VStr tenantId]) (entity_of ''Role''))"

definition role_target :: "'w offerberries \<Rightarrow> 'w target" where
  "role_target ob =
     \<lparr>d_namespace = ''shared'', d_entityKey = ''role'', d_label = ''Role'', d_icon = Some ''UserCog'',
      d_destination = Some ''/hr/people'', d_fields = role_fields, d_identityField = ''roleName'',
      d_dependencies = Some [], d_commitInTransaction = False, d_referenceFields = None,
      d_resolveReferences = None, d_findExistingIdentities = Some (existing_by ob ''Role'' ''roleName''),
      d_commitRow = role_commitRow ob\<rparr>"

definition orgunit_fields :: "field list" where
  "orgunit_fields =
     [fld ''name'' ''Org Unit Name'' ''string'' True [''name'', ''org unit'', ''organization unit''],
      fld ''type'' ''Type'' ''string'' True [],
      fld ''departmentCode'' ''Department Code'' ''string'' True [''department'', ''dept''],
      fld ''parentName'' ''Parent Org Unit'' ''string'' False [''parent'', ''parent org'']]"

definition orgunit_commitRow ::
  "'w offerberries \<Rightarrow> id \<Rightarrow> obj option \<Rightarrow> id option \<Rightarrow> (id \<times> string, 'w) action" where
  "orgunit_commitRow ob tenantId mappedFields actorId =
     with_fields mappedFields (\<lambda>mf.
       reading (if falsy (oget mf ''parentName'') then (\<lambda>w. Inr None)
                else ob_findOne ob ''OrgUnit'' (eq_query tenantId ''name'' (oget mf ''parentName''))) (\<lambda>parentUnit.
       let parent = (case parentUnit of None \<Rightarrow> VNull | Some p \<Rightarrow> VStr (found_id p));
           unit = opt_doc ''name'' (oget mf ''name'') @ opt_doc ''type'' (oget mf ''type'')
             @ opt_doc ''departmentCode'' (oget mf ''departmentCode'')
             @ [(''parent'', parent), (''branchId'', VNull), (''metadata'', VObj []), (''fullPath'', VNull)]
       in writing (ob_call ob ''createOrgUnit''
              [VObj unit, id_or_null actorId, VStr ''127.0.0.1'', VStr ''migration-wizard'', VStr tenantId])
            (entity_of ''OrgUnit'')))"

definition orgunit_target :: "'w offerberries \<Rightarrow> 'w target" where
  "orgunit_target ob =
     \<lparr>d_namespace = ''shared'', d_entityKey = ''orgunit'', d_label = ''Org Unit'', d_icon = Some ''Building2'',
      d_destination = Some ''/hr/people'', d_fields = orgunit_fields, d_identityField = ''name'',
      d_dependencies = Some [], d_commitInTransaction = False, d_referenceFields = Some [''parentName''],
      d_resolveReferences = Some (resolve_by ob ''OrgUnit'' ''name'' ''parentName''),
      d_findExistingIdentities = Some (existing_by ob ''OrgUnit'' ''name''), d_commitRow = orgunit_commitRow ob\<rparr>"

definition branch_fields :: "field list" where
  "branch_fields =
     [fld ''name'' ''Branch Name'' ''string'' True [''name'', ''office''],
      fld ''code'' ''Branch Code'' ''string'' True [''code'', ''branch code''],
      fld ''city'' ''City'' ''string'' False [],
      fld ''address'' ''Address'' ''string'' False [],
      fld ''branchType'' ''Branch Type'' ''string'' False [''type'']]"

text \<open>The codes are asked for, and so answered, in upper case; only a string has \<open>toUpperCase\<close>.\<close>

definition upper_codes :: "val list \<Rightarrow> db_error + val list" where
  "upper_codes identityValues =
     (if list_all (\<lambda>v. case v of VStr s \<Rightarrow> True | _ \<Rightarrow> False) identityValues
      then Inr (map (\<lambda>v. case v of VStr s \<Rightarrow> VStr (to_upper s) | _ \<Rightarrow> v) identityValues)
      else Inl (commitErr ''v.toUpperCase is not a function''))"

definition branch_findExisting :: "'w offerberries \<Rightarrow> id \<Rightarrow> val list \<Rightarrow> 'w \<Rightarrow> db_error + val list" where
  "branch_findExisting ob tenantId identityValues w =
     (if identityValues = [] then Inr []
      else (case upper_codes identityValues of
          Inl e \<Rightarrow> Inl e
        | Inr codes \<Rightarrow> ob_distinct ob ''Branch'' (in_query tenantId ''code'' codes) ''code'' w))"

definition branch_commitRow ::
  "'w offerberries \<Rightarrow> id \<Rightarrow> obj option \<Rightarrow> id option \<Rightarrow> (id \<times> string, 'w) action" where
  "branch_commitRow ob tenantId mappedFields actorId =
     with_fields mappedFields (\<lambda>mf.
       let meta = VObj [(''actorId'', id_or_null actorId), (''ip'', VStr ''127.0.0.1''), (''userAgent'', VStr ''migration-wizard'')];
           location = [(''city'', nullish_or (oget mf ''city'') (VStr [])), (''address'', nullish_or (oget mf ''address'') (VStr [])),
             (''state'', VStr []), (''country'', VStr []), (''postalCode'', VStr [])];
           branch = opt_doc ''name'' (oget mf ''name'') @ opt_doc ''code'' (oget mf ''code'')
             @ [(''location'', VObj location), (''branchType'', or_else (oget mf ''branchType'') (VStr ''Local''))]
       in writing (ob_call ob ''createBranch'' [VObj branch, meta, VStr tenantId]) (entity_of ''Branch''))"

definition branch_target :: "'w offerberries \<Rightarrow> 'w target" where
  "branch_target ob =
     \<lparr>d_namespace = ''shared'', d_entityKey = ''branch'', d_label = ''Branch'', d_icon = Some ''MapPin'',
      d_destination = Some ''/hr/people'', d_fields = branch_fields, d_identityField = ''code'',
      d_dependencies = Some [], d_commitInTransaction = False, d_referenceFields = None,
      d_resolveReferences = None, d_findExistingIdentities = Some (branch_findExisting ob),
      d_commitRow = branch_commitRow ob\<rparr>"

subsection \<open>Organization: employees\<close>

definition employee_fields :: "field list" where
  "employee_fields =
     [fld ''individualName'' ''Full Name'' ''string'' True [''name'', ''employee name''],
      fld ''fatherName'' ''Father's Name'' ''string'' True [],
      fld ''dob'' ''Date of Birth'' ''date'' True [''date of birth'', ''birthdate''],
      fld ''officialEmail'' ''Official Email'' ''string'' True [''work email'', ''company email''],
      fld ''personalEmail'' ''Personal Email'' ''string'' True [],
      fld ''baseSalary'' ''Base Salary'' ''number'' True [''salary''],
      fld ''roleName'' ''Role'' ''string'' True [''job role'', ''position''],
      fld ''orgUnitName'' ''Org Unit'' ''string'' True [''department'', ''org unit'', ''organization unit''],
      fld ''branchName'' ''Branch'' ''string'' True [''office'', ''location''],
      fld ''govtId'' ''Government ID'' ''string'' False [''cnic'', ''ssn'', ''national id'', ''nic''],
      fld ''passportNo'' ''Passport No'' ''string'' False [''passport''],
      fld ''alienRegNo'' ''Alien Reg No'' ''string'' False [''alien registration'', ''alien reg''],
      fld ''city'' ''City'' ''string'' True [''town''],
      fld ''country'' ''Country'' ''string'' True [],
      fld ''contactNo'' ''Contact No'' ''string'' True [''phone'', ''mobile'', ''phone number'', ''contact number''],
      fld ''addressLine'' ''Address'' ''string'' False [''street address'', ''address line''],
      fld ''employmentStatus'' ''Employment Status'' ''string'' False [''status'', ''employment type''],
      fld ''salaryType'' ''Salary Type'' ''string'' False [''pay type''],
      fld ''salaryStartDate'' ''Salary Start Date'' ''date'' False [''pay start date'', ''salary effective date'']]"

definition employee_resolveReferences ::
  "'w offerberries \<Rightarrow> id \<Rightarrow> (string \<times> val list) list \<Rightarrow> 'w \<Rightarrow> db_error + lookups" where
  "employee_resolveReferences ob tenantId distinctValuesByKey w =
     (let query = (\<lambda>model key fieldKey.
            ob_find ob model (in_query tenantId key (values_of distinctValuesByKey fieldKey)) w)
      in (case query ''OrgUnit'' ''name'' ''orgUnitName'' of
            Inl e \<Rightarrow> Inl e
          | Inr orgUnits \<Rightarrow>
              (case query ''Role'' ''roleName'' ''roleName'' of
                 Inl e \<Rightarrow> Inl e
               | Inr roles \<Rightarrow>
                   (case query ''Branch'' ''name'' ''branchName'' of
                      Inl e \<Rightarrow> Inl e
                    | Inr branches \<Rightarrow>
                        Inr [(''orgUnitName'', map_by ''name'' orgUnits), (''roleName'', map_by ''roleName'' roles),
                             (''branchName'', map_by ''name'' branches)]))))"

text \<open>A property spread into an object only when its field is filled in.\<close>

definition when_filled :: "string \<Rightarrow> obj \<Rightarrow> obj" where
  "when_filled key mf = (if falsy (oget mf key) then [] else opt_doc key (oget mf key))"

definition employee_body :: "int \<Rightarrow> obj \<Rightarrow> obj" where
  "employee_body now mf =
     opt_doc ''individualName'' (oget mf ''individualName'') @ opt_doc ''fatherName'' (oget mf ''fatherName'')
     @ opt_doc ''dob'' (oget mf ''dob'') @ opt_doc ''officialEmail'' (oget mf ''officialEmail'')
     @ opt_doc ''personalEmail'' (oget mf ''personalEmail'')
     @ when_filled ''govtId'' mf @ when_filled ''passportNo'' mf @ when_filled ''alienRegNo'' mf
     @ [(''employmentStatus'', or_else (oget mf ''employmentStatus'') (VStr ''Permanent'')),
        (''address'', VObj (when_filled ''addressLine'' mf @ opt_doc ''city'' (oget mf ''city'')
           @ opt_doc ''country'' (oget mf ''country'') @ opt_doc ''contactNo'' (oget mf ''contactNo''))),
        (''salary'', VObj (opt_doc ''baseSalary'' (oget mf ''baseSalary'')
           @ [(''type'', or_else (oget mf ''salaryType'') (VStr ''Initial'')),
              (''startDate'', or_else (oget mf ''salaryStartDate'') (VDate now))]))]"

definition employee_post :: "id \<Rightarrow> val \<Rightarrow> obj \<Rightarrow> obj \<Rightarrow> obj \<Rightarrow> obj" where
  "employee_post employeeId actorMeta role orgUnit branch =
     [(''employeeId'', VStr employeeId), (''roleId'', VStr (found_id role))]
     @ opt_doc ''departmentCode'' (oget orgUnit ''departmentCode'')
     @ [(''orgUnit'', VStr (found_id orgUnit)), (''branchId'', VStr (found_id branch)), (''actorMeta'', actorMeta)]"

text \<open>The three lookups run together and the first absent one, in this order, is reported.\<close>

definition employee_commitRow ::
  "js_env \<Rightarrow> int \<Rightarrow> 'w offerberries \<Rightarrow> id \<Rightarrow> obj option \<Rightarrow> id option \<Rightarrow> (id \<times> string, 'w) action" where
  "employee_commitRow env now ob tenantId mappedFields actorId =
     with_fields mappedFields (\<lambda>mf.
       let actorMeta = VObj [(''actorId'', id_or_null actorId), (''ip'', VStr ''127.0.0.1''), (''userAgent'', VStr ''migration-wizard'')];
           email = to_lower (js_str env (nullish_or (oget mf ''officialEmail'') (VStr [])));
           missing = (\<lambda>what key. throwing (what @ '' '' @ quoted (text_of env (oget mf key)) @ '' not found''))
       in
       reading (ob_findOne ob ''FinalizedEmployee'' (eq_query tenantId ''officialEmail'' (Some (VStr email)))) (\<lambda>existingFinal.
       case existingFinal of
         Some e \<Rightarrow> answer (found_id e, ''FinalizedEmployee'')
       | None \<Rightarrow>
           reading (ob_findOne ob ''OrgUnit'' (eq_query tenantId ''name'' (oget mf ''orgUnitName''))) (\<lambda>orgUnit.
           reading (ob_findOne ob ''Role'' (eq_query tenantId ''roleName'' (oget mf ''roleName''))) (\<lambda>role.
           reading (ob_findOne ob ''Branch'' (eq_query tenantId ''name'' (oget mf ''branchName''))) (\<lambda>branch.
           case orgUnit of None \<Rightarrow> missing ''Org Unit'' ''orgUnitName'' | Some orgUnit \<Rightarrow>
          (case role of None \<Rightarrow> missing ''Role'' ''roleName'' | Some role \<Rightarrow>
          (case branch of None \<Rightarrow> missing ''Branch'' ''branchName'' | Some branch \<Rightarrow>
             writing (ob_call ob ''registerEmployee''
                [VObj [(''body'', VObj (employee_body now mf)), (''files'', VArr []), (''actorMeta'', actorMeta),
                       (''tenantId'', VStr tenantId)]]) (\<lambda>employeeId.
             writing (ob_call ob ''assignEmployeePost'' [VObj (employee_post employeeId actorMeta role orgUnit branch)]) (\<lambda>_.
             writing (ob_call ob ''submitEmployee''
                [VObj [(''employeeId'', VStr employeeId), (''orgUnitId'', VStr (found_id orgUnit)), (''actorMeta'', actorMeta)]])
               (entity_of ''FinalizedEmployee''))))))))))"

definition employee_target :: "js_env \<Rightarrow> int \<Rightarrow> 'w offerberries \<Rightarrow> 'w target" where
  "employee_target env now ob =
     \<lparr>d_namespace = ''shared'', d_entityKey = ''employee'', d_label = ''Employee'', d_icon = Some ''Users'',
      d_destination = Some ''/hr/people'', d_fields = employee_fields, d_identityField = ''officialEmail'',
      d_dependencies = Some [''orgunit'', ''role'', ''branch''], d_commitInTransaction = False,
      d_referenceFields = Some [''orgUnitName'', ''roleName'', ''branchName''],
      d_resolveReferences = Some (employee_resolveReferences ob),
      d_findExistingIdentities = Some (existing_by ob ''FinalizedEmployee'' ''officialEmail''),
      d_commitRow = employee_commitRow env now ob\<rparr>"

subsection \<open>Marketplace: sellers, buyers and shippers\<close>

definition party_seller_fields :: "field list" where
  "party_seller_fields =
     [fld ''externalId'' ''External ID'' ''string'' True [''id'', ''externalid'', ''external id''],
      fld ''name'' ''Name'' ''string'' True [''business name'', ''company name'', ''full name''],
      fld ''email'' ''Email'' ''string'' False [''e-mail'', ''email address''],
      fld ''phone'' ''Phone'' ''string'' False [''phone number'', ''mobile'', ''contact number''],
      fld ''city'' ''City'' ''string'' False [],
      fld ''status'' ''Status'' ''string'' False [],
      fld ''storeName'' ''Store Name'' ''string'' False [''store'', ''shop name''],
      fld ''category'' ''Category'' ''string'' False []]"

definition party_buyer_fields :: "field list" where
  "party_buyer_fields =
     [fld ''externalId'' ''External ID'' ''string'' True [''id'', ''externalid'', ''external id''],
      fld ''name'' ''Name'' ''string'' True [''business name'', ''company name'', ''full name''],
      fld ''email'' ''Email'' ''string'' False [''e-mail'', ''email address''],
      fld ''phone'' ''Phone'' ''string'' False [''phone number'', ''mobile'', ''contact number''],
      fld ''city'' ''City'' ''string'' False [],
      fld ''status'' ''Status'' ''string'' False []]"

definition party_shipper_fields :: "field list" where
  "party_shipper_fields =
     [fld ''externalId'' ''External ID'' ''string'' True [''id'', ''externalid'', ''external id''],
      fld ''name'' ''Name'' ''string'' True [''business name'', ''company name'', ''full name''],
      fld ''email'' ''Email'' ''string'' False [''e-mail'', ''email address''],
      fld ''phone'' ''Phone'' ''string'' False [''phone number'', ''mobile'', ''contact number''],
      fld ''city'' ''City'' ''string'' False [],
      fld ''status'' ''Status'' ''string'' False [],
      fld ''shipperType'' ''Shipper Type'' ''string'' False [''type''],
      fld ''coverage'' ''Coverage'' ''string'' False [''service area'']]"

definition coerce_text :: "js_env \<Rightarrow> coerce_error \<Rightarrow> string" where
  "coerce_text env e =
     (case e of
        NotANumber l v \<Rightarrow> quoted l @ '' value '' @ quoted (js_str env v) @ '' is not a valid number''
      | NotADate l v \<Rightarrow> quoted l @ '' value '' @ quoted (js_str env v) @ '' is not a valid date'')"

text \<open>\<open>roleDef?.integration?.idType ?? PARTY_DEFAULT_ID_TYPE[partyType]\<close>; every default is a string.\<close>

definition resolvePartyIdType :: "'w offerberries \<Rightarrow> id \<Rightarrow> string \<Rightarrow> 'w \<Rightarrow> db_error + string" where
  "resolvePartyIdType ob tenantId partyType w =
     map_sum id (\<lambda>roleDef.
       case roleDef of None \<Rightarrow> ''string'' | Some d \<Rightarrow>
         (case oget d ''integration'' of
            Some (VObj integration) \<Rightarrow>
              (case oget integration ''idType'' of Some (VStr t) \<Rightarrow> t | _ \<Rightarrow> ''string'')
          | _ \<Rightarrow> ''string''))
       (ob_findOne ob ''PartyRoleDefinition'' (eq_query tenantId ''roleKey'' (Some (VStr partyType))) w)"

definition coerced_ids :: "js_env \<Rightarrow> string \<Rightarrow> val list \<Rightarrow> val list" where
  "coerced_ids env idType identityValues =
     concat (map (\<lambda>v. case coerceFieldValue env idType v ''External ID'' of
         Inl e \<Rightarrow> [] | Inr c \<Rightarrow> if c = VNull then [] else [c]) identityValues)"

definition party_query :: "id \<Rightarrow> string \<Rightarrow> val list \<Rightarrow> obj" where
  "party_query tenantId partyType ids =
     [(''tenantId'', VStr tenantId), (''partyType'', VStr partyType), (''externalId'', VObj [(''$in'', VArr ids)])]"

definition party_findExisting ::
  "js_env \<Rightarrow> 'w offerberries \<Rightarrow> string \<Rightarrow> id \<Rightarrow> val list \<Rightarrow> 'w \<Rightarrow> db_error + val list" where
  "party_findExisting env ob partyType tenantId identityValues w =
     (case resolvePartyIdType ob tenantId partyType w of
        Inl e \<Rightarrow> Inl e
      | Inr idType \<Rightarrow>
          let c = coerced_ids env idType identityValues in
          if c = [] then Inr []
          else map_sum id (map (\<lambda>v. VStr (js_str env v)))
            (ob_distinct ob ''Party'' (party_query tenantId partyType c) ''externalId'' w))"

text \<open>The three targets differ in the extension of the party: \<open>ext\<close>.\<close>

definition party_commitRow ::
  "js_env \<Rightarrow> 'w offerberries \<Rightarrow> string \<Rightarrow> (obj \<Rightarrow> obj) \<Rightarrow> id \<Rightarrow> obj option \<Rightarrow> id option \<Rightarrow> (id \<times> string, 'w) action" where
  "party_commitRow env ob partyType ext tenantId mappedFields actorId =
     reading (resolvePartyIdType ob tenantId partyType) (\<lambda>idType.
     with_fields mappedFields (\<lambda>mf.
       if falsy (oget mf ''externalId'')
       then throwing (quoted ''External ID'' @ '' is required for a '' @ partyType @ '' row'')
       else (case coerceFieldValue env idType (the (oget mf ''externalId'')) ''External ID'' of
           Inl e \<Rightarrow> throwing (coerce_text env (err_msg e))
         | Inr externalId \<Rightarrow>
             if falsy (oget mf ''name'') then throwing (quoted ''Name'' @ '' is required for a '' @ partyType @ '' row'')
             else writing (ob_call ob ''createParty'' [VStr tenantId, VObj
               ([(''partyType'', VStr partyType), (''externalId'', externalId), (''name'', the (oget mf ''name'')),
                 (''email'', nullish_or (oget mf ''email'') VNull), (''phone'', nullish_or (oget mf ''phone'') VNull),
                 (''city'', nullish_or (oget mf ''city'') VNull), (''status'', or_else (oget mf ''status'') (VStr ''approved''))]
                @ ext mf)]) (entity_of ''Party''))))"

definition party_seller_ext :: "obj \<Rightarrow> obj" where
  "party_seller_ext mf =
     [(''sellerExt'', VObj [(''storeName'', nullish_or (oget mf ''storeName'') VNull),
                            (''category'', nullish_or (oget mf ''category'') VNull)])]"

definition party_shipper_ext :: "obj \<Rightarrow> obj" where
  "party_shipper_ext mf =
     [(''shipperExt'', VObj [(''shipperType'', or_else (oget mf ''shipperType'') (VStr ''external'')),
                             (''coverage'', nullish_or (oget mf ''coverage'') VNull)])]"

definition party_seller_target :: "js_env \<Rightarrow> 'w offerberries \<Rightarrow> 'w target" where
  "party_seller_target env ob =
     \<lparr>d_namespace = ''businessops'', d_entityKey = ''party_seller'', d_label = ''Seller'', d_icon = Some ''Store'',
      d_destination = Some ''/finance/parties'', d_fields = party_seller_fields, d_identityField = ''externalId'',
      d_dependencies = Some [], d_commitInTransaction = False, d_referenceFields = None,
      d_resolveReferences = None, d_findExistingIdentities = Some (party_findExisting env ob ''seller''),
      d_commitRow = party_commitRow env ob ''seller'' party_seller_ext\<rparr>"

definition party_buyer_target :: "js_env \<Rightarrow> 'w offerberries \<Rightarrow> 'w target" where
  "party_buyer_target env ob =
     \<lparr>d_namespace = ''businessops'', d_entityKey = ''party_buyer'', d_label = ''Buyer'', d_icon = Some ''Users'',
      d_destination = Some ''/finance/parties'', d_fields = party_buyer_fields, d_identityField = ''externalId'',
      d_dependencies = Some [], d_commitInTransaction = False, d_referenceFields = None,
      d_resolveReferences = None, d_findExistingIdentities = Some (party_findExisting env ob ''buyer''),
      d_commitRow = party_commitRow env ob ''buyer'' (\<lambda>_. [])\<rparr>"

definition party_shipper_target :: "js_env \<Rightarrow> 'w offerberries \<Rightarrow> 'w target" where
  "party_shipper_target env ob =
     \<lparr>d_namespace = ''businessops'', d_entityKey = ''party_shipper'', d_label = ''Shipper'', d_icon = Some ''Truck'',
      d_destination = Some ''/finance/parties'', d_fields = party_shipper_fields, d_identityField = ''externalId'',
      d_dependencies = Some [], d_commitInTransaction = False, d_referenceFields = None,
      d_resolveReferences = None, d_findExistingIdentities = Some (party_findExisting env ob ''shipper''),
      d_commitRow = party_commitRow env ob ''shipper'' party_shipper_ext\<rparr>"

subsection \<open>Marketplace: orders, riders and cycles\<close>

definition order_fields :: "field list" where
  "order_fields =
     [fld ''OrderId'' ''Order ID'' ''string'' True [''order id'', ''id''],
      fld ''sellerExternalId'' ''Seller External ID'' ''string'' True [''seller'', ''seller id''],
      fld ''buyerExternalId'' ''Buyer External ID'' ''string'' True [''buyer'', ''buyer id''],
      fld ''transaction_type'' ''Transaction Type'' ''string'' True [''type'', ''transaction''],
      fld ''order_total_amount'' ''Order Total'' ''number'' True [''total'', ''amount''],
      fld ''currency'' ''Currency'' ''string'' False [],
      fld ''placed_at'' ''Order Date'' ''date'' False [''date'', ''order date''],
      fld ''shipmentAmount'' ''Shipment Amount'' ''number'' False [''shipping'', ''delivery charge'']]"

definition of_type :: "string \<Rightarrow> obj \<Rightarrow> bool" where
  "of_type partyType p \<longleftrightarrow> oget p ''partyType'' = Some (VStr partyType)"

definition order_resolveReferences ::
  "'w offerberries \<Rightarrow> id \<Rightarrow> (string \<times> val list) list \<Rightarrow> 'w \<Rightarrow> db_error + lookups" where
  "order_resolveReferences ob tenantId distinctValuesByKey w =
     (let allIds = fold set_add (values_of distinctValuesByKey ''sellerExternalId''
                     @ values_of distinctValuesByKey ''buyerExternalId'') []
      in if allIds = [] then Inr [(''sellerExternalId'', []), (''buyerExternalId'', [])]
         else map_sum id (\<lambda>parties.
             [(''sellerExternalId'', map_by ''externalId'' (filter (of_type ''seller'') parties)),
              (''buyerExternalId'', map_by ''externalId'' (filter (of_type ''buyer'') parties))])
           (ob_find ob ''Party''
              [(''tenantId'', VStr tenantId), (''partyType'', VObj [(''$in'', VArr [VStr ''seller'', VStr ''buyer''])]),
               (''externalId'', VObj [(''$in'', VArr allIds)])] w))"

definition order_commitRow ::
  "js_env \<Rightarrow> int \<Rightarrow> 'w offerberries \<Rightarrow> id \<Rightarrow> obj option \<Rightarrow> id option \<Rightarrow> (id \<times> string, 'w) action" where
  "order_commitRow env now ob tenantId mappedFields actorId =
     with_fields mappedFields (\<lambda>mf.
       let sellerId = oget mf ''sellerExternalId''; buyerId = oget mf ''buyerExternalId'';
           party = (\<lambda>partyType externalId. find (\<lambda>p.
              text_of env (oget p ''externalId'') = text_of env externalId \<and> of_type partyType p))
       in
       reading (ob_find ob ''Party'' (in_query tenantId ''externalId''
           [nullish_or sellerId VNull, nullish_or buyerId VNull])) (\<lambda>parties.
       case party ''seller'' sellerId parties of
         None \<Rightarrow> throwing (''Seller with externalId '' @ quoted (text_of env sellerId) @ '' not found'')
       | Some seller \<Rightarrow>
           (case party ''buyer'' buyerId parties of
              None \<Rightarrow> throwing (''Buyer with externalId '' @ quoted (text_of env buyerId) @ '' not found'')
            | Some buyer \<Rightarrow>
                writing (ob_create ob ''Order''
                  ((''tenantId'', VStr tenantId) # opt_doc ''OrderId'' (oget mf ''OrderId'')
                   @ [(''sellerPartyId'', VStr (found_id seller)), (''buyerPartyId'', VStr (found_id buyer))]
                   @ opt_doc ''transaction_type'' (oget mf ''transaction_type'')
                   @ opt_doc ''order_total_amount'' (oget mf ''order_total_amount'')
                   @ [(''currency'', or_else (oget mf ''currency'') (VStr ''PKR'')),
                      (''placed_at'', or_else (oget mf ''placed_at'') (VDate now)), (''status'', VStr ''pending''),
                      (''orderStatus'', VStr ''pending''),
                      (''shipmentAmount'', or_else (oget mf ''shipmentAmount'') (VNum (Fin 0))), (''items'', VArr [])]))
                  (entity_of ''Order''))))"

definition order_target :: "js_env \<Rightarrow> int \<Rightarrow> 'w offerberries \<Rightarrow> 'w target" where
  "order_target env now ob =
     \<lparr>d_namespace = ''businessops'', d_entityKey = ''order'', d_label = ''Order'', d_icon = Some ''ShoppingCart'',
      d_destination = Some ''/finance/transactions'', d_fields = order_fields, d_identityField = ''OrderId'',
      d_dependencies = Some [''party_seller'', ''party_buyer''], d_commitInTransaction = False,
      d_referenceFields = Some [''sellerExternalId'', ''buyerExternalId''],
      d_resolveReferences = Some (order_resolveReferences ob),
      d_findExistingIdentities = Some (existing_by ob ''Order'' ''OrderId''),
      d_commitRow = order_commitRow env now ob\<rparr>"

definition rider_fields :: "field list" where
  "rider_fields =
     [fld ''riderId'' ''Rider ID'' ''string'' True [''id'', ''rider''],
      fld ''employeeEmail'' ''Employee Email'' ''string'' False [''email'', ''employee''],
      fld ''vehicleType'' ''Vehicle Type'' ''string'' False [''vehicle''],
      fld ''assignedZone'' ''Assigned Zone'' ''string'' False [''zone'', ''area''],
      fld ''status'' ''Status'' ''string'' False []]"

definition rider_commitRow ::
  "'w offerberries \<Rightarrow> id \<Rightarrow> obj option \<Rightarrow> id option \<Rightarrow> (id \<times> string, 'w) action" where
  "rider_commitRow ob tenantId mappedFields actorId =
     with_fields mappedFields (\<lambda>mf.
       reading (if falsy (oget mf ''employeeEmail'') then (\<lambda>w. Inr None)
                else ob_findOne ob ''FinalizedEmployee'' (eq_query tenantId ''officialEmail'' (oget mf ''employeeEmail''))) (\<lambda>emp.
       let employeeId = (case emp of None \<Rightarrow> VNull | Some e \<Rightarrow> VStr (found_id e)) in
       writing (ob_create ob ''Rider''
         ((''tenantId'', VStr tenantId) # opt_doc ''riderId'' (oget mf ''riderId'')
          @ [(''employeeId'', employeeId), (''vehicleType'', nullish_or (oget mf ''vehicleType'') VNull),
             (''assignedZone'', nullish_or (oget mf ''assignedZone'') VNull),
             (''status'', or_else (oget mf ''status'') (VStr ''available''))]))
         (entity_of ''Rider'')))"

definition rider_target :: "'w offerberries \<Rightarrow> 'w target" where
  "rider_target ob =
     \<lparr>d_namespace = ''businessops'', d_entityKey = ''rider'', d_label = ''Rider'', d_icon = Some ''Bike'',
      d_destination = Some ''/ops/overview'', d_fields = rider_fields, d_identityField = ''riderId'',
      d_dependencies = Some [], d_commitInTransaction = False, d_referenceFields = None, d_resolveReferences = None,
      d_findExistingIdentities = Some (existing_by ob ''Rider'' ''riderId''), d_commitRow = rider_commitRow ob\<rparr>"

definition cycle_fields :: "field list" where
  "cycle_fields =
     [fld ''name'' ''Cycle Name'' ''string'' True [''cycle'', ''period''],
      fld ''startDate'' ''Start Date'' ''date'' True [''start'', ''from''],
      fld ''endDate'' ''End Date'' ''date'' True [''end'', ''to''],
      fld ''description'' ''Description'' ''string'' False [''desc''],
      fld ''type'' ''Type'' ''string'' False [],
      fld ''status'' ''Status'' ''string'' False []]"

definition cycle_commitRow ::
  "'w offerberries \<Rightarrow> id \<Rightarrow> obj option \<Rightarrow> id option \<Rightarrow> (id \<times> string, 'w) action" where
  "cycle_commitRow ob tenantId mappedFields actorId =
     with_fields mappedFields (\<lambda>mf.
       writing (ob_create ob ''Cycle''
         ((''tenantId'', VStr tenantId) # opt_doc ''name'' (oget mf ''name'') @ opt_doc ''startDate'' (oget mf ''startDate'')
          @ opt_doc ''endDate'' (oget mf ''endDate'')
          @ [(''description'', nullish_or (oget mf ''description'') (VStr [])),
             (''type'', or_else (oget mf ''type'') (VStr ''custom'')), (''status'', or_else (oget mf ''status'') (VStr ''active''))]))
         (entity_of ''Cycle''))"

definition cycle_target :: "'w offerberries \<Rightarrow> 'w target" where
  "cycle_target ob =
     \<lparr>d_namespace = ''businessops'', d_entityKey = ''cycle'', d_label = ''Cycle'', d_icon = Some ''RefreshCw'',
      d_destination = Some ''/finance/reports'', d_fields = cycle_fields, d_identityField = ''name'',
      d_dependencies = Some [], d_commitInTransaction = True, d_referenceFields = None, d_resolveReferences = None,
      d_findExistingIdentities = Some (existing_by ob ''Cycle'' ''name''), d_commitRow = cycle_commitRow ob\<rparr>"

subsection \<open>HR: attendance, leave, payroll\<close>

text \<open>Their rows name an employee by e-mail.\<close>

definition employee_of ::
  "js_env \<Rightarrow> 'w offerberries \<Rightarrow> id \<Rightarrow> obj \<Rightarrow> (obj \<Rightarrow> ('a, 'w) action) \<Rightarrow> ('a, 'w) action" where
  "employee_of env ob tenantId mf f =
     reading (ob_findOne ob ''FinalizedEmployee'' (eq_query tenantId ''officialEmail'' (oget mf ''employeeEmail''))) (\<lambda>employee.
     case employee of
       None \<Rightarrow> throwing (''Employee with email '' @ quoted (text_of env (oget mf ''employeeEmail'')) @ '' not found'')
     | Some e \<Rightarrow> f e)"

definition attendance_fields :: "field list" where
  "attendance_fields =
     [fld ''employeeEmail'' ''Employee Email'' ''string'' True [''email'', ''official email'', ''employee''],
      fld ''date'' ''Date'' ''string'' True [''attendance date'', ''day''],
      fld ''status'' ''Status'' ''string'' True [],
      fld ''checkInTime'' ''Check-in Time'' ''date'' False [''checkin'', ''clock in''],
      fld ''checkOutTime'' ''Check-out Time'' ''date'' False [''checkout'', ''clock out''],
      fld ''notes'' ''Notes'' ''string'' False []]"

definition attendance_commitRow ::
  "js_env \<Rightarrow> 'w offerberries \<Rightarrow> id \<Rightarrow> obj option \<Rightarrow> id option \<Rightarrow> (id \<times> string, 'w) action" where
  "attendance_commitRow env ob tenantId mappedFields actorId =
     with_fields mappedFields (\<lambda>mf. employee_of env ob tenantId mf (\<lambda>employee.
       writing (ob_call ob ''markAttendance'' [VObj
         ((''employeeId'', VStr (found_id employee)) # opt_doc ''date'' (oget mf ''date'') @ opt_doc ''status'' (oget mf ''status'')
          @ [(''checkInTime'', or_else (oget mf ''checkInTime'') VNull), (''checkOutTime'', or_else (oget mf ''checkOutTime'') VNull),
             (''notes'', or_else (oget mf ''notes'') (VStr [])), (''markedBy'', VStr ''admin''), (''tenantId'', VStr tenantId)])])
         (entity_of ''Attendance'')))"

definition attendance_target :: "js_env \<Rightarrow> 'w offerberries \<Rightarrow> 'w target" where
  "attendance_target env ob =
     \<lparr>d_namespace = ''hr'', d_entityKey = ''attendance'', d_label = ''Attendance'', d_icon = Some ''Calendar'',
      d_destination = Some ''/hr/attendance'', d_fields = attendance_fields, d_identityField = ''_skip_dedup'',
      d_dependencies = Some [''employee''], d_commitInTransaction = False, d_referenceFields = Some [''employeeEmail''],
      d_resolveReferences = Some (resolve_by ob ''FinalizedEmployee'' ''officialEmail'' ''employeeEmail''),
      d_findExistingIdentities = Some none_existing, d_commitRow = attendance_commitRow env ob\<rparr>"

definition leave_fields :: "field list" where
  "leave_fields =
     [fld ''employeeEmail'' ''Employee Email'' ''string'' True [''email'', ''official email'', ''employee''],
      fld ''leaveType'' ''Leave Type'' ''string'' True [''type''],
      fld ''leaveReason'' ''Reason'' ''string'' False [''reason'', ''notes''],
      fld ''leaveStartDate'' ''Start Date'' ''date'' True [''start date'', ''from'', ''start''],
      fld ''leaveEndDate'' ''End Date'' ''date'' True [''end date'', ''to'', ''end'']]"

definition leave_commitRow ::
  "js_env \<Rightarrow> 'w offerberries \<Rightarrow> id \<Rightarrow> obj option \<Rightarrow> id option \<Rightarrow> (id \<times> string, 'w) action" where
  "leave_commitRow env ob tenantId mappedFields actorId =
     with_fields mappedFields (\<lambda>mf. employee_of env ob tenantId mf (\<lambda>employee.
       if js_less env (oget mf ''leaveEndDate'') (oget mf ''leaveStartDate'')
       then throwing (quoted ''End Date'' @ '' is before '' @ quoted ''Start Date'')
       else writing (ob_create ob ''LeaveRecord''
         ([(''tenantId'', VStr tenantId), (''employeeId'', VStr (found_id employee))]
          @ opt_doc ''leaveType'' (oget mf ''leaveType'')
          @ [(''leaveReason'', nullish_or (oget mf ''leaveReason'') VNull)]
          @ opt_doc ''startDate'' (oget mf ''leaveStartDate'') @ opt_doc ''endDate'' (oget mf ''leaveEndDate'')
          @ [(''status'', VStr ''taken''), (''importedFromMigration'', VBool True)]))
         (entity_of ''LeaveRecord'')))"

definition leave_target :: "js_env \<Rightarrow> 'w offerberries \<Rightarrow> 'w target" where
  "leave_target env ob =
     \<lparr>d_namespace = ''hr'', d_entityKey = ''leave'', d_label = ''Leave'', d_icon = Some ''Palmtree'',
      d_destination = Some ''/hr/leave-applications'', d_fields = leave_fields, d_identityField = ''_skip_dedup'',
      d_dependencies = Some [''employee''], d_commitInTransaction = True, d_referenceFields = Some [''employeeEmail''],
      d_resolveReferences = Some (resolve_by ob ''FinalizedEmployee'' ''officialEmail'' ''employeeEmail''),
      d_findExistingIdentities = Some none_existing, d_commitRow = leave_commitRow env ob\<rparr>"

definition payroll_fields :: "field list" where
  "payroll_fields =
     [fld ''employeeEmail'' ''Employee Email'' ''string'' True [''email'', ''official email'', ''employee''],
      fld ''month'' ''Month'' ''string'' True [''pay month''],
      fld ''year'' ''Year'' ''number'' True [''pay year''],
      fld ''baseSalary'' ''Base Salary'' ''number'' True [''salary'', ''basic''],
      fld ''paymentStatus'' ''Payment Status'' ''string'' False [''status'']]"

definition payroll_commitRow ::
  "js_env \<Rightarrow> 'w offerberries \<Rightarrow> id \<Rightarrow> obj option \<Rightarrow> id option \<Rightarrow> (id \<times> string, 'w) action" where
  "payroll_commitRow env ob tenantId mappedFields actorId =
     with_fields mappedFields (\<lambda>mf. employee_of env ob tenantId mf (\<lambda>employee.
       reading (ob_findOne ob ''RoleAssignment''
           [(''employeeId'', VStr (found_id employee)), (''isActive'', VBool True)]) (\<lambda>roleAssignment.
       let roleId = (case roleAssignment of None \<Rightarrow> VNull | Some a \<Rightarrow> nullish_or (oget a ''roleId'') VNull);
           rules = opt_doc ''baseSalary'' (oget mf ''baseSalary'')
             @ [(''salaryType'', VStr ''monthly''), (''currency'', VStr ''PKR''), (''allowances'', VArr []),
                (''deductions'', VArr []), (''terminalBenefits'', VArr [])]
       in writing (ob_create ob ''SalaryBreakup''
         ([(''employeeId'', VStr (found_id employee)), (''roleId'', roleId)]
          @ opt_doc ''month'' (oget mf ''month'') @ opt_doc ''year'' (oget mf ''year'')
          @ [(''salaryRules'', VObj rules), (''calculatedBreakup'', VObj []),
             (''paymentStatus'', or_else (oget mf ''paymentStatus'') (VStr ''pending'')), (''tenantId'', VStr tenantId)]))
         (entity_of ''SalaryBreakupfiles''))))"

definition payroll_target :: "js_env \<Rightarrow> 'w offerberries \<Rightarrow> 'w target" where
  "payroll_target env ob =
     \<lparr>d_namespace = ''hr'', d_entityKey = ''payroll'', d_label = ''Payroll'', d_icon = Some ''Banknote'',
      d_destination = Some ''/finance/salaries'', d_fields = payroll_fields, d_identityField = ''_skip_dedup'',
      d_dependencies = Some [''employee'', ''role''], d_commitInTransaction = False,
      d_referenceFields = Some [''employeeEmail''],
      d_resolveReferences = Some (resolve_by ob ''FinalizedEmployee'' ''officialEmail'' ''employeeEmail''),
      d_findExistingIdentities = Some none_existing, d_commitRow = payroll_commitRow env ob\<rparr>"

subsection \<open>Finance and communication\<close>

definition bankaccount_fields :: "field list" where
  "bankaccount_fields =
     [fld ''bankName'' ''Bank Name'' ''string'' True [''bank''],
      fld ''accountTitle'' ''Account Title'' ''string'' True [''title'', ''account name''],
      fld ''iban'' ''IBAN'' ''string'' False [],
      fld ''accountNumber'' ''Account Number'' ''string'' False [''number'', ''acc #''],
      fld ''branchCode'' ''Branch Code'' ''string'' False [''branch'', ''code''],
      fld ''currency'' ''Currency'' ''string'' True []]"

definition bankaccount_commitRow ::
  "'w offerberries \<Rightarrow> id \<Rightarrow> obj option \<Rightarrow> id option \<Rightarrow> (id \<times> string, 'w) action" where
  "bankaccount_commitRow ob tenantId mappedFields actorId =
     with_fields mappedFields (\<lambda>mf.
       writing (ob_create ob ''BankAccount''
         ((''tenantId'', VStr tenantId) # opt_doc ''bankName'' (oget mf ''bankName'')
          @ opt_doc ''accountTitle'' (oget mf ''accountTitle'')
          @ [(''iban'', nullish_or (oget mf ''iban'') VNull), (''accountNumber'', nullish_or (oget mf ''accountNumber'') VNull),
             (''branchCode'', nullish_or (oget mf ''branchCode'') VNull)]
          @ opt_doc ''currency'' (oget mf ''currency'') @ [(''status'', VStr ''active'')]))
         (entity_of ''BankAccount''))"

definition bankaccount_target :: "'w offerberries \<Rightarrow> 'w target" where
  "bankaccount_target ob =
     \<lparr>d_namespace = ''finance'', d_entityKey = ''bankaccount'', d_label = ''Bank Account'', d_icon = Some ''Landmark'',
      d_destination = Some ''/finance/wallets'', d_fields = bankaccount_fields, d_identityField = ''accountNumber'',
      d_dependencies = Some [], d_commitInTransaction = True, d_referenceFields = None, d_resolveReferences = None,
      d_findExistingIdentities = Some (existing_by ob ''BankAccount'' ''accountNumber''),
      d_commitRow = bankaccount_commitRow ob\<rparr>"

definition coa_fields :: "field list" where
  "coa_fields =
     [fld ''accountCode'' ''Account Code'' ''string'' True [''code'', ''account code''],
      fld ''name'' ''Account Name'' ''string'' True [''account name'', ''title''],
      fld ''accountType'' ''Account Type'' ''string'' True [''type'', ''account type''],
      fld ''summaryId'' ''Account Number'' ''number'' False [''number'', ''account number''],
      fld ''parentId'' ''Parent Account Number'' ''number'' False [''parent'', ''parent number'']]"

definition coa_commitRow ::
  "'w offerberries \<Rightarrow> id \<Rightarrow> obj option \<Rightarrow> id option \<Rightarrow> (id \<times> string, 'w) action" where
  "coa_commitRow ob tenantId mappedFields actorId =
     with_fields mappedFields (\<lambda>mf.
       writing (ob_call ob ''addSummary'' [VObj
         ((''tenantId'', VStr tenantId) # opt_doc ''accountCode'' (oget mf ''accountCode'')
          @ [(''summaryId'', nullish_or (oget mf ''summaryId'') VNull)]
          @ opt_doc ''name'' (oget mf ''name'') @ opt_doc ''accountType'' (oget mf ''accountType'')
          @ [(''parentId'', nullish_or (oget mf ''parentId'') VNull), (''actorId'', id_or_null actorId)])])
         (entity_of ''Summary''))"

definition coa_target :: "'w offerberries \<Rightarrow> 'w target" where
  "coa_target ob =
     \<lparr>d_namespace = ''finance'', d_entityKey = ''coa'', d_label = ''Chart of Accounts'', d_icon = Some ''BookOpen'',
      d_destination = Some ''/finance/accounting'', d_fields = coa_fields, d_identityField = ''accountCode'',
      d_dependencies = Some [], d_commitInTransaction = False, d_referenceFields = None, d_resolveReferences = None,
      d_findExistingIdentities = Some (existing_by ob ''Summary'' ''accountCode''), d_commitRow = coa_commitRow ob\<rparr>"

definition invoice_fields :: "field list" where
  "invoice_fields =
     [fld ''partyExternalId'' ''Party External ID'' ''string'' True [''party id'', ''customer id'', ''supplier id''],
      fld ''partyType'' ''Party Type'' ''string'' True [''type''],
      fld ''direction'' ''Direction'' ''string'' True [],
      fld ''issueDate'' ''Issue Date'' ''date'' False [''date'', ''invoice date''],
      fld ''dueDate'' ''Due Date'' ''date'' True [''due'', ''payment due''],
      fld ''subtotal'' ''Subtotal'' ''number'' True [],
      fld ''taxTotal'' ''Tax Total'' ''number'' False [''tax'', ''vat''],
      fld ''total'' ''Total'' ''number'' True [''amount'', ''invoice amount''],
      fld ''currency'' ''Currency'' ''string'' False [],
      fld ''notes'' ''Notes'' ''string'' False [''memo'', ''description'']]"

definition invoice_line :: "js_env \<Rightarrow> obj \<Rightarrow> obj \<Rightarrow> val" where
  "invoice_line env party mf =
     VObj ((''description'', VStr (''Imported invoice ''
          @ (if oget mf ''direction'' = Some (VStr ''receivable'') then ''to'' else ''from'') @ '' ''
          @ text_of env (if nullish (oget party ''name'') then oget mf ''partyExternalId'' else oget party ''name'')))
        # (''quantity'', VNum (Fin 1)) # opt_doc ''unitPrice'' (oget mf ''total''))"

definition invoice_commitRow ::
  "js_env \<Rightarrow> int \<Rightarrow> 'w offerberries \<Rightarrow> id \<Rightarrow> obj option \<Rightarrow> id option \<Rightarrow> (id \<times> string, 'w) action" where
  "invoice_commitRow env now ob tenantId mappedFields actorId =
     with_fields mappedFields (\<lambda>mf.
       reading (ob_findOne ob ''Party''
          [(''tenantId'', VStr tenantId), (''externalId'', nullish_or (oget mf ''partyExternalId'') VNull),
           (''partyType'', nullish_or (oget mf ''partyType'') VNull)]) (\<lambda>party.
       case party of
         None \<Rightarrow> throwing (''Party with externalId '' @ quoted (text_of env (oget mf ''partyExternalId'')) @ '' and type ''
                   @ quoted (text_of env (oget mf ''partyType'')) @ '' not found'')
       | Some party \<Rightarrow>
           writing (ob_call ob ''createInvoice'' [VStr tenantId, VObj
             ((''partyId'', VStr (found_id party)) # opt_doc ''partyType'' (oget mf ''partyType'')
              @ [(''partyName'', nullish_or (oget party ''name'') VNull)] @ opt_doc ''direction'' (oget mf ''direction'')
              @ [(''issueDate'', nullish_or (oget mf ''issueDate'') (VDate now))] @ opt_doc ''dueDate'' (oget mf ''dueDate'')
              @ [(''lineItems'', VArr [invoice_line env party mf])] @ opt_doc ''subtotal'' (oget mf ''subtotal'')
              @ [(''taxTotal'', nullish_or (oget mf ''taxTotal'') (VNum (Fin 0)))] @ opt_doc ''total'' (oget mf ''total'')
              @ [(''currency'', nullish_or (oget mf ''currency'') (VStr ''PKR'')),
                 (''notes'', nullish_or (oget mf ''notes'') VNull)]), id_or_null actorId])
             (entity_of ''Invoice'')))"

definition invoice_target :: "js_env \<Rightarrow> int \<Rightarrow> 'w offerberries \<Rightarrow> 'w target" where
  "invoice_target env now ob =
     \<lparr>d_namespace = ''finance'', d_entityKey = ''invoice'', d_label = ''Invoice'', d_icon = Some ''FileText'',
      d_destination = Some ''/finance/accounting'', d_fields = invoice_fields, d_identityField = ''invoiceNumber'',
      d_dependencies = Some [''party_seller'', ''party_buyer''], d_commitInTransaction = True,
      d_referenceFields = Some [''partyExternalId''],
      d_resolveReferences = Some (resolve_by ob ''Party'' ''externalId'' ''partyExternalId''),
      d_findExistingIdentities = Some none_existing, d_commitRow = invoice_commitRow env now ob\<rparr>"

definition BUDGET_CATEGORIES :: "string list" where
  "BUDGET_CATEGORIES =
     [''salary'', ''seller_payout'', ''shipper_payout'', ''expense'', ''tax'', ''marketing'', ''general'', ''refund'']"

definition budgetallocation_fields :: "field list" where
  "budgetallocation_fields =
     [(fld ''category'' ''Category'' ''string'' True [])\<lparr>f_enum := Some (map VStr BUDGET_CATEGORIES)\<rparr>,
      fld ''walletName'' ''Wallet'' ''string'' True [''wallet'', ''wallet name'', ''account'', ''wallet id''],
      fld ''periodStart'' ''Period Start'' ''date'' True [''start'', ''start date'', ''from''],
      fld ''periodEnd'' ''Period End'' ''date'' True [''end'', ''end date'', ''to''],
      fld ''allocatedPaise'' ''Allocated Amount'' ''number'' True [''allocated'', ''budget'', ''amount''],
      fld ''notes'' ''Notes'' ''string'' False [''desc'', ''description'']]"

definition budgetStatusForPeriod :: "js_env \<Rightarrow> val option \<Rightarrow> val option \<Rightarrow> int \<Rightarrow> string" where
  "budgetStatusForPeriod env periodStart periodEnd now =
     (if js_less env periodEnd (Some (VDate now)) then ''closed''
      else if js_less env (Some (VDate now)) periodStart then ''scheduled''
      else ''active'')"

text \<open>\<open>Number.isInteger\<close>; rounding leaves an integer as it is.\<close>

definition isInteger :: "jsnum \<Rightarrow> bool" where
  "isInteger n \<longleftrightarrow> (case n of Fin q \<Rightarrow> of_int \<lfloor>q\<rfloor> = q | _ \<Rightarrow> False)"

definition budgetallocation_commitRow ::
  "js_env \<Rightarrow> int \<Rightarrow> 'w offerberries \<Rightarrow> id \<Rightarrow> obj option \<Rightarrow> id option \<Rightarrow> (id \<times> string, 'w) action" where
  "budgetallocation_commitRow env now ob tenantId mappedFields actorId =
     with_fields mappedFields (\<lambda>mf.
       reading (ob_findOne ob ''Wallet'' (eq_query tenantId ''name'' (oget mf ''walletName''))) (\<lambda>wallet.
       case wallet of
         None \<Rightarrow> throwing (''Wallet '' @ quoted (text_of env (oget mf ''walletName'')) @ '' not found'')
       | Some wallet \<Rightarrow>
           let amount = oget mf ''allocatedPaise'';
               n = (case amount of None \<Rightarrow> NaN | Some v \<Rightarrow> to_number env v);
               periodStart = oget mf ''periodStart''; periodEnd = oget mf ''periodEnd''
           in
           if \<not> isInteger n
           then throwing (quoted ''Allocated Amount'' @ '' must be an integer in paise, got '' @ text_of env amount)
           else if js_less env periodEnd periodStart
           then throwing (quoted ''Period End'' @ '' is before '' @ quoted ''Period Start'')
           else writing (ob_create ob ''BudgetAllocation''
             ((''tenantId'', VStr tenantId) # opt_doc ''category'' (oget mf ''category'')
              @ [(''walletId'', VStr (found_id wallet))]
              @ opt_doc ''periodStart'' periodStart @ opt_doc ''periodEnd'' periodEnd
              @ [(''allocatedPaise'', VNum n), (''spentPaise'', VNum (Fin 0)), (''reservedPaise'', VNum (Fin 0)),
                 (''status'', VStr (budgetStatusForPeriod env periodStart periodEnd now)),
                 (''notes'', nullish_or (oget mf ''notes'') VNull)]))
             (entity_of ''BudgetAllocation'')))"

definition budgetallocation_target :: "js_env \<Rightarrow> int \<Rightarrow> 'w offerberries \<Rightarrow> 'w target" where
  "budgetallocation_target env now ob =
     \<lparr>d_namespace = ''finance'', d_entityKey = ''budgetallocation'', d_label = ''Budget Allocation'',
      d_icon = Some ''PieChart'', d_destination = Some ''/finance/accounting'', d_fields = budgetallocation_fields,
      d_identityField = ''_skip_dedup'', d_dependencies = Some [], d_commitInTransaction = True,
      d_referenceFields = Some [''walletName''],
      d_resolveReferences = Some (resolve_by ob ''Wallet'' ''name'' ''walletName''),
      d_findExistingIdentities = Some none_existing, d_commitRow = budgetallocation_commitRow env now ob\<rparr>"

definition documenttype_fields :: "field list" where
  "documenttype_fields =
     [fld ''name'' ''Type Name'' ''string'' True [''type'', ''document type'', ''doctype''],
      fld ''description'' ''Description'' ''string'' False [''desc''],
      fld ''isRequired'' ''Is Required'' ''boolean'' False [''required'', ''mandatory''],
      fld ''appliesTo'' ''Applies To'' ''string'' False [''scope'', ''applies'']]"

definition documenttype_commitRow ::
  "'w offerberries \<Rightarrow> id \<Rightarrow> obj option \<Rightarrow> id option \<Rightarrow> (id \<times> string, 'w) action" where
  "documenttype_commitRow ob tenantId mappedFields actorId =
     with_fields mappedFields (\<lambda>mf.
       writing (ob_call ob ''createDocumentType'' [VObj (opt_doc ''name'' (oget mf ''name'')
           @ [(''description'', nullish_or (oget mf ''description'') (VStr [])),
              (''isRequired'', nullish_or (oget mf ''isRequired'') (VBool False)),
              (''appliesTo'', VArr (if falsy (oget mf ''appliesTo'') then [] else [the (oget mf ''appliesTo'')])),
              (''tenantId'', VStr tenantId)])])
         (entity_of ''DocumentType''))"

definition documenttype_target :: "'w offerberries \<Rightarrow> 'w target" where
  "documenttype_target ob =
     \<lparr>d_namespace = ''communication'', d_entityKey = ''documenttype'', d_label = ''Document Type'',
      d_icon = Some ''FileText'', d_destination = Some ''/governance/documents'', d_fields = documenttype_fields,
      d_identityField = ''name'', d_dependencies = Some [], d_commitInTransaction = False,
      d_referenceFields = None, d_resolveReferences = None,
      d_findExistingIdentities = Some (existing_by ob ''DocumentType'' ''name''),
      d_commitRow = documenttype_commitRow ob\<rparr>"

subsection \<open>All shipped targets\<close>

definition shipped_targets :: "js_env \<Rightarrow> int \<Rightarrow> 'w offerberries \<Rightarrow> 'w target list" where
  "shipped_targets env now ob =
     [role_target ob, orgunit_target ob, branch_target ob, employee_target env now ob,
      party_seller_target env ob, party_buyer_target env ob, party_shipper_target env ob,
      order_target env now ob, rider_target ob, cycle_target ob,
      attendance_target env ob, leave_target env ob, payroll_target env ob,
      bankaccount_target ob, coa_target ob, invoice_target env now ob, budgetallocation_target env now ob,
      documenttype_target ob]"

text \<open>What remains when every target file was imported, in this order.\<close>

definition shipped_registry :: "js_env \<Rightarrow> int \<Rightarrow> 'w offerberries \<Rightarrow> 'w registry" where
  "shipped_registry env now ob =
     (case try_fold registerTarget (shipped_targets env now ob) [] of Inl e \<Rightarrow> [] | Inr reg \<Rightarrow> reg)"

end
