(* ===== verification/MappingJob.thy ===== *)
theory MappingJob
  imports MemStore
begin

text \<open>
  The store-driven part of core/mapping/applyMapping.js: the target schema, suggestions for a job,
  applying a mapping to every staged row and saving it as a profile. The buffered bulk writes are
  shared with the validation engine.
\<close>

subsection \<open>Buffered bulk writes\<close>

text \<open>Operations are collected and written whenever \<open>CHUNK_SIZE\<close> of them are there.\<close>

type_synonym 's bulk = "'s \<times> (query \<times> row_set) list"

definition push_op :: "'s store_ops \<Rightarrow> nat \<Rightarrow> query \<times> row_set \<Rightarrow> 's bulk \<Rightarrow> 's bulk" where
  "push_op ops chunk op = (\<lambda>(s, bulkOps).
     (let bulkOps = bulkOps @ [op] in
      if chunk \<le> length bulkOps then (so_bulkWriteStaged ops bulkOps s, []) else (s, bulkOps)))"

definition flush_ops :: "'s store_ops \<Rightarrow> 's bulk \<Rightarrow> 's" where
  "flush_ops ops = (\<lambda>(s, bulkOps). if bulkOps = [] then s else so_bulkWriteStaged ops bulkOps s)"

definition write_all :: "'s store_ops \<Rightarrow> nat \<Rightarrow> (query \<times> row_set) list \<Rightarrow> 's \<Rightarrow> 's" where
  "write_all ops chunk qus s = flush_ops ops (fold (push_op ops chunk) qus (s, []))"

subsection \<open>Schema and suggestions\<close>

record target_schema =
  ts_module :: "string option"
  ts_entityKey :: string
  ts_label :: string
  ts_fields :: "field list"
  ts_identityField :: string

text \<open>A descriptor has no \<open>module\<close> property, so the schema's is undefined.\<close>

definition getTargetSchema :: "string \<Rightarrow> string \<Rightarrow> 'w registry \<Rightarrow> app_error err + target_schema" where
  "getTargetSchema moduleName entityKey reg =
     (case lift_err NoTarget (getTargetDescriptor moduleName entityKey reg) of
        Inl e \<Rightarrow> Inl e
      | Inr descriptor \<Rightarrow>
          Inr \<lparr>ts_module = None, ts_entityKey = d_entityKey descriptor, ts_label = d_label descriptor,
               ts_fields = d_fields descriptor, ts_identityField = d_identityField descriptor\<rparr>)"

record job_suggestion =
  js_sourceColumns :: "string list"
  js_suggestions :: "suggestion list"

definition suggestMappingForJob ::
  "'s store_ops \<Rightarrow> 'w registry \<Rightarrow> id \<Rightarrow> id \<Rightarrow> string \<Rightarrow> string \<Rightarrow> 's \<Rightarrow> app_error err + job_suggestion" where
  "suggestMappingForJob ops reg tenantId importJobId moduleName entityKey s =
     (case so_getJob ops tenantId importJobId s of
        Inl e \<Rightarrow> Inl e
      | Inr job \<Rightarrow>
          (case so_findOneStaged ops (job_query tenantId (j_id job)) s of
             None \<Rightarrow> Inr \<lparr>js_sourceColumns = [], js_suggestions = []\<rparr>
           | Some sample \<Rightarrow>
               let sourceColumns = akeys (s_rawRow sample) in
               (case getTargetSchema moduleName entityKey reg of
                  Inl e \<Rightarrow> Inl e
                | Inr schema \<Rightarrow>
                    Inr \<lparr>js_sourceColumns = sourceColumns,
                         js_suggestions = suggestMapping sourceColumns (ts_fields schema)\<rparr>)))"

subsection \<open>applyMapping\<close>

fun repeated :: "string list \<Rightarrow> string list \<Rightarrow> string list" where
  "repeated seen [] = []"
| "repeated seen (t # ts) = (if t \<in> set seen then t # repeated seen ts else repeated (t # seen) ts)"

text \<open>\<open>targetKeysUsed.filter((t, i) => targetKeysUsed.indexOf(t) !== i)\<close>\<close>

definition duplicate_targets :: "field_map \<Rightarrow> string list" where
  "duplicate_targets entries = repeated [] (map snd entries)"

definition check_field_map :: "field list \<Rightarrow> field_map \<Rightarrow> app_error err option" where
  "check_field_map fs entries =
     (let invalidTargets = filter (\<lambda>t. fields_by_key fs t = None) (map snd entries) in
      if invalidTargets \<noteq> [] then Some (Err (Some 400) (UnknownTargetFields (uniq invalidTargets)))
      else if duplicate_targets entries \<noteq> []
      then Some (Err (Some 400) (DuplicateTargetFields (uniq (duplicate_targets entries))))
      else None)"

definition map_op :: "js_env \<Rightarrow> field list \<Rightarrow> field_map \<Rightarrow> srow \<Rightarrow> query \<times> row_set" where
  "map_op env fs entries record =
     (id_query (s_id record),
      (case map_row env (fields_by_key fs) entries (s_rawRow record) of
         (mappedFields, remainingCustomFields) \<Rightarrow> SetMapped mappedFields remainingCustomFields))"

record mapping_request =
  mr_entityKey :: string
  mr_fieldMap :: "field_map option"
  mr_saveAsProfile :: bool
  mr_profileLabel :: "string option"
  mr_createdBy :: "id option"

definition MAPPING_CHUNK :: nat where
  "MAPPING_CHUNK = 500"

definition applyMapping ::
  "'s store_ops \<Rightarrow> js_env \<Rightarrow> 'w registry \<Rightarrow> int \<Rightarrow> id \<Rightarrow> id \<Rightarrow> mapping_request \<Rightarrow> 's
     \<Rightarrow> (app_error err + import_job) \<times> 's" where
  "applyMapping ops env reg now tenantId importJobId req s =
     (case so_getJob ops tenantId importJobId s of
        Inl e \<Rightarrow> (Inl e, s)
      | Inr job \<Rightarrow>
          if j_status job \<notin> {Staged, Mapped}
          then (Inl (Err (Some 409) (WrongStatus (status_name (j_status job)))), s)
          else (case getTargetSchema (j_module job) (mr_entityKey req) reg of
              Inl e \<Rightarrow> (Inl e, s)
            | Inr schema \<Rightarrow>
                let entries = (case mr_fieldMap req of None \<Rightarrow> [] | Some m \<Rightarrow> m) in
                (case check_field_map (ts_fields schema) entries of
                   Some e \<Rightarrow> (Inl e, s)
                 | None \<Rightarrow>
                     let cursor = so_cursorStaged ops (job_query tenantId (j_id job)) None None s;
                         s = write_all ops MAPPING_CHUNK (map (map_op env (ts_fields schema) entries) cursor) s
                     in if mr_saveAsProfile req \<and>
                           (case mr_profileLabel req of None \<Rightarrow> True | Some l \<Rightarrow> js_trim l = [])
                        then (Inl (Err (Some 400) ProfileLabelRequired), s)
                        else
                          let (mappingProfileId, s) =
                                (if mr_saveAsProfile req then
                                   (case so_upsertMappingProfile ops tenantId (j_module job) (mr_entityKey req)
                                           (mr_fieldMap req) (the (mr_profileLabel req)) (mr_createdBy req) now s of
                                      (profile, s) \<Rightarrow> (Some (pr_id profile), s))
                                 else (j_mappingProfileId job, s));
                              job = job\<lparr>j_entityKey := Some (mr_entityKey req), j_fieldMap := mr_fieldMap req,
                                        j_mappingProfileId := mappingProfileId, j_status := Mapped\<rparr>
                          in (Inr job, so_saveJob ops job s))))"

definition listMappingProfiles ::
  "'s store_ops \<Rightarrow> id \<Rightarrow> string option \<Rightarrow> string option \<Rightarrow> 's \<Rightarrow> profile list" where
  "listMappingProfiles ops tenantId moduleName entityKey s =
     so_listMappingProfiles ops tenantId moduleName entityKey s"

subsection \<open>Bulk writes over any store\<close>

lemma fold_update_rows:
  "fold (\<lambda>(i, u). map (update_at i u)) ius rs = map (fold (\<lambda>(i, u). update_at i u) ius) rs"
  by (induction ius arbitrary: rs) auto

lemma fold_update_other:
  "s_id r \<notin> set (map fst ius) \<Longrightarrow> fold (\<lambda>(i, u). update_at i u) ius r = r"
  by (induction ius) (auto simp: update_at_other)

lemma fold_update_id: "s_id (fold (\<lambda>(i, u). update_at i u) ius r) = s_id r"
  by (induction ius arbitrary: r) auto

lemma fold_update_one:
  "distinct (map fst ius) \<Longrightarrow> (s_id r, u) \<in> set ius \<Longrightarrow> fold (\<lambda>(i, u). update_at i u) ius r = apply_row_set u r"
proof (induction ius arbitrary: r)
  case (Cons iu ius)
  obtain i v where iu: "iu = (i, v)" by force
  show ?case
  proof (cases "i = s_id r")
    case True
    then have "s_id r \<notin> set (map fst ius)" "v = u"
      using Cons.prems iu by (auto simp: image_iff)
    moreover from this have "fold (\<lambda>(i, u). update_at i u) ius (update_at i v r) = update_at i v r"
      by (intro fold_update_other) simp
    ultimately show ?thesis
      using True iu by (simp only: fold_simps comp_apply prod.case) (simp add: update_at_def)
  next
    case False
    then show ?thesis using Cons iu by (simp add: update_at_other)
  qed
qed simp

context staging_store
begin

lemma write_all_rows:
  assumes "good s"
  shows "rows (write_all ops n (map (\<lambda>(i, u). (id_query i, u)) ius) s)
      = fold (\<lambda>(i, u). map (update_at i u)) ius (rows s)
    \<and> good (write_all ops n (map (\<lambda>(i, u). (id_query i, u)) ius) s)
    \<and> job_of (write_all ops n (map (\<lambda>(i, u). (id_query i, u)) ius) s) = job_of s"
proof -
  have "rows (flush_ops ops (fold (push_op ops n) (map (\<lambda>(i, u). (id_query i, u)) ius)
        (s, map (\<lambda>(i, u). (id_query i, u)) buf))) = fold (\<lambda>(i, u). map (update_at i u)) (buf @ ius) (rows s)
    \<and> good (flush_ops ops (fold (push_op ops n) (map (\<lambda>(i, u). (id_query i, u)) ius)
        (s, map (\<lambda>(i, u). (id_query i, u)) buf)))
    \<and> job_of (flush_ops ops (fold (push_op ops n) (map (\<lambda>(i, u). (id_query i, u)) ius)
        (s, map (\<lambda>(i, u). (id_query i, u)) buf))) = job_of s" if "good s" for s buf
    using that
  proof (induction ius arbitrary: s buf)
    case Nil
    then show ?case
      using bulk_rows [OF Nil, of buf] bulk_good [OF Nil, of buf] bulk_jobs [of buf s]
      by (auto simp: flush_ops_def)
  next
    case (Cons iu ius)
    define s1 where "s1 = so_bulkWriteStaged ops (map (\<lambda>(i, u). (id_query i, u)) (buf @ [iu])) s"
    have s1: "good s1" "rows s1 = fold (\<lambda>(i, u). map (update_at i u)) (buf @ [iu]) (rows s)" "job_of s1 = job_of s"
      unfolding s1_def using bulk_good [OF Cons.prems, of "buf @ [iu]"] bulk_rows [OF Cons.prems, of "buf @ [iu]"]
        bulk_jobs [of "buf @ [iu]" s] by (simp_all only:)
    have push: "push_op ops n (case iu of (i, u) \<Rightarrow> (id_query i, u)) (s, map (\<lambda>(i, u). (id_query i, u)) buf)
      = (if n \<le> Suc (length buf) then (s1, map (\<lambda>(i, u). (id_query i, u)) []) else (s, map (\<lambda>(i, u). (id_query i, u)) (buf @ [iu])))"
      by (simp add: push_op_def Let_def s1_def)
    show ?case
      using Cons.IH [OF s1(1), of "[]"] Cons.IH [OF Cons.prems, of "buf @ [iu]"] s1(2,3)
      by (simp only: list.map fold_simps comp_apply push) (simp split: if_splits)
  qed
  from this [OF assms, of "[]"] show ?thesis
    unfolding write_all_def by simp
qed

text \<open>One update for each row of a job, computed from what the cursor hands out.\<close>

lemma write_job_rows:
  assumes good: "good s" and u: "\<And>r. f r = (id_query (s_id r), g r)"
  shows "rows (write_all ops n (map f (so_cursorStaged ops (job_query t i) None None s)) s)
      = map (\<lambda>r. if of_job t i r then apply_row_set (g (view r)) r else r) (rows s)
    \<and> good (write_all ops n (map f (so_cursorStaged ops (job_query t i) None None s)) s)
    \<and> job_of (write_all ops n (map f (so_cursorStaged ops (job_query t i) None None s)) s) = job_of s"
proof -
  define cs where "cs = so_cursorStaged ops (job_query t i) None None s"
  define ius where "ius = map (\<lambda>r. (s_id r, g r)) cs"
  have cs: "mset cs = mset (map view (filter (of_job t i) (rows s)))"
    using job_cursor [OF good] by (simp add: cs_def)
  have f: "map f cs = map (\<lambda>(i, u). (id_query i, u)) ius"
    by (simp add: ius_def u comp_def)
  have dist: "distinct (map fst ius)"
  proof -
    have "mset (map s_id cs) = mset (map s_id (filter (of_job t i) (rows s)))"
      using arg_cong [OF cs, of "image_mset s_id"] by (simp add: multiset.map_comp comp_def view_keeps)
    moreover have "distinct (map s_id (filter (of_job t i) (rows s)))"
      using distinct_ids [OF good] by (rule distinct_map_filter)
    ultimately have "distinct (map s_id cs)"
      using mset_eq_imp_distinct_iff by blast
    then show ?thesis by (simp add: ius_def comp_def)
  qed
  have set_cs: "set cs = view ` {r \<in> set (rows s). of_job t i r}"
    using arg_cong [OF cs, of set_mset] by auto
  have "fold (\<lambda>(i, u). update_at i u) ius r = (if of_job t i r then apply_row_set (g (view r)) r else r)"
    if r: "r \<in> set (rows s)" for r
  proof (cases "of_job t i r")
    case True
    then have "view r \<in> set cs"
      using r by (simp add: set_cs)
    then have "(s_id (view r), g (view r)) \<in> set ius"
      by (simp add: ius_def)
    then have "(s_id r, g (view r)) \<in> set ius"
      by (simp add: view_keeps)
    then show ?thesis using fold_update_one [OF dist] True by simp
  next
    case False
    have "s_id r \<notin> set (map fst ius)"
    proof
      assume "s_id r \<in> set (map fst ius)"
      then obtain x where x: "x \<in> set (rows s)" "of_job t i x" "s_id r = s_id x"
        by (auto simp: ius_def set_cs view_keeps)
      show False
        using same_row [OF good r x(1,3)] x(2) False by blast
    qed
    then show ?thesis using fold_update_other False by simp
  qed
  then show ?thesis
    using write_all_rows [OF good, of n ius] unfolding cs_def [symmetric] f
    by (simp add: fold_update_rows)
qed

end

end
