(* ===== verification/Validation.thy ===== *)
theory Validation
  imports Session MappingJob
begin

text \<open>
  core/validation/validateRows.js: the batched queries, the checks of one row, the pass over all
  rows of a job and the review screen's edit of a single row. Set and Map lookups compare dates by
  identity, so \<open>vmember\<close> finds none.
\<close>

subsection \<open>The checks of one row\<close>

definition required_keys :: "field list \<Rightarrow> string list" where
  "required_keys fs = map f_key (filter f_required fs)"

definition enum_fields :: "field list \<Rightarrow> (field \<times> val list) list" where
  "enum_fields fs =
     concat (map (\<lambda>f. case f_enum f of None \<Rightarrow> [] | Some vs \<Rightarrow> if vs = [] then [] else [(f, vs)]) fs)"

text \<open>\<open>fields.find((f) => f.key === key)?.label ?? key\<close>\<close>

definition label_of :: "field list \<Rightarrow> string \<Rightarrow> string" where
  "label_of fs key = (case find (\<lambda>f. f_key f = key) fs of None \<Rightarrow> key | Some f \<Rightarrow> f_label f)"

definition required_errors :: "field list \<Rightarrow> obj \<Rightarrow> row_error list" where
  "required_errors fs mf =
     map (\<lambda>key. RequiredMissing (label_of fs key)) (filter (\<lambda>key. blank (oget mf key)) (required_keys fs))"

definition enum_errors :: "field list \<Rightarrow> obj \<Rightarrow> row_error list" where
  "enum_errors fs mf =
     concat (map (\<lambda>(f, vs).
       (case oget mf (f_key f) of
          None \<Rightarrow> []
        | Some value \<Rightarrow>
            if blank (Some value) \<or> vmember value vs then [] else [NotInEnum (f_label f) value vs]))
       (enum_fields fs))"

text \<open>The duplicate checks, with the identity values seen so far and their new list.\<close>

definition identity_errors ::
  "js_env \<Rightarrow> string \<Rightarrow> val list \<Rightarrow> val list \<Rightarrow> val list \<Rightarrow> obj \<Rightarrow> row_error list \<times> val list" where
  "identity_errors env identityField duplicateIdentityValues existingIdentities seen mf =
     (case oget mf identityField of
        None \<Rightarrow> ([], seen)
      | Some identityValue \<Rightarrow>
          if identityValue = VNull then ([], seen)
          else
            let dup = vmember identityValue duplicateIdentityValues;
                e1 = (if dup \<and> vmember identityValue seen then [DuplicateInFile identityField] else []);
                e2 = (if vmember (VStr (js_str env identityValue)) existingIdentities
                      then [AlreadyExists identityField] else [])
            in (e1 @ e2, if dup then identityValue # seen else seen))"

definition reference_errors :: "field list \<Rightarrow> string list \<Rightarrow> lookups option \<Rightarrow> obj \<Rightarrow> row_error list" where
  "reference_errors fs referenceFields referenceLookups mf =
     (case referenceLookups of
        None \<Rightarrow> []
      | Some ls \<Rightarrow>
          concat (map (\<lambda>key.
            (case oget mf key of
               None \<Rightarrow> []
             | Some value \<Rightarrow>
                 if value = VNull \<or> vmember value (map fst (lookup_map ls key)) then []
                 else [ReferenceNotFound (label_of fs key) value])) referenceFields))"

text \<open>What the whole-file queries established.\<close>

record batch_facts =
  bf_duplicates :: "val list"
  bf_existing :: "val list"
  bf_lookups :: "lookups option"

definition row_errors ::
  "js_env \<Rightarrow> 'w target \<Rightarrow> batch_facts \<Rightarrow> val list \<Rightarrow> obj \<Rightarrow> row_error list \<times> val list" where
  "row_errors env descriptor facts seen mf =
     (case identity_errors env (d_identityField descriptor) (bf_duplicates facts) (bf_existing facts) seen mf of
        (es, seen') \<Rightarrow>
          (required_errors (d_fields descriptor) mf @ enum_errors (d_fields descriptor) mf @ es
             @ reference_errors (d_fields descriptor)
                 (case d_referenceFields descriptor of None \<Rightarrow> [] | Some fs \<Rightarrow> fs) (bf_lookups facts) mf,
           seen'))"

subsection \<open>The pass over all rows\<close>

definition VALIDATION_CHUNK :: nat where
  "VALIDATION_CHUNK = 500"

record 's validation_state =
  vs_store :: 's
  vs_bulk :: "(query \<times> row_set) list"
  vs_seen :: "val list"
  vs_valid :: nat
  vs_invalid :: nat

definition row_fields :: "srow \<Rightarrow> obj" where
  "row_fields record = (case s_mappedFields record of None \<Rightarrow> [] | Some m \<Rightarrow> m)"

definition validate_row ::
  "'s store_ops \<Rightarrow> js_env \<Rightarrow> 'w target \<Rightarrow> batch_facts \<Rightarrow> srow \<Rightarrow> 's validation_state \<Rightarrow> 's validation_state" where
  "validate_row ops env descriptor facts record st =
     (case row_errors env descriptor facts (vs_seen st) (row_fields record) of
        (errors, seen) \<Rightarrow>
          let validationStatus = (if errors \<noteq> [] then Invalid else Valid);
              op = (id_query (s_id record), SetValidation validationStatus errors)
          in (case push_op ops VALIDATION_CHUNK op (vs_store st, vs_bulk st) of
                (s, bulk) \<Rightarrow>
                  \<lparr>vs_store = s, vs_bulk = bulk, vs_seen = seen,
                   vs_valid = vs_valid st + (if errors = [] then 1 else 0),
                   vs_invalid = vs_invalid st + (if errors = [] then 0 else 1)\<rparr>))"

definition validate_rows ::
  "'s store_ops \<Rightarrow> js_env \<Rightarrow> 'w target \<Rightarrow> batch_facts \<Rightarrow> srow list \<Rightarrow> 's \<Rightarrow> 's \<times> nat \<times> nat" where
  "validate_rows ops env descriptor facts cursor s =
     (let st = fold (validate_row ops env descriptor facts) cursor
                 \<lparr>vs_store = s, vs_bulk = [], vs_seen = [], vs_valid = 0, vs_invalid = 0\<rparr>
      in (flush_ops ops (vs_store st, vs_bulk st), vs_valid st, vs_invalid st))"

subsection \<open>The batched queries\<close>

definition duplicate_pipeline :: "id \<Rightarrow> id \<Rightarrow> string \<Rightarrow> stage list" where
  "duplicate_pipeline tenantId importJobId identityField =
     [Match (job_query tenantId importJobId),
      GroupCount (''$mappedFields.'' @ identityField),
      Match [(''count'', Gt (Fin 1)), (''_id'', Ne VNull)]]"

definition duplicate_values :: "'s store_ops \<Rightarrow> id \<Rightarrow> id \<Rightarrow> string \<Rightarrow> 's \<Rightarrow> val list" where
  "duplicate_values ops tenantId importJobId identityField s =
     concat (map (\<lambda>g. case oget g ''_id'' of None \<Rightarrow> [] | Some v \<Rightarrow> [v])
       (so_aggregateStaged ops (duplicate_pipeline tenantId importJobId identityField) s))"

definition distinct_values :: "'s store_ops \<Rightarrow> id \<Rightarrow> id \<Rightarrow> string \<Rightarrow> 's \<Rightarrow> val list" where
  "distinct_values ops tenantId importJobId key s =
     filter (\<lambda>v. v \<noteq> VNull) (so_distinctStaged ops (identity_path key) (job_query tenantId importJobId) s)"

definition existing_values ::
  "'s store_ops \<Rightarrow> 'w target \<Rightarrow> id \<Rightarrow> id \<Rightarrow> 's \<Rightarrow> 'w \<Rightarrow> app_error err + val list" where
  "existing_values ops descriptor tenantId importJobId s w =
     (case d_findExistingIdentities descriptor of
        None \<Rightarrow> Inr []
      | Some findExisting \<Rightarrow>
          (case findExisting tenantId
                  (distinct_values ops tenantId importJobId (d_identityField descriptor) s) w of
             Inl e \<Rightarrow> Inl (Err None (LookupFailed (e_message e)))
           | Inr vs \<Rightarrow> Inr vs))"

text \<open>What the session found is added where a Map has no entry of its own.\<close>

definition merge_lookups :: "lookups \<Rightarrow> lookups \<Rightarrow> lookups" where
  "merge_lookups sessionResolved referenceLookups =
     fold (\<lambda>(fieldKey, fieldMap) ls.
       (case map_of ls fieldKey of
          None \<Rightarrow> oset fieldKey fieldMap ls
        | Some m \<Rightarrow>
            oset fieldKey
              (fold (\<lambda>(k, v) m. if vmember k (map fst m) then m else m @ [(k, v)]) fieldMap m) ls))
       sessionResolved referenceLookups"

definition reference_lookups ::
  "'s store_ops \<Rightarrow> 's mongo \<Rightarrow> 'w target \<Rightarrow> import_job \<Rightarrow> id \<Rightarrow> 's \<Rightarrow> 'w \<Rightarrow> app_error err + lookups option" where
  "reference_lookups ops db descriptor job tenantId s w =
     (case d_referenceFields descriptor of
        None \<Rightarrow> Inr None
      | Some [] \<Rightarrow> Inr None
      | Some referenceFields \<Rightarrow>
          let distinctValuesByKey = map (\<lambda>key. (key, distinct_values ops tenantId (j_id job) key s)) referenceFields in
          (case d_resolveReferences descriptor of
             None \<Rightarrow> Inl (Err None (NotAFunction ''descriptor.resolveReferences''))
           | Some resolveReferences \<Rightarrow>
               (case resolveReferences tenantId distinctValuesByKey w of
                  Inl e \<Rightarrow> Inl (Err None (LookupFailed (e_message e)))
                | Inr own \<Rightarrow>
                    (case j_sessionId job of
                       None \<Rightarrow> Inr (Some own)
                     | Some sessionId \<Rightarrow>
                         (case resolveSessionReferences db sessionId (Some referenceFields) (Inr own)
                                 distinctValuesByKey s of
                            Inl e \<Rightarrow> Inl e
                          | Inr sessionResolved \<Rightarrow> Inr (Some (merge_lookups sessionResolved own)))))))"

subsection \<open>validateImportJob\<close>

record validation_result =
  vr_job :: "import_job option"
  vr_validCount :: nat
  vr_invalidCount :: nat

text \<open>
  \<open>isObjectId\<close> says which strings the constructor of object ids accepts; it throws on the others.
  \<open>ops\<close> and \<open>db\<close> work on the same database.
\<close>

definition validateImportJob ::
  "'s store_ops \<Rightarrow> 's mongo \<Rightarrow> (id \<Rightarrow> bool) \<Rightarrow> js_env \<Rightarrow> 'w registry \<Rightarrow> id \<Rightarrow> id \<Rightarrow> 's \<Rightarrow> 'w
     \<Rightarrow> (validation_result, 's) reply" where
  "validateImportJob ops db isObjectId env reg tenantId importJobId s w =
     (case so_getJob ops tenantId importJobId s of
        Inl e \<Rightarrow> (Inl e, s)
      | Inr job \<Rightarrow>
          if j_status job \<notin> {Mapped, Validated}
          then (Inl (Err (Some 409) (WrongStatus (status_name (j_status job)))), s)
          else (case lift_err NoTarget (getTargetDescriptor (j_module job) (key_text (j_entityKey job)) reg) of
              Inl e \<Rightarrow> (Inl e, s)
            | Inr descriptor \<Rightarrow>
                if \<not> isObjectId tenantId then (Inl (Err None (NotAnObjectId tenantId)), s)
                else
                  let duplicates = duplicate_values ops tenantId (j_id job) (d_identityField descriptor) s in
                  (case existing_values ops descriptor tenantId (j_id job) s w of
                     Inl e \<Rightarrow> (Inl e, s)
                   | Inr existing \<Rightarrow>
                       (case reference_lookups ops db descriptor job tenantId s w of
                          Inl e \<Rightarrow> (Inl e, s)
                        | Inr lookups \<Rightarrow>
                            let cursor = so_cursorStaged ops (job_query tenantId (j_id job)) None None s;
                                facts = \<lparr>bf_duplicates = duplicates, bf_existing = existing, bf_lookups = lookups\<rparr>
                            in (case validate_rows ops env descriptor facts cursor s of
                                  (s, validCount, invalidCount) \<Rightarrow>
                                    (case so_updateJob ops tenantId (j_id job)
                                            [SetStatus Validated, SetCount ValidRows validCount,
                                             SetCount InvalidRows invalidCount] s of
                                       Inl e \<Rightarrow> (Inl e, s)
                                     | Inr (updatedJob, s) \<Rightarrow>
                                         (Inr \<lparr>vr_job = updatedJob, vr_validCount = validCount,
                                               vr_invalidCount = invalidCount\<rparr>, s)))))))"

definition getSampleErrors :: "'s store_ops \<Rightarrow> id \<Rightarrow> id \<Rightarrow> nat \<Rightarrow> 's \<Rightarrow> (nat \<times> row_error list) list" where
  "getSampleErrors ops tenantId importJobId limit s = so_findSampleErrors ops tenantId importJobId limit s"

subsection \<open>patchStagedRecordFields\<close>

text \<open>
  The stores answer a plain object for a row, without the methods of a Mongoose document: with
  overrides the call of \<open>markModified\<close> throws, without them the call of \<open>save\<close> does. What was
  changed on the object before is lost with it.
\<close>

definition row_id_query :: "id \<Rightarrow> id \<Rightarrow> id \<Rightarrow> query" where
  "row_id_query rowId tenantId importJobId =
     [(''_id'', Is (VStr rowId)), (''tenantId'', Is (VStr tenantId)), (''importJobId'', Is (VStr importJobId))]"

definition patch_value ::
  "js_env \<Rightarrow> field list \<Rightarrow> string \<times> val \<Rightarrow> obj option \<Rightarrow> app_error err + obj option" where
  "patch_value env fs = (\<lambda>(key, rawValue) mf.
     (case fields_by_key fs key of
        None \<Rightarrow> Inr mf
      | Some f \<Rightarrow>
          (case lift_err BadValue (coerceFieldValue env (f_type f) rawValue (f_label f)) of
             Inl e \<Rightarrow> Inl e
           | Inr v \<Rightarrow>
               (case mf of
                  None \<Rightarrow> Inl (Err None (NotAFunction ''record.mappedFields[key]''))
                | Some m \<Rightarrow> Inr (Some (oset key v m))))))"

definition patchStagedRecordFields ::
  "'s store_ops \<Rightarrow> js_env \<Rightarrow> 'w registry \<Rightarrow> id \<Rightarrow> id \<Rightarrow> id \<Rightarrow> obj option \<Rightarrow> bool \<Rightarrow> 's
     \<Rightarrow> (srow, 's) reply" where
  "patchStagedRecordFields ops env reg tenantId importJobId rowId overrides exclude s =
     (case so_getJob ops tenantId importJobId s of
        Inl e \<Rightarrow> (Inl e, s)
      | Inr job \<Rightarrow>
          (case lift_err NoTarget (getTargetDescriptor (j_module job) (key_text (j_entityKey job)) reg) of
             Inl e \<Rightarrow> (Inl e, s)
           | Inr descriptor \<Rightarrow>
               (case so_findOneStaged ops (row_id_query rowId tenantId (j_id job)) s of
                  None \<Rightarrow> (Inl (Err (Some 404) RowNotFound), s)
                | Some record \<Rightarrow>
                    (case overrides of
                       Some kvs \<Rightarrow>
                         let invalidKeys = filter (\<lambda>k. fields_by_key (d_fields descriptor) k = None) (akeys kvs) in
                         if invalidKeys \<noteq> []
                         then (Inl (Err (Some 400) (UnknownTargetFields invalidKeys)), s)
                         else (case try_fold (patch_value env (d_fields descriptor)) kvs (s_mappedFields record) of
                             Inl e \<Rightarrow> (Inl e, s)
                           | Inr _ \<Rightarrow> (Inl (Err None (NotAFunction ''record.markModified'')), s))
                     | None \<Rightarrow>
                         if \<not> exclude \<and> s_mappedFields record = None
                            \<and> (required_keys (d_fields descriptor) \<noteq> [] \<or> enum_fields (d_fields descriptor) \<noteq> [])
                         then (Inl (Err None (NotAFunction ''record.mappedFields[key]'')), s)
                         else (Inl (Err None (NotAFunction ''record.save'')), s)))))"

end
