(* ===== verification/ImportService.thy ===== *)
theory ImportService
  imports Session
begin

text \<open>
  orchestration/migrationImport.service.js, the services that take a file in: over the server (shared
  tier) or through a signed upload (tenants with their own database); storage/adapters/localFsAdapter.js,
  the storage they are wired to, and gcsAdapter.js; topology's test for an own database and the in-memory queue. The
  file system and Node's \<open>path.join\<close> are a record of functions; \<open>msg\<close> is the wording of errors.
\<close>

subsection \<open>Storage\<close>

record upload_file =
  uf_originalname :: "string option"
  uf_mimetype :: string
  uf_path :: string
  uf_size :: jsnum

record upload_target =
  ut_uploadUrl :: string
  ut_objectPath :: string
  ut_bucketName :: string

text \<open>
  A storage adapter. The answer of \<open>upload\<close> is an object, here the list of its properties;
  \<open>verifyUpload\<close> answers the size of the file when it exists.
\<close>

record storage =
  st_upload :: "upload_file \<Rightarrow> string \<Rightarrow> app_error err + (string \<times> string) list"
  st_download :: "string \<Rightarrow> string \<Rightarrow> string option \<Rightarrow> app_error err + string"
  st_generateUploadUrl :: "id \<Rightarrow> id \<Rightarrow> string \<Rightarrow> app_error err + upload_target"
  st_verifyUpload :: "string \<Rightarrow> string \<Rightarrow> app_error err + jsnum option"
  st_triggerProcessingJob :: "id \<Rightarrow> id \<Rightarrow> string \<Rightarrow> string \<Rightarrow> app_error err + string"

record file_system =
  fs_exists :: "string \<Rightarrow> bool"
  fs_size :: "string \<Rightarrow> jsnum"
  fs_copy :: "string \<Rightarrow> string \<Rightarrow> bool"
  fs_join :: "string \<Rightarrow> string \<Rightarrow> string"
  fs_now :: string

definition or_str :: "string option \<Rightarrow> string \<Rightarrow> string" where
  "or_str v d = (if absent_or_empty v then d else the v)"

definition storage_dir :: "process_env \<Rightarrow> string" where
  "storage_dir penv = env_str penv ''LOCAL_STORAGE_DIR'' ''./tmp/uploads''"

definition localFs_upload ::
  "process_env \<Rightarrow> file_system \<Rightarrow> upload_file \<Rightarrow> string \<Rightarrow> app_error err + (string \<times> string) list" where
  "localFs_upload penv fs file destPrefix =
     (let dir = fs_join fs (storage_dir penv) destPrefix;
          dest = fs_join fs dir (or_str (uf_originalname file) (''import-'' @ fs_now fs))
      in if fs_copy fs (uf_path file) dest
         then Inr [(''publicId'', dest), (''secureUrl'', dest), (''url'', dest)]
         else Inl (Err None (StorageFailed (uf_path file))))"

definition localFs_download ::
  "file_system \<Rightarrow> string \<Rightarrow> string \<Rightarrow> string option \<Rightarrow> app_error err + string" where
  "localFs_download fs bucket path destPath =
     (let base = last (split_on (CHR ''/'') path);
          destPath = or_str destPath (''/tmp/'' @ (if base = [] then ''import-'' @ fs_now fs else base));
          src = fs_join fs bucket path
      in if \<not> fs_exists fs src then Inl (Err None (StorageFailed src))
         else if fs_copy fs src destPath then Inr destPath
         else Inl (Err None (StorageFailed src)))"

definition localFs_generateUploadUrl ::
  "process_env \<Rightarrow> id \<Rightarrow> id \<Rightarrow> string \<Rightarrow> app_error err + upload_target" where
  "localFs_generateUploadUrl penv tenantId importJobId fileName =
     (let path = tenantId @ ''/'' @ importJobId @ ''/'' @ fileName
      in Inr \<lparr>ut_uploadUrl = ''local://'' @ path, ut_objectPath = path, ut_bucketName = storage_dir penv\<rparr>)"

definition localFs_verifyUpload :: "file_system \<Rightarrow> string \<Rightarrow> string \<Rightarrow> app_error err + jsnum option" where
  "localFs_verifyUpload fs bucket path =
     (let fullPath = fs_join fs bucket path
      in if \<not> fs_exists fs fullPath then Inr None else Inr (Some (fs_size fs fullPath)))"

definition localFsStorageAdapter :: "process_env \<Rightarrow> file_system \<Rightarrow> storage" where
  "localFsStorageAdapter penv fs =
     \<lparr>st_upload = localFs_upload penv fs, st_download = localFs_download fs,
      st_generateUploadUrl = localFs_generateUploadUrl penv, st_verifyUpload = localFs_verifyUpload fs,
      st_triggerProcessingJob = (\<lambda>tenantId importJobId bucket path.
        Inr (''local-'' @ tenantId @ ''-'' @ importJobId))\<rparr>"

text \<open>
  storage/adapters/gcsAdapter.js over the clients of Cloud Storage and Cloud Run, whose calls are the
  fields of a record. Starting a processing job names the Cloud Run job and passes nothing on.
\<close>

record gcs_client =
  gc_upload :: "string \<Rightarrow> string \<Rightarrow> string \<Rightarrow> bool"
  gc_download :: "string \<Rightarrow> string \<Rightarrow> string \<Rightarrow> bool"
  gc_signedUrl :: "string \<Rightarrow> string \<Rightarrow> app_error err + string"
  gc_metadata :: "string \<Rightarrow> string \<Rightarrow> app_error err + jsnum option"
  gc_runJob :: "string \<Rightarrow> app_error err + string"

definition gcs_upload ::
  "process_env \<Rightarrow> gcs_client \<Rightarrow> string \<Rightarrow> upload_file \<Rightarrow> string \<Rightarrow> app_error err + (string \<times> string) list" where
  "gcs_upload penv gcs now file destPrefix =
     (if absent_or_empty (penv ''GCS_BUCKET_NAME'') then Inl (Err None (MissingEnv ''GCS_BUCKET_NAME''))
      else
        let bucket = the (penv ''GCS_BUCKET_NAME'');
            destPath = destPrefix @ ''/'' @ or_str (uf_originalname file) (''import-'' @ now)
        in if gc_upload gcs bucket destPath (uf_path file)
           then Inr [(''publicId'', destPath), (''secureUrl'', ''gs://'' @ bucket @ ''/'' @ destPath),
                     (''url'', ''https://storage.googleapis.com/'' @ bucket @ ''/'' @ destPath)]
           else Inl (Err None (StorageFailed (uf_path file))))"

definition gcs_download ::
  "gcs_client \<Rightarrow> string \<Rightarrow> string \<Rightarrow> string \<Rightarrow> string option \<Rightarrow> app_error err + string" where
  "gcs_download gcs now bucket path destPath =
     (let base = last (split_on (CHR ''/'') path);
          destPath = or_str destPath (''/tmp/'' @ (if base = [] then ''import-'' @ now else base))
      in if gc_download gcs bucket path destPath then Inr destPath else Inl (Err None (StorageFailed path)))"

definition gcs_generateUploadUrl ::
  "process_env \<Rightarrow> gcs_client \<Rightarrow> id \<Rightarrow> id \<Rightarrow> string \<Rightarrow> app_error err + upload_target" where
  "gcs_generateUploadUrl penv gcs tenantId importJobId fileName =
     (if absent_or_empty (penv ''GCS_BUCKET_NAME'') then Inl (Err None (MissingEnv ''GCS_BUCKET_NAME''))
      else
        let bucket = the (penv ''GCS_BUCKET_NAME''); path = tenantId @ ''/'' @ importJobId @ ''/'' @ fileName
        in (case gc_signedUrl gcs bucket path of
              Inl e \<Rightarrow> Inl e
            | Inr addr \<Rightarrow> Inr \<lparr>ut_uploadUrl = addr, ut_objectPath = path, ut_bucketName = bucket\<rparr>))"

definition gcs_triggerProcessingJob ::
  "process_env \<Rightarrow> gcs_client \<Rightarrow> id \<Rightarrow> id \<Rightarrow> string \<Rightarrow> string \<Rightarrow> app_error err + string" where
  "gcs_triggerProcessingJob penv gcs tenantId importJobId bucket path =
     gc_runJob gcs
       (''projects/'' @ env_str penv ''GCP_PROJECT_ID'' [] @ ''/locations/''
        @ env_str penv ''GCP_REGION'' ''us-central1'' @ ''/jobs/'' @ env_str penv ''CLOUD_RUN_JOB'' [])"

definition gcsStorageAdapter :: "process_env \<Rightarrow> gcs_client \<Rightarrow> string \<Rightarrow> storage" where
  "gcsStorageAdapter penv gcs now =
     \<lparr>st_upload = gcs_upload penv gcs now, st_download = gcs_download gcs now,
      st_generateUploadUrl = gcs_generateUploadUrl penv gcs, st_verifyUpload = gc_metadata gcs,
      st_triggerProcessingJob = gcs_triggerProcessingJob penv gcs\<rparr>"

subsection \<open>Topology and the in-memory queue\<close>

definition hasOwnDatabase :: "string \<Rightarrow> bool" where
  "hasOwnDatabase mode \<longleftrightarrow> mode = ''dedicated'' \<or> mode = ''byod''"

text \<open>The queue is its handler, a function on some state that may throw.\<close>

type_synonym 's handler = "id \<Rightarrow> id \<Rightarrow> 's \<Rightarrow> (unit, 's) reply"

definition queue_enqueue :: "'s handler option \<Rightarrow> id \<Rightarrow> id \<Rightarrow> 's \<Rightarrow> (unit, 's) reply" where
  "queue_enqueue hnd tenantId importJobId s =
     (case hnd of None \<Rightarrow> (Inr (), s) | Some h \<Rightarrow> h tenantId importJobId s)"

definition queue_startConsumer :: "'s handler \<Rightarrow> 's handler option \<Rightarrow> 's handler option" where
  "queue_startConsumer handler hnd = Some handler"

definition queue_stopConsumer :: "'s handler option \<Rightarrow> 's handler option" where
  "queue_stopConsumer hnd = None"

subsection \<open>The format of an upload\<close>

definition CSV_MIME_TYPES :: "string list" where
  "CSV_MIME_TYPES = [''text/csv'', ''application/vnd.ms-excel'', ''text/plain'']"

definition JSON_MIME_TYPES :: "string list" where
  "JSON_MIME_TYPES = [''application/json'', ''text/plain'']"

definition EXCEL_MIME_TYPES :: "string list" where
  "EXCEL_MIME_TYPES = [''application/vnd.openxmlformats-officedocument.spreadsheetml.sheet'']"

definition SQL_MIME_TYPES :: "string list" where
  "SQL_MIME_TYPES = [''application/sql'', ''text/x-sql'']"

definition detectUploadFormat :: "upload_file \<Rightarrow> app_error err + string" where
  "detectUploadFormat file =
     (let name = or_str (uf_originalname file) [] in
      if has_ext ''json'' name then Inr ''json''
      else if has_ext ''xlsx'' name \<or> uf_mimetype file \<in> set EXCEL_MIME_TYPES then Inr ''excel''
      else if has_ext ''xls'' name then Inr ''excel''
      else if has_ext ''csv'' name then Inr ''csv''
      else if has_ext ''sql'' name \<or> uf_mimetype file \<in> set SQL_MIME_TYPES then Inr ''sql''
      else if uf_mimetype file \<in> set JSON_MIME_TYPES then Inr ''json''
      else if uf_mimetype file \<in> set CSV_MIME_TYPES then Inr ''csv''
      else Inl (Err (Some 400) (UnsupportedUpload (uf_originalname file) (uf_mimetype file))))"

subsection \<open>createImportJob\<close>

text \<open>Errors of the parser that carry no status become a 400; others are passed on.\<close>

definition parse_failure :: "string \<Rightarrow> parse_error err \<Rightarrow> app_error err" where
  "parse_failure sourceFormat e =
     (case status_code e of
        Some (Suc c) \<Rightarrow> Err (Some (Suc c)) (BadFile (err_msg e))
      | _ \<Rightarrow> Err (Some 400) (ParseFailed sourceFormat (err_msg e)))"

definition zero_counts :: job_counts where
  "zero_counts = \<lparr>totalRows = 0, stagedRows = 0, validRows = 0, invalidRows = 0, committedRows = 0,
     skippedRows = 0, commitFailedRows = 0, errorRows = 0\<rparr>"

text \<open>A job as the schema fills it in.\<close>

definition blank_job :: "id \<Rightarrow> id \<Rightarrow> string \<Rightarrow> string \<Rightarrow> string option \<Rightarrow> job_file \<Rightarrow> id option \<Rightarrow> import_job" where
  "blank_job i tenantId moduleName sourceFormat sqlTable file createdBy =
     \<lparr>j_id = i, j_tenantId = tenantId, j_module = moduleName, j_entityKey = None, j_sessionId = None,
      j_mappingProfileId = None, j_fieldMap = None, j_sourceFormat = sourceFormat, j_sqlTable = sqlTable,
      j_status = Uploaded, j_startedAt = None, j_completedAt = None, j_mode = None, j_file = file,
      j_counts = zero_counts,
      j_guardrail = \<lparr>g_passed = None, g_reason = None, g_limit = None, g_checkedAt = None, g_upgrade = None\<rparr>,
      j_gcs = \<lparr>objectPath = None, bucketName = None, executionName = None\<rparr>,
      j_error = None, j_createdBy = createdBy, j_dotted = []\<rparr>"

definition guardrail_doc :: "('a verdict_scheme) \<Rightarrow> int \<Rightarrow> job_guardrail" where
  "guardrail_doc v now =
     \<lparr>g_passed = Some (allowed v), g_reason = v_reason v, g_limit = Some (v_limit v),
      g_checkedAt = Some now, g_upgrade = map_option rej_upgrade (v_details v)\<rparr>"

definition stageAll :: "'s mongo \<Rightarrow> id \<Rightarrow> id \<Rightarrow> obj list \<Rightarrow> 's \<Rightarrow> app_error err option \<times> 's" where
  "stageAll db tenantId importJobId records s =
     (if records = [] then (None, s) else db_insertRows db (staged_docs tenantId importJobId 0 records) s)"

definition save_reply :: "'s mongo \<Rightarrow> import_job \<Rightarrow> 's \<Rightarrow> (import_job, 's) reply" where
  "save_reply db job s = (case save_job db job s of Inl e \<Rightarrow> (Inl e, s) | Inr s' \<Rightarrow> (Inr job, s'))"

text \<open>The catch block of the staging step.\<close>

definition mark_failed ::
  "'s mongo \<Rightarrow> (app_error err \<Rightarrow> string) \<Rightarrow> import_job \<Rightarrow> app_error err \<Rightarrow> 's \<Rightarrow> (import_job, 's) reply" where
  "mark_failed db msg job e s = save_reply db (job\<lparr>j_status := Failed, j_error := Some (msg e)\<rparr>) s"

definition stage_job ::
  "'s mongo \<Rightarrow> (app_error err \<Rightarrow> string) \<Rightarrow> import_job \<Rightarrow> obj list \<Rightarrow> 's \<Rightarrow> (import_job, 's) reply" where
  "stage_job db msg job records s =
     (case stageAll db (j_tenantId job) (j_id job) records s of
        (Some e, s) \<Rightarrow> mark_failed db msg job e s
      | (None, s) \<Rightarrow>
          let job = job\<lparr>j_status := Staged, j_counts := (j_counts job)\<lparr>stagedRows := length records\<rparr>\<rparr>
          in (case save_job db job s of Inl e \<Rightarrow> mark_failed db msg job e s | Inr s \<Rightarrow> (Inr job, s)))"

text \<open>\<open>None\<close> when the parser never settles.\<close>

definition createImportJob ::
  "'s mongo \<Rightarrow> process_env \<Rightarrow> libs \<Rightarrow> storage \<Rightarrow> (app_error err \<Rightarrow> string) \<Rightarrow> int \<Rightarrow> id \<Rightarrow> string \<Rightarrow> upload_file
     \<Rightarrow> id option \<Rightarrow> string option \<Rightarrow> 's \<Rightarrow> (import_job, 's) reply option" where
  "createImportJob db penv L storageAdapter msg now tenantId moduleName file createdBy sqlTable s =
     (case detectUploadFormat file of
        Inl e \<Rightarrow> Some (Inl e, s)
      | Inr sourceFormat \<Rightarrow>
          (case checkGuardrailStreaming penv L tenantId (uf_path file) sourceFormat sqlTable of
             None \<Rightarrow> None
           | Some (Inl e) \<Rightarrow> Some (Inl (parse_failure sourceFormat e), s)
           | Some (Inr guardrail) \<Rightarrow>
               let records = (case s_records guardrail of None \<Rightarrow> [] | Some rs \<Rightarrow> rs) in
               (case st_upload storageAdapter file (''migration-imports/'' @ tenantId) of
                  Inl e \<Rightarrow> Some (Inl e, s)
                | Inr uploaded \<Rightarrow>
                    (case db_objectId db s of (i, s) \<Rightarrow>
                       let job = (blank_job i tenantId moduleName sourceFormat (s_tableName guardrail)
                             \<lparr>originalName = or_str (uf_originalname file) [],
                              publicId = map_of uploaded ''public_id'', url = map_of uploaded ''secure_url'',
                              sizeBytes = uf_size file\<rparr> createdBy)
                             \<lparr>j_status := (if allowed guardrail then Uploaded else GuardrailRejected),
                              j_counts := zero_counts\<lparr>totalRows := length records\<rparr>,
                              j_guardrail := guardrail_doc guardrail now\<rparr>
                       in Some
                         (case save_job db job s of
                            Inl e \<Rightarrow> (Inl e, s)
                          | Inr s \<Rightarrow>
                              if \<not> allowed guardrail then (Inr job, s) else stage_job db msg job records s)))))"

subsection \<open>Reading jobs and rows\<close>

definition getImportJob :: "'s mongo \<Rightarrow> id \<Rightarrow> id \<Rightarrow> 's \<Rightarrow> app_error err + import_job" where
  "getImportJob db tenantId importJobId s =
     (case db_job db (id_tenant_query importJobId tenantId) s of
        None \<Rightarrow> Inl (Err (Some 404) JobNotFound)
      | Some job \<Rightarrow> Inr job)"

definition listStagedRows ::
  "'s mongo \<Rightarrow> js_env \<Rightarrow> id \<Rightarrow> id \<Rightarrow> string option \<Rightarrow> val option \<Rightarrow> val option \<Rightarrow> 's \<Rightarrow> srow listing" where
  "listStagedRows db env tenantId importJobId status pg lmt s =
     (let flt = job_query tenantId importJobId
            @ (if absent_or_empty status then [] else [(''validationStatus'', Is (VStr (the status)))]);
          p = numericPage env pg;
          l = numericLimit env 200 lmt
      in \<lparr>ls_items = db_rows db flt (Some ''rowIndex'') (page_skip p l) (Some l) s,
          ls_total = db_countRows db flt s, ls_page = p, ls_limit = l\<rparr>)"

definition listImportJobs ::
  "'s mongo \<Rightarrow> js_env \<Rightarrow> id \<Rightarrow> string option \<Rightarrow> val option \<Rightarrow> val option \<Rightarrow> 's \<Rightarrow> import_job listing" where
  "listImportJobs db env tenantId status pg lmt s =
     (let flt = status_filter ''status'' tenantId status;
          p = numericPage env pg;
          l = numericLimit env 100 lmt
      in \<lparr>ls_items = db_jobs db flt (page_skip p l) l s, ls_total = db_countJobs db flt s,
          ls_page = p, ls_limit = l\<rparr>)"

subsection \<open>Signed uploads\<close>

definition is_alnum :: "char \<Rightarrow> bool" where
  "is_alnum c \<longleftrightarrow> is_alnum_lower (lower_char c)"

text \<open>\<open>fileName.match(/\.([a-z0-9]+)$/i)\<close>\<close>

definition file_extension :: "string \<Rightarrow> string option" where
  "file_extension fileName =
     (let parts = split_on (CHR ''.'') fileName; ext = last parts
      in if length parts > 1 \<and> ext \<noteq> [] \<and> list_all is_alnum ext then Some (to_lower ext) else None)"

definition extension_format :: "string \<Rightarrow> string option" where
  "extension_format ext =
     (if ext = ''csv'' then Some ''csv''
      else if ext = ''json'' then Some ''json''
      else if ext = ''xlsx'' \<or> ext = ''xls'' then Some ''excel''
      else if ext = ''sql'' then Some ''sql''
      else None)"

definition name_format :: "string \<Rightarrow> app_error err + string" where
  "name_format fileName =
     (case file_extension fileName of
        None \<Rightarrow> Inl (Err (Some 400) (UnsupportedUpload (Some fileName) []))
      | Some ext \<Rightarrow>
          (case extension_format ext of
             None \<Rightarrow> Inl (Err (Some 400) (UnsupportedUpload (Some fileName) ext))
           | Some fmt \<Rightarrow> Inr fmt))"

definition createImportJobDedicated ::
  "'s mongo \<Rightarrow> process_env \<Rightarrow> storage \<Rightarrow> id \<Rightarrow> string \<Rightarrow> string \<Rightarrow> id option \<Rightarrow> jsnum option \<Rightarrow> string option
     \<Rightarrow> 's \<Rightarrow> (import_job \<times> upload_target, 's) reply" where
  "createImportJobDedicated db penv storageAdapter tenantId moduleName fileName createdBy fileSizeBytes sqlTable s =
     (let mode = storageMode (envTierPolicy_resolve penv tenantId) in
      if \<not> hasOwnDatabase mode then (Inl (Err (Some 400) (NoOwnDatabase mode)), s)
      else
        let sizeCheck = checkImportFileSize penv tenantId fileSizeBytes in
        if fileSizeBytes \<noteq> None \<and> \<not> allowed sizeCheck
        then (Inl (Err (Some 413) (OverByteLimit (v_reason sizeCheck) (v_details sizeCheck))), s)
        else (case name_format fileName of
            Inl e \<Rightarrow> (Inl e, s)
          | Inr sourceFormat \<Rightarrow>
              (case db_objectId db s of (importJobId, s) \<Rightarrow>
                 (case st_generateUploadUrl storageAdapter tenantId importJobId fileName of
                    Inl e \<Rightarrow> (Inl e, s)
                  | Inr t \<Rightarrow>
                      let job = (blank_job importJobId tenantId moduleName sourceFormat sqlTable
                            \<lparr>originalName = fileName, publicId = None, url = None, sizeBytes = Fin 0\<rparr> createdBy)
                            \<lparr>j_status := PendingUpload,
                             j_gcs := \<lparr>objectPath = Some (ut_objectPath t), bucketName = Some (ut_bucketName t),
                                       executionName = None\<rparr>\<rparr>
                      in (case save_job db job s of
                            Inl e \<Rightarrow> (Inl e, s)
                          | Inr s \<Rightarrow> (Inr (job, t), s))))))"

definition completeImportUpload ::
  "'s mongo \<Rightarrow> process_env \<Rightarrow> storage \<Rightarrow> int \<Rightarrow> id \<Rightarrow> id \<Rightarrow> 's \<Rightarrow> (import_job \<times> string, 's) reply" where
  "completeImportUpload db penv storageAdapter now tenantId importJobId s =
     (case db_job db (id_tenant_query importJobId tenantId) s of
        None \<Rightarrow> (Inl (Err (Some 404) JobNotFound), s)
      | Some job \<Rightarrow>
          if j_status job \<noteq> PendingUpload
          then (Inl (Err (Some 409) (WrongStatus (status_name (j_status job)))), s)
          else if absent_or_empty (objectPath (j_gcs job)) \<or> absent_or_empty (bucketName (j_gcs job))
          then (Inl (Err (Some 400) NoObjectPath), s)
          else
            let bucket = the (bucketName (j_gcs job)); path = the (objectPath (j_gcs job)) in
            (case st_verifyUpload storageAdapter bucket path of
               Inl e \<Rightarrow> (Inl e, s)
             | Inr None \<Rightarrow> (Inl (Err (Some 400) UploadMissing), s)
             | Inr (Some sz) \<Rightarrow>
                 let sizeCheck = checkImportFileSize penv tenantId (Some sz);
                     job = job\<lparr>j_file := (j_file job)\<lparr>sizeBytes := sz\<rparr>\<rparr>
                 in if \<not> allowed sizeCheck
                    then (case save_job db (job\<lparr>j_status := GuardrailRejected,
                                               j_guardrail := guardrail_doc sizeCheck now\<rparr>) s of
                            Inl e \<Rightarrow> (Inl e, s)
                          | Inr s \<Rightarrow>
                              (Inl (Err (Some 413) (OverByteLimit (v_reason sizeCheck) (v_details sizeCheck))), s))
                    else
                      let job = job\<lparr>j_status := Uploaded\<rparr> in
                      (case save_job db job s of
                         Inl e \<Rightarrow> (Inl e, s)
                       | Inr s \<Rightarrow>
                           (case st_triggerProcessingJob storageAdapter tenantId (j_id job) bucket path of
                              Inl e \<Rightarrow> (Inl e, s)
                            | Inr exec \<Rightarrow>
                                let job = job\<lparr>j_gcs := (j_gcs job)\<lparr>executionName := Some exec\<rparr>\<rparr> in
                                (case save_job db job s of
                                   Inl e \<Rightarrow> (Inl e, s)
                                 | Inr s \<Rightarrow> (Inr (job, exec), s))))))"

end
