(* ===== verification/Commit.thy ===== *)
theory Commit
  imports MemStore
begin

text \<open>
  core/commit: the commit engine (commitBatch.js, idempotency.js) and the worker that runs it in
  chunks (worker/bullmqCommitWorker.js). A store is a state \<open>'s\<close> behind \<open>store_ops\<close>, the
  business data a descriptor's \<open>commitRow\<close> writes is a state \<open>'w\<close>.
\<close>

subsection \<open>Idempotency\<close>

definition isDuplicateKeyError :: "db_error \<Rightarrow> bool" where
  "isDuplicateKeyError err \<longleftrightarrow>
     e_code err = Some 11000 \<or> e_code err = Some 11001 \<or> str_includes (e_message err) ''E11000''"

text \<open>
  A connection: the answer cached on it, and the topology type its client reports (\<open>None\<close> when
  there is no client or asking throws).
\<close>

record connection =
  cn_cached :: "bool option"
  cn_topology :: "string option"

definition connectionSupportsTransactions :: "connection \<Rightarrow> bool \<times> connection" where
  "connectionSupportsTransactions conn =
     (case cn_cached conn of
        Some b \<Rightarrow> (b, conn)
      | None \<Rightarrow>
          let supported = (case cn_topology conn of
                None \<Rightarrow> False
              | Some ty \<Rightarrow> ty \<in> {''ReplicaSetWithPrimary'', ''Sharded'', ''LoadBalanced''})
          in (supported, conn\<lparr>cn_cached := Some supported\<rparr>))"

subsection \<open>commitBatch\<close>

text \<open>
  One row of the transactional path. \<open>withTransaction\<close> makes the entity write and the status
  flip one atomic step and undoes the entity write when \<open>commitRow\<close> throws.
\<close>

type_synonym ('s, 'w) progress = "'s \<times> 'w \<times> nat \<times> nat"

definition mark :: "'s store_ops \<Rightarrow> srow \<Rightarrow> row_set \<Rightarrow> 's \<Rightarrow> 's" where
  "mark ops record u s = so_updateOneStaged ops (id_query (s_id record)) u s"

definition commit_row_txn ::
  "'s store_ops \<Rightarrow> 'w target \<Rightarrow> id \<Rightarrow> id option \<Rightarrow> srow \<Rightarrow> ('s, 'w) progress \<Rightarrow> ('s, 'w) progress" where
  "commit_row_txn ops descriptor tenantId actorId record =
     (\<lambda>(s, w, committed, failed).
       (case d_commitRow descriptor tenantId (s_mappedFields record) actorId w of
          (Inr (entityId, entityModel), w') \<Rightarrow>
            (mark ops record (SetCommitted entityId entityModel) s, w', committed + 1, failed)
        | (Inl err, w') \<Rightarrow>
            (mark ops record (SetCommitFailed (e_message err)) s, w, committed, failed + 1)))"

text \<open>One row of the other path: reserve it, write the entity, record the outcome.\<close>

definition commit_row ::
  "'s store_ops \<Rightarrow> 'w target \<Rightarrow> id \<Rightarrow> id option \<Rightarrow> srow \<Rightarrow> ('s, 'w) progress \<Rightarrow> ('s, 'w) progress" where
  "commit_row ops descriptor tenantId actorId record =
     (\<lambda>(s, w, committed, failed).
       (let wasReserved = (s_commitStatus record = RowCommitting);
            s = mark ops record SetCommitting s in
        case d_commitRow descriptor tenantId (s_mappedFields record) actorId w of
          (Inr (entityId, entityModel), w') \<Rightarrow>
            (mark ops record (SetCommitted entityId entityModel) s, w', committed + 1, failed)
        | (Inl err, w') \<Rightarrow>
            if isDuplicateKeyError err \<and> wasReserved
            then (mark ops record SetCommittedEarlier s, w', committed + 1, failed)
            else (mark ops record (SetCommitFailed (e_message err)) s, w', committed, failed + 1)))"

definition commit_one ::
  "'s store_ops \<Rightarrow> bool \<Rightarrow> 'w target \<Rightarrow> id \<Rightarrow> id option \<Rightarrow> srow \<Rightarrow> ('s, 'w) progress \<Rightarrow> ('s, 'w) progress" where
  "commit_one ops useTransaction =
     (if useTransaction then commit_row_txn ops else commit_row ops)"

record batch_result =
  b_committed :: nat
  b_failed :: nat
  b_processed :: nat

definition use_transaction :: "'w target \<Rightarrow> connection \<Rightarrow> bool" where
  "use_transaction descriptor conn \<longleftrightarrow>
     d_commitInTransaction descriptor \<and> fst (connectionSupportsTransactions conn)"

definition commitBatch ::
  "'s store_ops \<Rightarrow> connection \<Rightarrow> id \<Rightarrow> id \<Rightarrow> 'w target \<Rightarrow> id option \<Rightarrow> nat option \<Rightarrow> 's \<times> 'w
     \<Rightarrow> app_error err + (batch_result \<times> 's \<times> 'w)" where
  "commitBatch ops conn tenantId importJobId descriptor actorId limit = (\<lambda>(s, w).
     (case so_getJob ops tenantId importJobId s of
        Inl e \<Rightarrow> Inl e
      | Inr _ \<Rightarrow>
          let cursor = so_cursorStaged ops (commit_query tenantId importJobId) (Some ''rowIndex'') limit s
          in (case fold (commit_one ops (use_transaction descriptor conn) descriptor tenantId actorId)
                     cursor (s, w, 0, 0) of
                (s', w', committed, failed) \<Rightarrow>
                  Inr (\<lparr>b_committed = committed, b_failed = failed,
                        b_processed = committed + failed\<rparr>, s', w'))))"

text \<open>
  A process that dies inside \<open>commitBatch\<close>: between two rows, and on the path without transactions
  also after a row was reserved, or after its entity write was done or refused and before the
  outcome was recorded.
\<close>

inductive crash ::
  "'s store_ops \<Rightarrow> connection \<Rightarrow> id \<Rightarrow> id \<Rightarrow> 'w target \<Rightarrow> id option \<Rightarrow> 's \<times> 'w \<Rightarrow> 's \<times> 'w \<Rightarrow> bool"
  for ops conn tenantId importJobId descriptor actorId where
  crash_between:
    "so_cursorStaged ops (commit_query tenantId importJobId) (Some ''rowIndex'') None s = before @ after \<Longrightarrow>
     fold (commit_one ops (use_transaction descriptor conn) descriptor tenantId actorId) before (s, w, 0, 0)
       = (s', w', c, f) \<Longrightarrow>
     crash ops conn tenantId importJobId descriptor actorId (s, w) (s', w')"
| crash_reserved:
    "so_cursorStaged ops (commit_query tenantId importJobId) (Some ''rowIndex'') None s = before @ r # after \<Longrightarrow>
     \<not> use_transaction descriptor conn \<Longrightarrow>
     fold (commit_one ops (use_transaction descriptor conn) descriptor tenantId actorId) before (s, w, 0, 0)
       = (s', w', c, f) \<Longrightarrow>
     crash ops conn tenantId importJobId descriptor actorId (s, w) (mark ops r SetCommitting s', w')"
| crash_written:
    "so_cursorStaged ops (commit_query tenantId importJobId) (Some ''rowIndex'') None s = before @ r # after \<Longrightarrow>
     \<not> use_transaction descriptor conn \<Longrightarrow>
     fold (commit_one ops (use_transaction descriptor conn) descriptor tenantId actorId) before (s, w, 0, 0)
       = (s', w', c, f) \<Longrightarrow>
     d_commitRow descriptor tenantId (s_mappedFields r) actorId w' = (res, w'') \<Longrightarrow>
     crash ops conn tenantId importJobId descriptor actorId (s, w) (mark ops r SetCommitting s', w'')"

subsection \<open>commitImportJob\<close>

record completed_event =
  ev_importJobId :: id
  ev_module :: string
  ev_entityKey :: "string option"
  ev_status :: job_status
  ev_committedRows :: nat
  ev_commitFailedRows :: nat
  ev_skippedRows :: nat
  ev_validRows :: nat
  ev_tenantId :: id

definition emitImportCompletedEvent ::
  "id \<Rightarrow> import_job \<Rightarrow> job_status \<Rightarrow> nat \<Rightarrow> nat \<Rightarrow> nat \<Rightarrow> completed_event list" where
  "emitImportCompletedEvent tenantId job status committed failed skipped =
     [\<lparr>ev_importJobId = j_id job, ev_module = j_module job, ev_entityKey = j_entityKey job,
       ev_status = status, ev_committedRows = committed, ev_commitFailedRows = failed,
       ev_skippedRows = skipped, ev_validRows = validRows (j_counts job), ev_tenantId = tenantId\<rparr>]"

definition MIGRATION_SYNC_COMMIT_THRESHOLD :: "process_env \<Rightarrow> jsnum" where
  "MIGRATION_SYNC_COMMIT_THRESHOLD penv = env_num penv ''MIGRATION_SYNC_COMMIT_THRESHOLD'' (Fin 200)"

text \<open>
  queueing/adapters/bullmqAdapter.js: \<open>getQueue\<close> is an async function, so \<open>getQueue().add\<close> looks
  \<open>add\<close> up on a promise, which has no such method.
\<close>

definition enqueueMigrationCommit :: "id \<Rightarrow> id \<Rightarrow> app_error err + unit" where
  "enqueueMigrationCommit tenantId importJobId = Inl (Err None (NotAFunction ''getQueue(...).add''))"

definition final_status :: "nat \<Rightarrow> nat \<Rightarrow> job_status" where
  "final_status failed skipped = (if failed > 0 \<or> skipped > 0 then CompletedWithErrors else Completed)"

definition finish_sets :: "job_status \<Rightarrow> int \<Rightarrow> nat \<Rightarrow> nat \<Rightarrow> nat \<Rightarrow> job_set list" where
  "finish_sets status now committed failed skipped =
     [SetStatus status, SetCompletedAt now, SetCount CommittedRows committed,
      SetCount CommitFailedRows failed, SetCount SkippedRows skipped]"

record commit_outcome =
  co_mode :: string
  co_status :: job_status
  co_committed :: "nat option"
  co_failed :: "nat option"

type_synonym ('s, 'w) commit_reply =
  "(app_error err + commit_outcome) \<times> 's \<times> 'w \<times> completed_event list"

text \<open>\<open>t0\<close> and \<open>t1\<close> are the two clock readings. An error does not undo what was written before it.\<close>

definition commitImportJob ::
  "'s store_ops \<Rightarrow> 'w registry \<Rightarrow> process_env \<Rightarrow> connection \<Rightarrow> int \<Rightarrow> int \<Rightarrow> id \<Rightarrow> id \<Rightarrow> id option
     \<Rightarrow> 's \<times> 'w \<Rightarrow> ('s, 'w) commit_reply" where
  "commitImportJob ops reg penv conn t0 t1 tenantId importJobId actorId = (\<lambda>(s, w).
     (case so_getJob ops tenantId importJobId s of
        Inl e \<Rightarrow> (Inl e, s, w, [])
      | Inr job \<Rightarrow>
          if j_status job \<noteq> Validated
          then (Inl (Err (Some 409) (WrongStatus (status_name (j_status job)))), s, w, [])
          else (case lift_err NoTarget (getTargetDescriptor (j_module job) (key_text (j_entityKey job)) reg) of
              Inl e \<Rightarrow> (Inl e, s, w, [])
            | Inr descriptor \<Rightarrow>
                let validCount = validRows (j_counts job);
                    mode = (if num_gt (Fin (of_nat validCount)) (MIGRATION_SYNC_COMMIT_THRESHOLD penv)
                            then ''async'' else ''sync'');
                    s = snd (so_updateJobModel ops (id_tenant_query (j_id job) tenantId)
                          [SetStatus Committing, SetMode mode, SetStartedAt t0] s)
                in if mode = ''async'' then
                     (case enqueueMigrationCommit tenantId (j_id job) of
                        Inl e \<Rightarrow> (Inl e, s, w, [])
                      | Inr _ \<Rightarrow>
                          (Inr \<lparr>co_mode = mode, co_status = Committing, co_committed = None, co_failed = None\<rparr>,
                           s, w, []))
                   else (case commitBatch ops conn tenantId (j_id job) descriptor actorId None (s, w) of
                        Inl e \<Rightarrow> (Inl e, s, w, [])
                      | Inr (r, s, w) \<Rightarrow>
                          let committed = b_committed r;
                              failed = b_failed r;
                              skipped = validCount - committed - failed;
                              status = final_status failed skipped;
                              s = snd (so_updateJobModel ops (id_tenant_query (j_id job) tenantId)
                                    (finish_sets status t1 committed failed skipped) s)
                          in (Inr \<lparr>co_mode = mode, co_status = status, co_committed = Some committed,
                                   co_failed = Some failed\<rparr>,
                              s, w, emitImportCompletedEvent tenantId job status committed failed skipped)))))"

subsection \<open>The worker\<close>

definition CHUNK_SIZE :: nat where
  "CHUNK_SIZE = 200"

text \<open>The endless loop, with fuel: \<open>None\<close> means the fuel did not suffice.\<close>

fun worker_loop ::
  "nat \<Rightarrow> 's store_ops \<Rightarrow> connection \<Rightarrow> id \<Rightarrow> import_job \<Rightarrow> 'w target \<Rightarrow> ('s, 'w) progress
     \<Rightarrow> (app_error err + ('s, 'w) progress) option" where
  "worker_loop 0 ops conn tenantId job descriptor p = None"
| "worker_loop (Suc fuel) ops conn tenantId job descriptor (s, w, totalCommitted, totalFailed) =
     (case commitBatch ops conn tenantId (j_id job) descriptor (j_createdBy job) (Some CHUNK_SIZE) (s, w) of
        Inl e \<Rightarrow> Some (Inl e)
      | Inr (r, s, w) \<Rightarrow>
          let totalCommitted = totalCommitted + b_committed r;
              totalFailed = totalFailed + b_failed r;
              s = snd (so_updateJobModel ops (id_tenant_query (j_id job) tenantId)
                    [SetCount CommittedRows totalCommitted, SetCount CommitFailedRows totalFailed] s)
          in if b_processed r < CHUNK_SIZE then Some (Inr (s, w, totalCommitted, totalFailed))
             else worker_loop fuel ops conn tenantId job descriptor (s, w, totalCommitted, totalFailed))"

definition migrationCommitWorker ::
  "nat \<Rightarrow> 's store_ops \<Rightarrow> 'w registry \<Rightarrow> connection \<Rightarrow> int \<Rightarrow> id \<Rightarrow> id \<Rightarrow> 's \<times> 'w
     \<Rightarrow> (app_error err + (nat \<times> nat \<times> job_status \<times> 's \<times> 'w \<times> completed_event list)) option" where
  "migrationCommitWorker fuel ops reg conn now tenantId importJobId = (\<lambda>(s, w).
     (if tenantId = [] then Some (Inl (Err None (StoreFailed ''Could not resolve tenant connection'')))
      else case so_getJob ops tenantId importJobId s of
        Inl e \<Rightarrow> Some (Inl e)
      | Inr job \<Rightarrow>
          (case lift_err NoTarget (getTargetDescriptor (j_module job) (key_text (j_entityKey job)) reg) of
             Inl e \<Rightarrow> Some (Inl e)
           | Inr descriptor \<Rightarrow>
               (case worker_loop fuel ops conn tenantId job descriptor (s, w, 0, 0) of
                  None \<Rightarrow> None
                | Some (Inl e) \<Rightarrow> Some (Inl e)
                | Some (Inr (s, w, totalCommitted, totalFailed)) \<Rightarrow>
                    let skipped = validRows (j_counts job) - totalCommitted - totalFailed;
                        finalStatus = final_status totalFailed skipped;
                        s = snd (so_updateJobModel ops (id_tenant_query (j_id job) tenantId)
                              (finish_sets finalStatus now totalCommitted totalFailed skipped) s)
                    in Some (Inr (totalCommitted, totalFailed, finalStatus, s, w,
                         emitImportCompletedEvent tenantId job finalStatus totalCommitted totalFailed skipped))))))"

end
