(* ===== verification/Pipeline.thy ===== *)
theory Pipeline
  imports Validation ImportService Commit
begin

text \<open>
  worker/importPipeline.js, the steps a job goes through in a Cloud Run execution, alone or as part
  of a session, and worker/cloudRunEntrypoint.js, which reads the environment and runs them. A run
  threads the database and the business data; its outermost \<open>None\<close> means that the parser never
  settles. The core modules the steps call always use the Mongoose job store; \<open>pl_jobStore\<close> is the
  one the adapters name.
\<close>

record ('s, 'w) pipeline =
  pl_db :: "'s mongo"
  pl_jobStore :: "'s store_ops"
  pl_registry :: "'w registry"
  pl_listEntities :: "string \<Rightarrow> entity list"
  pl_env :: js_env
  pl_penv :: process_env
  pl_libs :: libs
  pl_download :: "string \<Rightarrow> string \<Rightarrow> string \<Rightarrow> bool"
  pl_conn :: connection
  pl_isObjectId :: "id \<Rightarrow> bool"
  pl_msg :: "app_error err \<Rightarrow> string"
  pl_now :: int

abbreviation core_store :: "('s, 'w) pipeline \<Rightarrow> 's store_ops" where
  "core_store P \<equiv> createMongooseJobStore (pl_db P)"

type_synonym ('a, 's, 'w) run = "(app_error err + 'a) \<times> 's \<times> 'w"

subsection \<open>Helpers\<close>

text \<open>\<open>pl_download\<close> is the client's download into a local file; it may fail.\<close>

definition downloadFromGcs ::
  "('s, 'w) pipeline \<Rightarrow> string \<Rightarrow> string \<Rightarrow> app_error err + string" where
  "downloadFromGcs P bucket path =
     (let base = last (split_on (CHR ''/'') path);
          destPath = ''/tmp/'' @ (if base = [] then ''import-'' @ show_int (pl_now P) else base)
      in if pl_download P bucket path destPath then Inr destPath
         else Inl (Err None (StorageFailed path)))"

definition clearStagedRows :: "'s mongo \<Rightarrow> id \<Rightarrow> 's \<Rightarrow> nat \<times> 's" where
  "clearStagedRows db importJobId s = db_deleteRows db (job_rows_query importJobId) s"

definition STAGE_CHUNK_SIZE :: nat where
  "STAGE_CHUNK_SIZE = 1000"

function stage_from :: "'s mongo \<Rightarrow> id \<Rightarrow> id \<Rightarrow> nat \<Rightarrow> nat \<Rightarrow> obj list \<Rightarrow> 's \<Rightarrow> (nat, 's) reply" where
  "stage_from db tenantId importJobId offset inserted records s =
     (if records = [] then (Inr inserted, s)
      else
        let docs = staged_docs tenantId importJobId offset (take STAGE_CHUNK_SIZE records) in
        (case db_insertRows db docs s of
           (Some e, s) \<Rightarrow> (Inl e, s)
         | (None, s) \<Rightarrow>
             stage_from db tenantId importJobId (offset + STAGE_CHUNK_SIZE) (inserted + length docs)
               (drop STAGE_CHUNK_SIZE records) s))"
  by pat_completeness auto
termination
  by (relation "measure (\<lambda>(db, t, i, offset, n, records, s). length records)") (auto simp: STAGE_CHUNK_SIZE_def)

declare stage_from.simps [simp del]

definition stageRows :: "'s mongo \<Rightarrow> id \<Rightarrow> id \<Rightarrow> obj list \<Rightarrow> 's \<Rightarrow> (nat, 's) reply" where
  "stageRows db tenantId importJobId records s = stage_from db tenantId importJobId 0 0 records s"

definition updateJobStatus :: "'s mongo \<Rightarrow> id \<Rightarrow> job_set list \<Rightarrow> 's \<Rightarrow> import_job option \<times> 's" where
  "updateJobStatus db jobId updates s = db_updateJob db (id_query jobId) updates s"

subsection \<open>The steps\<close>

text \<open>The answer is the updated job, or null when it is gone.\<close>

definition stepParseAndStage ::
  "('s, 'w) pipeline \<Rightarrow> import_job \<Rightarrow> string \<Rightarrow> string \<Rightarrow> 's \<Rightarrow> (import_job option, 's) reply option" where
  "stepParseAndStage P job bucket path s =
     (if j_status job \<notin> {Uploaded, GuardrailRejected} then Some (Inr (Some job), s)
      else case downloadFromGcs P bucket path of
        Inl e \<Rightarrow> Some (Inl e, s)
      | Inr localPath \<Rightarrow>
          (case lift_err BadFile (detectSourceFormat localPath) of
             Inl e \<Rightarrow> Some (Inl e, s)
           | Inr fmt \<Rightarrow>
               (case checkGuardrailStreaming (pl_penv P) (pl_libs P) (j_tenantId job) localPath fmt (j_sqlTable job) of
                  None \<Rightarrow> None
                | Some (Inl e) \<Rightarrow> Some (lift_err BadFile (Inl e), s)
                | Some (Inr guardrail) \<Rightarrow>
                    if \<not> allowed guardrail then
                      (case updateJobStatus (pl_db P) (j_id job)
                              [SetSourceFormat fmt, SetStatus GuardrailRejected, SetGuardPassed False,
                               SetGuardReason (v_reason guardrail), SetGuardLimit (v_limit guardrail),
                               SetGuardCheckedAt (pl_now P),
                               SetGuardUpgrade (map_option rej_upgrade (v_details guardrail))] s of
                         (job', s) \<Rightarrow> Some (Inr job', s))
                    else
                      let records = (case s_records guardrail of None \<Rightarrow> [] | Some rs \<Rightarrow> rs);
                          s = snd (updateJobStatus (pl_db P) (j_id job)
                                [SetSourceFormat fmt, SetStatus Uploaded, SetCount TotalRows (length records),
                                 SetGuardPassed True, SetGuardLimit (v_limit guardrail),
                                 SetGuardCheckedAt (pl_now P)] s);
                          s = snd (clearStagedRows (pl_db P) (j_id job) s)
                      in (case stageRows (pl_db P) (j_tenantId job) (j_id job) records s of
                            (Inl e, s) \<Rightarrow> Some (Inl e, s)
                          | (Inr staged, s) \<Rightarrow>
                              (case updateJobStatus (pl_db P) (j_id job)
                                      [SetStatus Staged, SetCount StagedRows staged] s of
                                 (job', s) \<Rightarrow> Some (Inr job', s))))))"

text \<open>The property the loop reads is not one \<open>suggestMappingForJob\<close> answers.\<close>

definition suggestedFieldMap :: "job_suggestion \<Rightarrow> field_map option" where
  "suggestedFieldMap suggestion = None"

definition plain_request :: "string \<Rightarrow> field_map \<Rightarrow> mapping_request" where
  "plain_request entityKey fieldMap =
     \<lparr>mr_entityKey = entityKey, mr_fieldMap = Some fieldMap, mr_saveAsProfile = False,
      mr_profileLabel = None, mr_createdBy = None\<rparr>"

definition apply_map ::
  "('s, 'w) pipeline \<Rightarrow> import_job \<Rightarrow> string \<Rightarrow> field_map \<Rightarrow> 's \<Rightarrow> (import_job, 's) reply" where
  "apply_map P job entityKey fieldMap s =
     applyMapping (core_store P) (pl_env P) (pl_registry P) (pl_now P) (j_tenantId job) (j_id job)
       (plain_request entityKey fieldMap) s"

text \<open>The body of the try block; an error leaves the job as it was.\<close>

fun auto_map ::
  "('s, 'w) pipeline \<Rightarrow> import_job \<Rightarrow> entity list \<Rightarrow> 's \<Rightarrow> import_job \<times> 's" where
  "auto_map P job [] s = (job, s)"
| "auto_map P job (entity # entities) s =
     (case suggestMappingForJob (core_store P) (pl_registry P) (j_tenantId job) (j_id job) (j_module job)
             (ent_entityKey entity) s of
        Inl e \<Rightarrow> (job, s)
      | Inr suggestion \<Rightarrow>
          (case suggestedFieldMap suggestion of
             Some (kv # kvs) \<Rightarrow>
               (case apply_map P job (ent_entityKey entity) (kv # kvs) s of
                  (Inl e, s) \<Rightarrow> (job, s)
                | (Inr mappedJob, s) \<Rightarrow> (mappedJob, s))
           | _ \<Rightarrow> auto_map P job entities s))"

definition stepAutoMap :: "('s, 'w) pipeline \<Rightarrow> import_job \<Rightarrow> 's \<Rightarrow> (import_job, 's) reply" where
  "stepAutoMap P job s =
     (if j_status job \<noteq> Staged then (Inr job, s)
      else if j_fieldMap job \<noteq> None \<and> \<not> absent_or_empty (j_entityKey job)
      then apply_map P job (the (j_entityKey job)) (the (j_fieldMap job)) s
      else if j_module job = [] then (Inr job, s)
      else (case auto_map P job (pl_listEntities P (j_module job)) s of (job', s) \<Rightarrow> (Inr job', s)))"

definition stepValidate :: "('s, 'w) pipeline \<Rightarrow> import_job \<Rightarrow> 's \<Rightarrow> 'w \<Rightarrow> (import_job, 's) reply" where
  "stepValidate P job s w =
     (if j_status job \<noteq> Mapped then (Inr job, s)
      else
        let (failure, s) =
              (case validateImportJob (core_store P) (pl_db P) (pl_isObjectId P) (pl_env P) (pl_registry P)
                      (j_tenantId job) (j_id job) s w of
                 (Inr _, s) \<Rightarrow> (None, s)
               | (Inl err, s) \<Rightarrow>
                   (case so_updateJob (pl_jobStore P) (j_tenantId job) (j_id job)
                           [SetStatus Failed, SetError (pl_msg P err)] s of
                      Inl e \<Rightarrow> (Some e, s)
                    | Inr (_, s) \<Rightarrow> (None, s)))
        in (case failure of
              Some e \<Rightarrow> (Inl e, s)
            | None \<Rightarrow>
                (case so_getJob (pl_jobStore P) (j_tenantId job) (j_id job) s of
                   Inl _ \<Rightarrow> (Inr job, s)
                 | Inr refreshed \<Rightarrow> (Inr refreshed, s))))"

text \<open>\<open>jobStore.updateJob\<close> and then \<open>k\<close>, unless it throws.\<close>

definition update_then ::
  "('s, 'w) pipeline \<Rightarrow> import_job \<Rightarrow> job_set list \<Rightarrow> ('s \<times> 'w \<Rightarrow> ('a, 's, 'w) run) \<Rightarrow> 's \<times> 'w \<Rightarrow> ('a, 's, 'w) run" where
  "update_then P job updates k = (\<lambda>(s, w).
     (case so_updateJob (pl_jobStore P) (j_tenantId job) (j_id job) updates s of
        Inl e \<Rightarrow> (Inl e, s, w)
      | Inr (_, s) \<Rightarrow> k (s, w)))"

definition reread_job :: "('s, 'w) pipeline \<Rightarrow> import_job \<Rightarrow> 's \<times> 'w \<Rightarrow> (import_job, 's, 'w) run" where
  "reread_job P job = (\<lambda>(s, w). (so_getJob (pl_jobStore P) (j_tenantId job) (j_id job) s, s, w))"

definition stepCommit :: "('s, 'w) pipeline \<Rightarrow> import_job \<Rightarrow> 's \<times> 'w \<Rightarrow> (import_job, 's, 'w) run" where
  "stepCommit P job = (\<lambda>(s, w).
     (if j_status job \<noteq> Validated then (Inr job, s, w)
      else if j_module job = [] \<or> absent_or_empty (j_entityKey job) then
        update_then P job
          [SetStatus Failed, SetError ''Import job reached commit with no module/entityKey'']
          (reread_job P job) (s, w)
      else (case lift_err NoTarget (getTargetDescriptor (j_module job) (the (j_entityKey job)) (pl_registry P)) of
          Inl e \<Rightarrow> (Inl e, s, w)
        | Inr descriptor \<Rightarrow>
            update_then P job
              [SetStatus Committing, SetStartedAt (pl_now P), SetMode ''async'']
              (\<lambda>(s, w).
                (case commitBatch (core_store P) (pl_conn P) (j_tenantId job) (j_id job) descriptor None None (s, w) of
                   Inl e \<Rightarrow> (Inl e, s, w)
                 | Inr (r, s, w) \<Rightarrow>
                     let skipped = validRows (j_counts job) - b_committed r - b_failed r;
                         finalStatus = final_status (b_failed r) skipped
                     in update_then P job
                          (finish_sets finalStatus (pl_now P) (b_committed r) (b_failed r) skipped)
                          (reread_job P job) (s, w)))
              (s, w))))"

text \<open>\<open>current.status\<close> on null throws.\<close>

definition null_job :: "app_error err" where
  "null_job = Err None (NotAFunction ''null.status'')"

definition later_steps :: "('s, 'w) pipeline \<Rightarrow> import_job \<Rightarrow> 's \<times> 'w \<Rightarrow> (import_job, 's, 'w) run" where
  "later_steps P job = (\<lambda>(s, w).
     (case stepAutoMap P job s of
        (Inl e, s) \<Rightarrow> (Inl e, s, w)
      | (Inr job, s) \<Rightarrow>
          (case stepValidate P job s w of
             (Inl e, s) \<Rightarrow> (Inl e, s, w)
           | (Inr job, s) \<Rightarrow> stepCommit P job (s, w))))"

definition first_str :: "string option \<Rightarrow> string option \<Rightarrow> string option" where
  "first_str a b = (if absent_or_empty a then b else a)"

definition runJobPipeline ::
  "('s, 'w) pipeline \<Rightarrow> import_job \<Rightarrow> string option \<Rightarrow> string option \<Rightarrow> 's \<times> 'w
     \<Rightarrow> (import_job, 's, 'w) run option" where
  "runJobPipeline P job bucket path = (\<lambda>(s, w).
     (let jobBucket = first_str bucket (bucketName (j_gcs job));
          jobObject = first_str path (objectPath (j_gcs job))
      in if absent_or_empty jobBucket \<or> absent_or_empty jobObject
         then Some (later_steps P job (s, w))
         else (case stepParseAndStage P job (the jobBucket) (the jobObject) s of
             None \<Rightarrow> None
           | Some (Inl e, s) \<Rightarrow> Some (Inl e, s, w)
           | Some (Inr None, s) \<Rightarrow> Some (Inl null_job, s, w)
           | Some (Inr (Some job), s) \<Rightarrow> Some (later_steps P job (s, w)))))"

subsection \<open>Sessions\<close>

fun set_entry :: "id \<Rightarrow> string \<Rightarrow> string option \<Rightarrow> entry_status list \<Rightarrow> entry_status list" where
  "set_entry i status err [] = []"
| "set_entry i status err (e # es) =
     (if es_importJobId e = i
      then e\<lparr>es_status := status, es_error := first_str err (es_error e)\<rparr> # es
      else e # set_entry i status err es)"

definition count_entries :: "string list \<Rightarrow> entry_status list \<Rightarrow> nat" where
  "count_entries statuses es = length (filter (\<lambda>e. es_status e \<in> set statuses) es)"

definition advance_session :: "id \<Rightarrow> string \<Rightarrow> string option \<Rightarrow> session \<Rightarrow> session" where
  "advance_session importJobId status err session =
     (let entries = set_entry importJobId status err (ms_jobStatuses session);
          completed = count_entries [''completed'', ''completed_with_errors''] entries;
          failed = count_entries [''failed'', ''skipped''] entries
      in session\<lparr>ms_jobStatuses := entries,
           ms_counts := (ms_counts session)\<lparr>sc_completed := completed, sc_failed := failed\<rparr>,
           ms_status :=
             (if completed + failed = length entries
              then (if failed > 0 then SessionCompletedWithErrors else SessionCompleted)
              else if status = ''failed'' then SessionCompletedWithErrors
              else SessionProcessing)\<rparr>)"

definition advanceSessionJobStatus ::
  "'s mongo \<Rightarrow> id \<Rightarrow> id \<Rightarrow> string \<Rightarrow> string option \<Rightarrow> 's \<Rightarrow> (unit, 's) reply" where
  "advanceSessionJobStatus db sessionId importJobId status err s =
     (case db_session db (id_query sessionId) s of
        None \<Rightarrow> (Inr (), s)
      | Some session \<Rightarrow>
          (case save_session db (advance_session importJobId status err session) s of
             Inl e \<Rightarrow> (Inl e, s)
           | Inr s' \<Rightarrow> (Inr (), s')))"

text \<open>The try block for one job: its final status, with the external ids filled in after a success.\<close>

definition session_job_run ::
  "('s, 'w) pipeline \<Rightarrow> id \<Rightarrow> import_job \<Rightarrow> 's \<times> 'w \<Rightarrow> (string, 's, 'w) run option" where
  "session_job_run P sessionId job = (\<lambda>(s, w).
     (case advanceSessionJobStatus (pl_db P) sessionId (j_id job) ''processing'' None s of
        (Inl e, s) \<Rightarrow> Some (Inl e, s, w)
      | (Inr _, s) \<Rightarrow>
          (case runJobPipeline P job (pl_penv P ''GCS_BUCKET_NAME'')
                  (first_str (objectPath (j_gcs job)) (pl_penv P ''GCS_OBJECT_PATH'')) (s, w) of
             None \<Rightarrow> None
           | Some (Inl e, s, w) \<Rightarrow> Some (Inl e, s, w)
           | Some (Inr result, s, w) \<Rightarrow>
               let jobFinal = status_name (j_status result) in
               (case advanceSessionJobStatus (pl_db P) sessionId (j_id job) jobFinal None s of
                  (Inl e, s) \<Rightarrow> Some (Inl e, s, w)
                | (Inr _, s) \<Rightarrow>
                    Some (Inr jobFinal,
                      (if j_status result \<in> {Completed, CompletedWithErrors}
                       then snd (populateSessionExternalIds (pl_db P) (pl_env P) (pl_registry P) sessionId s)
                       else s), w)))))"

text \<open>The loop over the jobs of the session, with the statuses collected so far.\<close>

fun session_loop ::
  "('s, 'w) pipeline \<Rightarrow> id \<Rightarrow> id list \<Rightarrow> (id \<times> string) list \<Rightarrow> 's \<times> 'w
     \<Rightarrow> ((id \<times> string) list, 's, 'w) run option" where
  "session_loop P sessionId [] statuses (s, w) = Some (Inr statuses, s, w)"
| "session_loop P sessionId (jobId # jobIds) statuses (s, w) =
     (case db_job (pl_db P) (id_query jobId) s of
        None \<Rightarrow>
          (case advanceSessionJobStatus (pl_db P) sessionId jobId ''skipped'' (Some ''ImportJob not found'') s of
             (Inl e, s) \<Rightarrow> Some (Inl e, s, w)
           | (Inr _, s) \<Rightarrow> session_loop P sessionId jobIds (statuses @ [(jobId, ''skipped'')]) (s, w))
      | Some job \<Rightarrow>
          (case session_job_run P sessionId job (s, w) of
             None \<Rightarrow> None
           | Some (Inr jobFinal, s, w) \<Rightarrow>
               session_loop P sessionId jobIds (statuses @ [(jobId, jobFinal)]) (s, w)
           | Some (Inl err, s, w) \<Rightarrow>
               (case advanceSessionJobStatus (pl_db P) sessionId jobId ''failed'' (Some (pl_msg P err)) s of
                  (Inl e, s) \<Rightarrow> Some (Inl e, s, w)
                | (Inr _, s) \<Rightarrow> session_loop P sessionId jobIds (statuses @ [(jobId, ''failed'')]) (s, w))))"

type_synonym session_report = "string \<times> (id \<times> string) list"

definition session_entries :: "session \<Rightarrow> (id \<times> string) list" where
  "session_entries session = map (\<lambda>e. (es_importJobId e, es_status e)) (ms_jobStatuses session)"

definition runSessionPipeline ::
  "('s, 'w) pipeline \<Rightarrow> id \<Rightarrow> id \<Rightarrow> 's \<times> 'w \<Rightarrow> (session_report, 's, 'w) run option" where
  "runSessionPipeline P tenantId sessionId = (\<lambda>(s, w).
     (case db_session (pl_db P) (id_query sessionId) s of
        None \<Rightarrow> Some (Inl (Err None SessionNotFound), s, w)
      | Some session \<Rightarrow>
          if ms_status session \<noteq> SessionPending
          then Some (Inr (session_status_name (ms_status session), session_entries session), s, w)
          else (case save_session (pl_db P) (session\<lparr>ms_status := SessionProcessing\<rparr>) s of
              Inl e \<Rightarrow> Some (Inl e, s, w)
            | Inr s \<Rightarrow>
                (case computeSessionOrder (pl_db P) (pl_registry P) tenantId sessionId s of
                   (Inl e, s) \<Rightarrow> Some (Inl e, s, w)
                 | (Inr _, s) \<Rightarrow>
                     (case db_session (pl_db P) (id_query sessionId) s of
                        None \<Rightarrow> Some (Inl (Err None SessionNotFound), s, w)
                      | Some freshSession \<Rightarrow>
                          (case session_loop P sessionId (ms_executionOrder freshSession) [] (s, w) of
                             None \<Rightarrow> None
                           | Some (Inl e, s, w) \<Rightarrow> Some (Inl e, s, w)
                           | Some (Inr statuses, s, w) \<Rightarrow>
                               let finalStatus = (case db_session (pl_db P) (id_query sessionId) s of
                                     None \<Rightarrow> ''failed''
                                   | Some finalSession \<Rightarrow> session_status_name (ms_status finalSession))
                               in Some (Inr (finalStatus, statuses), s, w)))))))"

subsection \<open>The entrypoint\<close>

definition exitCodeForStatus :: "string \<Rightarrow> nat" where
  "exitCodeForStatus status =
     (if status \<in> {''completed'', ''completed_with_errors''} then 0
      else if status \<in> {''guardrail_rejected''} then 0
      else if status \<in> {''staged''} then 0
      else 1)"

definition requireEnv :: "process_env \<Rightarrow> string \<Rightarrow> app_error err + string" where
  "requireEnv penv name =
     (if absent_or_empty (penv name) then Inl (Err None (MissingEnv name)) else Inr (the (penv name)))"

text \<open>The two stores \<open>buildAdapters\<close> chooses from; the other one is the default.\<close>

definition buildAdapters :: "process_env \<Rightarrow> 's store_ops \<Rightarrow> 's store_ops \<Rightarrow> 's store_ops" where
  "buildAdapters penv inMemory mongoose =
     (if env_str penv ''JOB_STORE_ADAPTER'' ''mongoose'' = ''in-memory'' then inMemory else mongoose)"

definition entry_main ::
  "('s, 'w) pipeline \<Rightarrow> 's store_ops \<Rightarrow> 's \<times> 'w \<Rightarrow> (string, 's, 'w) run option" where
  "entry_main P inMemory = (\<lambda>(s, w).
     (let penv = pl_penv P;
          P = P\<lparr>pl_jobStore := buildAdapters penv inMemory (core_store P)\<rparr> in
      case requireEnv penv ''TENANT_ID'' of
        Inl e \<Rightarrow> Some (Inl e, s, w)
      | Inr tenantId \<Rightarrow>
          if absent_or_empty (penv ''SESSION_ID'') \<and> absent_or_empty (penv ''IMPORT_JOB_ID'')
          then Some (Inl (Err None (MissingEnv ''SESSION_ID'')), s, w)
          else if \<not> absent_or_empty (penv ''SESSION_ID'') then
            (case runSessionPipeline P tenantId (the (penv ''SESSION_ID'')) (s, w) of
               None \<Rightarrow> None
             | Some (Inl e, s, w) \<Rightarrow> Some (Inl e, s, w)
             | Some (Inr (status, _), s, w) \<Rightarrow> Some (Inr status, s, w))
          else (case so_getJob (pl_jobStore P) tenantId (the (penv ''IMPORT_JOB_ID'')) s of
              Inl e \<Rightarrow> Some (Inl e, s, w)
            | Inr job \<Rightarrow>
                if absent_or_empty (penv ''GCS_BUCKET_NAME'') \<or> absent_or_empty (penv ''GCS_OBJECT_PATH'')
                then Some (Inl (Err None (MissingEnv ''GCS_BUCKET_NAME'')), s, w)
                else (case runJobPipeline P job (penv ''GCS_BUCKET_NAME'') (penv ''GCS_OBJECT_PATH'') (s, w) of
                    None \<Rightarrow> None
                  | Some (Inl e, s, w) \<Rightarrow> Some (Inl e, s, w)
                  | Some (Inr job, s, w) \<Rightarrow> Some (Inr (status_name (j_status job)), s, w)))))"

text \<open>What the process exits with.\<close>

definition exit_code :: "('s, 'w) pipeline \<Rightarrow> 's store_ops \<Rightarrow> 's \<times> 'w \<Rightarrow> nat option" where
  "exit_code P inMemory sw =
     (case entry_main P inMemory sw of
        None \<Rightarrow> None
      | Some (Inl e, _) \<Rightarrow> Some 1
      | Some (Inr status, _) \<Rightarrow> Some (exitCodeForStatus status))"

end
