(* ===== verification/MongoModel.thy ===== *)
theory MongoModel
  imports Mongo
begin

text \<open>
  A document database on lists that behaves as \<open>mongo_db\<close> demands: filters mean what MongoDB
  documents, a lookup by id uses the id, new ids are longer than all ids in use. It shows that the
  hypotheses about the database can hold and is what the witnesses run on.
\<close>

record list_db =
  l_sessions :: "session list"
  l_jobs :: "import_job list"
  l_rows :: "srow list"

definition empty_db :: list_db where
  "empty_db = \<lparr>l_sessions = [], l_jobs = [], l_rows = []\<rparr>"

subsection \<open>Filters\<close>

definition equals :: "val \<Rightarrow> val option \<Rightarrow> bool" where
  "equals v f \<longleftrightarrow> (if v = VNull then nullish f else f = Some v)"

fun cond_holds :: "cond \<Rightarrow> val option \<Rightarrow> bool" where
  "cond_holds (Is v) f = equals v f"
| "cond_holds (In vs) f = list_ex (\<lambda>v. equals v f) vs"
| "cond_holds (Gt n) f = (case f of Some (VNum m) \<Rightarrow> num_gt m n | _ \<Rightarrow> False)"
| "cond_holds (Ne v) f = (\<not> equals v f)"
| "cond_holds (Exists b) f = ((f \<noteq> None) = b)"

definition holds :: "(string \<Rightarrow> val option) \<Rightarrow> query \<Rightarrow> bool" where
  "holds fld q = list_all (\<lambda>(k, c). cond_holds c (fld k)) q"

definition row_path :: "js_env \<Rightarrow> srow \<Rightarrow> string \<Rightarrow> val option" where
  "row_path env r k =
     (if prefix ''mappedFields.'' k
      then (case s_mappedFields r of None \<Rightarrow> None | Some m \<Rightarrow> oget m (drop (length ''mappedFields.'') k))
      else row_field env r k)"

definition session_field :: "session \<Rightarrow> string \<Rightarrow> val option" where
  "session_field x k =
     (if k = ''_id'' then Some (VStr (ms_id x))
      else if k = ''tenantId'' then Some (VStr (ms_tenantId x))
      else if k = ''status'' then Some (VStr (session_status_name (ms_status x)))
      else None)"

subsection \<open>Collections\<close>

fun put_by :: "('d \<Rightarrow> id) \<Rightarrow> 'd \<Rightarrow> 'd list \<Rightarrow> 'd list" where
  "put_by f x [] = [x]"
| "put_by f x (y # ys) = (if f y = f x then x # ys else y # put_by f x ys)"

definition by_id :: "('d \<Rightarrow> id) \<Rightarrow> id \<Rightarrow> 'd list \<Rightarrow> 'd option" where
  "by_id f i xs = find (\<lambda>x. f x = i) xs"

definition find_doc :: "('d \<Rightarrow> id) \<Rightarrow> ('d \<Rightarrow> string \<Rightarrow> val option) \<Rightarrow> query \<Rightarrow> 'd list \<Rightarrow> 'd option" where
  "find_doc f fld q xs =
     (case map_of q ''_id'' of
        Some (Is (VStr i)) \<Rightarrow>
          (case by_id f i xs of None \<Rightarrow> None | Some x \<Rightarrow> if holds (fld x) q then Some x else None)
      | _ \<Rightarrow> find (\<lambda>x. holds (fld x) q) xs)"

fun num_nat :: "jsnum \<Rightarrow> nat option" where
  "num_nat (Fin q) = Some (nat \<lfloor>q\<rfloor>)"
| "num_nat _ = None"

definition page :: "jsnum \<Rightarrow> jsnum option \<Rightarrow> 'd list \<Rightarrow> 'd list" where
  "page skip lmt xs =
     (let ys = (case num_nat skip of None \<Rightarrow> [] | Some n \<Rightarrow> drop n xs) in
      case lmt of None \<Rightarrow> ys | Some l \<Rightarrow> (case num_nat l of None \<Rightarrow> ys | Some n \<Rightarrow> take n ys))"

fun longest :: "id list \<Rightarrow> nat" where
  "longest [] = 0"
| "longest (i # is) = max (length i) (longest is)"

definition fresh_id :: "nat \<Rightarrow> id list \<Rightarrow> id" where
  "fresh_id k is = replicate (longest is + 1 + k) (CHR ''f'')"

definition row_index_key :: "srow \<Rightarrow> id \<times> nat" where
  "row_index_key r = (s_importJobId r, s_rowIndex r)"

definition list_insert :: "staged_doc list \<Rightarrow> list_db \<Rightarrow> app_error err option \<times> list_db" where
  "list_insert docs s =
     (let rs = l_rows s @ map2 new_row (map (\<lambda>k. fresh_id k (map s_id (l_rows s))) [0..<length docs]) docs
      in if distinct (map row_index_key rs) then (None, s\<lparr>l_rows := rs\<rparr>)
         else (Some (Err None (StoreFailed ''E11000'')), s))"

definition list_update_job :: "query \<Rightarrow> job_set list \<Rightarrow> list_db \<Rightarrow> import_job option \<times> list_db" where
  "list_update_job q us s =
     (case find_doc j_id job_field q (l_jobs s) of
        None \<Rightarrow> (None, s)
      | Some job \<Rightarrow>
          let job' = fold apply_set us job in (Some job', s\<lparr>l_jobs := put_by j_id job' (l_jobs s)\<rparr>))"

fun update_first_row :: "(srow \<Rightarrow> bool) \<Rightarrow> row_set \<Rightarrow> srow list \<Rightarrow> srow list" where
  "update_first_row p u [] = []"
| "update_first_row p u (r # rs) = (if p r then apply_row_set u r # rs else r # update_first_row p u rs)"

definition list_update_row :: "js_env \<Rightarrow> query \<Rightarrow> row_set \<Rightarrow> list_db \<Rightarrow> list_db" where
  "list_update_row env q u s = s\<lparr>l_rows := update_first_row (\<lambda>r. holds (row_path env r) q) u (l_rows s)\<rparr>"

definition list_find_rows ::
  "js_env \<Rightarrow> query \<Rightarrow> string option \<Rightarrow> jsnum \<Rightarrow> jsnum option \<Rightarrow> list_db \<Rightarrow> srow list" where
  "list_find_rows env q srt skip lmt s =
     (let rs = filter (\<lambda>r. holds (row_path env r) q) (l_rows s)
      in page skip lmt (if srt = None then rs else sort_key s_rowIndex rs))"

definition list_distinct :: "js_env \<Rightarrow> string \<Rightarrow> query \<Rightarrow> list_db \<Rightarrow> val list" where
  "list_distinct env path q s =
     uniq (concat (map (\<lambda>r. case row_path env r path of None \<Rightarrow> [] | Some v \<Rightarrow> [v])
       (filter (\<lambda>r. holds (row_path env r) q) (l_rows s))))"

text \<open>The stages work on documents as functions from field paths to values.\<close>

definition group_key :: "string \<Rightarrow> (string \<Rightarrow> val option) \<Rightarrow> val" where
  "group_key path d = (case d (tl path) of None \<Rightarrow> VNull | Some v \<Rightarrow> v)"

fun list_stage :: "stage \<Rightarrow> (string \<Rightarrow> val option) list \<Rightarrow> (string \<Rightarrow> val option) list" where
  "list_stage (Match q) ds = filter (\<lambda>d. holds d q) ds"
| "list_stage (GroupCount path) ds =
     map (\<lambda>k. [''_id'' \<mapsto> k, ''count'' \<mapsto> VNum (Fin (of_nat (length (filter (\<lambda>d. group_key path d = k) ds))))])
       (uniq (map (group_key path) ds))"
| "list_stage (SortBy k dir) ds = ds"
| "list_stage (LimitTo n) ds = take n ds"

definition list_aggregate :: "js_env \<Rightarrow> stage list \<Rightarrow> list_db \<Rightarrow> obj list" where
  "list_aggregate env stages s =
     map (\<lambda>d. opt_doc ''_id'' (d ''_id'') @ opt_doc ''count'' (d ''count''))
       (fold list_stage stages (map (row_path env) (l_rows s)))"

definition list_mongo :: "js_env \<Rightarrow> list_db mongo" where
  "list_mongo env =
     \<lparr>db_objectId = (\<lambda>s. (fresh_id 0 (map ms_id (l_sessions s) @ map j_id (l_jobs s)), s)),
      db_session = (\<lambda>q s. find_doc ms_id session_field q (l_sessions s)),
      db_putSession = (\<lambda>x s. s\<lparr>l_sessions := put_by ms_id x (l_sessions s)\<rparr>),
      db_sessions = (\<lambda>q skip lmt s. page skip (Some lmt) (rev (filter (\<lambda>x. holds (session_field x) q) (l_sessions s)))),
      db_countSessions = (\<lambda>q s. length (filter (\<lambda>x. holds (session_field x) q) (l_sessions s))),
      db_job = (\<lambda>q s. find_doc j_id job_field q (l_jobs s)),
      db_putJob = (\<lambda>job s. s\<lparr>l_jobs := put_by j_id job (l_jobs s)\<rparr>),
      db_updateJob = list_update_job,
      db_jobs = (\<lambda>q skip lmt s. page skip (Some lmt) (rev (filter (\<lambda>x. holds (job_field x) q) (l_jobs s)))),
      db_countJobs = (\<lambda>q s. length (filter (\<lambda>x. holds (job_field x) q) (l_jobs s))),
      db_insertRows = list_insert,
      db_deleteRows = (\<lambda>q s.
        (length (filter (\<lambda>r. holds (row_path env r) q) (l_rows s)),
         s\<lparr>l_rows := filter (\<lambda>r. \<not> holds (row_path env r) q) (l_rows s)\<rparr>)),
      db_rows = list_find_rows env,
      db_countRows = (\<lambda>q s. length (filter (\<lambda>r. holds (row_path env r) q) (l_rows s))),
      db_row = (\<lambda>q s. find (\<lambda>r. holds (row_path env r) q) (l_rows s)),
      db_bulkRows = (\<lambda>ops s. (length ops, fold (\<lambda>(q, u). list_update_row env q u) ops s)),
      db_updateRow = list_update_row env,
      db_aggregateRows = list_aggregate env,
      db_distinctRows = list_distinct env,
      db_profiles = (\<lambda>q s. []),
      db_upsertProfile = (\<lambda>q m createdBy now s.
        (\<lparr>pr_id = [], pr_tenantId = [], pr_module = [], pr_entityKey = [], pr_label = [], pr_fieldMap = m,
          pr_createdBy = createdBy, pr_updatedAt = now\<rparr>, s))\<rparr>"

subsection \<open>It behaves as a document database\<close>

lemma by_id_put_by: "by_id f i (put_by f x xs) = (if f x = i then Some x else by_id f i xs)"
  by (induction xs) (auto simp: by_id_def)

lemma by_id_Some: "by_id f i xs = Some x \<Longrightarrow> f x = i"
  by (induction xs) (auto simp: by_id_def split: if_splits)

lemma find_doc_id:
  assumes "\<And>x. fld x ''_id'' = Some (VStr (f x))" "\<And>x. fld x ''tenantId'' = Some (VStr (tenant x))"
  shows "find_doc f fld (id_query i) xs = by_id f i xs"
    "find_doc f fld (id_tenant_query i t) xs = of_tenant tenant t (by_id f i xs)"
  using assms by_id_Some [of f i xs]
  by (auto simp: find_doc_def id_query_def id_tenant_query_def holds_def equals_def of_tenant_def split: option.split)

lemma longest_less: "i \<in> set is \<Longrightarrow> length i \<le> longest is"
  by (induction "is") auto

lemma fresh_id_new: "fresh_id k is \<notin> set is"
  using longest_less [of "fresh_id k is" "is"] by (auto simp: fresh_id_def)

lemma fresh_id_inject: "fresh_id k is = fresh_id k' is \<longleftrightarrow> k = k'"
  by (auto simp: fresh_id_def dest: arg_cong [where f = length])

lemma by_id_fresh: "fresh_id k (map f xs @ is) \<noteq> i \<or> by_id f i xs = None" "fresh_id k (is @ map f xs) \<noteq> i \<or> by_id f i xs = None"
  using fresh_id_new [of k "map f xs @ is"] fresh_id_new [of k "is @ map f xs"]
  by (auto simp: by_id_def find_None_iff image_iff)

lemma row_path_simps [simp]:
  "row_path env r ''_id'' = Some (VStr (s_id r))"
  "row_path env r ''tenantId'' = Some (VStr (s_tenantId r))"
  "row_path env r ''importJobId'' = Some (VStr (s_importJobId r))"
  "row_path env r ''commitStatus'' = Some (VStr (commit_name (s_commitStatus r)))"
  "row_path env r ''validationStatus'' =
     Some (case s_validationStatus r of None \<Rightarrow> VNull | Some v \<Rightarrow> VStr (validation_name v))"
  by (simp_all add: row_path_def)

lemma holds_queries [simp]:
  "holds (row_path env r) (id_query i) \<longleftrightarrow> s_id r = i"
  "holds (row_path env r) (job_rows_query i) \<longleftrightarrow> s_importJobId r = i"
  "holds (row_path env r) (job_query t i) \<longleftrightarrow> of_job t i r"
  by (auto simp: holds_def id_query_def job_rows_query_def job_query_def of_job_def equals_def)

lemma holds_commit [simp]: "holds (row_path env r) (commit_query t i) \<longleftrightarrow> committable t i r"
proof -
  have "row_path env r ''validationStatus'' = Some (VStr ''valid'') \<longleftrightarrow> s_validationStatus r = Some Valid"
    by (cases "s_validationStatus r"; cases "the (s_validationStatus r)") simp_all
  moreover have "commit_name (s_commitStatus r) \<in> {''pending'', ''committing''} \<longleftrightarrow> s_commitStatus r \<in> {Pending, RowCommitting}"
    by (cases "s_commitStatus r") simp_all
  ultimately show ?thesis
    by (auto simp: holds_def commit_query_def committable_def equals_def simp del: row_path_simps(5))
qed

lemma session_find [simp]:
  "find_doc ms_id session_field (id_query i) xs = by_id ms_id i xs"
  "find_doc ms_id session_field (id_tenant_query i t) xs = of_tenant ms_tenantId t (by_id ms_id i xs)"
  by (intro find_doc_id; simp add: session_field_def)+

lemma job_find [simp]:
  "find_doc j_id job_field (id_query i) xs = by_id j_id i xs"
  "find_doc j_id job_field (id_tenant_query i t) xs = of_tenant j_tenantId t (by_id j_id i xs)"
  by (intro find_doc_id; simp add: job_field_def)+

lemma by_id_put_map: "(\<lambda>i. by_id f i (put_by f x xs)) = (\<lambda>i. by_id f i xs)(f x \<mapsto> x)"
  by (auto simp: by_id_put_by)

lemma list_update_job_simps [simp]:
  "l_sessions (snd (list_update_job q us s)) = l_sessions s" "l_rows (snd (list_update_job q us s)) = l_rows s"
  "fst (list_update_job q us s) = map_option (fold apply_set us) (find_doc j_id job_field q (l_jobs s))"
  by (auto simp: list_update_job_def Let_def split: option.split)

lemma list_update_job_jobs:
  "find_doc j_id job_field q (l_jobs s) = Some job \<Longrightarrow> l_jobs (snd (list_update_job q us s)) = put_by j_id (fold apply_set us job) (l_jobs s)"
  "find_doc j_id job_field q (l_jobs s) = None \<Longrightarrow> l_jobs (snd (list_update_job q us s)) = l_jobs s"
  by (simp_all add: list_update_job_def Let_def)

definition list_ok :: "list_db \<Rightarrow> bool" where
  "list_ok s \<longleftrightarrow> distinct (map s_id (l_rows s)) \<and> distinct (map row_index_key (l_rows s))"

lemma update_first_row_id:
  "distinct (map s_id rs) \<Longrightarrow> update_first_row (\<lambda>r. s_id r = i) u rs = map (update_at i u) rs"
proof (induction rs)
  case (Cons r rs)
  have "s_id r = i \<Longrightarrow> map (update_at i u) rs = rs"
    using Cons.prems by (intro map_idI update_at_other) (auto simp: image_iff)
  moreover have "update_at i u r = (if s_id r = i then apply_row_set u r else r)"
    by (simp add: update_at_def)
  ultimately show ?case using Cons by simp
qed simp

lemma row_index_update [simp]: "row_index_key (update_at i u r) = row_index_key r"
  by (simp add: row_index_key_def)

lemma list_ok_update: "list_ok s \<Longrightarrow> list_ok (list_update_row env (id_query i) u s)"
  by (simp add: list_ok_def list_update_row_def update_first_row_id comp_def)

lemma list_update_rows: "list_ok s \<Longrightarrow> l_rows (list_update_row env (id_query i) u s) = map (update_at i u) (l_rows s)"
  by (simp add: list_update_row_def update_first_row_id list_ok_def)

lemma list_update_other [simp]:
  "l_jobs (list_update_row env q u s) = l_jobs s" "l_sessions (list_update_row env q u s) = l_sessions s"
  by (simp_all add: list_update_row_def)

lemma list_bulk:
  "list_ok s \<Longrightarrow> l_rows (fold (\<lambda>(q, u). list_update_row env q u) (map (\<lambda>(i, u). (id_query i, u)) ius) s)
      = fold (\<lambda>(i, u). map (update_at i u)) ius (l_rows s)
    \<and> list_ok (fold (\<lambda>(q, u). list_update_row env q u) (map (\<lambda>(i, u). (id_query i, u)) ius) s)"
  by (induction ius arbitrary: s) (auto simp: list_ok_update list_update_rows)

lemma list_bulk_other:
  "l_jobs (fold (\<lambda>(q, u). list_update_row env q u) qus s) = l_jobs s
   \<and> l_sessions (fold (\<lambda>(q, u). list_update_row env q u) qus s) = l_sessions s"
  by (induction qus arbitrary: s) auto

lemma list_insert_ok:
  assumes "list_ok s"
  shows "list_ok (snd (list_insert docs s))"
proof -
  define ids where "ids = map (\<lambda>k. fresh_id k (map s_id (l_rows s))) [0..<length docs]"
  have "length ids = length docs"
    by (simp add: ids_def)
  then have "map s_id (map2 new_row ids docs) = ids"
    by (intro nth_equalityI) (simp_all add: new_row_def)
  moreover have "distinct ids"
    by (simp add: ids_def distinct_map inj_on_def fresh_id_inject)
  moreover have "i \<notin> set (map s_id (l_rows s))" if "i \<in> set ids" for i
  proof -
    note mem = that
    obtain k where "i = fresh_id k (map s_id (l_rows s))"
      using mem by (auto simp: ids_def)
    then show ?thesis using fresh_id_new by blast
  qed
  then have "set ids \<inter> set (map s_id (l_rows s)) = {}"
    by blast
  ultimately show ?thesis
    using assms unfolding list_insert_def Let_def ids_def [symmetric] list_ok_def by (simp del: map_map) blast
qed

lemma list_insert_other [simp]:
  "l_jobs (snd (list_insert docs s)) = l_jobs s" "l_sessions (snd (list_insert docs s)) = l_sessions s"
  by (auto simp: list_insert_def Let_def)

lemma list_ok_update_job: "list_ok s \<Longrightarrow> list_ok (snd (list_update_job q us s))"
  by (simp add: list_ok_def)

lemma list_ok_filter: "list_ok s \<Longrightarrow> list_ok (s\<lparr>l_rows := filter p (l_rows s)\<rparr>)"
  by (simp add: list_ok_def distinct_map_filter)

lemma list_okD: "list_ok s \<Longrightarrow> distinct (map s_id (l_rows s))" "list_ok s \<Longrightarrow> distinct (map row_index_key (l_rows s))"
  by (simp_all add: list_ok_def)

lemma page_limit: "page (Fin 0) (row_limit lmt) xs = js_limit lmt xs"
  by (auto simp: page_def row_limit_def js_limit_def split: option.split)

interpretation listdb: mongo_db "list_mongo env" "\<lambda>s i. by_id ms_id i (l_sessions s)"
  "\<lambda>s i. by_id j_id i (l_jobs s)" l_rows list_ok for env
proof unfold_locales
  fix s r r' assume "list_ok s" "r \<in> set (l_rows s)" "r' \<in> set (l_rows s)"
    "s_importJobId r = s_importJobId r'" "s_rowIndex r = s_rowIndex r'"
  then show "r = r'"
    by (auto simp: list_ok_def distinct_map inj_on_def row_index_key_def)
next
  fix s t j lmt assume "list_ok s"
  show "\<exists>xs. mset xs = mset (filter (committable t j) (l_rows s)) \<and> sorted (map s_rowIndex xs)
      \<and> db_rows (list_mongo env) (commit_query t j) (Some ''rowIndex'') (Fin 0) (row_limit lmt) s = js_limit lmt xs"
    by (intro exI [of _ "sort_key s_rowIndex (filter (committable t j) (l_rows s))"])
      (simp add: list_mongo_def list_find_rows_def page_limit)
next
  fix s t j assume "list_ok s"
  show "mset (db_rows (list_mongo env) (job_query t j) None (Fin 0) None s) = mset (filter (of_job t j) (l_rows s))"
    by (simp add: list_mongo_def list_find_rows_def page_def)
next
  fix s s' docs assume "list_ok s" "db_insertRows (list_mongo env) docs s = (None, s')"
  then show "\<exists>ids. length ids = length docs \<and> mset (l_rows s') = mset (l_rows s @ map2 new_row ids docs)"
    by (intro exI [of _ "map (\<lambda>k. fresh_id k (map s_id (l_rows s))) [0..<length docs]"])
      (auto simp: list_mongo_def list_insert_def Let_def split: if_splits)
next
  fix s s' i assume "db_objectId (list_mongo env) s = (i, s')"
  then show "(\<lambda>i. by_id ms_id i (l_sessions s')) = (\<lambda>i. by_id ms_id i (l_sessions s))
      \<and> (\<lambda>i. by_id j_id i (l_jobs s')) = (\<lambda>i. by_id j_id i (l_jobs s)) \<and> l_rows s' = l_rows s"
    by (auto simp: list_mongo_def)
next
  fix s s' i assume "list_ok s" "db_objectId (list_mongo env) s = (i, s')"
  then show "list_ok s' \<and> by_id ms_id i (l_sessions s) = None \<and> by_id j_id i (l_jobs s) = None"
    using by_id_fresh(1) [of 0 ms_id "l_sessions s" "map j_id (l_jobs s)" i] by_id_fresh(2) [of 0 "map ms_id (l_sessions s)" j_id "l_jobs s" i]
    by (auto simp: list_mongo_def)
next
  fix q i t us s assume q: "q = id_query i \<or> q = id_tenant_query i t"
  show "(\<lambda>i. by_id j_id i (l_jobs (snd (db_updateJob (list_mongo env) q us s)))) =
      (case db_job (list_mongo env) q s of None \<Rightarrow> (\<lambda>i. by_id j_id i (l_jobs s))
        | Some job \<Rightarrow> (\<lambda>i. by_id j_id i (l_jobs s))(i \<mapsto> fold apply_set us job))"
  proof (cases "find_doc j_id job_field q (l_jobs s)")
    case (Some job)
    then have "j_id job = i"
      using q by (auto simp: of_tenant_Some dest: by_id_Some)
    then show ?thesis
      using Some by (simp add: list_mongo_def list_update_job_jobs by_id_put_map)
  qed (simp add: list_mongo_def list_update_job_jobs)
qed (auto simp: list_mongo_def list_ok_def [of "_\<lparr>l_sessions := _\<rparr>"] list_ok_def [of "_\<lparr>l_jobs := _\<rparr>"]
    by_id_put_map list_ok_update list_update_rows list_bulk list_bulk_other list_insert_ok
    list_okD list_ok_update_job list_ok_filter
    dest: by_id_Some)

end
