(* ===== verification/CommitCorrect.thy ===== *)
theory CommitCorrect
  imports Commit
begin

text \<open>
  What the commit engine guarantees over any store that meets the contract \<open>staging_store\<close>:
  every committable row is settled exactly once, chunked and unchunked runs agree, and runs that
  crash anywhere and are repeated neither lose a row nor write an entity twice. CommitProps
  instantiates these facts for the in-memory store.
\<close>

subsection \<open>The effect of a run on the rows\<close>

definition commit_frame :: "srow \<Rightarrow> srow \<Rightarrow> bool" where
  "commit_frame x y \<longleftrightarrow>
     y = x\<lparr>s_commitStatus := s_commitStatus y, s_committedEntityId := s_committedEntityId y,
           s_committedEntityModel := s_committedEntityModel y, s_commitError := s_commitError y\<rparr>"

lemma commit_frame_refl [simp]: "commit_frame x x"
  by (simp add: commit_frame_def)

lemma commit_frame_trans: "commit_frame x y \<Longrightarrow> commit_frame y z \<Longrightarrow> commit_frame x z"
  unfolding commit_frame_def by (cases x; cases y; cases z) simp

lemma commit_frame_keeps:
  assumes "commit_frame x y"
  shows "s_id y = s_id x" "s_tenantId y = s_tenantId x" "s_importJobId y = s_importJobId x"
    "s_rowIndex y = s_rowIndex x" "s_mappedFields y = s_mappedFields x"
    "s_validationStatus y = s_validationStatus x"
  using assms unfolding commit_frame_def by (cases x; cases y; simp)+

fun is_commit_set :: "row_set \<Rightarrow> bool" where
  "is_commit_set (SetMapped _ _) = False"
| "is_commit_set (SetValidation _ _) = False"
| "is_commit_set (SetExternalId _ _) = False"
| "is_commit_set _ = True"

lemma commit_frame_apply: "is_commit_set u \<Longrightarrow> commit_frame x (apply_row_set u x)"
  by (cases u) (simp_all add: commit_frame_def)

lemma commit_frame_update: "is_commit_set u \<Longrightarrow> commit_frame x (update_at i u x)"
  by (simp add: update_at_def commit_frame_apply)

text \<open>What handling one row, or several, does to the rows of the store.\<close>

record row_effect =
  eff :: "srow \<Rightarrow> srow"
  out :: "id \<Rightarrow> commit_status"

definition effect_on :: "id set \<Rightarrow> row_effect \<Rightarrow> bool" where
  "effect_on I e \<longleftrightarrow>
     (\<forall>x. commit_frame x (eff e x)) \<and> (\<forall>x. s_id x \<notin> I \<longrightarrow> eff e x = x)
     \<and> (\<forall>x. s_id x \<in> I \<longrightarrow> s_commitStatus (eff e x) = out e (s_id x))
     \<and> (\<forall>i \<in> I. out e i \<in> {Committed, CommitError})"

fun final_of :: "row_set \<Rightarrow> commit_status option" where
  "final_of (SetCommitted _ _) = Some Committed"
| "final_of SetCommittedEarlier = Some Committed"
| "final_of (SetCommitFailed _) = Some CommitError"
| "final_of _ = None"

lemma commit_one_marks:
  assumes "commit_one ops b d t a r (s, w, c, f) = (s', w', c', f')"
  shows "\<exists>u st. final_of u = Some st \<and> c' = c + (if st = Committed then 1 else 0)
    \<and> f' = f + (if st = Committed then 0 else 1)
    \<and> (s' = mark ops r u s \<or> s' = mark ops r u (mark ops r SetCommitting s))"
proof -
  obtain res w1 where res: "d_commitRow d t (s_mappedFields r) a w = (res, w1)" by force
  define s1 where "s1 = (if b then s else mark ops r SetCommitting s)"
  have s1: "s1 = s \<or> s1 = mark ops r SetCommitting s"
    by (simp add: s1_def)
  have 1: ?thesis if "s' = mark ops r (SetCommitted i m) s1" "c' = c + 1" "f' = f" for i m
    using that s1 by (intro exI [of _ "SetCommitted i m"] exI [of _ Committed]) auto
  have 2: ?thesis if "s' = mark ops r SetCommittedEarlier s1" "c' = c + 1" "f' = f"
    using that s1 by (intro exI [of _ SetCommittedEarlier] exI [of _ Committed]) auto
  have 3: ?thesis if "s' = mark ops r (SetCommitFailed m) s1" "c' = c" "f' = f + 1" for m
    using that s1 by (intro exI [of _ "SetCommitFailed m"] exI [of _ CommitError]) auto
  show ?thesis
  proof (cases res)
    case (Inl err)
    show ?thesis
    proof (cases "\<not> b \<and> isDuplicateKeyError err \<and> s_commitStatus r = RowCommitting")
      case True
      show ?thesis
        by (rule 2) (use assms res Inl True in
          \<open>simp_all add: commit_one_def commit_row_def commit_row_txn_def Let_def s1_def split: if_splits\<close>)
    next
      case False
      show ?thesis
        by (rule 3 [of "e_message err"]) (use assms res Inl False in
          \<open>auto simp: commit_one_def commit_row_def commit_row_txn_def Let_def s1_def split: if_splits\<close>)
    qed
  next
    case (Inr im)
    show ?thesis
      by (rule 1 [of "fst im" "snd im"]) (use assms res Inr in
        \<open>auto simp: commit_one_def commit_row_def commit_row_txn_def Let_def s1_def split: if_splits prod.splits\<close>)
  qed
qed

context staging_store
begin

lemma mark_rows: "good s \<Longrightarrow> rows (mark ops r u s) = map (update_at (s_id r) u) (rows s)"
  by (simp add: mark_def update_rows)

lemma mark_good: "good s \<Longrightarrow> good (mark ops r u s)"
  by (simp add: mark_def update_good)

lemma mark_jobs [simp]: "job_of (mark ops r u s) = job_of s"
  by (simp add: mark_def update_jobs)

lemma mark_mark_rows:
  "good s \<Longrightarrow> rows (mark ops r u (mark ops r v s)) = map (update_at (s_id r) u \<circ> update_at (s_id r) v) (rows s)"
  by (simp add: mark_rows mark_good)

lemma commit_one_effect:
  assumes "good s" "commit_one ops b d t a r (s, w, c, f) = (s', w', c', f')"
  shows "good s' \<and> job_of s' = job_of s \<and>
    (\<exists>e. effect_on {s_id r} e \<and> rows s' = map (eff e) (rows s)
      \<and> c' = c + (if out e (s_id r) = Committed then 1 else 0)
      \<and> f' = f + (if out e (s_id r) = Committed then 0 else 1))"
proof -
  obtain u st where u: "final_of u = Some st" "c' = c + (if st = Committed then 1 else 0)"
      "f' = f + (if st = Committed then 0 else 1)"
      and s': "s' = mark ops r u s \<or> s' = mark ops r u (mark ops r SetCommitting s)"
    using commit_one_marks [OF assms(2)] by blast
  have st: "st \<in> {Committed, CommitError}" "\<And>x. s_commitStatus (apply_row_set u x) = st" "is_commit_set u"
      "\<And>x. apply_row_set u (apply_row_set SetCommitting x) = apply_row_set u x"
    using u(1) by (cases u; simp)+
  define e where "e = \<lparr>eff = update_at (s_id r) u, out = (\<lambda>_. st)\<rparr>"
  have comp: "update_at (s_id r) u \<circ> update_at (s_id r) SetCommitting = update_at (s_id r) u"
    using st(4) by (auto simp: update_at_def fun_eq_iff)
  have "effect_on {s_id r} e"
    unfolding effect_on_def e_def using st by (auto simp: commit_frame_update) (auto simp: update_at_def)
  moreover have "rows s' = map (eff e) (rows s)"
    using s' comp assms(1) by (auto simp: e_def mark_rows mark_mark_rows simp del: map_map)
  moreover have "good s' \<and> job_of s' = job_of s"
    using s' assms(1) by (auto simp: mark_good)
  ultimately show ?thesis
    using u by (auto simp: e_def intro!: exI [of _ e])
qed

lemma effect_compose:
  assumes "effect_on I e" "effect_on {i} e'" "i \<notin> I"
  shows "effect_on (insert i I) \<lparr>eff = eff e \<circ> eff e', out = (out e)(i := out e' i)\<rparr>"
proof -
  have 1: "commit_frame x (eff e (eff e' x))" for x
    using assms by (metis commit_frame_trans effect_on_def)
  have id: "s_id (eff e' x) = s_id x" for x
    using assms(2) commit_frame_keeps(1) unfolding effect_on_def by metis
  have 2: "eff e (eff e' x) = x" if "s_id x \<notin> insert i I" for x
    using assms that unfolding effect_on_def by auto
  have 3: "s_commitStatus (eff e (eff e' x)) = ((out e)(i := out e' i)) (s_id x)" if "s_id x \<in> insert i I" for x
  proof (cases "s_id x = i")
    case True
    then have "eff e (eff e' x) = eff e' x"
      using assms(1,3) id unfolding effect_on_def by metis
    then show ?thesis using True assms(2) unfolding effect_on_def by simp
  next
    case False
    then have "eff e' x = x"
      using assms(2) unfolding effect_on_def by auto
    then show ?thesis using False that assms(1) unfolding effect_on_def by auto
  qed
  show ?thesis
    using 1 2 3 assms unfolding effect_on_def by auto
qed

lemma commit_fold_effect:
  assumes "good s" "distinct (map s_id cs)"
    and "fold (commit_one ops b d t a) cs (s, w, c, f) = (s', w', c', f')"
  shows "good s' \<and> job_of s' = job_of s \<and>
    (\<exists>e. effect_on (s_id ` set cs) e \<and> rows s' = map (eff e) (rows s)
      \<and> c' = c + length (filter (\<lambda>r. out e (s_id r) = Committed) cs)
      \<and> f' = f + length (filter (\<lambda>r. out e (s_id r) \<noteq> Committed) cs))"
  using assms
proof (induction cs arbitrary: s w c f)
  case Nil
  have "effect_on {} \<lparr>eff = id, out = (\<lambda>_. Committed)\<rparr>"
    by (simp add: effect_on_def)
  with Nil show ?case by (intro conjI exI [of _ "\<lparr>eff = id, out = (\<lambda>_. Committed)\<rparr>"]) auto
next
  case (Cons r cs)
  obtain s1 w1 c1 f1 where one: "commit_one ops b d t a r (s, w, c, f) = (s1, w1, c1, f1)"
    using prod_cases4 by blast
  from commit_one_effect [OF Cons.prems(1) one] obtain e' where
    e': "good s1" "job_of s1 = job_of s" "effect_on {s_id r} e'" "rows s1 = map (eff e') (rows s)"
      "c1 = c + (if out e' (s_id r) = Committed then 1 else 0)"
      "f1 = f + (if out e' (s_id r) = Committed then 0 else 1)" by blast
  have rest: "fold (commit_one ops b d t a) cs (s1, w1, c1, f1) = (s', w', c', f')"
    using Cons.prems(3) one by simp
  from Cons.IH [OF e'(1) _ rest] Cons.prems(2) obtain e where
    e: "good s'" "job_of s' = job_of s1" "effect_on (s_id ` set cs) e" "rows s' = map (eff e) (rows s1)"
      "c' = c1 + length (filter (\<lambda>r. out e (s_id r) = Committed) cs)"
      "f' = f1 + length (filter (\<lambda>r. out e (s_id r) \<noteq> Committed) cs)" by auto
  define e2 where "e2 = \<lparr>eff = eff e \<circ> eff e', out = (out e)(s_id r := out e' (s_id r))\<rparr>"
  have notin: "s_id r \<notin> s_id ` set cs"
    using Cons.prems(2) by auto
  have "effect_on (insert (s_id r) (s_id ` set cs)) e2"
    unfolding e2_def by (rule effect_compose [OF e(3) e'(3) notin])
  moreover have "filter (\<lambda>x. out e2 (s_id x) = Committed) cs = filter (\<lambda>x. out e (s_id x) = Committed) cs"
    "filter (\<lambda>x. out e2 (s_id x) \<noteq> Committed) cs = filter (\<lambda>x. out e (s_id x) \<noteq> Committed) cs"
    using notin by (auto simp: e2_def image_iff intro!: filter_cong)
  moreover have "rows s' = map (eff e2) (rows s)" "out e2 (s_id r) = out e' (s_id r)"
    using e(4) e'(4) by (simp_all add: e2_def)
  ultimately show ?case
    using e e' by (intro conjI exI [of _ e2]) auto
qed

end

subsection \<open>One batch, and batches in chunks\<close>

lemma js_limit_map: "js_limit l (map f xs) = map f (js_limit l xs)"
  by (simp add: js_limit_def take_map split: option.split)

lemma set_js_limit: "set (js_limit l xs) \<subseteq> set xs"
  by (auto simp: js_limit_def dest: in_set_takeD split: option.splits if_splits)

lemma filter_drop:
  "distinct (map f xs) \<Longrightarrow> filter (\<lambda>x. f x \<notin> f ` set (take n xs)) xs = drop n xs"
proof (induction xs arbitrary: n)
  case (Cons x xs)
  show ?case
  proof (cases n)
    case (Suc m)
    have "filter (\<lambda>y. f y \<notin> f ` set (take (Suc m) (x # xs))) xs = filter (\<lambda>y. f y \<notin> f ` set (take m xs)) xs"
      using Cons.prems by (auto simp: image_iff intro!: filter_cong)
    then show ?thesis using Cons Suc by simp
  qed simp
qed simp

definition todo_rows :: "id \<Rightarrow> id \<Rightarrow> srow list \<Rightarrow> srow list" where
  "todo_rows t i rs = sort_key s_rowIndex (filter (committable t i) rs)"

lemma set_todo [simp]: "set (todo_rows t i rs) = {r \<in> set rs. committable t i r}"
  by (simp add: todo_rows_def)

lemma distinct_todo:
  assumes "distinct (map s_id rs)"
  shows "distinct (map s_id (todo_rows t i rs))"
proof -
  have "distinct (map s_id (filter (committable t i) rs))"
    using assms by (rule distinct_map_filter)
  moreover have "mset (map s_id (todo_rows t i rs)) = mset (map s_id (filter (committable t i) rs))"
    by (simp add: todo_rows_def)
  ultimately show ?thesis by (metis mset_eq_imp_distinct_iff)
qed

lemma committable_frame:
  "commit_frame x y \<Longrightarrow> committable t i y \<longleftrightarrow>
     of_job t i x \<and> s_validationStatus x = Some Valid \<and> s_commitStatus y \<in> {Pending, RowCommitting}"
  by (auto simp: committable_def of_job_def dest: commit_frame_keeps)

lemma todo_effect:
  assumes "effect_on I e"
  shows "todo_rows t i (map (eff e) rs) = filter (\<lambda>r. s_id r \<notin> I) (todo_rows t i rs)"
proof -
  have "filter (committable t i) (map (eff e) rs) = filter (\<lambda>r. s_id r \<notin> I) (filter (committable t i) rs)"
  proof (induction rs)
    case (Cons r rs)
    have "committable t i (eff e r) \<longleftrightarrow> s_id r \<notin> I \<and> committable t i r"
    proof (cases "s_id r \<in> I")
      case True
      then have "s_commitStatus (eff e r) \<in> {Committed, CommitError}"
        using assms unfolding effect_on_def by metis
      then show ?thesis using True by (auto simp: committable_def)
    next
      case False
      then have "eff e r = r" using assms unfolding effect_on_def by blast
      then show ?thesis using False by simp
    qed
    moreover have "eff e r = r" if "s_id r \<notin> I"
      using assms that unfolding effect_on_def by blast
    ultimately show ?case using Cons by auto
  qed simp
  then show ?thesis
    by (simp add: todo_rows_def filter_sort)
qed

context staging_store
begin

lemma commitBatch_fold:
  assumes "good s" "job_of s t i = Some job"
  shows "commitBatch ops conn t i d a lmt (s, w) =
    (case fold (commit_one ops (use_transaction d conn) d t a)
        (map view (js_limit lmt (todo_rows t i (rows s)))) (s, w, 0, 0) of
      (s', w', c, f) \<Rightarrow> Inr (\<lparr>b_committed = c, b_failed = f, b_processed = c + f\<rparr>, s', w'))"
  using assms commit_cursor [OF assms(1), of t i lmt]
  by (simp add: commitBatch_def get_job todo_rows_def js_limit_map)

lemma view_ids: "map s_id (map view rs) = map s_id rs"
  by (simp add: view_keeps comp_def)

lemma view_id_set: "s_id ` set (map view rs) = s_id ` set rs"
  by (simp add: image_image view_keeps)

lemma distinct_todo_view:
  assumes "good s"
  shows "distinct (map s_id (map view (js_limit lmt (todo_rows t i (rows s)))))"
proof -
  have "distinct (map s_id (js_limit lmt (todo_rows t i (rows s))))"
    using distinct_todo [OF distinct_ids [OF assms], of t i]
    by (auto simp: js_limit_def take_map [symmetric] split: option.split)
  then show ?thesis unfolding view_ids .
qed

lemma commitBatch_effect:
  assumes "good s" "commitBatch ops conn t i d a lmt (s, w) = Inr (r, s', w')"
  shows "good s' \<and> job_of s' = job_of s \<and>
    (\<exists>e. effect_on (s_id ` set (js_limit lmt (todo_rows t i (rows s)))) e \<and> rows s' = map (eff e) (rows s)
      \<and> b_committed r = length (filter (\<lambda>r. out e (s_id r) = Committed) (js_limit lmt (todo_rows t i (rows s))))
      \<and> b_failed r = length (filter (\<lambda>r. out e (s_id r) \<noteq> Committed) (js_limit lmt (todo_rows t i (rows s))))
      \<and> b_processed r = length (js_limit lmt (todo_rows t i (rows s))))"
proof -
  obtain job where job: "job_of s t i = Some job"
    using assms(2) by (cases "job_of s t i") (auto simp: commitBatch_def get_job)
  define cs where "cs = js_limit lmt (todo_rows t i (rows s))"
  obtain s1 w1 c f where fd: "fold (commit_one ops (use_transaction d conn) d t a) (map view cs) (s, w, 0, 0) = (s1, w1, c, f)"
    using prod_cases4 by blast
  have r: "r = \<lparr>b_committed = c, b_failed = f, b_processed = c + f\<rparr>" "s' = s1" "w' = w1"
    using assms(2) commitBatch_fold [OF assms(1) job, of conn d a lmt w] fd by (simp_all add: cs_def)
  have flt: "(\<lambda>r. out e (s_id r) = Committed) \<circ> view = (\<lambda>r. out e (s_id r) = Committed)"
    "(\<lambda>r. out e (s_id r) \<noteq> Committed) \<circ> view = (\<lambda>r. out e (s_id r) \<noteq> Committed)" for e
    by (simp_all add: fun_eq_iff view_keeps)
  obtain e where e: "good s1" "job_of s1 = job_of s" "effect_on (s_id ` set cs) e" "rows s1 = map (eff e) (rows s)"
    "c = length (filter (\<lambda>r. out e (s_id r) = Committed) cs)"
    "f = length (filter (\<lambda>r. out e (s_id r) \<noteq> Committed) cs)"
    using commit_fold_effect [OF assms(1) distinct_todo_view [OF assms(1)] fd [unfolded cs_def]]
    unfolding view_id_set cs_def [symmetric] by (auto simp: filter_map flt)
  have "c + f = length cs"
    unfolding e(5,6) by (rule sum_length_filter_compl)
  then show ?thesis
    using e r unfolding cs_def by auto
qed

text \<open>A run depends on the rows of the store only.\<close>

lemma commit_one_sim:
  assumes "good s" "good z" "rows s = rows z"
    and "commit_one ops b d t a r (s, w, c, f) = (s', w', c', f')"
    and "commit_one ops b d t a r (z, w, c2, f2) = (z', w2', c2', f2')"
  shows "good s' \<and> good z' \<and> rows s' = rows z' \<and> w' = w2' \<and> c' + c2 = c2' + c \<and> f' + f2 = f2' + f"
proof -
  have m: "rows (mark ops r u s) = rows (mark ops r u z)" for u
    using assms(1-3) by (simp add: mark_rows)
  have mm: "rows (mark ops r u (mark ops r v s)) = rows (mark ops r u (mark ops r v z))" for u v
    using assms(1-3) by (simp add: mark_mark_rows)
  obtain res w1 where res: "d_commitRow d t (s_mappedFields r) a w = (res, w1)" by force
  show ?thesis
    using assms(4,5) res m mm mark_good assms(1,2)
    by (cases b; cases res) (auto simp: commit_one_def commit_row_def commit_row_txn_def Let_def split: if_splits)
qed

lemma commit_fold_sim:
  assumes "good s" "good z" "rows s = rows z"
    and "fold (commit_one ops b d t a) cs (s, w, c, f) = (s', w', c', f')"
    and "fold (commit_one ops b d t a) cs (z, w, c2, f2) = (z', w2', c2', f2')"
  shows "good s' \<and> good z' \<and> rows s' = rows z' \<and> w' = w2' \<and> c' + c2 = c2' + c \<and> f' + f2 = f2' + f"
  using assms
proof (induction cs arbitrary: s z w c f c2 f2)
  case (Cons r cs)
  obtain s1 w1 c1 f1 where 1: "commit_one ops b d t a r (s, w, c, f) = (s1, w1, c1, f1)"
    using prod_cases4 by blast
  obtain z1 v1 d1 g1 where 2: "commit_one ops b d t a r (z, w, c2, f2) = (z1, v1, d1, g1)"
    using prod_cases4 by blast
  note sim = commit_one_sim [OF Cons.prems(1-3) 1 2]
  have "good s' \<and> good z' \<and> rows s' = rows z' \<and> w' = w2' \<and> c' + d1 = c2' + c1 \<and> f' + g1 = f2' + f1"
    by (rule Cons.IH [of s1 z1 w1 c1 f1 d1 g1]) (use sim 1 2 Cons.prems(4,5) in auto)
  with sim show ?case by auto
qed auto

lemma worker_loop_batch:
  assumes "good s" "job_of s t (j_id job) \<noteq> None" "length (todo_rows t (j_id job) (rows s)) div CHUNK_SIZE < fuel"
    and "fold (commit_one ops (use_transaction d conn) d t (j_createdBy job))
        (map view (todo_rows t (j_id job) (rows s))) (s, w, 0, 0) = (sb, wb, cb, fb)"
  shows "\<exists>s'. worker_loop fuel ops conn t job d (s, w, tc, tf) = Some (Inr (s', wb, tc + cb, tf + fb))
    \<and> good s' \<and> rows s' = rows sb"
  using assms
proof (induction fuel arbitrary: s w tc tf sb wb cb fb)
  case (Suc fuel)
  define i where "i = j_id job"
  define b where "b = use_transaction d conn"
  define a where "a = j_createdBy job"
  define todo where "todo = todo_rows t i (rows s)"
  define chunk where "chunk = take CHUNK_SIZE todo"
  obtain job1 where job1: "job_of s t i = Some job1"
    using Suc.prems(2) by (auto simp: i_def)
  obtain s1 w1 c1 f1 where fd: "fold (commit_one ops b d t a) (map view chunk) (s, w, 0, 0) = (s1, w1, c1, f1)"
    using prod_cases4 by blast
  have limit: "js_limit (Some CHUNK_SIZE) todo = chunk"
    by (simp add: js_limit_def chunk_def CHUNK_SIZE_def)
  have batch: "commitBatch ops conn t i d a (Some CHUNK_SIZE) (s, w)
      = Inr (\<lparr>b_committed = c1, b_failed = f1, b_processed = c1 + f1\<rparr>, s1, w1)"
    using commitBatch_fold [OF Suc.prems(1) job1, of conn d a "Some CHUNK_SIZE" w] fd limit
    by (simp add: todo_def b_def)
  from commitBatch_effect [OF Suc.prems(1) batch] limit obtain e where
    e: "good s1" "job_of s1 = job_of s" "effect_on (s_id ` set chunk) e" "rows s1 = map (eff e) (rows s)"
      "c1 + f1 = length chunk"
    by (auto simp: todo_def)
  define s2 where "s2 = snd (so_updateJobModel ops (id_tenant_query i t)
      [SetCount CommittedRows (tc + c1), SetCount CommitFailedRows (tf + f1)] s1)"
  have s2: "good s2" "rows s2 = rows s1" "job_of s2 t i \<noteq> None"
    using e(1,2) job1 by (simp_all add: s2_def model_rows model_good model_job)
  have loop: "worker_loop (Suc fuel) ops conn t job d (s, w, tc, tf) =
      (if length chunk < CHUNK_SIZE then Some (Inr (s2, w1, tc + c1, tf + f1))
       else worker_loop fuel ops conn t job d (s2, w1, tc + c1, tf + f1))"
    using batch e(5) by (simp add: Let_def s2_def i_def a_def)
  have full: "fold (commit_one ops b d t a) (map view (drop CHUNK_SIZE todo)) (s1, w1, c1, f1) = (sb, wb, cb, fb)"
  proof -
    have "todo = chunk @ drop CHUNK_SIZE todo"
      by (simp add: chunk_def)
    then have "map view todo = map view chunk @ map view (drop CHUNK_SIZE todo)"
      by (metis map_append)
    then show ?thesis
      using Suc.prems(4) fd by (simp add: todo_def b_def a_def i_def)
  qed
  show ?case
  proof (cases "length chunk < CHUNK_SIZE")
    case True
    then have "drop CHUNK_SIZE todo = []"
      by (simp add: chunk_def)
    then show ?thesis using full True loop s2 by auto
  next
    case False
    have todo2: "todo_rows t i (rows s2) = drop CHUNK_SIZE todo"
      using filter_drop [OF distinct_todo [OF distinct_ids [OF Suc.prems(1)]], of CHUNK_SIZE t i]
      by (simp add: s2(2) e(4) todo_effect [OF e(3)] todo_def chunk_def)
    obtain sc wc cc fc where rest: "fold (commit_one ops b d t a) (map view (drop CHUNK_SIZE todo)) (s2, w1, 0, 0) = (sc, wc, cc, fc)"
      using prod_cases4 by blast
    have sim: "good sb \<and> good sc \<and> rows sb = rows sc \<and> wb = wc \<and> cb + 0 = cc + c1 \<and> fb + 0 = fc + f1"
      by (rule commit_fold_sim [OF e(1) s2(1) s2(2) [symmetric] full rest])
    have long: "CHUNK_SIZE \<le> length todo"
      using False by (simp add: chunk_def)
    have "length (todo_rows t i (rows s2)) div CHUNK_SIZE < fuel"
      using Suc.prems(3) long unfolding todo2 todo_def [symmetric] i_def [symmetric]
      by (simp add: CHUNK_SIZE_def le_div_geq)
    then obtain s' where "worker_loop fuel ops conn t job d (s2, w1, tc + c1, tf + f1)
        = Some (Inr (s', wc, tc + c1 + cc, tf + f1 + fc))" "good s'" "rows s' = rows sc"
      using Suc.IH [of s2 w1 sc wc cc fc "tc + c1" "tf + f1"] s2 rest todo2
      by (auto simp: i_def a_def b_def)
    then show ?thesis using loop False sim by (auto simp: algebra_simps)
  qed
qed simp

end

subsection \<open>Crashes and repeated runs\<close>

text \<open>
  A target whose collection has a unique index on a key: \<open>created w\<close> lists the keys of its
  entities. A row that the target refuses leaves no entity; a row whose key is taken gets a
  duplicate-key error; any other row is written, once.
\<close>

definition unique_target ::
  "'w target \<Rightarrow> ('w \<Rightarrow> 'k list) \<Rightarrow> (obj option \<Rightarrow> 'k) \<Rightarrow> (obj option \<Rightarrow> bool) \<Rightarrow> bool" where
  "unique_target d created key refused \<longleftrightarrow>
     (\<forall>t m a w.
        if refused m then \<exists>e. d_commitRow d t m a w = (Inl e, w) \<and> \<not> isDuplicateKeyError e
        else if key m \<in> set (created w)
          then \<exists>e. d_commitRow d t m a w = (Inl e, w) \<and> isDuplicateKeyError e
        else \<exists>x w'. d_commitRow d t m a w = (Inr x, w')
               \<and> mset (created w') = add_mset (key m) (mset (created w)))"

text \<open>
  How far a row may be, when the entities of the rows in \<open>D\<close> exist: a pending row has none, a
  reserved row may have one (only without transactions), a committed one has.
\<close>

definition row_state :: "bool \<Rightarrow> id set \<Rightarrow> (srow \<Rightarrow> bool) \<Rightarrow> srow \<Rightarrow> bool" where
  "row_state b D ref y \<longleftrightarrow>
     (case s_commitStatus y of
        Pending \<Rightarrow> s_id y \<notin> D
      | RowCommitting \<Rightarrow> \<not> b
      | Committed \<Rightarrow> s_id y \<in> D
      | CommitError \<Rightarrow> ref y
      | Skipped \<Rightarrow> False)"

definition row_progress :: "bool \<Rightarrow> (srow \<Rightarrow> bool) \<Rightarrow> id \<Rightarrow> id \<Rightarrow> id set \<Rightarrow> srow \<Rightarrow> srow \<Rightarrow> bool" where
  "row_progress b ref t i D x y \<longleftrightarrow>
     (if committable t i x then commit_frame x y \<and> row_state b D ref y else y = x)"

definition written :: "(srow \<Rightarrow> 'k) \<Rightarrow> id \<Rightarrow> id \<Rightarrow> srow list \<Rightarrow> id set \<Rightarrow> 'k multiset" where
  "written kk t i rs D = mset (map kk (filter (\<lambda>x. committable t i x \<and> s_id x \<in> D) rs))"

definition run_inv ::
  "bool \<Rightarrow> (srow \<Rightarrow> 'k) \<Rightarrow> (srow \<Rightarrow> bool) \<Rightarrow> id \<Rightarrow> id \<Rightarrow> srow list \<Rightarrow> 'k multiset \<Rightarrow> srow list \<Rightarrow> 'k list \<Rightarrow> id set \<Rightarrow> bool" where
  "run_inv b kk ref t i rs0 K0 rs ks D \<longleftrightarrow>
     list_all2 (row_progress b ref t i D) rs0 rs
     \<and> mset ks = K0 + written kk t i rs0 D
     \<and> (\<forall>x \<in> set rs0. committable t i x \<and> s_id x \<in> D \<longrightarrow> \<not> ref x)"

lemma written_insert:
  assumes "distinct (map s_id rs)" "x \<in> set rs" "committable t i x" "s_id x \<notin> D"
  shows "written kk t i rs (insert (s_id x) D) = add_mset (kk x) (written kk t i rs D)"
  using assms(1,2)
proof (induction rs)
  case (Cons y rs)
  show ?case
  proof (cases "y = x")
    case True
    then have "s_id z \<noteq> s_id x" if "z \<in> set rs" for z
      using Cons.prems(1) that by (auto simp: image_iff)
    then have "filter (\<lambda>z. committable t i z \<and> s_id z \<in> insert (s_id x) D) rs
        = filter (\<lambda>z. committable t i z \<and> s_id z \<in> D) rs"
      by (intro filter_cong) auto
    then show ?thesis using True assms(3,4) by (simp add: written_def)
  next
    case False
    then have "x \<in> set rs" "s_id y \<noteq> s_id x"
      using Cons.prems by (auto simp: image_iff)
    then show ?thesis using Cons by (simp add: written_def)
  qed
qed simp

text \<open>The key of a row that may be written is taken exactly when the row's entity exists.\<close>

lemma key_taken:
  assumes inv: "run_inv b kk ref t i rs0 K0 rs ks D"
    and dist: "distinct (map kk (filter (\<lambda>x. committable t i x \<and> \<not> ref x) rs0))"
    and fresh: "\<And>x. x \<in> set rs0 \<Longrightarrow> committable t i x \<Longrightarrow> \<not> ref x \<Longrightarrow> kk x \<notin># K0"
    and x: "x \<in> set rs0" "committable t i x" "\<not> ref x" and ids: "distinct (map s_id rs0)"
  shows "kk x \<in> set ks \<longleftrightarrow> s_id x \<in> D"
proof
  assume "kk x \<in> set ks"
  then have "kk x \<in># K0 + written kk t i rs0 D"
    using inv unfolding run_inv_def by (metis set_mset_mset)
  then obtain y where y: "y \<in> set rs0" "committable t i y" "s_id y \<in> D" "kk y = kk x"
    using fresh [OF x] by (auto simp: written_def)
  then have "\<not> ref y"
    using inv unfolding run_inv_def by blast
  then have "y = x"
    using dist y x by (auto simp: distinct_map inj_on_def)
  then show "s_id x \<in> D" using y by simp
next
  assume "s_id x \<in> D"
  then have "kk x \<in># written kk t i rs0 D"
    using x by (auto simp: written_def)
  then show "kk x \<in> set ks"
    using inv unfolding run_inv_def by (metis set_mset_mset union_iff)
qed

lemma run_inv_row:
  assumes "run_inv b kk ref t i rs0 K0 rs ks D" "y \<in> set rs" "committable t i y"
  obtains x where "x \<in> set rs0" "committable t i x" "commit_frame x y" "row_state b D ref y"
proof -
  have "list_all2 (row_progress b ref t i D) rs0 rs"
    using assms(1) by (simp add: run_inv_def)
  then obtain x where "x \<in> set rs0" "row_progress b ref t i D x y"
    using assms(2) by (metis list_all2_conv_all_nth in_set_conv_nth)
  then show ?thesis
    using that assms(3) by (auto simp: row_progress_def split: if_splits)
qed

text \<open>Updating one committable row keeps the invariant when the row's new state fits.\<close>

lemma run_inv_update:
  assumes inv: "run_inv b kk ref t i rs0 K0 rs ks D" and ids: "distinct (map s_id rs0)"
    and x: "x \<in> set rs0" "committable t i x"
    and D': "D' = D \<or> D' = insert (s_id x) D"
    and g: "\<And>z. commit_frame z (g z)" "\<And>z. s_id z \<noteq> s_id x \<Longrightarrow> g z = z"
      "\<And>z. commit_frame x z \<Longrightarrow> row_state b D' ref (g z)"
    and ks: "mset ks' = K0 + written kk t i rs0 D'" and ref: "s_id x \<in> D' \<Longrightarrow> \<not> ref x"
  shows "run_inv b kk ref t i rs0 K0 (map g rs) ks' D'"
proof -
  have same: "z = x" if "z \<in> set rs0" "s_id z = s_id x" for z
    using ids x(1) that by (auto simp: distinct_map inj_on_def)
  have step: "row_progress b ref t i D' z (g y)" if z: "z \<in> set rs0" and p: "row_progress b ref t i D z y" for z y
  proof (cases "s_id z = s_id x")
    case True
    then have "z = x" using same z by blast
    then show ?thesis
      using p x(2) g(1,3) commit_frame_trans by (auto simp: row_progress_def)
  next
    case False
    have "s_id y = s_id z"
      using p commit_frame_keeps(1) by (auto simp: row_progress_def split: if_splits)
    then have y: "g y = y" "s_id y \<noteq> s_id x" using g(2) False by auto
    then have "row_state b D' ref y = row_state b D ref y"
      using D' by (auto simp: row_state_def split: commit_status.splits)
    then show ?thesis using p y by (auto simp: row_progress_def)
  qed
  have "list_all2 (row_progress b ref t i D') rs0 (map g rs)"
  proof -
    have "list_all2 (\<lambda>z y. row_progress b ref t i D' z (g y)) rs0 rs"
      using inv step unfolding run_inv_def by (auto intro: list.rel_mono_strong)
    then show ?thesis by (simp add: list_all2_map2)
  qed
  moreover have "\<not> ref z" if "z \<in> set rs0" "committable t i z" "s_id z \<in> D'" for z
  proof (cases "s_id z = s_id x")
    case True
    then show ?thesis using ref same that by metis
  next
    case False
    then show ?thesis using inv that D' unfolding run_inv_def by auto
  qed
  ultimately show ?thesis
    using ks unfolding run_inv_def by blast
qed

lemma unique_targetD:
  assumes "unique_target d created key refused" "d_commitRow d t m a w = (res, w')"
  shows "refused m \<Longrightarrow> w' = w \<and> (\<exists>e. res = Inl e \<and> \<not> isDuplicateKeyError e)"
    and "\<not> refused m \<Longrightarrow> key m \<in> set (created w) \<Longrightarrow> w' = w \<and> (\<exists>e. res = Inl e \<and> isDuplicateKeyError e)"
    and "\<not> refused m \<Longrightarrow> key m \<notin> set (created w) \<Longrightarrow>
      (\<exists>x. res = Inr x) \<and> mset (created w') = add_mset (key m) (mset (created w))"
proof -
  note u = assms(1) [unfolded unique_target_def, rule_format, of m t a w]
  show "refused m \<Longrightarrow> w' = w \<and> (\<exists>e. res = Inl e \<and> \<not> isDuplicateKeyError e)"
    using u assms(2) by auto
  show "\<not> refused m \<Longrightarrow> key m \<in> set (created w) \<Longrightarrow> w' = w \<and> (\<exists>e. res = Inl e \<and> isDuplicateKeyError e)"
    using u assms(2) by auto
  show "\<not> refused m \<Longrightarrow> key m \<notin> set (created w) \<Longrightarrow>
      (\<exists>x. res = Inr x) \<and> mset (created w') = add_mset (key m) (mset (created w))"
    using u assms(2) by auto
qed

lemma row_state_keep:
  assumes "commit_frame x z" "is_commit_set u" "\<And>y. s_commitStatus (apply_row_set u y) = st"
  shows "row_state b D ref (update_at (s_id x) u z) \<longleftrightarrow>
    (case st of Pending \<Rightarrow> s_id x \<notin> D | RowCommitting \<Rightarrow> \<not> b | Committed \<Rightarrow> s_id x \<in> D
      | CommitError \<Rightarrow> ref (apply_row_set u z) | Skipped \<Rightarrow> False)"
  using assms commit_frame_keeps(1) [OF assms(1)] by (simp add: row_state_def update_at_def split: commit_status.split)

context staging_store
begin

lemma view_frame: "commit_frame x y \<Longrightarrow> s_mappedFields (view y) = s_mappedFields (view x)"
  by (rule view_mapped) (rule commit_frame_keeps)

lemma final_commit: "final_of u = Some st \<Longrightarrow>
    is_commit_set u \<and> (\<forall>y. s_commitStatus (apply_row_set u y) = st)
    \<and> (\<forall>i. update_at i u \<circ> update_at i SetCommitting = update_at i u)"
  by (cases u) (auto simp: update_at_def fun_eq_iff)

lemma run_inv_commit:
  fixes key :: "obj option \<Rightarrow> 'k" and refused :: "obj option \<Rightarrow> bool"
  assumes kk_def: "kk = (\<lambda>y. key (s_mappedFields (view y)))"
    and ref_def: "ref = (\<lambda>y. refused (s_mappedFields (view y)))"
    and good: "good s" and target: "unique_target d created key refused"
    and inv: "run_inv b kk ref t i rs0 K0 (rows s) (created w) D"
    and ids: "distinct (map s_id rs0)"
    and dist: "distinct (map kk (filter (\<lambda>x. committable t i x \<and> \<not> ref x) rs0))"
    and fresh: "\<And>x. x \<in> set rs0 \<Longrightarrow> committable t i x \<Longrightarrow> \<not> ref x \<Longrightarrow> kk x \<notin># K0"
    and y: "y \<in> set (rows s)" "committable t i y"
    and one: "commit_one ops b d t' a (view y) (s, w, c, f) = (s', w', c', f')"
  shows "\<exists>D'. run_inv b kk ref t i rs0 K0 (rows s') (created w') D'"
proof -
  obtain x where x: "x \<in> set rs0" "committable t i x" "commit_frame x y" "row_state b D ref y"
    using run_inv_row [OF inv y] by blast
  have yx: "kk y = kk x" "ref y = ref x" "s_id y = s_id x"
    using view_frame [OF x(3)] commit_frame_keeps(1) [OF x(3)] by (simp_all add: kk_def ref_def)
  have frame_ref: "ref (apply_row_set u z) = ref x" if "commit_frame x z" "is_commit_set u" for u z
    using view_frame [OF commit_frame_trans [OF that(1) commit_frame_apply [OF that(2)]]] by (simp add: ref_def)
  have upd: "run_inv b kk ref t i rs0 K0 (map (update_at (s_id x) u) (rows s)) (created w') D'"
    if "final_of u = Some st" "D' = D \<or> D' = insert (s_id x) D" "mset (created w') = K0 + written kk t i rs0 D'"
      "s_id x \<in> D' \<longleftrightarrow> st = Committed" "ref x \<longleftrightarrow> st = CommitError" for u st D'
  proof (rule run_inv_update [OF inv ids x(1,2) that(2)])
    note u = final_commit [OF that(1)]
    have st: "st \<in> {Committed, CommitError}" using that(1) by (cases u) auto
    show "commit_frame z (update_at (s_id x) u z)" for z
      using u by (simp add: commit_frame_update)
    show "update_at (s_id x) u z = z" if "s_id z \<noteq> s_id x" for z
      using that by (rule update_at_other)
    show "row_state b D' ref (update_at (s_id x) u z)" if "commit_frame x z" for z
      using row_state_keep [OF that, of u st b D' ref] u st frame_ref [OF that, of u] \<open>s_id x \<in> D' \<longleftrightarrow> st = Committed\<close>
        \<open>ref x \<longleftrightarrow> st = CommitError\<close> by auto
    show "\<not> ref x" if "s_id x \<in> D'"
      using that \<open>s_id x \<in> D' \<longleftrightarrow> st = Committed\<close> \<open>ref x \<longleftrightarrow> st = CommitError\<close> by simp
  qed (use that in auto)
  have K: "mset (created w) = K0 + written kk t i rs0 D"
    using inv by (simp add: run_inv_def)
  have D_ref: "\<not> ref x" if "s_id x \<in> D"
    using inv x(1,2) that unfolding run_inv_def by blast
  define res where "res = fst (d_commitRow d t' (s_mappedFields (view y)) a w)"
  define w1 where "w1 = snd (d_commitRow d t' (s_mappedFields (view y)) a w)"
  have res: "d_commitRow d t' (s_mappedFields (view y)) a w = (res, w1)"
    by (simp add: res_def w1_def)
  note tgt = unique_targetD [OF target res]
  have rows: "rows (mark ops (view y) u s) = map (update_at (s_id x) u) (rows s)"
    "rows (mark ops (view y) u (mark ops (view y) SetCommitting s)) = map (update_at (s_id x) u) (rows s)"
    if "final_of u = Some st" for u st
    using final_commit [OF that] good yx(3) by (simp_all add: mark_rows mark_mark_rows view_keeps del: map_map)
  note defs = commit_one_def commit_row_def commit_row_txn_def Let_def
  consider (refused) "ref x" | (dup) "\<not> ref x" "s_id x \<in> D" | (new) "\<not> ref x" "s_id x \<notin> D" by blast
  then show ?thesis
  proof cases
    case refused
    then obtain e where e: "w1 = w" "res = Inl e" "\<not> isDuplicateKeyError e"
      using tgt(1) yx(2) by (auto simp: ref_def)
    have "w' = w" "rows s' = map (update_at (s_id x) (SetCommitFailed (e_message e))) (rows s)"
      using one res e rows [of "SetCommitFailed (e_message e)" CommitError] by (auto simp: defs split: if_splits)
    then show ?thesis
      using upd [of "SetCommitFailed (e_message e)" CommitError D] K D_ref refused by auto
  next
    case dup
    have "kk x \<in> set (created w)"
      using key_taken [OF inv dist fresh x(1,2) dup(1) ids] dup(2) by blast
    then obtain e where e: "w1 = w" "res = Inl e" "isDuplicateKeyError e"
      using tgt(2) yx dup(1) by (auto simp: ref_def kk_def)
    have "s_commitStatus y = RowCommitting \<and> \<not> b"
      using x(4) y(2) dup(2) yx(3) by (auto simp: row_state_def committable_def)
    then have "w' = w" "rows s' = map (update_at (s_id x) SetCommittedEarlier) (rows s)"
      using one res e rows [of SetCommittedEarlier Committed] by (auto simp: defs view_keeps split: if_splits)
    then show ?thesis
      using upd [of SetCommittedEarlier Committed D] K dup by auto
  next
    case new
    have "kk x \<notin> set (created w)"
      using key_taken [OF inv dist fresh x(1,2) new(1) ids] new(2) by blast
    then obtain im where im: "res = Inr im" "mset (created w1) = add_mset (kk x) (mset (created w))"
      using tgt(3) yx new(1) by (auto simp: ref_def kk_def)
    obtain p q where pq: "im = (p, q)" by force
    have "w' = w1" "rows s' = map (update_at (s_id x) (SetCommitted p q)) (rows s)"
      using one res im(1) pq rows [of "SetCommitted p q" Committed] by (auto simp: defs split: if_splits)
    moreover have "mset (created w1) = K0 + written kk t i rs0 (insert (s_id x) D)"
      using im(2) K written_insert [OF ids x(1,2) new(2), of kk] by simp
    ultimately show ?thesis
      using upd [of "SetCommitted p q" Committed "insert (s_id x) D"] new(1) by auto
  qed
qed


lemma run_inv_fold:
  fixes key :: "obj option \<Rightarrow> 'k" and refused :: "obj option \<Rightarrow> bool"
  assumes kk_def: "kk = (\<lambda>y. key (s_mappedFields (view y)))"
    and ref_def: "ref = (\<lambda>y. refused (s_mappedFields (view y)))"
    and target: "unique_target d created key refused"
    and ids: "distinct (map s_id rs0)"
    and dist: "distinct (map kk (filter (\<lambda>x. committable t i x \<and> \<not> ref x) rs0))"
    and fresh: "\<And>x. x \<in> set rs0 \<Longrightarrow> committable t i x \<Longrightarrow> \<not> ref x \<Longrightarrow> kk x \<notin># K0"
    and "good s" "run_inv b kk ref t i rs0 K0 (rows s) (created w) D"
    and "set ys \<subseteq> {y \<in> set (rows s). committable t i y}" "distinct (map s_id ys)"
    and "fold (commit_one ops b d t' a) (map view ys) (s, w, c, f) = (s', w', c', f')"
  shows "\<exists>D'. run_inv b kk ref t i rs0 K0 (rows s') (created w') D'"
  using assms(7-)
proof (induction ys arbitrary: s w c f D)
  case (Cons y ys)
  obtain s1 w1 c1 f1 where one: "commit_one ops b d t' a (view y) (s, w, c, f) = (s1, w1, c1, f1)"
    using prod_cases4 by blast
  obtain D1 where D1: "run_inv b kk ref t i rs0 K0 (rows s1) (created w1) D1"
    using run_inv_commit [OF kk_def ref_def Cons.prems(1) target Cons.prems(2) ids dist fresh, of y t' a c f s1 w1 c1 f1]
      one Cons.prems(3) by auto
  obtain e where e: "good s1" "effect_on {s_id y} e" "rows s1 = map (eff e) (rows s)"
    using commit_one_effect [OF Cons.prems(1) one] by (auto simp: view_keeps)
  have "z \<in> set (rows s1) \<and> committable t i z" if "z \<in> set ys" for z
  proof -
    have "eff e z = z"
      using e(2) that Cons.prems(4) unfolding effect_on_def by (auto simp: image_iff)
    moreover have "z \<in> set (rows s)" "committable t i z"
      using that Cons.prems(3) by auto
    ultimately show ?thesis unfolding e(3) by (metis image_eqI set_map)
  qed
  then show ?case
    using Cons.IH [OF e(1) D1, of c1 f1] Cons.prems(4,5) one by auto
qed auto

lemma run_inv_crash:
  fixes key :: "obj option \<Rightarrow> 'k" and refused :: "obj option \<Rightarrow> bool"
  assumes kk_def: "kk = (\<lambda>y. key (s_mappedFields (view y)))"
    and ref_def: "ref = (\<lambda>y. refused (s_mappedFields (view y)))"
    and target: "unique_target d created key refused"
    and ids: "distinct (map s_id rs0)"
    and dist: "distinct (map kk (filter (\<lambda>x. committable t i x \<and> \<not> ref x) rs0))"
    and fresh: "\<And>x. x \<in> set rs0 \<Longrightarrow> committable t i x \<Longrightarrow> \<not> ref x \<Longrightarrow> kk x \<notin># K0"
    and crash: "crash ops conn t i d a (s, w) (s', w')"
    and good: "good s" and inv: "run_inv (use_transaction d conn) kk ref t i rs0 K0 (rows s) (created w) D"
  shows "good s' \<and> (\<exists>D'. run_inv (use_transaction d conn) kk ref t i rs0 K0 (rows s') (created w') D')"
proof -
  define todo where "todo = todo_rows t i (rows s)"
  define b where "b = use_transaction d conn"
  have cursor: "so_cursorStaged ops (commit_query t i) (Some ''rowIndex'') None s = map view todo"
    using commit_cursor [OF good, of t i None] by (simp add: todo_def todo_rows_def js_limit_def)
  have dist_todo: "distinct (map s_id todo)"
    unfolding todo_def by (rule distinct_todo [OF distinct_ids [OF good]])
  have part: "good s1 \<and> (\<exists>D'. run_inv b kk ref t i rs0 K0 (rows s1) (created w1) D')
      \<and> (\<forall>z. z \<in> set todo \<and> s_id z \<notin> s_id ` set ys \<longrightarrow> z \<in> set (rows s1))"
    if "fold (commit_one ops b d t a) (map view ys) (s, w, 0, 0) = (s1, w1, c, f)" "todo = ys @ zs" for ys zs s1 w1 c f
  proof -
    note fd = that(1)
    have d: "distinct (map s_id (map view ys))"
      using dist_todo that(2) unfolding view_ids by simp
    obtain e where e: "good s1" "effect_on (s_id ` set ys) e" "rows s1 = map (eff e) (rows s)"
      using commit_fold_effect [OF good d fd] unfolding view_id_set by blast
    have "z \<in> set (rows s1)" if "z \<in> set todo" "s_id z \<notin> s_id ` set ys" for z
    proof -
      have "eff e z = z"
        using e(2) that(2) unfolding effect_on_def by blast
      moreover have "z \<in> set (rows s)" using that(1) by (simp add: todo_def)
      ultimately show ?thesis unfolding e(3) by (metis image_eqI set_map)
    qed
    moreover have "set ys \<subseteq> {y \<in> set (rows s). committable t i y}"
      using that(2) set_todo [of t i "rows s"] by (auto simp: todo_def [symmetric])
    moreover have "distinct (map s_id ys)"
      using dist_todo that(2) by simp
    ultimately show ?thesis
      using run_inv_fold [OF kk_def ref_def target ids dist fresh good inv [folded b_def] _ _ fd] e(1) by blast
  qed
  have reserved: "run_inv b kk ref t i rs0 K0 (rows (mark ops (view y) SetCommitting s1)) (created w1) D1"
    if "good s1" "run_inv b kk ref t i rs0 K0 (rows s1) (created w1) D1" "y \<in> set (rows s1)" "committable t i y" "\<not> b"
    for s1 w1 y D1
  proof -
    note h = that
    obtain x where x: "x \<in> set rs0" "committable t i x" "commit_frame x y"
      using run_inv_row [OF h(2-4)] by blast
    have "run_inv b kk ref t i rs0 K0 (map (update_at (s_id x) SetCommitting) (rows s1)) (created w1) D1"
    proof (rule run_inv_update [OF h(2) ids x(1,2)])
      show "row_state b D1 ref (update_at (s_id x) SetCommitting z)" if "commit_frame x z" for z
        using row_state_keep [OF that, of SetCommitting RowCommitting] \<open>\<not> b\<close> by simp
      show "mset (created w1) = K0 + written kk t i rs0 D1" "s_id x \<in> D1 \<Longrightarrow> \<not> ref x"
        using h(2) x unfolding run_inv_def by blast+
    qed (simp_all add: commit_frame_update update_at_other)
    then show ?thesis
      using h(1) commit_frame_keeps(1) [OF x(3)] by (simp add: mark_rows view_keeps)
  qed
  from crash show ?thesis
  proof cases
    case (crash_between before after c f)
    then obtain ys zs where "before = map view ys" "todo = ys @ zs"
      unfolding cursor by (auto simp: map_eq_append_conv)
    then show ?thesis using part [of ys s' w' c f zs] crash_between by (auto simp: b_def)
  next
    case (crash_reserved before r after s1 c f)
    then obtain ys y zs where y: "before = map view ys" "todo = ys @ y # zs" "r = view y"
      unfolding cursor by (auto simp: map_eq_append_conv)
    have in_rows: "s_id y \<notin> s_id ` set ys" "y \<in> set todo" "committable t i y"
      using dist_todo set_todo [of t i "rows s"] unfolding y(2) by (auto simp: todo_def [symmetric] y(2))
    show ?thesis
      using part [of ys s1 w' c f "y # zs"] reserved [of s1 w' _ y] crash_reserved y in_rows mark_good
      by (auto simp: b_def)
  next
    case (crash_written before r after s1 w1 c f res)
    then obtain ys y zs where y: "before = map view ys" "todo = ys @ y # zs" "r = view y"
      unfolding cursor by (auto simp: map_eq_append_conv)
    have in_rows: "s_id y \<notin> s_id ` set ys" "y \<in> set todo" "committable t i y"
      using dist_todo set_todo [of t i "rows s"] unfolding y(2) by (auto simp: todo_def [symmetric] y(2))
    obtain D1 where D1: "good s1" "run_inv b kk ref t i rs0 K0 (rows s1) (created w1) D1" "y \<in> set (rows s1)"
      using part [of ys s1 w1 c f "y # zs"] crash_written y in_rows by (auto simp: b_def)
    obtain x where x: "x \<in> set rs0" "committable t i x" "commit_frame x y"
      using run_inv_row [OF D1(2,3) in_rows(3)] by blast
    have yx: "kk y = kk x" "ref y = ref x"
      using view_frame [OF x(3)] by (simp_all add: kk_def ref_def)
    note tgt = unique_targetD [OF target crash_written(5) [unfolded y(3)]]
    have "\<exists>D2. run_inv b kk ref t i rs0 K0 (rows s1) (created w') D2
        \<or> (D2 = insert (s_id x) D1 \<and> \<not> ref x \<and> s_id x \<notin> D1 \<and> mset (created w') = K0 + written kk t i rs0 D2)"
    proof (cases "ref x \<or> kk x \<in> set (created w1)")
      case True
      then have "w' = w1" using tgt yx by (auto simp: kk_def ref_def)
      then show ?thesis using D1(2) by blast
    next
      case False
      have "s_id x \<notin> D1"
        using key_taken [OF D1(2) dist fresh x(1,2) _ ids] False by blast
      moreover have "mset (created w') = add_mset (kk x) (mset (created w1))"
        using tgt yx False by (auto simp: kk_def ref_def)
      moreover have "mset (created w1) = K0 + written kk t i rs0 D1"
        using D1(2) by (simp add: run_inv_def)
      ultimately show ?thesis
        using written_insert [OF ids x(1,2), of D1 kk] False
        by (intro exI [of _ "insert (s_id x) D1"] disjI2) simp
    qed
    then obtain D2 where "run_inv b kk ref t i rs0 K0 (rows s1) (created w') D2
        \<or> (D2 = insert (s_id x) D1 \<and> \<not> ref x \<and> mset (created w') = K0 + written kk t i rs0 D2)" by blast
    then have "\<exists>D3. run_inv b kk ref t i rs0 K0 (rows (mark ops (view y) SetCommitting s1)) (created w') D3"
    proof
      assume "run_inv b kk ref t i rs0 K0 (rows s1) (created w') D2"
      then show ?thesis using reserved [OF D1(1) _ D1(3) in_rows(3)] crash_written(3) by (auto simp: b_def)
    next
      assume D2: "D2 = insert (s_id x) D1 \<and> \<not> ref x \<and> mset (created w') = K0 + written kk t i rs0 D2"
      have "run_inv b kk ref t i rs0 K0 (map (update_at (s_id x) SetCommitting) (rows s1)) (created w') D2"
      proof (rule run_inv_update [OF D1(2) ids x(1,2)])
        show "row_state b D2 ref (update_at (s_id x) SetCommitting z)" if "commit_frame x z" for z
          using row_state_keep [OF that, of SetCommitting RowCommitting] crash_written(3) by (simp add: b_def)
      qed (use D2 in \<open>simp_all add: commit_frame_update update_at_other\<close>)
      then show ?thesis
        using D1(1) commit_frame_keeps(1) [OF x(3)] by (auto simp: mark_rows view_keeps)
    qed
    then show ?thesis
      using D1(1) crash_written(1) y(3) by (auto simp: b_def mark_good)
  qed
qed

end

context staging_store
begin

lemma run_inv_start:
  assumes "\<And>x. x \<in> set rs0 \<Longrightarrow> committable t i x \<Longrightarrow> s_commitStatus x = Pending"
  shows "run_inv b kk ref t i rs0 (mset ks) rs0 ks {}"
proof -
  have "list_all2 (row_progress b ref t i {}) rs0 rs0"
    using assms by (auto simp: list_all2_same row_progress_def row_state_def)
  then show ?thesis by (simp add: run_inv_def written_def)
qed

lemma exactly_once:
  fixes key :: "obj option \<Rightarrow> 'k" and refused :: "obj option \<Rightarrow> bool"
  assumes kk_def: "kk = (\<lambda>y. key (s_mappedFields (view y)))"
    and ref_def: "ref = (\<lambda>y. refused (s_mappedFields (view y)))"
    and target: "unique_target d created key refused" and good: "good s0"
    and pending: "\<And>x. x \<in> set (rows s0) \<Longrightarrow> committable t i x \<Longrightarrow> s_commitStatus x = Pending"
    and dist: "distinct (map kk (filter (\<lambda>x. committable t i x \<and> \<not> ref x) (rows s0)))"
    and fresh: "\<And>x. x \<in> set (rows s0) \<Longrightarrow> committable t i x \<Longrightarrow> \<not> ref x \<Longrightarrow> kk x \<notin> set (created w0)"
    and crashes: "(crash ops conn t i d a)\<^sup>*\<^sup>* (s0, w0) (s1, w1)"
    and run: "commitBatch ops conn t i d a None (s1, w1) = Inr (r, s2, w2)"
  shows "mset (created w2) = mset (created w0) + mset (map kk (filter (\<lambda>x. committable t i x \<and> \<not> ref x) (rows s0)))
    \<and> list_all2 (\<lambda>x y. if committable t i x
          then commit_frame x y \<and> s_commitStatus y = (if ref x then CommitError else Committed)
          else y = x) (rows s0) (rows s2)"
proof -
  define b where "b = use_transaction d conn"
  have ids: "distinct (map s_id (rows s0))" using distinct_ids [OF good] .
  have fresh': "kk x \<notin># mset (created w0)" if "x \<in> set (rows s0)" "committable t i x" "\<not> ref x" for x
    using fresh [OF that] by simp
  have "good s1 \<and> (\<exists>D. run_inv b kk ref t i (rows s0) (mset (created w0)) (rows s1) (created w1) D)"
    using crashes
  proof (induction rule: rtranclp_induct2)
    case refl
    show ?case using good run_inv_start pending by blast
  next
    case (step s w s' w')
    then show ?case
      using run_inv_crash [OF kk_def ref_def target ids dist fresh' step(2), folded b_def] by blast
  qed
  then obtain D1 where D1: "good s1" "run_inv b kk ref t i (rows s0) (mset (created w0)) (rows s1) (created w1) D1"
    by blast
  define todo where "todo = todo_rows t i (rows s1)"
  obtain job where job: "job_of s1 t i = Some job"
    using run by (cases "job_of s1 t i") (auto simp: commitBatch_def get_job)
  obtain c f where fd: "fold (commit_one ops b d t a) (map view todo) (s1, w1, 0, 0) = (s2, w2, c, f)"
    using run commitBatch_fold [OF D1(1) job, of conn d a None w1]
    by (auto simp: js_limit_def todo_def b_def split: prod.splits)
  have todo_set: "set todo \<subseteq> {y \<in> set (rows s1). committable t i y}"
    by (auto simp: todo_def)
  have todo_dist: "distinct (map s_id todo)"
    unfolding todo_def by (rule distinct_todo [OF distinct_ids [OF D1(1)]])
  obtain D2 where D2: "run_inv b kk ref t i (rows s0) (mset (created w0)) (rows s2) (created w2) D2"
    using run_inv_fold [OF kk_def ref_def target ids dist fresh' D1 todo_set todo_dist fd] by blast
  obtain e where e: "effect_on (s_id ` set todo) e" "rows s2 = map (eff e) (rows s1)"
    using commitBatch_effect [OF D1(1) run] by (auto simp: js_limit_def todo_def)
  have "todo_rows t i (rows s2) = []"
    using todo_effect [OF e(1), of t i "rows s1"] e(2) by (auto simp: todo_def filter_empty_conv)
  then have none: "\<not> committable t i y" if "y \<in> set (rows s2)" for y
    using that set_todo [of t i "rows s2"] by auto
  have all: "list_all2 (row_progress b ref t i D2) (rows s0) (rows s2)"
    using D2 by (simp add: run_inv_def)
  have D2_ref: "\<not> ref x" if "x \<in> set (rows s0)" "committable t i x" "s_id x \<in> D2" for x
    using D2 that by (auto simp: run_inv_def)
  have final: "if committable t i x
      then commit_frame x y \<and> s_commitStatus y = (if ref x then CommitError else Committed) \<and> (s_id x \<in> D2 \<longleftrightarrow> \<not> ref x)
      else y = x" if x: "x \<in> set (rows s0)" and y: "y \<in> set (rows s2)" and p: "row_progress b ref t i D2 x y" for x y
  proof (cases "committable t i x")
    case True
    then have fr: "commit_frame x y" "row_state b D2 ref y" using p by (simp_all add: row_progress_def)
    have "s_commitStatus y \<notin> {Pending, RowCommitting}"
      using none [OF y] committable_frame [OF fr(1), of t i] True by (auto simp: committable_def of_job_def)
    moreover have "ref y = ref x" "s_id y = s_id x"
      using view_frame [OF fr(1)] commit_frame_keeps(1) [OF fr(1)] by (simp_all add: ref_def)
    ultimately have "s_commitStatus y = Committed \<and> s_id x \<in> D2 \<or> s_commitStatus y = CommitError \<and> ref x"
      using fr(2) by (auto simp: row_state_def split: commit_status.splits)
    then show ?thesis using D2_ref [OF x True] True fr(1) by auto
  next
    case False
    then show ?thesis using p by (simp add: row_progress_def)
  qed
  have l2: "list_all2 (\<lambda>x y. if committable t i x
          then commit_frame x y \<and> s_commitStatus y = (if ref x then CommitError else Committed)
          else y = x) (rows s0) (rows s2)"
    by (rule list.rel_mono_strong [OF all]) (use final in \<open>simp split: if_splits\<close>)
  have iff: "s_id x \<in> D2 \<longleftrightarrow> \<not> ref x" if "x \<in> set (rows s0)" "committable t i x" for x
  proof -
    note x = that
    obtain n where n: "n < length (rows s0)" "rows s0 ! n = x"
      using x(1) by (auto simp: in_set_conv_nth)
    then have "rows s2 ! n \<in> set (rows s2)" "row_progress b ref t i D2 x (rows s2 ! n)"
      using all list_all2_nthD [OF all n(1)] by (auto dest: list_all2_lengthD)
    then show ?thesis using final [OF x(1)] x(2) by auto
  qed
  have "filter (\<lambda>x. committable t i x \<and> s_id x \<in> D2) (rows s0) = filter (\<lambda>x. committable t i x \<and> \<not> ref x) (rows s0)"
    using iff by (auto intro!: filter_cong)
  then show ?thesis
    using l2 D2 by (simp add: run_inv_def written_def)
qed

end

end
