(* ===== verification/Demo.thy ===== *)
theory Demo
  imports MemStore
begin

text \<open>
  Small concrete targets, jobs and stores, on which the witnesses of the properties are evaluated.
\<close>

text \<open>A target with a unique index on \<open>id\<close>; its collection is the list of ids.\<close>

definition unique_demo :: "string list target" where
  "unique_demo =
     \<lparr>d_namespace = ''hr'', d_entityKey = ''demo'', d_label = ''Demo'', d_icon = None, d_destination = None,
      d_fields = [], d_identityField = ''id'', d_dependencies = None, d_commitInTransaction = False,
      d_referenceFields = None, d_resolveReferences = None, d_findExistingIdentities = None,
      d_commitRow = (\<lambda>_ m _ w.
        (case m of
           None \<Rightarrow> (Inl \<lparr>e_code = None, e_message = ''no fields''\<rparr>, w)
         | Some kvs \<Rightarrow>
             (case oget kvs ''id'' of
                Some (VStr k) \<Rightarrow>
                  if k \<in> set w then (Inl \<lparr>e_code = Some 11000, e_message = ''dup''\<rparr>, w)
                  else (Inr (''e-'' @ k, ''Demo''), k # w)
              | _ \<Rightarrow> (Inl \<lparr>e_code = None, e_message = ''no id''\<rparr>, w))))\<rparr>"

definition demo_row :: "id \<Rightarrow> nat \<Rightarrow> string \<Rightarrow> commit_status \<Rightarrow> srow" where
  "demo_row i n k st =
     (mem_row i ''t'' ''j'' n [(''id'', VStr k)])
       \<lparr>s_mappedFields := Some [(''id'', VStr k)], s_validationStatus := Some Valid, s_commitStatus := st\<rparr>"

definition demo_store :: "job_status \<Rightarrow> srow list \<Rightarrow> mem_store" where
  "demo_store st rs =
     \<lparr>m_jobs = [(''t:j'', demo_job\<lparr>j_status := st, j_entityKey := Some ''demo''\<rparr>)],
      m_staged = [(''t:j'', rs)], m_profiles = [], m_sessions = [], m_sequence = 9\<rparr>"

text \<open>The same target with two fields, of which the identity is required.\<close>

definition fields_demo :: "string list target" where
  "fields_demo = unique_demo\<lparr>d_fields :=
     [\<lparr>f_key = ''id'', f_label = ''Id'', f_type = ''string'', f_required = True, f_aliases = None, f_enum = None\<rparr>,
      \<lparr>f_key = ''name'', f_label = ''Name'', f_type = ''string'', f_required = False, f_aliases = None, f_enum = None\<rparr>]\<rparr>"

definition demo_registry :: "string list registry" where
  "demo_registry = [(''hr:demo'', fields_demo)]"

lemma demo_descriptor [simp]: "getTargetDescriptor ''hr'' ''demo'' demo_registry = Inr fields_demo"
  by (simp add: getTargetDescriptor_def demo_registry_def registry_key_def)

lemma demo_getJob: "so_getJob (createInMemoryJobStore env) ''t'' ''j'' (demo_store st rs)
    = Inr (demo_job\<lparr>j_status := st, j_entityKey := Some ''demo''\<rparr>)"
  by (simp add: createInMemoryJobStore_def mem_getJob_def demo_store_def mem_key_def)

lemma demo_ok: "distinct (map s_id rs) \<Longrightarrow> map s_rowIndex rs = [0..<length rs] \<Longrightarrow>
    (\<And>r. r \<in> set rs \<Longrightarrow> s_id r \<in> {''mem-1'', ''mem-2''}) \<Longrightarrow> mem_ok (demo_store st rs)"
proof (rule mem_okI)
  fix r assume ids: "\<And>r. r \<in> set rs \<Longrightarrow> s_id r \<in> {''mem-1'', ''mem-2''}" and r: "r \<in> set (mem_rows (demo_store st rs))"
  have m: "''mem-1'' = mem_id 1" "''mem-2'' = mem_id 2"
    by (simp_all add: mem_id_def show_nat.simps digit_char_def)
  have "s_id r = mem_id 1 \<or> s_id r = mem_id 2"
    using ids [of r] r m by (auto simp: mem_rows_def demo_store_def)
  then show "\<exists>n. n \<le> m_sequence (demo_store st rs) \<and> 0 < n \<and> s_id r = mem_id n"
    by (auto simp: demo_store_def)
qed (auto simp: demo_store_def mem_rows_def demo_job_def mem_key_def)

lemma demo_row_simps [simp]:
  "s_id (demo_row i n k st) = i" "s_rowIndex (demo_row i n k st) = n" "s_commitStatus (demo_row i n k st) = st"
  "s_mappedFields (demo_row i n k st) = Some [(''id'', VStr k)]"
  "committable ''t'' ''j'' (demo_row i n k st) \<longleftrightarrow> st \<in> {Pending, RowCommitting}"
  by (simp_all add: demo_row_def mem_row_def committable_def)

lemma demo_clone [simp]: "clone_row env (demo_row i n k st) = demo_row i n k st"
  by (simp add: clone_row_def demo_row_def mem_row_def clone_obj_def)

end
