(* ===== verification/CommitProps.thy ===== *)
theory CommitProps
  imports CommitCorrect Demo
begin

text \<open>
  The properties of the commit engine, over the in-memory store, and the examples that show
  where its promises end.
\<close>

definition demo_conn :: connection where
  "demo_conn = \<lparr>cn_cached = Some False, cn_topology = None\<rparr>"

lemma demo_use [simp]: "use_transaction unique_demo demo_conn = False"
  by (simp add: use_transaction_def unique_demo_def)


subsection \<open>Batches\<close>

text \<open>
  C16. A batch settles exactly the rows it read: afterwards no committable row is left, every row
  that was not committable is unchanged, a settled row keeps everything but its commit fields
  and is committed or failed, and the two counts it returns are the numbers of rows that became
  committed and failed.
\<close>

theorem commitBatch_settles:
  assumes "mem_ok s" "commitBatch (createInMemoryJobStore env) conn t i d a None (s, w) = Inr (r, s', w')"
  shows "filter (committable t i) (mem_rows s') = []
    \<and> list_all2 (\<lambda>x y. if committable t i x then commit_frame x y \<and> s_commitStatus y \<in> {Committed, CommitError}
        else y = x) (mem_rows s) (mem_rows s')
    \<and> b_processed r = length (filter (committable t i) (mem_rows s))
    \<and> b_committed r + length (filter (\<lambda>x. s_commitStatus x = Committed) (mem_rows s))
        = length (filter (\<lambda>x. s_commitStatus x = Committed) (mem_rows s'))
    \<and> b_failed r + length (filter (\<lambda>x. s_commitStatus x = CommitError) (mem_rows s))
        = length (filter (\<lambda>x. s_commitStatus x = CommitError) (mem_rows s'))"
proof -
  define todo where "todo = todo_rows t i (mem_rows s)"
  obtain e where e: "effect_on (s_id ` set todo) e" "mem_rows s' = map (eff e) (mem_rows s)"
    "b_committed r = length (filter (\<lambda>r. out e (s_id r) = Committed) todo)"
    "b_failed r = length (filter (\<lambda>r. out e (s_id r) \<noteq> Committed) todo)"
    "b_processed r = length todo"
    using mem.commitBatch_effect [OF assms] by (auto simp: js_limit_def todo_def)
  have ids: "distinct (map s_id (mem_rows s))"
    using assms(1) by (rule mem_okD)
  have in_todo: "s_id x \<in> s_id ` set todo \<longleftrightarrow> committable t i x" if "x \<in> set (mem_rows s)" for x
    using that ids by (auto simp: todo_def distinct_map inj_on_def)
  have out: "out e (s_id x) \<in> {Committed, CommitError}" "s_commitStatus (eff e x) = out e (s_id x)"
    if "x \<in> set (mem_rows s)" "committable t i x" for x
    using e(1) in_todo [OF that(1)] that(2) unfolding effect_on_def by blast+
  have same: "eff e x = x" if "x \<in> set (mem_rows s)" "\<not> committable t i x" for x
    using e(1) in_todo [OF that(1)] that(2) unfolding effect_on_def by blast
  have frame: "commit_frame x (eff e x)" for x
    using e(1) unfolding effect_on_def by blast
  have count: "length (filter (\<lambda>r. out e (s_id r) = st) todo) + length (filter (\<lambda>x. s_commitStatus x = st) (mem_rows s))
      = length (filter (\<lambda>x. s_commitStatus x = st) (mem_rows s'))" if "st \<in> {Committed, CommitError}" for st
  proof -
    have "length (filter (\<lambda>r. out e (s_id r) = st) todo)
        = length (filter (\<lambda>x. committable t i x \<and> out e (s_id x) = st) (mem_rows s))"
      by (simp add: todo_def todo_rows_def filter_sort conj_commute)
    moreover have "length (filter (\<lambda>x. committable t i x \<and> out e (s_id x) = st) rs) + length (filter (\<lambda>x. s_commitStatus x = st) rs)
        = length (filter (\<lambda>x. s_commitStatus x = st) (map (eff e) rs))" if "set rs \<subseteq> set (mem_rows s)" for rs
      using that
    proof (induction rs)
      case (Cons x rs)
      have "committable t i x \<Longrightarrow> s_commitStatus x \<noteq> st"
        using \<open>st \<in> {Committed, CommitError}\<close> by (auto simp: committable_def)
      then show ?case
        using Cons out [of x] same [of x] by (cases "committable t i x") auto
    qed simp
    ultimately show ?thesis unfolding e(2) by simp
  qed
  have none: "\<not> committable t i (eff e x)" if "x \<in> set (mem_rows s)" for x
  proof (cases "committable t i x")
    case True
    then show ?thesis using out [OF that True] by (auto simp: committable_def)
  qed (use same that in simp)
  have 1: "filter (committable t i) (mem_rows s') = []"
    using none unfolding e(2) by (auto simp: filter_empty_conv)
  have 2: "list_all2 (\<lambda>x y. if committable t i x then commit_frame x y \<and> s_commitStatus y \<in> {Committed, CommitError}
        else y = x) (mem_rows s) (mem_rows s')"
    unfolding e(2) list_all2_map2 using out same frame by (auto simp: list_all2_same)
  have 3: "b_processed r = length (filter (committable t i) (mem_rows s))"
    by (simp add: e(5) todo_def todo_rows_def)
  have 4: "filter (\<lambda>r. out e (s_id r) \<noteq> Committed) todo = filter (\<lambda>r. out e (s_id r) = CommitError) todo"
    using out by (intro filter_cong) (auto simp: todo_def)
  show ?thesis
    using 1 2 3 count [of Committed] count [of CommitError] e(3,4) 4 by simp
qed

lemma demo_cursor: "so_cursorStaged (createInMemoryJobStore env) (commit_query ''t'' ''j'') (Some ''rowIndex'') None (demo_store st rs)
    = map (clone_row env) (sort_key s_rowIndex (filter (committable ''t'' ''j'') rs))" if "mem_ok (demo_store st rs)"
  using mem.commit_cursor [OF that] by (simp add: js_limit_def mem_rows_def demo_store_def)

lemma demo_mark: "mark (createInMemoryJobStore env) r u (demo_store st rs) = demo_store st (map (update_at (s_id r) u) rs)"
  by (simp add: mark_def createInMemoryJobStore_def mem_updateOne_map demo_store_def)

lemma demo_batch: "commitBatch (createInMemoryJobStore env) demo_conn ''t'' ''j'' unique_demo a None (demo_store jst rs, w)
   = (case fold (commit_one (createInMemoryJobStore env) False unique_demo ''t'' a)
        (map (clone_row env) (sort_key s_rowIndex (filter (committable ''t'' ''j'') rs))) (demo_store jst rs, w, 0, 0) of
      (s', w', c, f) \<Rightarrow> Inr (\<lparr>b_committed = c, b_failed = f, b_processed = c + f\<rparr>, s', w'))"
  if "mem_ok (demo_store jst rs)"
  using demo_cursor [OF that] by (simp add: commitBatch_def demo_getJob)

lemma demo_one:
  "commit_one (createInMemoryJobStore env) False unique_demo ''t'' a (demo_row i n k st) (demo_store jst rs, w, c, f) =
     (if k \<in> set w then
        if st = RowCommitting
        then (demo_store jst (map (update_at i SetCommittedEarlier) rs), w, c + 1, f)
        else (demo_store jst (map (update_at i (SetCommitFailed ''dup'') \<circ> update_at i SetCommitting) rs), w, c, f + 1)
      else (demo_store jst (map (update_at i (SetCommitted (''e-'' @ k) ''Demo'')) rs), k # w, c + 1, f))"
proof -
  have "update_at i (SetCommitted e m) \<circ> update_at i SetCommitting = update_at i (SetCommitted e m)"
    "update_at i SetCommittedEarlier \<circ> update_at i SetCommitting = update_at i SetCommittedEarlier" for e m
    by (auto simp: update_at_def fun_eq_iff)
  then show ?thesis
    by (simp add: commit_one_def commit_row_def demo_mark unique_demo_def isDuplicateKeyError_def Let_def)
qed

lemma demo_ok1: "mem_ok (demo_store st [demo_row ''mem-1'' 0 k cs])"
  by (rule demo_ok) simp_all

lemma demo_batch1:
  "commitBatch (createInMemoryJobStore env) demo_conn ''t'' ''j'' unique_demo a None
     (demo_store st [demo_row ''mem-1'' 0 ''A'' Pending], [])
   = Inr (\<lparr>b_committed = 1, b_failed = 0, b_processed = 1\<rparr>,
       demo_store st [update_at ''mem-1'' (SetCommitted ''e-A'' ''Demo'') (demo_row ''mem-1'' 0 ''A'' Pending)], [''A''])"
  by (simp add: demo_batch [OF demo_ok1] demo_one)

theorem commitBatch_settles_witness:
  "filter (committable ''t'' ''j'') (mem_rows (demo_store Validated
     [update_at ''mem-1'' (SetCommitted ''e-A'' ''Demo'') (demo_row ''mem-1'' 0 ''A'' Pending)])) = []"
  using commitBatch_settles [OF demo_ok1 demo_batch1] by simp





lemma unique_demo_target:
  "unique_target unique_demo id (\<lambda>m. case m of Some kvs \<Rightarrow> (case oget kvs ''id'' of Some (VStr k) \<Rightarrow> k | _ \<Rightarrow> []) | None \<Rightarrow> [])
     (\<lambda>m. case m of Some kvs \<Rightarrow> (case oget kvs ''id'' of Some (VStr k) \<Rightarrow> False | _ \<Rightarrow> True) | None \<Rightarrow> True)"
  by (auto simp: unique_target_def unique_demo_def isDuplicateKeyError_def split: option.split val.split)

text \<open>
  A process that dies after writing the entity of the only row and before recording it, and the
  run that follows.
\<close>

lemma demo_crash:
  "crash (createInMemoryJobStore env) demo_conn ''t'' ''j'' unique_demo None
     (demo_store Committing [demo_row ''mem-1'' 0 ''A'' Pending], w)
     (demo_store Committing [demo_row ''mem-1'' 0 ''A'' RowCommitting], if ''A'' \<in> set w then w else ''A'' # w)"
proof -
  have upd: "update_at ''mem-1'' SetCommitting (demo_row ''mem-1'' 0 ''A'' Pending) = demo_row ''mem-1'' 0 ''A'' RowCommitting"
    by (simp add: update_at_def) (simp add: demo_row_def)
  define res where "res = fst (d_commitRow unique_demo ''t'' (s_mappedFields (demo_row ''mem-1'' 0 ''A'' Pending)) None w)"
  have res: "d_commitRow unique_demo ''t'' (s_mappedFields (demo_row ''mem-1'' 0 ''A'' Pending)) None w
      = (res, if ''A'' \<in> set w then w else ''A'' # w)"
    by (simp add: res_def unique_demo_def)
  have "so_cursorStaged (createInMemoryJobStore env) (commit_query ''t'' ''j'') (Some ''rowIndex'') None
      (demo_store Committing [demo_row ''mem-1'' 0 ''A'' Pending]) = [] @ demo_row ''mem-1'' 0 ''A'' Pending # []"
    by (simp add: demo_cursor [OF demo_ok1])
  from crash_written [where conn = demo_conn and actorId = None, OF this _ _ res] show ?thesis
    by (simp add: demo_mark upd)
qed

lemma demo_rerun:
  "commitBatch (createInMemoryJobStore env) demo_conn ''t'' ''j'' unique_demo None None
     (demo_store Committing [demo_row ''mem-1'' 0 ''A'' RowCommitting], [''A''])
   = Inr (\<lparr>b_committed = 1, b_failed = 0, b_processed = 1\<rparr>,
       demo_store Committing [update_at ''mem-1'' SetCommittedEarlier (demo_row ''mem-1'' 0 ''A'' RowCommitting)], [''A''])"
  by (simp add: demo_batch [OF demo_ok1] demo_one)



subsection \<open>The job\<close>

text \<open>
  Only a validated job can be committed: in any other status the call is refused with 409
  and neither the store nor the business data changes.
\<close>

lemma commitImportJob_guard:
  assumes "so_getJob ops t i s = Inr job" "j_status job \<noteq> Validated"
  shows "commitImportJob ops reg penv conn t0 t1 t i a (s, w)
    = (Inl (Err (Some 409) (WrongStatus (status_name (j_status job)))), s, w, [])"
  using assms by (simp add: commitImportJob_def)

theorem commitImportJob_guard_witness:
  "fst (commitImportJob (createInMemoryJobStore test_env) [] (\<lambda>_. None) demo_conn 0 0 ''t'' ''j'' None (demo_store Staged [], []))
    = Inl (Err (Some 409) (WrongStatus ''staged''))"
  by (subst commitImportJob_guard [OF demo_getJob]) simp_all

text \<open>
  C20. A synchronous commit of a validated job returns the status it stores: completed when every
  valid row counted at validation was committed, completed with errors otherwise; the batch has
  settled all rows, and one event carries the same numbers.
\<close>

theorem commitImportJob_sync:
  assumes "mem_ok s" "mem_getJob t i s = Inr job" "j_status job = Validated"
    and "getTargetDescriptor (j_module job) (key_text (j_entityKey job)) reg = Inr d"
    and "\<not> num_gt (Fin (of_nat (validRows (j_counts job)))) (MIGRATION_SYNC_COMMIT_THRESHOLD penv)"
  shows "\<exists>c f s' w' ev. commitImportJob (createInMemoryJobStore env) reg penv conn t0 t1 t i a (s, w)
      = (Inr \<lparr>co_mode = ''sync'',
           co_status = (if validRows (j_counts job) \<le> c \<and> f = 0 then Completed else CompletedWithErrors),
           co_committed = Some c, co_failed = Some f\<rparr>, s', w', [ev])
    \<and> map_option j_status (map_of (m_jobs s') (mem_key t i))
        = Some (if validRows (j_counts job) \<le> c \<and> f = 0 then Completed else CompletedWithErrors)
    \<and> c + f = length (filter (committable t i) (mem_rows s))
    \<and> filter (committable t i) (mem_rows s') = []
    \<and> ev_committedRows ev = c \<and> ev_commitFailedRows ev = f
    \<and> ev_skippedRows ev = validRows (j_counts job) - c - f"
proof -
  define OP where "OP = createInMemoryJobStore env"
  define v where "v = validRows (j_counts job)"
  have job: "map_of (m_jobs s) (mem_key t i) = Some job"
    using assms(2) by (auto simp: mem_getJob_def split: option.splits)
  have ids: "j_id job = i" using mem_job_ids [OF assms(1) job] by simp
  have gj: "so_getJob OP t i s = Inr job"
    using assms(2) by (simp add: OP_def createInMemoryJobStore_def)
  define s1 where "s1 = snd (so_updateJobModel OP (id_tenant_query i t) [SetStatus Committing, SetMode ''sync'', SetStartedAt t0] s)"
  have s1: "mem_ok s1" "mem_rows s1 = mem_rows s" "map_of (m_jobs s1) (mem_key t i) \<noteq> None"
    using mem.model_good [OF assms(1)] mem.model_rows mem.model_job [OF assms(1) job]
    by (simp_all add: s1_def OP_def)
  obtain r s2 w2 where b: "commitBatch OP conn t i d a None (s1, w) = Inr (r, s2, w2)"
  proof -
    obtain j1 where j1: "map_of (m_jobs s1) (mem_key t i) = Some j1" using s1(3) by blast
    show ?thesis
      using mem.commitBatch_fold [OF s1(1) j1, of env conn d a None w] that
      by (auto simp: OP_def split: prod.splits)
  qed
  from mem.commitBatch_effect [OF s1(1) b [unfolded OP_def]] obtain e where
    e: "mem_ok s2" "m_jobs s2 = m_jobs s2" "effect_on (s_id ` set (todo_rows t i (mem_rows s))) e"
      "mem_rows s2 = map (eff e) (mem_rows s)" "b_processed r = length (todo_rows t i (mem_rows s))"
      "(\<lambda>t i. map_of (m_jobs s2) (mem_key t i)) = (\<lambda>t i. map_of (m_jobs s1) (mem_key t i))"
    by (auto simp: js_limit_def s1(2))
  obtain c f where r: "r = \<lparr>b_committed = c, b_failed = f, b_processed = c + f\<rparr>"
    using b by (auto simp: commitBatch_def Let_def split: sum.splits prod.splits)
  define st where "st = final_status f (v - c - f)"
  define s3 where "s3 = snd (so_updateJobModel OP (id_tenant_query i t) (finish_sets st t1 c f (v - c - f)) s2)"
  obtain j2 where j2: "map_of (m_jobs s2) (mem_key t i) = Some j2"
    using s1(3) e(6) by (metis option.exhaust)
  have st: "st = (if v \<le> c \<and> f = 0 then Completed else CompletedWithErrors)"
    by (auto simp: st_def final_status_def)
  have "map_of (m_jobs s3) (mem_key t i) = Some (fold mem_assign (finish_sets st t1 c f (v - c - f)) j2)"
    using mem.model_job [OF e(1) j2] by (simp add: s3_def OP_def)
  then have stored: "map_option j_status (map_of (m_jobs s3) (mem_key t i)) = Some st"
    by (simp add: finish_sets_def)
  have "todo_rows t i (mem_rows s2) = []"
    using todo_effect [OF e(3), of t i "mem_rows s"] e(4) by (auto simp: filter_empty_conv)
  then have "filter (committable t i) (mem_rows s3) = []"
    using set_todo [of t i "mem_rows s2"] mem.model_rows by (auto simp: s3_def OP_def filter_empty_conv)
  moreover have "c + f = length (filter (committable t i) (mem_rows s))"
    using e(5) r by (simp add: todo_rows_def)
  moreover have "commitImportJob OP reg penv conn t0 t1 t i a (s, w)
      = (Inr \<lparr>co_mode = ''sync'', co_status = st, co_committed = Some c, co_failed = Some f\<rparr>, s3, w2,
          emitImportCompletedEvent t job st c f (v - c - f))"
    using gj assms(3-5) b r ids
    by (simp add: commitImportJob_def Let_def s1_def s3_def st_def v_def)
  ultimately show ?thesis
    using stored st unfolding OP_def v_def emitImportCompletedEvent_def
    by (intro exI [of _ c] exI [of _ f] exI [of _ s3] exI [of _ w2] exI conjI) (assumption | simp)+
qed


definition demo_reg :: "string list registry" where
  "demo_reg = [(''hr:demo'', unique_demo)]"

lemma demo_target: "getTargetDescriptor ''hr'' ''demo'' demo_reg = Inr unique_demo"
  by (simp add: getTargetDescriptor_def demo_reg_def registry_key_def)

lemma demo_mem_getJob: "mem_getJob ''t'' ''j'' (demo_store st rs) = Inr (demo_job\<lparr>j_status := st, j_entityKey := Some ''demo''\<rparr>)"
  by (simp add: mem_getJob_def demo_store_def mem_key_def)

lemma demo_job_simps [simp]:
  "j_module demo_job = ''hr''" "j_id demo_job = ''j''" "validRows (j_counts demo_job) = 0" "j_createdBy demo_job = None"
  by (simp_all add: demo_job_def)

theorem commitImportJob_sync_witness:
  "\<exists>out s' w' ev. commitImportJob (createInMemoryJobStore test_env) demo_reg (\<lambda>_. None) demo_conn 0 0 ''t'' ''j'' None
      (demo_store Validated [demo_row ''mem-1'' 0 ''A'' Pending], []) = (Inr out, s', w', [ev])
    \<and> co_mode out = ''sync'' \<and> ev_committedRows ev + ev_commitFailedRows ev = 1"
  using commitImportJob_sync [where s = "demo_store Validated [demo_row ''mem-1'' 0 ''A'' Pending]" and t = "''t''" and i = "''j''"
      and job = "demo_job\<lparr>j_status := Validated, j_entityKey := Some ''demo''\<rparr>" and reg = demo_reg and d = unique_demo
      and penv = "\<lambda>_. None" and env = test_env and conn = demo_conn and ?t0.0 = 0 and ?t1.0 = 0 and a = None and w = "[]",
      OF demo_ok1 demo_mem_getJob]
  by (auto simp: demo_target key_text_def MIGRATION_SYNC_COMMIT_THRESHOLD_def env_num_def num_or_def mem_rows_def demo_store_def)

text \<open>
  C21. With more valid rows than the synchronous threshold the commit never happens: enqueueing
  throws, the caller gets a 500, no row is touched, and the job is left committing, so every
  later attempt is refused with 409.
\<close>

theorem commitImportJob_async_stuck:
  assumes "mem_ok s" "mem_getJob t i s = Inr job" "j_status job = Validated"
    and "getTargetDescriptor (j_module job) (key_text (j_entityKey job)) reg = Inr d"
    and "num_gt (Fin (of_nat (validRows (j_counts job)))) (MIGRATION_SYNC_COMMIT_THRESHOLD penv)"
  shows "\<exists>e s'. commitImportJob (createInMemoryJobStore env) reg penv conn t0 t1 t i a (s, w) = (Inl e, s', w, [])
    \<and> http_status e = 500 \<and> mem_rows s' = mem_rows s
    \<and> commitImportJob (createInMemoryJobStore env) reg penv conn t0' t1' t i a' (s', w')
        = (Inl (Err (Some 409) (WrongStatus ''committing'')), s', w', [])"
proof -
  define OP where "OP = createInMemoryJobStore env"
  have job: "map_of (m_jobs s) (mem_key t i) = Some job"
    using assms(2) by (auto simp: mem_getJob_def split: option.splits)
  have ids: "j_id job = i" using mem_job_ids [OF assms(1) job] by simp
  have gj: "so_getJob OP t i s = Inr job"
    using assms(2) by (simp add: OP_def createInMemoryJobStore_def)
  define us where "us = [SetStatus Committing, SetMode ''async'', SetStartedAt t0]"
  define s1 where "s1 = snd (so_updateJobModel OP (id_tenant_query i t) us s)"
  have "map_of (m_jobs s1) (mem_key t i) = Some (fold mem_assign us job)"
    using mem.model_job [OF assms(1) job] by (simp add: s1_def OP_def)
  then have gj1: "so_getJob OP t i s1 = Inr (fold mem_assign us job)"
    by (simp add: OP_def createInMemoryJobStore_def mem_getJob_def)
  have st: "j_status (fold mem_assign us job) = Committing"
    by (simp add: us_def)
  have "commitImportJob OP reg penv conn t0 t1 t i a (s, w)
      = (Inl (Err None (NotAFunction ''getQueue(...).add'')), s1, w, [])"
    using gj assms(3-5) ids
    by (simp add: commitImportJob_def Let_def s1_def us_def enqueueMigrationCommit_def)
  moreover have "mem_rows s1 = mem_rows s"
    using mem.model_rows by (simp add: s1_def OP_def)
  moreover have "commitImportJob OP reg penv conn t0' t1' t i a' (s1, w')
      = (Inl (Err (Some 409) (WrongStatus ''committing'')), s1, w', [])"
    using gj1 st by (simp add: commitImportJob_def)
  ultimately show ?thesis
    unfolding OP_def by (intro exI conjI) (assumption | simp add: http_status_def)+
qed

theorem commitImportJob_async_stuck_witness:
  "\<exists>e s'. commitImportJob (createInMemoryJobStore test_env) demo_reg (\<lambda>_. Some ''-1'') demo_conn 0 0 ''t'' ''j'' None
      (demo_store Validated [demo_row ''mem-1'' 0 ''A'' Pending], []) = (Inl e, s', [], []) \<and> http_status e = 500"
proof -
  have "parse_number ''-1'' = num_neg (rnd64 1 1)"
    using parse_number_neg_nat [of 1] by (simp add: show_nat.simps digit_char_def)
  also have "\<dots> = Fin (- 1)"
    using rnd64_exact [of 1] by simp
  finally have "MIGRATION_SYNC_COMMIT_THRESHOLD (\<lambda>_. Some ''-1'') = Fin (- 1)"
    by (simp add: MIGRATION_SYNC_COMMIT_THRESHOLD_def env_num_def num_or_def)
  then show ?thesis
    using commitImportJob_async_stuck [where s = "demo_store Validated [demo_row ''mem-1'' 0 ''A'' Pending]" and t = "''t''" and i = "''j''"
      and job = "demo_job\<lparr>j_status := Validated, j_entityKey := Some ''demo''\<rparr>" and reg = demo_reg and d = unique_demo
      and penv = "\<lambda>_. Some ''-1''" and env = test_env and conn = demo_conn and ?t0.0 = 0 and ?t1.0 = 0 and a = None and w = "[]"
      and t0' = 0 and t1' = 0 and a' = None and w' = "[]", OF demo_ok1 demo_mem_getJob]
    by (auto simp: demo_target key_text_def)
qed

text \<open>
  A worker run that starts with fewer committable rows than the job has valid ones, as every
  retry after a crash does, ends with errors even when all its rows succeed: its totals start
  from zero and what an earlier run committed counts as skipped.
\<close>

lemma worker_retry_status:
  assumes "mem_ok s" "mem_getJob t i s = Inr job" "t \<noteq> []"
    and "getTargetDescriptor (j_module job) (key_text (j_entityKey job)) reg = Inr d"
    and "length (filter (committable t i) (mem_rows s)) < validRows (j_counts job)"
    and "length (filter (committable t i) (mem_rows s)) < 200 * fuel"
  shows "\<exists>committed failed s' w' evs. migrationCommitWorker fuel (createInMemoryJobStore env) reg conn now t i (s, w)
      = Some (Inr (committed, failed, CompletedWithErrors, s', w', evs))
    \<and> committed + failed = length (filter (committable t i) (mem_rows s))"
proof -
  define OP where "OP = createInMemoryJobStore env"
  have job: "map_of (m_jobs s) (mem_key t i) = Some job"
    using assms(2) by (auto simp: mem_getJob_def split: option.splits)
  have ids: "j_id job = i" using mem_job_ids [OF assms(1) job] by simp
  have gj: "so_getJob OP t i s = Inr job"
    using assms(2) by (simp add: OP_def createInMemoryJobStore_def)
  obtain sb wb c f where fd: "fold (commit_one OP (use_transaction d conn) d t (j_createdBy job))
      (map (clone_row env) (todo_rows t i (mem_rows s))) (s, w, 0, 0) = (sb, wb, c, f)"
    using prod_cases4 by blast
  have short: "length (todo_rows t i (mem_rows s)) div CHUNK_SIZE < fuel"
    using assms(6) by (simp add: todo_rows_def CHUNK_SIZE_def less_mult_imp_div_less mult.commute)
  have found: "map_of (m_jobs s) (mem_key t (j_id job)) \<noteq> None"
    using job ids by simp
  obtain s1 where loop: "worker_loop fuel OP conn t job d (s, w, 0, 0) = Some (Inr (s1, wb, c, f))"
    using mem.worker_loop_batch [OF assms(1) found short [folded ids] fd [unfolded OP_def, folded ids], of 0 0]
    by (auto simp: OP_def)
  have batch: "commitBatch OP conn t i d (j_createdBy job) None (s, w)
      = Inr (\<lparr>b_committed = c, b_failed = f, b_processed = c + f\<rparr>, sb, wb)"
    using mem.commitBatch_fold [OF assms(1) job, of env conn d "j_createdBy job" None w] fd
    by (simp add: OP_def js_limit_def)
  have "c + f = length (filter (committable t i) (mem_rows s))"
    using mem.commitBatch_effect [OF assms(1) batch [unfolded OP_def]] by (auto simp: js_limit_def todo_rows_def)
  moreover from this have "final_status f (validRows (j_counts job) - c - f) = CompletedWithErrors"
    using assms(5) by (simp add: final_status_def)
  moreover have "migrationCommitWorker fuel OP reg conn now t i (s, w)
    = Some (Inr (c, f, final_status f (validRows (j_counts job) - c - f),
        snd (so_updateJobModel OP (id_tenant_query i t)
          (finish_sets (final_status f (validRows (j_counts job) - c - f)) now c f (validRows (j_counts job) - c - f)) s1), wb,
        emitImportCompletedEvent t job (final_status f (validRows (j_counts job) - c - f)) c f (validRows (j_counts job) - c - f)))"
    using gj assms(3,4) loop ids by (simp add: migrationCommitWorker_def Let_def)
  ultimately show ?thesis
    unfolding OP_def by (intro exI conjI) (assumption | simp)+
qed

definition retry_store :: mem_store where
  "retry_store = (demo_store Committing [])
     \<lparr>m_jobs := [(''t:j'', demo_job\<lparr>j_entityKey := Some ''demo'', j_status := Committing,
        j_counts := (j_counts demo_job)\<lparr>validRows := 5\<rparr>\<rparr>)]\<rparr>"

theorem worker_retry_status_witness:
  "\<exists>s' w' evs. migrationCommitWorker 1 (createInMemoryJobStore test_env) demo_reg demo_conn 0 ''t'' ''j'' (retry_store, [])
      = Some (Inr (0, 0, CompletedWithErrors, s', w', evs))"
proof -
  have "mem_ok retry_store"
    by (rule mem_okI) (auto simp: retry_store_def demo_store_def mem_rows_def demo_job_def mem_key_def)
  then show ?thesis
    using worker_retry_status [where s = retry_store and t = "''t''" and i = "''j''" and reg = demo_reg and d = unique_demo
      and job = "demo_job\<lparr>j_entityKey := Some ''demo'', j_status := Committing,
        j_counts := (j_counts demo_job)\<lparr>validRows := 5\<rparr>\<rparr>" and fuel = 1 and env = test_env and conn = demo_conn and now = 0 and w = "[]"]
    by (auto simp: mem_getJob_def retry_store_def demo_store_def mem_key_def demo_target key_text_def mem_rows_def)
qed

end
