(* ===== verification/DemoPipeline.thy ===== *)
theory DemoPipeline
  imports Pipeline MongoModel CommitProps
begin

text \<open>A concrete pipeline over the list database, on which the witnesses are evaluated.\<close>

definition two_libs :: libs where
  "two_libs = demo_libs\<lparr>readFile := (\<lambda>p. Some ''[{},{}]''),
     json_events := (\<lambda>_. [Data (Some (VObj [(''id'', VStr ''A'')])), Data (Some (VObj [(''id'', VStr ''B'')])), Ended])\<rparr>"

definition demo_pipe :: "(list_db, string list) pipeline" where
  "demo_pipe =
     \<lparr>pl_db = list_mongo test_env, pl_jobStore = createMongooseJobStore (list_mongo test_env),
      pl_registry = demo_registry, pl_listEntities = (\<lambda>m. listTargetEntities m demo_registry),
      pl_env = test_env, pl_penv = (\<lambda>_. None), pl_libs = two_libs, pl_download = (\<lambda>_ _ _. True),
      pl_conn = demo_conn, pl_isObjectId = (\<lambda>_. True), pl_msg = (\<lambda>_. ''error''), pl_now = 0\<rparr>"

definition demo_session :: "session_status \<Rightarrow> session" where
  "demo_session st =
     \<lparr>ms_id = ''s'', ms_tenantId = ''t'', ms_label = None, ms_status = st,
      ms_jobs = [\<lparr>se_importJobId = ''j'', se_module = ''hr'', se_entityKey = ''demo''\<rparr>], ms_executionOrder = [],
      ms_dependencyGraph = [], ms_jobStatuses = [],
      ms_counts = \<lparr>sc_total = 1, sc_completed = 0, sc_failed = 0, sc_skipped = 0\<rparr>,
      ms_error = None, ms_createdBy = None\<rparr>"

definition session_db :: list_db where
  "session_db = \<lparr>l_sessions = [demo_session SessionPending], l_jobs = [demo_job], l_rows = []\<rparr>"

lemma demo_pipe_db [simp]: "pl_db demo_pipe = list_mongo test_env"
  by (simp add: demo_pipe_def)

lemmas demo_mongo = listdb.mongo_db_axioms [where env = test_env, folded demo_pipe_db]

lemma session_db_ok: "list_ok session_db"
  by code_simp

lemma session_db_find: "by_id ms_id ''s'' (l_sessions session_db) = Some (demo_session SessionPending)"
  by code_simp

end
