(* ===== verification/SessionProps.thy ===== *)
theory SessionProps
  imports Pipeline DemoPipeline
begin

text \<open>
  Properties of sessions over any document database: what every session in the database satisfies,
  whatever operations were called on it, the execution order that is stored, and what starting a
  session's pipeline comes to.
\<close>

subsection \<open>The invariant of a session\<close>

definition entries_done :: "entry_status list \<Rightarrow> bool" where
  "entries_done es \<longleftrightarrow> (\<forall>e \<in> set es. es_status e \<in> {''completed'', ''completed_with_errors''})"

definition session_ok :: "session \<Rightarrow> bool" where
  "session_ok x \<longleftrightarrow>
     distinct (map se_importJobId (ms_jobs x)) \<and> sc_total (ms_counts x) = length (ms_jobs x)
     \<and> map es_importJobId (ms_jobStatuses x) = ms_executionOrder x
     \<and> distinct (ms_executionOrder x) \<and> set (ms_executionOrder x) \<subseteq> se_importJobId ` set (ms_jobs x)
     \<and> sc_completed (ms_counts x) = count_entries [''completed'', ''completed_with_errors''] (ms_jobStatuses x)
     \<and> sc_failed (ms_counts x) = count_entries [''failed'', ''skipped''] (ms_jobStatuses x)
     \<and> (ms_status x = SessionPending \<longrightarrow> (\<forall>e \<in> set (ms_jobStatuses x). es_status e = ''pending''))
     \<and> (ms_status x = SessionCompleted \<longrightarrow> entries_done (ms_jobStatuses x))"

lemma set_entry_ids [simp]: "map es_importJobId (set_entry i st err es) = map es_importJobId es"
  by (induction es) auto

lemma set_entry_length [simp]: "length (set_entry i st err es) = length es"
  by (induction es) auto

lemma count_entries_disjoint:
  "set as \<inter> set bs = {} \<Longrightarrow> count_entries as es + count_entries bs es \<le> length es"
  by (induction es) (auto simp: count_entries_def)

lemma count_entries_all: "count_entries as es = length es \<longleftrightarrow> (\<forall>e \<in> set es. es_status e \<in> set as)"
proof -
  have "count_entries as es = length es \<longleftrightarrow> length (filter (\<lambda>e. es_status e \<notin> set as) es) = 0"
    using sum_length_filter_compl [of "\<lambda>e. es_status e \<in> set as" es] unfolding count_entries_def by linarith
  then show ?thesis
    by (simp add: filter_empty_conv)
qed

lemma count_entries_pending: "\<forall>e \<in> set es. es_status e = ''pending'' \<Longrightarrow> ''pending'' \<notin> set as \<Longrightarrow> count_entries as es = 0"
  by (auto simp: count_entries_def filter_empty_conv)

lemma entry_pending_simps [simp]: "es_importJobId (entry_pending i) = i" "es_status (entry_pending i) = ''pending''"
  by (simp_all add: entry_pending_def)

lemma advance_session_ok:
  assumes "session_ok x"
  shows "session_ok (advance_session j st err x)" "ms_status (advance_session j st err x) \<noteq> SessionPending"
    "ms_id (advance_session j st err x) = ms_id x"
proof -
  have "entries_done (set_entry j st err (ms_jobStatuses x))"
    if "count_entries [''completed'', ''completed_with_errors''] (set_entry j st err (ms_jobStatuses x))
      = length (ms_jobStatuses x)" for st
    using that count_entries_all [of _ "set_entry j st err (ms_jobStatuses x)"] by (simp add: entries_done_def)
  then show "session_ok (advance_session j st err x)" "ms_status (advance_session j st err x) \<noteq> SessionPending"
    "ms_id (advance_session j st err x) = ms_id x"
    using assms by (simp_all add: session_ok_def advance_session_def Let_def)
qed

lemma add_entry_ok:
  assumes "session_ok x" "se_importJobId e \<notin> set (map se_importJobId (ms_jobs x))"
  shows "session_ok (add_entry e x)"
  using assms by (auto simp: session_ok_def add_entry_def Let_def)

lemma processing_ok: "session_ok x \<Longrightarrow> session_ok (x\<lparr>ms_status := SessionProcessing\<rparr>)"
  by (simp add: session_ok_def)

lemma ordered_ok:
  assumes "session_ok x" "ms_status x = SessionPending" "mset ids = mset (map se_importJobId (ms_jobs x))"
  shows "session_ok (x\<lparr>ms_executionOrder := ids, ms_dependencyGraph := g, ms_jobStatuses := map entry_pending ids\<rparr>)"
proof -
  have "distinct ids" "set ids = se_importJobId ` set (ms_jobs x)"
    using assms(1) mset_eq_imp_distinct_iff [OF assms(3)] mset_eq_setD [OF assms(3)]
    by (simp_all add: session_ok_def)
  moreover have "count_entries as (map entry_pending ids) = count_entries as (ms_jobStatuses x)"
    if "''pending'' \<notin> set as" for as
    using assms(1,2) that by (simp add: count_entries_pending session_ok_def)
  ultimately show ?thesis
    using assms(1,2) by (simp add: session_ok_def comp_def)
qed

subsection \<open>What the operations do to the sessions\<close>

lemma save_session_Inr: "save_session db x s = Inr s' \<longleftrightarrow> session_valid x \<and> s' = db_putSession db x s"
  by (auto simp: save_session_def)

text \<open>One call of an operation that may write sessions.\<close>

inductive session_step :: "('s, 'w) pipeline \<Rightarrow> 's \<Rightarrow> 's \<Rightarrow> bool" for P where
  step_create: "session_step P s (snd (createSession (pl_db P) t label by s))"
| step_add: "session_step P s (snd (addJobToSession (pl_db P) t i j m e s))"
| step_order: "session_step P s (snd (computeSessionOrder (pl_db P) (pl_registry P) t i s))"
| step_advance: "session_step P s (snd (advanceSessionJobStatus (pl_db P) i j st err s))"
| step_run: "runSessionPipeline P t i (s, w) = Some (r, s', w') \<Longrightarrow> session_step P s s'"

lemma order_permutes:
  assumes "distinct (map sj_importJobId jobs)" "computeSessionExecutionOrder jobs decls = Inr (ids, keys)"
  shows "mset ids = mset (map sj_importJobId jobs)"
proof -
  have "length ids = length keys"
    using assms(2) by (auto simp: computeSessionExecutionOrder_def Let_def split: sum.splits)
  then have "ids = map fst (zip ids keys)"
    by simp
  then have "mset ids = image_mset fst (mset (zip ids keys))"
    by (metis mset_map)
  also have "\<dots> = mset (map sj_importJobId jobs)"
    using computeSessionExecutionOrder_correct [OF assms] by (simp add: multiset.map_comp comp_def)
  finally show ?thesis .
qed

context mongo_db
begin

text \<open>Every such call changes at most one session.\<close>

definition sessions_hold :: "'s \<Rightarrow> bool" where
  "sessions_hold s \<longleftrightarrow> good s \<and> (\<forall>i x. sessions s i = Some x \<longrightarrow> session_ok x)"

lemma sessions_holdD: "sessions_hold s \<Longrightarrow> sessions s i = Some x \<Longrightarrow> session_ok x \<and> ms_id x = i"
  using session_id by (auto simp: sessions_hold_def)

lemma put_holds: "sessions_hold s \<Longrightarrow> session_ok x \<Longrightarrow> sessions_hold (db_putSession db x s)"
  by (auto simp: sessions_hold_def put_session)

lemma saved_holds: "sessions_hold s \<Longrightarrow> session_ok x \<Longrightarrow> sessions_hold (snd (saved db x s))"
  by (simp add: saved_def save_session_def put_holds)

lemma tenant_session: "db_session db (id_tenant_query i t) s = Some x \<Longrightarrow> sessions s i = Some x \<and> ms_tenantId x = t"
  by (simp add: find_session of_tenant_Some)

lemma create_holds: "sessions_hold s \<Longrightarrow> sessions_hold (snd (createSession db t label by s))"
proof -
  assume hold: "sessions_hold s"
  obtain i s1 where new: "db_objectId db s = (i, s1)"
    by (cases "db_objectId db s")
  then have "sessions_hold s1"
    using hold object_id(1) [OF new] object_id(2) [of s i s1] by (simp add: sessions_hold_def)
  then show ?thesis
    by (simp add: createSession_def new saved_holds session_ok_def no_counts_def count_entries_def)
qed

lemma add_holds:
  assumes "sessions_hold s"
  shows "sessions_hold (snd (addJobToSession db t i j m e s))"
proof -
  have "sessions_hold (snd (db_updateJob db (id_tenant_query j t) us s'))" if "sessions_hold s'" for us s'
    using that update_job(3) [of "id_tenant_query j t" us s'] update_job(5) [of s' "id_tenant_query j t" us]
    by (simp add: sessions_hold_def)
  moreover have "session_ok (add_entry \<lparr>se_importJobId = j, se_module = m, se_entityKey = e\<rparr> x)"
    if "db_session db (id_tenant_query i t) s = Some x" "j \<notin> set (map se_importJobId (ms_jobs x))" for x
    using tenant_session [OF that(1)] sessions_holdD [OF assms] that(2) by (auto intro: add_entry_ok)
  ultimately show ?thesis
    using assms put_holds [OF assms]
    by (auto simp: addJobToSession_def Let_def saved_def save_session_def split: option.splits sum.splits prod.splits)
qed

lemma order_holds:
  assumes "sessions_hold s"
  shows "sessions_hold (snd (computeSessionOrder db reg t i s))"
proof -
  have "session_ok (x\<lparr>ms_executionOrder := ids, ms_dependencyGraph := deps, ms_jobStatuses := map entry_pending ids\<rparr>)"
    if "db_session db (id_tenant_query i t) s = Some x" "ms_status x = SessionPending"
      "computeSessionExecutionOrder (map (\<lambda>j. \<lparr>sj_importJobId = se_importJobId j, sj_entityKey = se_entityKey j\<rparr>)
         (ms_jobs x)) deps = Inr (ids, keys)" for x deps ids keys
  proof -
    have ok: "session_ok x"
      using tenant_session [OF that(1)] sessions_holdD [OF assms] by blast
    then have "mset ids = mset (map se_importJobId (ms_jobs x))"
      using order_permutes [OF _ that(3)] by (simp add: session_ok_def comp_def)
    then show ?thesis
      using ok that(2) by (intro ordered_ok)
  qed
  note ok = this
  show ?thesis
    using assms
    by (auto simp: computeSessionOrder_def Let_def lift_err_Inr intro!: saved_holds ok split: option.splits sum.splits prod.splits)
qed

lemma advance_holds: "sessions_hold s \<Longrightarrow> sessions_hold (snd (advanceSessionJobStatus db i j st err s))"
  using sessions_holdD [of s i]
  by (auto simp: advanceSessionJobStatus_def find_session save_session_def advance_session_ok(1)
      intro: put_holds split: option.split)

text \<open>Ordering is refused once a session is not pending, so a pipeline that has just marked it fails.\<close>

lemma order_refused:
  assumes "sessions s i = Some x" "ms_status x \<noteq> SessionPending"
  shows "\<exists>e. computeSessionOrder db reg t i s = (Inl e, s) \<and> status_code e = Some (if ms_tenantId x = t then 409 else 404)"
  using assms by (simp add: computeSessionOrder_def find_session)

lemma run_starts:
  assumes "pl_db P = db" "good s" "sessions s i = Some x" "ms_status x = SessionPending" "session_valid x"
  shows "\<exists>e. runSessionPipeline P t i (s, w) = Some (Inl e, db_putSession db (x\<lparr>ms_status := SessionProcessing\<rparr>) s, w)
    \<and> status_code e = Some (if ms_tenantId x = t then 409 else 404)"
proof -
  let ?x = "x\<lparr>ms_status := SessionProcessing\<rparr>" and ?s = "db_putSession db (x\<lparr>ms_status := SessionProcessing\<rparr>) s"
  have "sessions ?s i = Some ?x"
    using session_id [OF assms(2,3)] by (simp add: put_session)
  then obtain e where "computeSessionOrder db (pl_registry P) t i ?s = (Inl e, ?s)"
    "status_code e = Some (if ms_tenantId x = t then 409 else 404)"
    using order_refused [of ?s i ?x "pl_registry P" t] by auto
  moreover have "save_session db ?x s = Inr ?s"
    using assms(5) by (simp add: save_session_def session_valid_def)
  ultimately show ?thesis
    using assms(1,3,4) by (simp add: runSessionPipeline_def find_session)
qed

lemma run_skips:
  assumes "pl_db P = db" "sessions s i = Some x" "ms_status x \<noteq> SessionPending"
  shows "runSessionPipeline P t i (s, w)
    = Some (Inr (session_status_name (ms_status x), session_entries x), s, w)"
  using assms by (simp add: runSessionPipeline_def find_session)

lemma run_holds:
  assumes "pl_db P = db" "sessions_hold s" "runSessionPipeline P t i (s, w) = Some (r, s', w')"
  shows "sessions_hold s'"
proof (cases "sessions s i")
  case None
  then show ?thesis
    using assms by (simp add: runSessionPipeline_def find_session)
next
  case (Some x)
  have ok: "session_ok x"
    using sessions_holdD [OF assms(2) Some] by simp
  consider "ms_status x \<noteq> SessionPending" | "ms_status x = SessionPending" "session_valid x"
    | "ms_status x = SessionPending" "\<not> session_valid x"
    by blast
  then show ?thesis
  proof cases
    case 1
    then show ?thesis
      using assms run_skips [OF assms(1) Some] by simp
  next
    case 2
    then show ?thesis
      using assms run_starts [OF assms(1) _ Some 2(1,2), of t w] put_holds [OF assms(2) processing_ok [OF ok]]
      by (auto simp: sessions_hold_def)
  next
    case 3
    then have "save_session db (x\<lparr>ms_status := SessionProcessing\<rparr>) s = Inl (Err None (InvalidDocument ''MigrationSession''))"
      by (simp add: save_session_def session_valid_def)
    then show ?thesis
      using assms Some 3 by (simp add: runSessionPipeline_def find_session)
  qed
qed

lemma step_holds: "session_step P s s' \<Longrightarrow> pl_db P = db \<Longrightarrow> sessions_hold s \<Longrightarrow> sessions_hold s'"
  by (induction rule: session_step.induct) (simp_all add: create_holds add_holds order_holds advance_holds run_holds)

lemma steps_hold: "(session_step P)\<^sup>*\<^sup>* s s' \<Longrightarrow> pl_db P = db \<Longrightarrow> sessions_hold s \<Longrightarrow> sessions_hold s'"
  by (induction rule: rtranclp_induct) (simp_all add: step_holds)

end

subsection \<open>Properties\<close>

text \<open>
  C26. Whatever sequence of calls the services make, and the Cloud Run job with them, every session
  stays consistent: its jobs are distinct and counted, its order lists jobs of the session once
  and carries one status each, the counters of finished and failed jobs are those of the statuses,
  a pending session has only pending statuses, and a completed one only finished jobs.
\<close>

theorem session_invariant:
  assumes "mongo_db (pl_db P) sessions jobs rows good" "good s"
    and "\<forall>i x. sessions s i = Some x \<longrightarrow> session_ok x"
    and "(session_step P)\<^sup>*\<^sup>* s s'"
  shows "good s' \<and> (\<forall>i x. sessions s' i = Some x \<longrightarrow> session_ok x)"
  using mongo_db.steps_hold [OF assms(1,4) refl] assms(2,3) by (simp add: mongo_db.sessions_hold_def [OF assms(1)])

lemma demo_session_ok: "session_ok (demo_session st)"
  by (simp add: session_ok_def demo_session_def count_entries_def entries_done_def)

theorem session_invariant_witness:
  "\<exists>s x. (session_step demo_pipe)\<^sup>*\<^sup>* session_db s \<and> by_id ms_id ''s'' (l_sessions s) = Some x
     \<and> ms_executionOrder x = [''j''] \<and> session_ok x"
proof -
  let ?s = "snd (computeSessionOrder (pl_db demo_pipe) (pl_registry demo_pipe) ''t'' ''s'' session_db)"
  have step: "(session_step demo_pipe)\<^sup>*\<^sup>* session_db ?s"
    by (rule r_into_rtranclp, rule step_order)
  have "\<forall>i x. by_id ms_id i (l_sessions session_db) = Some x \<longrightarrow> session_ok x"
    by (simp add: session_db_def by_id_def demo_session_ok)
  then have "\<forall>i x. by_id ms_id i (l_sessions ?s) = Some x \<longrightarrow> session_ok x"
    using session_invariant [OF demo_mongo session_db_ok _ step] by blast
  moreover have "case by_id ms_id ''s'' (l_sessions ?s) of None \<Rightarrow> False | Some x \<Rightarrow> ms_executionOrder x = [''j'']"
    by code_simp
  ultimately show ?thesis
    using step by (auto split: option.splits)
qed

text \<open>
  C27. The order a session is given, and stored with, is a permutation of its jobs in which every job
  comes after all jobs of the entities that its entity's descriptor declares to depend on; all jobs
  are pending again, and nothing else in the database changes.
\<close>

theorem computeSessionOrder_orders:
  assumes "mongo_db db sessions jobs rows good" "good s" "sessions s i = Some x"
    and "distinct (map se_importJobId (ms_jobs x))"
    and "computeSessionOrder db reg t i s = (Inr y, s')"
  shows "ms_status x = SessionPending \<and> sessions s' = (sessions s)(i \<mapsto> y) \<and> jobs s' = jobs s \<and> rows s' = rows s
    \<and> ms_jobs y = ms_jobs x \<and> ms_status y = SessionPending
    \<and> mset (ms_executionOrder y) = mset (map se_importJobId (ms_jobs x))
    \<and> ms_jobStatuses y = map entry_pending (ms_executionOrder y)
    \<and> (\<forall>j \<in> set (ms_jobs x). \<forall>j' \<in> set (ms_jobs x). se_entityKey j \<noteq> ''__proto__'' \<longrightarrow>
         se_entityKey j' \<in> set (declared_deps reg (se_entityKey j)) \<longrightarrow>
         before (ms_executionOrder y) (se_importJobId j') (se_importJobId j))"
proof -
  let ?jobs = "map (\<lambda>j. \<lparr>sj_importJobId = se_importJobId j, sj_entityKey = se_entityKey j\<rparr>) (ms_jobs x)"
  let ?keys = "uniq (map se_entityKey (ms_jobs x))"
  have find: "db_session db (id_tenant_query i t) s = of_tenant ms_tenantId t (Some x)"
    using mongo_db.find_session(2) [OF assms(1)] assms(3) by simp
  obtain ids keys where run: "computeSessionExecutionOrder ?jobs (collectDependencies reg ?keys) = Inr (ids, keys)"
    "y = x\<lparr>ms_executionOrder := ids, ms_dependencyGraph := collectDependencies reg ?keys, ms_jobStatuses := map entry_pending ids\<rparr>"
    "s' = db_putSession db y s" "ms_status x = SessionPending"
    using assms(5) by (auto simp: computeSessionOrder_def find Let_def saved_def lift_err_Inr save_session_Inr
        split: if_splits sum.splits)
  have ids: "distinct (map sj_importJobId ?jobs)"
    using assms(4) by (simp add: comp_def)
  have deps: "(case map_of (collectDependencies reg ?keys) e of None \<Rightarrow> [] | Some ds \<Rightarrow> ds) = declared_deps reg e"
    if "e \<noteq> ''__proto__''" "e \<in> se_entityKey ` set (ms_jobs x)" for e
    using that local_deps_fold(2) [of e "declared_deps reg" ?keys "[]"] by (simp add: collectDependencies_def)
  have "before ids (se_importJobId j') (se_importJobId j)"
    if "j \<in> set (ms_jobs x)" "j' \<in> set (ms_jobs x)" "se_entityKey j \<noteq> ''__proto__''"
      "se_entityKey j' \<in> set (declared_deps reg (se_entityKey j))" for j j'
    using computeSessionExecutionOrder_correct [OF ids run(1), THEN conjunct2, rule_format,
        of "\<lparr>sj_importJobId = se_importJobId j, sj_entityKey = se_entityKey j\<rparr>"
          "\<lparr>sj_importJobId = se_importJobId j', sj_entityKey = se_entityKey j'\<rparr>"]
      deps [of "se_entityKey j"] that by simp
  moreover have "mset ids = mset (map se_importJobId (ms_jobs x))"
    using order_permutes [OF ids run(1)] by (simp add: comp_def)
  ultimately show ?thesis
    using run(2-4) mongo_db.put_session [OF assms(1)] mongo_db.session_id [OF assms(1,2,3)] by simp
qed

definition chain_registry :: "string list registry" where
  "chain_registry = [(''hr:a'', unique_demo), (''hr:b'', unique_demo\<lparr>d_dependencies := Some [''a'']\<rparr>)]"

definition chain_db :: list_db where
  "chain_db = \<lparr>l_sessions = [(demo_session SessionPending)\<lparr>ms_jobs :=
     [\<lparr>se_importJobId = ''1'', se_module = ''hr'', se_entityKey = ''b''\<rparr>,
      \<lparr>se_importJobId = ''2'', se_module = ''hr'', se_entityKey = ''a''\<rparr>]\<rparr>], l_jobs = [], l_rows = []\<rparr>"

theorem computeSessionOrder_orders_witness:
  "\<exists>y s'. computeSessionOrder (list_mongo test_env) chain_registry ''t'' ''s'' chain_db = (Inr y, s')
     \<and> before (ms_executionOrder y) ''2'' ''1''"
proof -
  have ok: "list_ok chain_db"
    by code_simp
  obtain x where x: "by_id ms_id ''s'' (l_sessions chain_db) = Some x" "distinct (map se_importJobId (ms_jobs x))"
    "set (ms_jobs x) = {\<lparr>se_importJobId = ''1'', se_module = ''hr'', se_entityKey = ''b''\<rparr>,
       \<lparr>se_importJobId = ''2'', se_module = ''hr'', se_entityKey = ''a''\<rparr>}"
    by (simp add: chain_db_def by_id_def demo_session_def)
  have "case computeSessionOrder (list_mongo test_env) chain_registry ''t'' ''s'' chain_db of (Inr y, s') \<Rightarrow> True | _ \<Rightarrow> False"
    by code_simp
  then obtain y s' where run: "computeSessionOrder (list_mongo test_env) chain_registry ''t'' ''s'' chain_db = (Inr y, s')"
    by (auto split: prod.splits sum.splits)
  have "declared_deps chain_registry ''b'' = [''a'']"
    by code_simp
  then show ?thesis
    using computeSessionOrder_orders [OF listdb.mongo_db_axioms ok x(1,2) run] run x(3) by auto
qed

text \<open>
  C28. The pipeline of a pending session never runs a job. It marks the session as processing and saves
  it; ordering the jobs then insists on a pending session and fails. The session stays processing
  with no job touched, and every later attempt just reports \<open>processing\<close>.
\<close>

theorem runSessionPipeline_stuck:
  assumes "mongo_db (pl_db P) sessions jobs rows good" "good s" "sessions s i = Some x"
    and "ms_status x = SessionPending" "session_valid x"
  shows "\<exists>e s'. runSessionPipeline P t i (s, w) = Some (Inl e, s', w)
    \<and> status_code e = Some (if ms_tenantId x = t then 409 else 404)
    \<and> sessions s' = (sessions s)(i \<mapsto> x\<lparr>ms_status := SessionProcessing\<rparr>) \<and> jobs s' = jobs s \<and> rows s' = rows s
    \<and> runSessionPipeline P t i (s', w) = Some (Inr (''processing'', session_entries x), s', w)"
proof -
  let ?s = "db_putSession (pl_db P) (x\<lparr>ms_status := SessionProcessing\<rparr>) s"
  have s: "sessions ?s = (sessions s)(i \<mapsto> x\<lparr>ms_status := SessionProcessing\<rparr>)" "jobs ?s = jobs s" "rows ?s = rows s"
    using mongo_db.put_session [OF assms(1)] mongo_db.session_id [OF assms(1-3)] by simp_all
  then have "runSessionPipeline P t i (?s, w) = Some (Inr (''processing'', session_entries x), ?s, w)"
    using mongo_db.run_skips [OF assms(1) refl, of ?s i "x\<lparr>ms_status := SessionProcessing\<rparr>"]
    by (simp add: session_entries_def)
  then show ?thesis
    using mongo_db.run_starts [OF assms(1) refl assms(2-5), of t w] s by auto
qed

theorem runSessionPipeline_stuck_witness:
  "\<exists>e s'. runSessionPipeline demo_pipe ''t'' ''s'' (session_db, []) = Some (Inl e, s', [])
     \<and> status_code e = Some 409 \<and> runSessionPipeline demo_pipe ''t'' ''s'' (s', []) = Some (Inr (''processing'', []), s', [])"
proof -
  have "session_valid (demo_session SessionPending)"
    by code_simp
  then show ?thesis
    using runSessionPipeline_stuck [OF demo_mongo session_db_ok session_db_find, of "''t''" "[]"]
    by (auto simp: demo_session_def session_entries_def)
qed

end
