(* ===== verification/ValidationCorrect.thy ===== *)
theory ValidationCorrect
  imports Validation
begin

text \<open>
  What one validation pass establishes, over any store that keeps the interface's contract: every
  row of the job is judged once, by its own content and, for duplicates, by the rows before it.
\<close>

subsection \<open>The pass as a list of verdicts\<close>

fun row_verdicts ::
  "js_env \<Rightarrow> 'w target \<Rightarrow> batch_facts \<Rightarrow> val list \<Rightarrow> srow list \<Rightarrow> (srow \<times> row_error list) list" where
  "row_verdicts env d facts seen [] = []"
| "row_verdicts env d facts seen (r # rs) =
     (r, fst (row_errors env d facts seen (row_fields r)))
       # row_verdicts env d facts (snd (row_errors env d facts seen (row_fields r))) rs"

definition verdict_set :: "row_error list \<Rightarrow> row_set" where
  "verdict_set es = SetValidation (if es = [] then Valid else Invalid) es"

definition verdict_op :: "srow \<times> row_error list \<Rightarrow> query \<times> row_set" where
  "verdict_op = (\<lambda>(r, es). (id_query (s_id r), verdict_set es))"

lemma fold_validate_row:
  "fold (validate_row ops env d facts) rs \<lparr>vs_store = s, vs_bulk = bulk, vs_seen = seen, vs_valid = v, vs_invalid = n\<rparr>
    = (case fold (push_op ops VALIDATION_CHUNK) (map verdict_op (row_verdicts env d facts seen rs)) (s, bulk) of
        (s', bulk') \<Rightarrow>
          \<lparr>vs_store = s', vs_bulk = bulk',
           vs_seen = fold (\<lambda>r seen. snd (row_errors env d facts seen (row_fields r))) rs seen,
           vs_valid = v + length (filter (\<lambda>(r, es). es = []) (row_verdicts env d facts seen rs)),
           vs_invalid = n + length (filter (\<lambda>(r, es). es \<noteq> []) (row_verdicts env d facts seen rs))\<rparr>)"
proof (induction rs arbitrary: s bulk seen v n)
  case (Cons r rs)
  obtain es seen' where re: "row_errors env d facts seen (row_fields r) = (es, seen')"
    by (cases "row_errors env d facts seen (row_fields r)")
  obtain s1 bulk1 where push: "push_op ops VALIDATION_CHUNK (verdict_op (r, es)) (s, bulk) = (s1, bulk1)"
    by (cases "push_op ops VALIDATION_CHUNK (verdict_op (r, es)) (s, bulk)")
  have "validate_row ops env d facts r \<lparr>vs_store = s, vs_bulk = bulk, vs_seen = seen, vs_valid = v, vs_invalid = n\<rparr>
    = \<lparr>vs_store = s1, vs_bulk = bulk1, vs_seen = seen', vs_valid = v + (if es = [] then 1 else 0),
       vs_invalid = n + (if es = [] then 0 else 1)\<rparr>"
    using push re by (simp add: validate_row_def verdict_op_def verdict_set_def Let_def split: if_splits)
  then show ?case
    using Cons.IH push re by (simp split: prod.splits)
qed simp

lemma validate_rows_eq:
  "validate_rows ops env d facts cs s =
     (write_all ops VALIDATION_CHUNK (map verdict_op (row_verdicts env d facts [] cs)) s,
      length (filter (\<lambda>(r, es). es = []) (row_verdicts env d facts [] cs)),
      length (filter (\<lambda>(r, es). es \<noteq> []) (row_verdicts env d facts [] cs)))"
  by (simp add: validate_rows_def fold_validate_row write_all_def Let_def split: prod.split)

lemma map_fst_verdicts [simp]: "map fst (row_verdicts env d facts seen cs) = cs"
  by (induction cs arbitrary: seen) simp_all

lemma length_verdicts [simp]: "length (row_verdicts env d facts seen cs) = length cs"
  by (induction cs arbitrary: seen) simp_all

subsection \<open>Duplicates\<close>

definition identity_of :: "'w target \<Rightarrow> srow \<Rightarrow> val option" where
  "identity_of d r = oget (row_fields r) (d_identityField d)"

text \<open>The errors a row has whatever the other rows are.\<close>

definition own_errors :: "js_env \<Rightarrow> 'w target \<Rightarrow> batch_facts \<Rightarrow> srow \<Rightarrow> row_error list" where
  "own_errors env d facts r = fst (row_errors env d facts [] (row_fields r))"

definition is_duplicate :: "'w target \<Rightarrow> batch_facts \<Rightarrow> val list \<Rightarrow> srow \<Rightarrow> bool" where
  "is_duplicate d facts seen r \<longleftrightarrow>
     (\<exists>x. identity_of d r = Some x \<and> x \<noteq> VNull \<and> vmember x (bf_duplicates facts) \<and> vmember x seen)"

lemma vmember_Nil [simp]: "\<not> vmember x []"
  by (simp add: vmember_def)

lemma vmember_Cons [simp]: "vmember x (y # ys) \<longleftrightarrow> same_value x y \<or> vmember x ys"
  by (auto simp: vmember_def)

lemma no_duplicate_error:
  "DuplicateInFile f \<notin> set (required_errors fs mf)" "DuplicateInFile f \<notin> set (enum_errors fs mf)"
  "DuplicateInFile f \<notin> set (reference_errors fs ks ls mf)"
  by (auto simp: required_errors_def enum_errors_def reference_errors_def split: option.splits if_splits)

lemma row_errors_split:
  "set (fst (row_errors env d facts seen (row_fields r)))
     = set (own_errors env d facts r) \<union> (if is_duplicate d facts seen r then {DuplicateInFile (d_identityField d)} else {})"
  by (auto simp: row_errors_def own_errors_def identity_errors_def is_duplicate_def identity_of_def Let_def
      split: option.splits)

lemma own_no_duplicate: "DuplicateInFile f \<notin> set (own_errors env d facts r)"
  using no_duplicate_error
  by (auto simp: row_errors_def own_errors_def identity_errors_def Let_def split: option.splits)

lemma seen_step:
  "vmember x (snd (row_errors env d facts seen (row_fields r)))
    \<longleftrightarrow> vmember x seen \<or> (\<exists>y. identity_of d r = Some y \<and> y \<noteq> VNull \<and> same_value x y \<and> vmember y (bf_duplicates facts))"
  by (auto simp: row_errors_def identity_errors_def identity_of_def Let_def split: option.splits)

definition seen_after :: "js_env \<Rightarrow> 'w target \<Rightarrow> batch_facts \<Rightarrow> val list \<Rightarrow> srow list \<Rightarrow> val list" where
  "seen_after env d facts seen rs = fold (\<lambda>r seen. snd (row_errors env d facts seen (row_fields r))) rs seen"

lemma seen_after_mem:
  assumes "vmember x (bf_duplicates facts)" "x \<noteq> VNull"
  shows "vmember x (seen_after env d facts seen rs) \<longleftrightarrow> vmember x seen \<or> (\<exists>r \<in> set rs. identity_of d r = Some x)"
proof -
  have eq: "same_value x y \<longleftrightarrow> x = y" for y
    using assms(1) by (auto simp: vmember_def same_value_def)
  show ?thesis
    unfolding seen_after_def
    using assms by (induction rs arbitrary: seen) (auto simp: seen_step eq)
qed

lemma row_verdicts_append:
  "row_verdicts env d facts seen (xs @ r # ys) = row_verdicts env d facts seen xs
     @ (r, fst (row_errors env d facts (seen_after env d facts seen xs) (row_fields r)))
     # row_verdicts env d facts (seen_after env d facts seen (xs @ [r])) ys"
  by (induction xs arbitrary: seen) (simp_all add: seen_after_def)

lemma row_verdicts_split:
  assumes "(r, es) \<in> set (row_verdicts env d facts seen cs)"
  obtains xs ys where "cs = xs @ r # ys"
    "es = fst (row_errors env d facts (seen_after env d facts seen xs) (row_fields r))"
proof -
  have "\<exists>xs ys. cs = xs @ r # ys \<and> es = fst (row_errors env d facts (seen_after env d facts seen xs) (row_fields r))"
    using assms
  proof (induction cs arbitrary: seen)
    case (Cons c cs)
    show ?case
    proof (cases "(r, es) = (c, fst (row_errors env d facts seen (row_fields c)))")
      case True
      then show ?thesis
        by (intro exI [of _ "[]"] exI [of _ cs]) (simp add: seen_after_def)
    next
      case False
      then have "(r, es) \<in> set (row_verdicts env d facts (snd (row_errors env d facts seen (row_fields c))) cs)"
        using Cons.prems by auto
      from Cons.IH [OF this] obtain xs ys where "cs = xs @ r # ys"
        "es = fst (row_errors env d facts (seen_after env d facts (snd (row_errors env d facts seen (row_fields c))) xs) (row_fields r))"
        by blast
      then show ?thesis
        by (intro exI [of _ "c # xs"] exI [of _ ys]) (simp add: seen_after_def)
    qed
  qed simp
  then show ?thesis using that by blast
qed

lemma verdict_errors:
  assumes "(r, es) \<in> set (row_verdicts env d facts [] cs)"
  shows "set es - {DuplicateInFile (d_identityField d)} = set (own_errors env d facts r)"
    "DuplicateInFile (d_identityField d) \<in> set es \<Longrightarrow>
       \<exists>x. identity_of d r = Some x \<and> x \<noteq> VNull \<and> vmember x (bf_duplicates facts)"
proof -
  obtain xs ys where "cs = xs @ r # ys"
    "es = fst (row_errors env d facts (seen_after env d facts [] xs) (row_fields r))"
    using row_verdicts_split [OF assms] .
  then show "set es - {DuplicateInFile (d_identityField d)} = set (own_errors env d facts r)"
    "DuplicateInFile (d_identityField d) \<in> set es \<Longrightarrow>
       \<exists>x. identity_of d r = Some x \<and> x \<noteq> VNull \<and> vmember x (bf_duplicates facts)"
    using own_no_duplicate [of "d_identityField d" env d facts r]
    by (auto simp: row_errors_split is_duplicate_def split: if_splits)
qed

lemma distinct_split:
  assumes "distinct (us @ x # vs)" "us @ x # vs = us' @ x # vs'"
  shows "us' = us"
proof -
  have "distinct (us' @ x # vs')"
    using assms by simp
  then have "x \<notin> set us'" "x \<notin> set vs'" "x \<notin> set us" "x \<notin> set vs"
    using assms(1) by auto
  then show ?thesis
    using assms(2) append_Cons_eq_iff [of x us vs us' vs'] by simp
qed

text \<open>Of the rows that share a value found twice, exactly the first is not called a duplicate.\<close>

lemma one_survivor:
  assumes "vmember x (bf_duplicates facts)" "x \<noteq> VNull" "\<exists>r \<in> set cs. identity_of d r = Some x" "distinct cs"
  shows "\<exists>!r. r \<in> set cs \<and> identity_of d r = Some x
    \<and> (\<forall>es. (r, es) \<in> set (row_verdicts env d facts [] cs) \<longrightarrow> DuplicateInFile (d_identityField d) \<notin> set es)"
proof -
  obtain xs r ys where cs: "cs = xs @ r # ys" "identity_of d r = Some x" "\<forall>r' \<in> set xs. identity_of d r' \<noteq> Some x"
    using split_list_first_prop [OF assms(3)] by blast
  have dup: "DuplicateInFile (d_identityField d) \<in> set es \<longleftrightarrow> r' \<noteq> r"
    if "(r', es) \<in> set (row_verdicts env d facts [] cs)" "identity_of d r' = Some x" for r' es
  proof -
    note verdict = that
    obtain us vs where r': "cs = us @ r' # vs"
      "es = fst (row_errors env d facts (seen_after env d facts [] us) (row_fields r'))"
      using row_verdicts_split [OF verdict(1)] by blast
    have uniq: "us' = us" if "cs = us' @ r' # vs'" for us' vs'
      using distinct_split [of us r' vs us' vs'] that r'(1) assms(4) by simp
    have "DuplicateInFile (d_identityField d) \<in> set es \<longleftrightarrow> (\<exists>q \<in> set us. identity_of d q = Some x)"
      using own_no_duplicate [of "d_identityField d" env d facts r'] assms(1,2) verdict(2)
      by (simp add: r'(2) row_errors_split is_duplicate_def seen_after_mem)
    also have "\<dots> \<longleftrightarrow> r' \<noteq> r"
    proof (cases "r' = r")
      case True
      then show ?thesis using uniq [of xs ys] cs by auto
    next
      case False
      then have "r' \<in> set ys"
        using cs r'(1) verdict(2) by (metis in_set_conv_decomp set_append Un_iff set_ConsD)
      then obtain as bs where "ys = as @ r' # bs"
        by (meson split_list)
      then have "us = xs @ r # as"
        using uniq [of "xs @ r # as" bs] cs(1) by simp
      then show ?thesis
        using cs(2) False by auto
    qed
    finally show ?thesis .
  qed
  have "(\<forall>es. (r', es) \<in> set (row_verdicts env d facts [] cs) \<longrightarrow> DuplicateInFile (d_identityField d) \<notin> set es) \<longleftrightarrow> r' = r"
    if "r' \<in> set cs" "identity_of d r' = Some x" for r'
  proof -
    have "set cs = fst ` set (row_verdicts env d facts [] cs)"
      by (simp only: set_map [symmetric] map_fst_verdicts)
    with that(1) have "\<exists>es. (r', es) \<in> set (row_verdicts env d facts [] cs)"
      by auto
    then show ?thesis using dup [OF _ that(2)] by blast
  qed
  then show ?thesis
    using cs(1,2) by (intro ex1I [of _ r]) auto
qed

text \<open>
  \<open>E\<close> judges the rows, of which \<open>view\<close> is what was read, fairly: the errors of a row, apart from being a duplicate, depend on that row alone;
  only a value the file repeats makes a row a duplicate; and of the rows that share such a value
  exactly one is not called a duplicate.
\<close>

definition fair_verdicts ::
  "js_env \<Rightarrow> 'w target \<Rightarrow> batch_facts \<Rightarrow> (srow \<Rightarrow> srow) \<Rightarrow> srow list \<Rightarrow> (srow \<Rightarrow> row_error list) \<Rightarrow> bool" where
  "fair_verdicts env d facts view rs E \<longleftrightarrow>
     (let dup = DuplicateInFile (d_identityField d) in
      (\<forall>r \<in> set rs. set (E r) - {dup} = set (own_errors env d facts (view r))
         \<and> (dup \<in> set (E r) \<longrightarrow> (\<exists>x. identity_of d (view r) = Some x \<and> x \<noteq> VNull \<and> vmember x (bf_duplicates facts))))
      \<and> (\<forall>x. vmember x (bf_duplicates facts) \<and> x \<noteq> VNull \<and> (\<exists>r \<in> set rs. identity_of d (view r) = Some x) \<longrightarrow>
           (\<exists>!r. r \<in> set rs \<and> identity_of d (view r) = Some x \<and> dup \<notin> set (E r))))"

subsection \<open>Over any store\<close>

context staging_store
begin

text \<open>\<open>E\<close> is the list of errors each row is given.\<close>

lemma validate_rows_correct:
  assumes good: "good s"
    and run: "validate_rows ops env d facts (so_cursorStaged ops (job_query t i) None None s) s = (s', v, n)"
  shows "\<exists>E. rows s' = map (\<lambda>r. if of_job t i r then apply_row_set (verdict_set (E r)) r else r) (rows s)
    \<and> v = length (filter (\<lambda>r. of_job t i r \<and> E r = []) (rows s))
    \<and> n = length (filter (\<lambda>r. of_job t i r \<and> E r \<noteq> []) (rows s))
    \<and> fair_verdicts env d facts view (filter (of_job t i) (rows s)) E"
    and "good s'" "job_of s' = job_of s"
proof -
  define cs where "cs = so_cursorStaged ops (job_query t i) None None s"
  define V where "V = row_verdicts env d facts [] cs"
  define E where "E r = the (map_of (map (\<lambda>(r, es). (s_id r, es)) V) (s_id r))" for r :: srow
  have cs: "mset cs = mset (map view (filter (of_job t i) (rows s)))"
    using job_cursor [OF good] by (simp add: cs_def)
  have ids: "distinct (map s_id cs)"
  proof -
    have "mset (map s_id cs) = mset (map s_id (filter (of_job t i) (rows s)))"
      using arg_cong [OF cs, of "image_mset s_id"] by (simp add: multiset.map_comp comp_def view_keeps)
    then show ?thesis
      using distinct_map_filter [OF distinct_ids [OF good]] mset_eq_imp_distinct_iff by blast
  qed
  have fst_V: "map fst V = cs"
    by (simp add: V_def)
  have "map fst (map (\<lambda>(r, es). (s_id r, es)) V) = map s_id (map fst V)"
    by (simp add: case_prod_beta comp_def)
  then have keys: "map fst (map (\<lambda>(r, es). (s_id r, es)) V) = map s_id cs"
    by (simp only: fst_V)
  have E: "E r = es" if "(r', es) \<in> set V" "s_id r' = s_id r" for r r' es
  proof -
    have "(s_id r, es) \<in> set (map (\<lambda>(r, es). (s_id r, es)) V)"
      using that by (force simp: image_iff)
    then show ?thesis
      unfolding E_def using ids keys map_of_is_SomeI [of "map (\<lambda>(r, es). (s_id r, es)) V" "s_id r" es] by simp
  qed
  have in_V: "(view r, E r) \<in> set V" if r: "r \<in> set (rows s)" "of_job t i r" for r
  proof -
    have "view r \<in> set cs"
      using r mset_eq_setD [OF cs] by simp
    then have "view r \<in> fst ` set V"
      by (simp only: set_map [symmetric] fst_V)
    then obtain es where "(view r, es) \<in> set V"
      by auto
    then show ?thesis using E [of "view r" es r] by (simp add: view_keeps)
  qed
  define ius where "ius = map (\<lambda>(r, es). (s_id r, verdict_set es)) V"
  have ops: "map verdict_op V = map (\<lambda>(i, u). (id_query i, u)) ius"
    by (simp add: ius_def verdict_op_def comp_def case_prod_beta)
  have "map fst ius = map s_id (map fst V)"
    by (simp add: ius_def case_prod_beta comp_def)
  then have ius_ids: "map fst ius = map s_id cs"
    by (simp only: fst_V)
  have upd: "fold (\<lambda>(i, u). update_at i u) ius r = (if of_job t i r then apply_row_set (verdict_set (E r)) r else r)"
    if r: "r \<in> set (rows s)" for r
  proof (cases "of_job t i r")
    case True
    then have "(s_id r, verdict_set (E r)) \<in> set ius"
      using in_V [OF r True] by (force simp: ius_def image_iff view_keeps)
    then show ?thesis
      using fold_update_one [of ius r] ids ius_ids True by simp
  next
    case False
    have "s_id r \<notin> set (map fst ius)"
    proof
      assume "s_id r \<in> set (map fst ius)"
      then have "s_id r \<in> s_id ` set cs"
        by (simp only: ius_ids set_map)
      then obtain x where x: "x \<in> set (rows s)" "of_job t i x" "s_id r = s_id x"
        using mset_eq_setD [OF cs] by (auto simp: view_keeps)
      show False
        using same_row [OF good r x(1,3)] x(2) False by blast
    qed
    then show ?thesis using fold_update_other False by simp
  qed
  have s': "s' = write_all ops VALIDATION_CHUNK (map (\<lambda>(i, u). (id_query i, u)) ius) s"
    and v: "v = length (filter (\<lambda>(r, es). es = []) V)" and n: "n = length (filter (\<lambda>(r, es). es \<noteq> []) V)"
    using run unfolding validate_rows_eq cs_def [symmetric] V_def [symmetric] ops by simp_all
  note written = write_all_rows [OF good, of VALIDATION_CHUNK ius, folded s']
  have mset_V: "mset V = mset (map (\<lambda>r. (view r, E r)) (filter (of_job t i) (rows s)))"
  proof -
    have "map (\<lambda>p. (fst p, E (fst p))) V = V"
      using E by (intro map_idI) auto
    then have "V = map (\<lambda>r. (r, E r)) (map fst V)"
      by (simp add: comp_def)
    then have "mset V = image_mset (\<lambda>r. (r, E r)) (mset cs)"
      by (metis fst_V mset_map)
    moreover have "E (view r) = E r" for r
      by (simp add: E_def view_keeps)
    ultimately show ?thesis
      by (simp add: cs multiset.map_comp comp_def)
  qed
  have counts: "length (filter (\<lambda>(r, es). P es) V) = length (filter (\<lambda>r. of_job t i r \<and> P (E r)) (rows s))" for P
  proof -
    have "mset (filter (\<lambda>(r, es). P es) V) = filter_mset (\<lambda>(r, es). P es) (mset V)"
      by simp
    then have "length (filter (\<lambda>(r, es). P es) V) = size (filter_mset (\<lambda>(r, es). P es) (mset V))"
      by (metis size_mset)
    then show ?thesis
      by (simp add: mset_V filter_mset_image_mset comp_def flip: mset_filter)
  qed
  have survivor: "\<exists>!r. r \<in> set (rows s) \<and> of_job t i r \<and> identity_of d (view r) = Some x
        \<and> DuplicateInFile (d_identityField d) \<notin> set (E r)"
    if x: "vmember x (bf_duplicates facts)" "x \<noteq> VNull"
      "\<exists>r \<in> set (rows s). of_job t i r \<and> identity_of d (view r) = Some x" for x
  proof -
    let ?Q = "\<lambda>q. identity_of d q = Some x
      \<and> (\<forall>es. (q, es) \<in> set V \<longrightarrow> DuplicateInFile (d_identityField d) \<notin> set es)"
    have set_cs: "set cs = view ` {r \<in> set (rows s). of_job t i r}"
      using mset_eq_setD [OF cs] by auto
    have Q: "?Q (view r) \<longleftrightarrow> identity_of d (view r) = Some x \<and> DuplicateInFile (d_identityField d) \<notin> set (E r)"
      if r: "r \<in> set (rows s)" "of_job t i r" for r
    proof -
      have "E r = es" if "(view r, es) \<in> set V" for es
        using that by (rule E) (rule view_keeps(1))
      then show ?thesis using in_V [OF r] by blast
    qed
    have found: "\<exists>q \<in> set cs. identity_of d q = Some x"
      using x(3) by (auto simp: set_cs)
    have "\<exists>!q. q \<in> set cs \<and> ?Q q"
      by (rule one_survivor [where env = env, OF x(1,2) found distinct_of_map [OF ids], folded V_def])
    then obtain q where q: "q \<in> set cs" "?Q q" "\<And>q'. q' \<in> set cs \<Longrightarrow> ?Q q' \<Longrightarrow> q' = q"
      by (elim ex1E conjE) blast
    obtain r where r: "r \<in> set (rows s)" "of_job t i r" "q = view r"
      using q(1) by (auto simp: set_cs)
    have same: "r' = r" if r': "r' \<in> set (rows s)" "of_job t i r'" "identity_of d (view r') = Some x"
        "DuplicateInFile (d_identityField d) \<notin> set (E r')" for r'
    proof -
      have "view r' \<in> set cs"
        using r'(1,2) by (simp add: set_cs)
      moreover have "?Q (view r')"
        using Q [OF r'(1,2)] r'(3,4) by blast
      ultimately have "view r' = view r"
        using q(3) r(3) by simp
      then have "s_id r' = s_id r"
        by (metis view_keeps(1))
      then show ?thesis using same_row [OF good r'(1) r(1)] by blast
    qed
    show ?thesis
    proof (rule ex1I [of _ r])
      show "r \<in> set (rows s) \<and> of_job t i r \<and> identity_of d (view r) = Some x
          \<and> DuplicateInFile (d_identityField d) \<notin> set (E r)"
        using r(1,2) q(2) [unfolded r(3)] Q [OF r(1,2)] by blast
    qed (use same in blast)
  qed
  have "fair_verdicts env d facts view (filter (of_job t i) (rows s)) E"
    unfolding fair_verdicts_def Let_def
  proof (intro conjI allI impI)
    fix x assume "vmember x (bf_duplicates facts) \<and> x \<noteq> VNull
      \<and> (\<exists>r \<in> set (filter (of_job t i) (rows s)). identity_of d (view r) = Some x)"
    then have "vmember x (bf_duplicates facts)" "x \<noteq> VNull"
      "\<exists>r \<in> set (rows s). of_job t i r \<and> identity_of d (view r) = Some x" by auto
    from survivor [OF this] show "\<exists>!r. r \<in> set (filter (of_job t i) (rows s)) \<and> identity_of d (view r) = Some x
        \<and> DuplicateInFile (d_identityField d) \<notin> set (E r)"
      by (simp only: set_filter mem_Collect_eq conj_assoc)
  qed (use verdict_errors [OF in_V [unfolded V_def]] in simp)
  moreover have "rows s' = map (\<lambda>r. if of_job t i r then apply_row_set (verdict_set (E r)) r else r) (rows s)"
    using written upd by (simp add: fold_update_rows)
  ultimately show "\<exists>E. rows s' = map (\<lambda>r. if of_job t i r then apply_row_set (verdict_set (E r)) r else r) (rows s)
    \<and> v = length (filter (\<lambda>r. of_job t i r \<and> E r = []) (rows s))
    \<and> n = length (filter (\<lambda>r. of_job t i r \<and> E r \<noteq> []) (rows s))
    \<and> fair_verdicts env d facts view (filter (of_job t i) (rows s)) E"
    using v n counts by (intro exI [of _ E]) simp
  show "good s'" "job_of s' = job_of s"
    using written by auto
qed

end

end
