(* ===== verification/ValidationProps.thy ===== *)
theory ValidationProps
  imports ValidationCorrect MongoModel Demo
begin

text \<open>
  Properties of validation: what it stores over any document database, and what the in-memory
  store cannot find out.
\<close>

subsection \<open>Over a document database\<close>

lemma validateImportJob_Inr:
  assumes "validateImportJob ops db isObjectId env reg t i s w = (Inr res, s')"
  obtains job d facts s1 where "so_getJob ops t i s = Inr job" "j_status job \<in> {Mapped, Validated}"
    "getTargetDescriptor (j_module job) (key_text (j_entityKey job)) reg = Inr d"
    "bf_duplicates facts = duplicate_values ops t (j_id job) (d_identityField d) s"
    "validate_rows ops env d facts (so_cursorStaged ops (job_query t (j_id job)) None None s) s
       = (s1, vr_validCount res, vr_invalidCount res)"
    "so_updateJob ops t (j_id job) [SetStatus Validated, SetCount ValidRows (vr_validCount res),
       SetCount InvalidRows (vr_invalidCount res)] s1 = Inr (vr_job res, s')"
proof -
  obtain job where job: "so_getJob ops t i s = Inr job" "j_status job \<in> {Mapped, Validated}"
    using assms by (auto simp: validateImportJob_def split: sum.splits if_splits)
  obtain d where d: "getTargetDescriptor (j_module job) (key_text (j_entityKey job)) reg = Inr d"
    using assms job by (auto simp: validateImportJob_def lift_err_Inr split: sum.splits if_splits)
  obtain existing lookups where look: "existing_values ops d t (j_id job) s w = Inr existing"
    "reference_lookups ops db d job t s w = Inr lookups" "isObjectId t"
    using assms job d by (auto simp: validateImportJob_def Let_def split: sum.splits if_splits)
  define facts where "facts = \<lparr>bf_duplicates = duplicate_values ops t (j_id job) (d_identityField d) s,
    bf_existing = existing, bf_lookups = lookups\<rparr>"
  obtain s1 v n where rows: "validate_rows ops env d facts (so_cursorStaged ops (job_query t (j_id job)) None None s) s = (s1, v, n)"
    by (cases "validate_rows ops env d facts (so_cursorStaged ops (job_query t (j_id job)) None None s) s") auto
  have dups: "bf_duplicates facts = duplicate_values ops t (j_id job) (d_identityField d) s"
    by (simp add: facts_def)
  show ?thesis
    by (rule that [OF job d dups])
      (use assms job d look rows in \<open>auto simp: validateImportJob_def Let_def facts_def [symmetric] split: sum.splits\<close>)
qed

context mongo_db
begin

lemma validate_judges:
  assumes good: "good s"
    and run: "validateImportJob (createMongooseJobStore db) db isObjectId env reg t i s w = (Inr res, s')"
  shows "\<exists>job job' d facts E. jobs s i = Some job \<and> j_status job \<in> {Mapped, Validated}
    \<and> getTargetDescriptor (j_module job) (key_text (j_entityKey job)) reg = Inr d
    \<and> bf_duplicates facts = duplicate_values (createMongooseJobStore db) t i (d_identityField d) s
    \<and> fair_verdicts env d facts (\<lambda>r. r) (filter (of_job t i) (rows s)) E
    \<and> rows s' = map (\<lambda>r. if of_job t i r then apply_row_set (verdict_set (E r)) r else r) (rows s)
    \<and> vr_validCount res = length (filter (\<lambda>r. of_job t i r \<and> s_validationStatus r = Some Valid) (rows s'))
    \<and> vr_invalidCount res = length (filter (\<lambda>r. of_job t i r \<and> s_validationStatus r = Some Invalid) (rows s'))
    \<and> vr_job res = Some job' \<and> jobs s' i = Some job'
    \<and> job' = job\<lparr>j_status := Validated, j_counts := (j_counts job)\<lparr>validRows := vr_validCount res, invalidRows := vr_invalidCount res\<rparr>\<rparr>"
proof -
  obtain job d facts s1 where v: "so_getJob (createMongooseJobStore db) t i s = Inr job" "j_status job \<in> {Mapped, Validated}"
    "getTargetDescriptor (j_module job) (key_text (j_entityKey job)) reg = Inr d"
    "bf_duplicates facts = duplicate_values (createMongooseJobStore db) t (j_id job) (d_identityField d) s"
    "validate_rows (createMongooseJobStore db) env d facts
       (so_cursorStaged (createMongooseJobStore db) (job_query t (j_id job)) None None s) s
       = (s1, vr_validCount res, vr_invalidCount res)"
    "so_updateJob (createMongooseJobStore db) t (j_id job) [SetStatus Validated, SetCount ValidRows (vr_validCount res),
       SetCount InvalidRows (vr_invalidCount res)] s1 = Inr (vr_job res, s')"
    using validateImportJob_Inr [OF run] .
  have job: "jobs s i = Some job" "j_tenantId job = t" "j_id job = i"
    using v(1) store.get_job [of t i s] job_id [OF good, of i]
    by (auto simp: of_tenant_def split: option.splits if_splits)
  note pass = store.validate_rows_correct [OF good v(5) [unfolded job(3)]]
  obtain E where E: "rows s1 = map (\<lambda>r. if of_job t i r then apply_row_set (verdict_set (E r)) r else r) (rows s)"
    "vr_validCount res = length (filter (\<lambda>r. of_job t i r \<and> E r = []) (rows s))"
    "vr_invalidCount res = length (filter (\<lambda>r. of_job t i r \<and> E r \<noteq> []) (rows s))"
    "fair_verdicts env d facts (\<lambda>r. r) (filter (of_job t i) (rows s)) E"
    using pass(1) by blast
  define us where "us = [SetStatus Validated, SetCount ValidRows (vr_validCount res), SetCount InvalidRows (vr_invalidCount res)]"
  have "of_tenant j_tenantId t (jobs s1 i) = Some job"
    using fun_cong [OF fun_cong [OF pass(3), of t], of i] job by simp
  then have s1: "db_job db (id_tenant_query i t) s1 = Some job"
    by (simp add: find_job)
  have up: "db_updateJob db (id_tenant_query i t) us s1 = (vr_job res, s')"
    using v(6) by (simp add: createMongooseJobStore_def mongoose_updateJob_def job us_def)
  have "rows s' = rows s1"
    using update_job(4) [of "id_tenant_query i t" us s1] by (simp add: up)
  moreover have "vr_job res = Some (fold apply_set us job)" "jobs s' i = Some (fold apply_set us job)"
    using update_job(1) [of "id_tenant_query i t" i t us s1] update_job(2) [of "id_tenant_query i t" i t us s1]
    by (simp_all add: up s1)
  moreover have counts: "length (filter (\<lambda>r. of_job t i r \<and> s_validationStatus r = Some Valid) (rows s1)) = vr_validCount res"
    "length (filter (\<lambda>r. of_job t i r \<and> s_validationStatus r = Some Invalid) (rows s1)) = vr_invalidCount res"
    unfolding E(1-3) by (auto simp: filter_map comp_def verdict_set_def of_job_def intro!: arg_cong [of _ _ length] filter_cong)
  ultimately show ?thesis
    using job v(2-4) E(1,4) by (intro exI conjI) (assumption | simp add: us_def)+
qed

end


definition twin_db :: list_db where
  "twin_db = \<lparr>l_sessions = [], l_jobs = [demo_job\<lparr>j_status := Mapped, j_entityKey := Some ''demo''\<rparr>],
     l_rows = [demo_row ''a'' 0 ''A'' Pending, demo_row ''b'' 1 ''A'' Pending]\<rparr>"

lemma twin_run:
  "case validateImportJob (createMongooseJobStore (list_mongo test_env)) (list_mongo test_env) (\<lambda>_. True) test_env
     demo_registry ''t'' ''j'' twin_db [] of
     (Inr res, s') \<Rightarrow> vr_validCount res = 1 \<and> vr_invalidCount res = 1 | _ \<Rightarrow> False"
  by code_simp


subsection \<open>Over the in-memory store\<close>

lemma no_bracket_show [simp]: "CHR ''['' \<notin> set (show_nat n)"
  using show_nat_digits [of n] by (auto simp: list_all_iff is_digit_def code_def)

lemma no_bracket_num: "CHR ''['' \<notin> set (num_str (Fin q))"
proof -
  have strip: "CHR ''['' \<notin> set s \<Longrightarrow> CHR ''['' \<notin> set (strip_zeros s)" for s
    by (auto simp: strip_zeros_def dest: set_dropWhileD)
  have sub: "CHR ''['' \<notin> set (take n s)" "CHR ''['' \<notin> set (drop n s)" if "CHR ''['' \<notin> set s" for n s
    using that by (meson in_set_takeD in_set_dropD)+
  have ds: "CHR ''['' \<notin> set (strip_zeros (show_nat n))" for n
    by (intro strip) simp
  have "CHR ''['' \<notin> set (pos_num_str x)" for x
    by (simp add: pos_num_str_def Let_def case_prod_beta sub ds del: shortest.simps)
  then show ?thesis by simp
qed

text \<open>
  The in-memory store never reports a repeated identity value, whatever the rows are: it compares
  the count of a group with the text of the condition \<open>{ $gt: 1 }\<close>. Validation over it lets every
  copy of a row through.
\<close>

theorem mem_no_duplicates: "duplicate_values (createInMemoryJobStore env) t i identityField s = []"
proof -
  have "\<not> mem_matches env (oget (group_doc g)) [(''count'', Gt (Fin 1)), (''_id'', Ne VNull)]" for g
  proof -
    have "oget (group_doc g) ''count'' = Some (VNum (Fin (of_nat (snd g))))"
      by (simp add: group_doc_def opt_doc_def split: option.split)
    moreover have "num_str (Fin (of_nat (snd g))) \<noteq> ''[object Object]''"
      using no_bracket_num [of "of_nat (snd g)"] by (metis list.set_intros(1))
    ultimately show ?thesis
      by (simp add: mem_matches_def opt_str_def del: num_str.simps)
  qed
  then show ?thesis
    by (simp add: duplicate_values_def duplicate_pipeline_def createInMemoryJobStore_def mem_aggregateStaged_def)
qed

end
