(* ===== verification/TargetsProps.thy ===== *)
theory TargetsProps
  imports Targets SessionProps ValidationProps
begin

text \<open>
  What the engine makes of the shipped targets: they register under different keys and are well
  formed; the order of a session and the references within it do not reach most of them.
\<close>

subsection \<open>The shipped registry\<close>

lemma register_list:
  "\<forall>d \<in> set ds. target_ok d \<Longrightarrow> distinct (akeys reg @ map target_key ds) \<Longrightarrow>
   try_fold registerTarget ds reg = Inr (reg @ map (\<lambda>d. (target_key d, d)) ds)"
proof (induction ds arbitrary: reg)
  case (Cons d ds)
  then have "registerTarget d reg = Inr (reg @ [(target_key d, d)])"
    by (simp add: registerTarget_def target_ok_def target_key_def)
  then show ?case
    using Cons.IH [of "reg @ [(target_key d, d)]"] Cons.prems by simp
qed simp

lemmas target_defs =
  role_target_def orgunit_target_def branch_target_def employee_target_def party_seller_target_def
  party_buyer_target_def party_shipper_target_def order_target_def rider_target_def cycle_target_def
  attendance_target_def leave_target_def payroll_target_def bankaccount_target_def coa_target_def
  invoice_target_def budgetallocation_target_def documenttype_target_def

lemmas field_defs =
  role_fields_def orgunit_fields_def branch_fields_def employee_fields_def party_seller_fields_def
  party_buyer_fields_def party_shipper_fields_def order_fields_def rider_fields_def cycle_fields_def
  attendance_fields_def leave_fields_def payroll_fields_def bankaccount_fields_def coa_fields_def
  invoice_fields_def budgetallocation_fields_def documenttype_fields_def

definition shipped_names :: "(string \<times> string) list" where
  "shipped_names =
     [(''shared'', ''role''), (''shared'', ''orgunit''), (''shared'', ''branch''), (''shared'', ''employee''),
      (''businessops'', ''party_seller''), (''businessops'', ''party_buyer''), (''businessops'', ''party_shipper''),
      (''businessops'', ''order''), (''businessops'', ''rider''), (''businessops'', ''cycle''),
      (''hr'', ''attendance''), (''hr'', ''leave''), (''hr'', ''payroll''),
      (''finance'', ''bankaccount''), (''finance'', ''coa''), (''finance'', ''invoice''),
      (''finance'', ''budgetallocation''), (''communication'', ''documenttype'')]"

lemma shipped_names: "map (\<lambda>d. (d_namespace d, d_entityKey d)) (shipped_targets env now ob) = shipped_names"
  by (simp add: shipped_targets_def shipped_names_def target_defs)

lemma shipped_keys: "map target_key (shipped_targets env now ob) = map (\<lambda>(ns, ek). registry_key ns ek) shipped_names"
  by (simp add: shipped_names [symmetric, of env now ob] target_key_def)

lemma shipped_keys_distinct: "distinct (map (\<lambda>(ns, ek). registry_key ns ek) shipped_names)"
  by code_simp

lemma shipped_registers:
  "try_fold registerTarget (shipped_targets env now ob) []
     = Inr (map (\<lambda>d. (target_key d, d)) (shipped_targets env now ob))"
proof -
  have "\<forall>d \<in> set (shipped_targets env now ob). target_ok d"
    by (simp add: shipped_targets_def target_defs target_ok_def)
  then show ?thesis
    using register_list [of "shipped_targets env now ob" "[]"] shipped_keys_distinct by (simp add: shipped_keys)
qed

lemma shipped_registry: "shipped_registry env now ob = map (\<lambda>d. (target_key d, d)) (shipped_targets env now ob)"
  by (simp add: shipped_registry_def shipped_registers)

lemma shipped_lookup:
  "getTargetDescriptor ns ek (shipped_registry env now ob) = Inr d \<longleftrightarrow>
     d \<in> set (shipped_targets env now ob) \<and> registry_key ns ek = target_key d"
proof -
  have "distinct (map fst (shipped_registry env now ob))"
    using shipped_keys_distinct by (simp add: shipped_registry comp_def shipped_keys)
  then have "map_of (shipped_registry env now ob) k = Some d
      \<longleftrightarrow> d \<in> set (shipped_targets env now ob) \<and> k = target_key d" for k
    by (auto simp: map_of_eq_Some_iff shipped_registry)
  from this [of "registry_key ns ek"] show ?thesis
    by (cases "map_of (shipped_registry env now ob) (registry_key ns ek)")
      (simp_all add: getTargetDescriptor_def del: map_of_None_akeys map_of_eq_None_iff)
qed

text \<open>
  Every shipped target is consistent: its field keys differ, its reference fields are fields and come
  with the lookup that resolves them, and it depends on shipped targets only.
\<close>

definition target_consistent :: "string list \<Rightarrow> 'w target \<Rightarrow> bool" where
  "target_consistent entityKeys d \<longleftrightarrow>
     distinct (map f_key (d_fields d))
     \<and> list_all (\<lambda>f. f_type f \<in> {''string'', ''number'', ''date'', ''boolean''}) (d_fields d)
     \<and> list_all (\<lambda>k. k \<in> set (map f_key (d_fields d))) (case d_referenceFields d of None \<Rightarrow> [] | Some fs \<Rightarrow> fs)
     \<and> (Option.is_none (d_referenceFields d) \<longleftrightarrow> Option.is_none (d_resolveReferences d))
     \<and> list_all (\<lambda>e. e \<in> set entityKeys) (case d_dependencies d of None \<Rightarrow> [] | Some ds \<Rightarrow> ds)"

lemma shipped_targets_consistent:
  "list_all (target_consistent (map snd shipped_names)) (shipped_targets env now ob)"
  by code_simp

subsection \<open>The order of a session\<close>

lemma unlisted_undeclared:
  assumes "d \<in> set (shipped_targets env now ob)" "d_namespace d \<notin> set KNOWN_MODULES"
  shows "declared_deps (shipped_registry env now ob) (d_entityKey d) = []"
    and "d_entityKey d \<noteq> ''__proto__''" "\<not> is_index_key (d_entityKey d)"
proof -
  have name: "(d_namespace d, d_entityKey d) \<in> set shipped_names"
    using assms(1) by (simp add: shipped_names [symmetric, of env now ob])
  have free: "list_all (\<lambda>(ns, ek). ns \<in> set KNOWN_MODULES \<or>
      (list_all (\<lambda>m. registry_key m ek \<notin> set (map (\<lambda>(ns, ek). registry_key ns ek) shipped_names)) KNOWN_MODULES
       \<and> ek \<noteq> ''__proto__'' \<and> \<not> is_index_key ek)) shipped_names"
    by code_simp
  from bspec [OF this [unfolded list_all_iff] name, unfolded prod.case] assms(2)
  have facts: "\<forall>m \<in> set KNOWN_MODULES. registry_key m (d_entityKey d) \<notin> set (map (\<lambda>(ns, ek). registry_key ns ek) shipped_names)"
    "d_entityKey d \<noteq> ''__proto__''" "\<not> is_index_key (d_entityKey d)"
    by blast+
  then show "d_entityKey d \<noteq> ''__proto__''" "\<not> is_index_key (d_entityKey d)"
    by blast+
  have none: "registry_key m (d_entityKey d) \<notin> target_key ` set (shipped_targets env now ob)"
    if "m \<in> set KNOWN_MODULES" for m
    using facts(1) that unfolding set_map [symmetric] shipped_keys by blast
  have "getTargetDescriptor m (d_entityKey d) (shipped_registry env now ob) \<noteq> Inr d'"
    if "m \<in> set KNOWN_MODULES" for m d'
    using none [OF that] by (auto simp: shipped_lookup)
  then have "first_descriptor ms (d_entityKey d) (shipped_registry env now ob) = None"
    if "set ms \<subseteq> set KNOWN_MODULES" for ms
    using that by (induction ms) (auto split: sum.split)
  then show "declared_deps (shipped_registry env now ob) (d_entityKey d) = []"
    by (simp add: declared_deps_def)
qed

text \<open>
  C25. A session over entities that are shipped in another namespace than \<open>hr\<close> and \<open>businessops\<close>, one
  job for each, is executed in the order its jobs were added, whatever its targets declare: the
  dependencies of \<open>shared\<close> and \<open>finance\<close> targets are never looked up. Employees added before the org
  units, roles and branches they depend on are imported before them.
\<close>

theorem session_ignores_shipped_dependencies:
  assumes "mongo_db db sessions jobs rows good" "good s" "sessions s i = Some x"
    and "distinct (map se_importJobId (ms_jobs x))" "distinct (map se_entityKey (ms_jobs x))"
    and "se_entityKey ` set (ms_jobs x)
      \<subseteq> d_entityKey ` {d \<in> set (shipped_targets env now ob). d_namespace d \<notin> set KNOWN_MODULES}"
    and "computeSessionOrder db (shipped_registry env now ob) t i s = (Inr y, s')"
  shows "ms_executionOrder y = map se_importJobId (ms_jobs x)
    \<and> ms_dependencyGraph y = map (\<lambda>j. (se_entityKey j, [])) (ms_jobs x)"
proof -
  let ?reg = "shipped_registry env now ob" and ?keys = "map se_entityKey (ms_jobs x)"
  let ?jobs = "map (\<lambda>j. \<lparr>sj_importJobId = se_importJobId j, sj_entityKey = se_entityKey j\<rparr>) (ms_jobs x)"
  have e: "declared_deps ?reg e = []" "e \<noteq> ''__proto__''" "\<not> is_index_key e" if "e \<in> set ?keys" for e
    using that assms(6) unlisted_undeclared [of _ env now ob] by auto
  then have deps: "collectDependencies ?reg ?keys = map (\<lambda>e. (e, [])) ?keys"
    using fold_oset_append [of ?keys "[]" "declared_deps ?reg"] assms(5) by (simp add: collectDependencies_def)
  have find: "db_session db (id_tenant_query i t) s = of_tenant ms_tenantId t (Some x)"
    using mongo_db.find_session(2) [OF assms(1)] assms(3) by simp
  have none: "(case map_of (collectDependencies ?reg ?keys) k of None \<Rightarrow> [] | Some ds \<Rightarrow> ds) = []" for k
    unfolding deps by (auto split: option.split dest: map_of_SomeD)
  have "computeSessionExecutionOrder ?jobs (collectDependencies ?reg ?keys)
      = Inr (map sj_importJobId ?jobs, map sj_entityKey ?jobs)"
    by (rule computeSessionExecutionOrder_free) (use assms(4,5) e none in \<open>auto simp: comp_def\<close>)
  then show ?thesis
    using assms(5,7) deps
    by (auto simp: computeSessionOrder_def find Let_def uniq_id saved_def lift_err_Inr save_session_Inr comp_def
        split: if_splits sum.splits)
qed

text \<open>A session of two jobs in which the employees were added before their roles.\<close>

definition silent :: "unit offerberries" where
  "silent =
     \<lparr>ob_find = (\<lambda>_ _ _. Inr []), ob_findOne = (\<lambda>_ _ _. Inr None), ob_distinct = (\<lambda>_ _ _ _. Inr []),
      ob_create = (\<lambda>_ _ w. (Inr ''new'', w)), ob_call = (\<lambda>_ _ w. (Inr ''new'', w))\<rparr>"

definition staff_session :: session where
  "staff_session = (demo_session SessionPending)\<lparr>ms_jobs :=
     [\<lparr>se_importJobId = ''1'', se_module = ''shared'', se_entityKey = ''employee''\<rparr>,
      \<lparr>se_importJobId = ''2'', se_module = ''shared'', se_entityKey = ''role''\<rparr>]\<rparr>"

definition staff_db :: list_db where
  "staff_db = \<lparr>l_sessions = [staff_session], l_jobs = [], l_rows = []\<rparr>"

theorem session_ignores_shipped_dependencies_witness:
  "d_dependencies (employee_target test_env 0 silent) = Some [''orgunit'', ''role'', ''branch'']
   \<and> (\<exists>y s'. computeSessionOrder (list_mongo test_env) (shipped_registry test_env 0 silent) ''t'' ''s'' staff_db = (Inr y, s')
     \<and> ms_executionOrder y = [''1'', ''2''])"
proof -
  have ok: "list_ok staff_db"
    by code_simp
  have x: "by_id ms_id ''s'' (l_sessions staff_db) = Some staff_session"
    by (simp add: staff_db_def staff_session_def by_id_def demo_session_def)
  have jobs: "map se_importJobId (ms_jobs staff_session) = [''1'', ''2'']"
    "map se_entityKey (ms_jobs staff_session) = [''employee'', ''role'']"
    by (simp_all add: staff_session_def)
  have names: "employee_target test_env 0 silent \<in> set (shipped_targets test_env 0 silent)"
    "role_target silent \<in> set (shipped_targets test_env 0 silent)"
    by (simp_all add: shipped_targets_def)
  have keys: "d_entityKey (employee_target test_env 0 silent) = ''employee''" "d_entityKey (role_target silent) = ''role''"
    "d_namespace (employee_target test_env 0 silent) \<notin> set KNOWN_MODULES" "d_namespace (role_target silent) \<notin> set KNOWN_MODULES"
    by (simp_all add: employee_target_def role_target_def KNOWN_MODULES_def)
  have unlisted: "se_entityKey ` set (ms_jobs staff_session)
      \<subseteq> d_entityKey ` {d \<in> set (shipped_targets test_env 0 silent). d_namespace d \<notin> set KNOWN_MODULES}"
    using names keys unfolding set_map [symmetric] jobs by (auto intro: rev_image_eqI)
  have "case computeSessionOrder (list_mongo test_env) (shipped_registry test_env 0 silent) ''t'' ''s'' staff_db of
      (Inr y, s') \<Rightarrow> True | _ \<Rightarrow> False"
    by code_simp
  then obtain y s' where run:
    "computeSessionOrder (list_mongo test_env) (shipped_registry test_env 0 silent) ''t'' ''s'' staff_db = (Inr y, s')"
    by (auto split: prod.splits sum.splits)
  have "ms_executionOrder y = [''1'', ''2'']"
    using session_ignores_shipped_dependencies [OF listdb.mongo_db_axioms ok x _ _ unlisted run] jobs by simp
  then show ?thesis
    using run by (auto simp: employee_target_def)
qed

subsection \<open>References within a session\<close>

definition shipped_references :: "(string \<times> string list) list" where
  "shipped_references =
     [(''orgunit'', [''parentName'']), (''employee'', [''orgUnitName'', ''roleName'', ''branchName'']),
      (''order'', [''sellerExternalId'', ''buyerExternalId'']), (''attendance'', [''employeeEmail'']),
      (''leave'', [''employeeEmail'']), (''payroll'', [''employeeEmail'']), (''invoice'', [''partyExternalId'']),
      (''budgetallocation'', [''walletName''])]"

lemma shipped_references:
  "concat (map (\<lambda>d. case d_referenceFields d of None \<Rightarrow> [] | Some fs \<Rightarrow> [(d_entityKey d, fs)]) (shipped_targets env now ob))
     = shipped_references"
  by (simp add: shipped_targets_def shipped_references_def target_defs)

lemma reference_entities:
  "map field_entity [''parentName'', ''sellerExternalId'', ''buyerExternalId'', ''employeeEmail'', ''partyExternalId'', ''walletName'']
     = [''parent'', ''sellerexternalid'', ''buyerexternalid'', ''employeeemail'', ''partyexternalid'', ''wallet'']"
  by code_simp

lemma reference_unmatched:
  assumes "d \<in> set (shipped_targets env now ob)" "d_entityKey d \<noteq> ''employee''"
    and "f \<in> set (case d_referenceFields d of None \<Rightarrow> [] | Some fs \<Rightarrow> fs)"
  shows "field_entity f \<notin> d_entityKey ` set (shipped_targets env now ob)"
proof -
  obtain fs where fs: "d_referenceFields d = Some fs" "f \<in> set fs"
    using assms(3) by (cases "d_referenceFields d") simp_all
  then have "(d_entityKey d, fs) \<in> set shipped_references"
    using assms(1) unfolding shipped_references [symmetric, of env now ob] by (force split: option.split)
  moreover have "list_all (\<lambda>(ek, fs). ek = ''employee'' \<or> list_all (\<lambda>f. field_entity f \<notin> set (map snd shipped_names)) fs)
      shipped_references"
    using reference_entities by (simp add: shipped_references_def shipped_names_def)
  ultimately have "field_entity f \<notin> set (map snd shipped_names)"
    using assms(2) fs(2) unfolding list_all_iff by blast
  then show ?thesis
    by (simp add: shipped_names [symmetric, of env now ob] image_image del: set_map flip: map_map) (simp add: image_image)
qed

text \<open>
  The convention that the name of a reference field hints at an entity fits the shipped employees only.
  For every other shipped target the rows staged by the other jobs of the session are never consulted:
  whatever they are, the answer is the target's own.
\<close>

lemma session_references_reach:
  assumes "d \<in> set (shipped_targets env now ob)" "d_entityKey d \<noteq> ''employee''"
    and "db_session db (id_query sessionId) s = Some x"
    and "se_entityKey ` set (ms_jobs x) \<subseteq> d_entityKey ` set (shipped_targets env now ob)"
  shows "resolveSessionReferences db sessionId (d_referenceFields d) own distinctValuesByKey s = own"
proof -
  have "filter (\<lambda>fieldKey. field_entity fieldKey \<in> set (map se_entityKey (ms_jobs x)))
      (case d_referenceFields d of None \<Rightarrow> [] | Some fs \<Rightarrow> fs) = []"
    unfolding filter_empty_conv set_map using reference_unmatched [OF assms(1,2)] assms(4) by blast
  then show ?thesis
    using assms(3) by (simp add: resolveSessionReferences_def Let_def)
qed

subsection \<open>Single targets\<close>

text \<open>
  An employee row is written only when no employee has its e-mail address yet and its org unit, role and
  branch all exist.
\<close>

lemma employee_writes_guarded:
  assumes "employee_commitRow env now ob tenantId m actorId w = (result, w')" "w' \<noteq> w"
  shows "\<exists>mf orgUnit role branch. m = Some mf
    \<and> ob_findOne ob ''FinalizedEmployee'' (eq_query tenantId ''officialEmail''
        (Some (VStr (to_lower (js_str env (nullish_or (oget mf ''officialEmail'') (VStr []))))))) w = Inr None
    \<and> ob_findOne ob ''OrgUnit'' (eq_query tenantId ''name'' (oget mf ''orgUnitName'')) w = Inr (Some orgUnit)
    \<and> ob_findOne ob ''Role'' (eq_query tenantId ''roleName'' (oget mf ''roleName'')) w = Inr (Some role)
    \<and> ob_findOne ob ''Branch'' (eq_query tenantId ''name'' (oget mf ''branchName'')) w = Inr (Some branch)"
  using assms
  by (auto simp: employee_commitRow_def with_fields_def Let_def reading_def throwing_def answer_def
      split: option.splits sum.splits)

text \<open>
  The codes of existing branches are asked for in upper case and compared as they stand in the file, so
  the code of a branch that exists passes the duplicate check when it is not in upper case.
\<close>

lemma to_upper_idem [simp]: "to_upper (to_upper s) = to_upper s"
proof -
  have "upper_char (upper_char c) = upper_char c" for c
    by (auto simp: upper_char_def code_def of_char_of)
  then show ?thesis
    by (simp add: to_upper_def)
qed

lemma branch_existing_missed:
  assumes "branch_findExisting ob tenantId identityValues w = Inr existing"
    and "\<And>codes vs. ob_distinct ob ''Branch'' (in_query tenantId ''code'' codes) ''code'' w = Inr vs \<Longrightarrow> set vs \<subseteq> set codes"
    and "oget mf ''code'' = Some (VStr s)" "to_upper s \<noteq> s"
  shows "AlreadyExists ''code'' \<notin> set (fst (identity_errors env ''code'' duplicates existing seen mf))"
proof -
  have "VStr s \<notin> set existing"
  proof
    assume "VStr s \<in> set existing"
    then obtain codes where codes: "upper_codes identityValues = Inr codes" "VStr s \<in> set codes"
      using assms(1,2) by (fastforce simp: branch_findExisting_def split: if_splits sum.splits)
    then obtain v where "v \<in> set identityValues" "VStr s = (case v of VStr s \<Rightarrow> VStr (to_upper s) | _ \<Rightarrow> v)"
      by (auto simp: upper_codes_def split: if_splits)
    then have "\<exists>s'. s = to_upper s'"
      using codes(1) by (auto simp: upper_codes_def list_all_iff split: if_splits val.splits)
    then show False
      using assms(4) by auto
  qed
  then show ?thesis
    using assms(3) by (auto simp: identity_errors_def Let_def)
qed

end
