(* ===== verification/MappingProps.thy ===== *)
theory MappingProps
  imports MappingJob Demo
begin

text \<open>
  What applying a mapping to a job does to the in-memory store, and what it leaves behind when it
  is refused.
\<close>

definition remapped :: "js_env \<Rightarrow> js_env \<Rightarrow> field list \<Rightarrow> field_map \<Rightarrow> srow \<Rightarrow> srow" where
  "remapped env env' fs entries r =
     (case map_row env' (fields_by_key fs) entries (clone_obj env (s_rawRow r)) of
        (m, c) \<Rightarrow> r\<lparr>s_mappedFields := Some m, s_customFields := c\<rparr>)"

definition mapping_written ::
  "js_env \<Rightarrow> js_env \<Rightarrow> field list \<Rightarrow> field_map \<Rightarrow> id \<Rightarrow> id \<Rightarrow> mem_store \<Rightarrow> mem_store" where
  "mapping_written env env' fs entries t i s =
     write_all (createInMemoryJobStore env) MAPPING_CHUNK
       (map (map_op env' fs entries) (so_cursorStaged (createInMemoryJobStore env) (job_query t i) None None s)) s"

lemma mapping_written_rows:
  assumes "mem_ok s"
  shows "mem_rows (mapping_written env env' fs entries t i s)
      = map (\<lambda>r. if of_job t i r then remapped env env' fs entries r else r) (mem_rows s)"
    "mem_ok (mapping_written env env' fs entries t i s)"
    "map_of (m_jobs (mapping_written env env' fs entries t i s)) (mem_key t' i') = map_of (m_jobs s) (mem_key t' i')"
proof -
  define g where "g = (\<lambda>r :: srow. case map_row env' (fields_by_key fs) entries (s_rawRow r) of (m, c) \<Rightarrow> SetMapped m c)"
  have op: "map_op env' fs entries r = (id_query (s_id r), g r)" for r
    by (simp add: map_op_def g_def)
  have g: "apply_row_set (g (clone_row env r)) r = remapped env env' fs entries r" for r
    by (simp add: g_def remapped_def clone_row_def split: prod.split)
  note written = mem.write_job_rows [where f = "map_op env' fs entries" and g = g and n = MAPPING_CHUNK
        and env = env and t = t and i = i, OF assms op, folded mapping_written_def]
  show "mem_rows (mapping_written env env' fs entries t i s)
      = map (\<lambda>r. if of_job t i r then remapped env env' fs entries r else r) (mem_rows s)"
    "mem_ok (mapping_written env env' fs entries t i s)"
    using written by (simp_all add: g)
  show "map_of (m_jobs (mapping_written env env' fs entries t i s)) (mem_key t' i') = map_of (m_jobs s) (mem_key t' i')"
    using written by (elim conjE) (erule fun_cong [THEN fun_cong])
qed

definition demo_request :: mapping_request where
  "demo_request = \<lparr>mr_entityKey = ''demo'', mr_fieldMap = Some [(''id'', ''name'')], mr_saveAsProfile = False,
     mr_profileLabel = None, mr_createdBy = None\<rparr>"

definition demo_schema :: target_schema where
  "demo_schema = \<lparr>ts_module = None, ts_entityKey = ''demo'', ts_label = ''Demo'', ts_fields = d_fields fields_demo,
     ts_identityField = ''id''\<rparr>"

lemma demo_getSchema: "getTargetSchema ''hr'' ''demo'' demo_registry = Inr demo_schema"
  by (simp add: getTargetSchema_def demo_schema_def fields_demo_def unique_demo_def)

lemma demo_check: "check_field_map (ts_fields demo_schema) [(''id'', ''name'')] = None"
  by (simp add: check_field_map_def demo_schema_def fields_demo_def fields_by_key_def duplicate_targets_def)

text \<open>
  C22. A mapping that is accepted rewrites every staged row of the job, and no other row, to the
  mapped and remaining fields of its raw row, however the writes are chunked, and stores the
  mapping in the job, which is then mapped.
\<close>

theorem applyMapping_rewrites:
  assumes "mem_ok s" "applyMapping (createInMemoryJobStore env) env' reg now t i req s = (Inr job, s')"
  shows "\<exists>schema. getTargetSchema (j_module job) (mr_entityKey req) reg = Inr schema
    \<and> mem_rows s' = map (\<lambda>r. if of_job t i r
        then remapped env env' (ts_fields schema) (case mr_fieldMap req of None \<Rightarrow> [] | Some m \<Rightarrow> m) r
        else r) (mem_rows s)
    \<and> mem_getJob t i s' = Inr job \<and> j_status job = Mapped
    \<and> j_entityKey job = Some (mr_entityKey req) \<and> j_fieldMap job = mr_fieldMap req"
proof -
  define OP where "OP = createInMemoryJobStore env"
  obtain job0 where job0: "map_of (m_jobs s) (mem_key t i) = Some job0"
    using assms(2) by (auto simp: applyMapping_def mem.get_job split: option.splits)
  have gj: "so_getJob OP t i s = Inr job0"
    using job0 by (simp add: OP_def mem.get_job)
  have ids: "j_id job0 = i" "j_tenantId job0 = t"
    using mem_job_ids [OF assms(1) job0] by simp_all
  define entries where "entries = (case mr_fieldMap req of None \<Rightarrow> [] | Some m \<Rightarrow> m)"
  obtain schema where schema: "getTargetSchema (j_module job0) (mr_entityKey req) reg = Inr schema"
      "check_field_map (ts_fields schema) entries = None"
    using assms(2) gj by (auto simp: applyMapping_def OP_def [symmetric] entries_def Let_def split: if_splits sum.splits option.splits)
  define s1 where "s1 = mapping_written env env' (ts_fields schema) entries t i s"
  note s1 = mapping_written_rows [OF assms(1), of env env' "ts_fields schema" entries t i, folded s1_def]
  have s1_unfold: "write_all OP MAPPING_CHUNK (map (map_op env' (ts_fields schema) entries)
      (so_cursorStaged OP (job_query t i) None None s)) s = s1"
    by (simp add: s1_def mapping_written_def OP_def)
  define up where "up = so_upsertMappingProfile OP t (j_module job0) (mr_entityKey req) (mr_fieldMap req)
      (the (mr_profileLabel req)) (mr_createdBy req) now s1"
  define s2 where "s2 = (if mr_saveAsProfile req then snd up else s1)"
  define pid where "pid = (if mr_saveAsProfile req then Some (pr_id (fst up)) else j_mappingProfileId job0)"
  have "mem_rows (snd up) = mem_rows s1"
    by (simp add: up_def OP_def createInMemoryJobStore_def mem_upsertMappingProfile_def Let_def mem_rows_def)
  then have fin1: "mem_rows s2 = mem_rows s1"
    by (simp add: s2_def)
  have "job = job0\<lparr>j_entityKey := Some (mr_entityKey req),
      j_fieldMap := mr_fieldMap req, j_mappingProfileId := pid, j_status := Mapped\<rparr> \<and> s' = so_saveJob OP job s2"
    using assms(2) gj schema ids
    by (simp add: applyMapping_def OP_def [symmetric] entries_def [symmetric] s1_unfold Let_def case_prod_beta
        up_def [symmetric] s2_def pid_def split: if_splits) auto
  note fin = fin1 conjunct1 [OF this] conjunct2 [OF this]
  have "mem_rows s' = mem_rows s1"
    using fin(1,3) mem.save_rows by (simp add: OP_def)
  moreover have "mem_getJob t i s' = Inr job"
    using mem.save_job [of env job s2] fin(2,3) ids by (simp add: OP_def mem_getJob_def)
  ultimately show ?thesis
    using schema(1) s1(1) fin(2) unfolding entries_def by simp
qed

theorem applyMapping_rewrites_witness:
  "\<exists>job s'. applyMapping (createInMemoryJobStore test_env) test_env demo_registry 0 ''t'' ''j'' demo_request
      (demo_store Staged [demo_row ''mem-1'' 0 ''A'' Pending]) = (Inr job, s')
    \<and> mem_rows s' = [(demo_row ''mem-1'' 0 ''A'' Pending)\<lparr>s_mappedFields := Some [(''name'', VStr ''A'')], s_customFields := []\<rparr>]"
proof -
  define s where "s = demo_store Staged [demo_row ''mem-1'' 0 ''A'' Pending]"
  have ok: "mem_ok s"
    unfolding s_def by (rule demo_ok) simp_all
  have "\<exists>job s'. applyMapping (createInMemoryJobStore test_env) test_env demo_registry 0 ''t'' ''j'' demo_request s = (Inr job, s') \<and> j_module job = ''hr''"
    by (simp add: applyMapping_def s_def demo_getJob demo_request_def demo_getSchema demo_check Let_def)
       (simp add: demo_job_def demo_getSchema demo_check Let_def)
  then obtain job s' where run: "applyMapping (createInMemoryJobStore test_env) test_env demo_registry 0 ''t'' ''j'' demo_request s = (Inr job, s')"
    and module: "j_module job = ''hr''"
    by blast
  have mapped: "remapped test_env test_env (ts_fields demo_schema) [(''id'', ''name'')] (demo_row ''mem-1'' 0 ''A'' Pending)
    = (demo_row ''mem-1'' 0 ''A'' Pending)\<lparr>s_mappedFields := Some [(''name'', VStr ''A'')], s_customFields := []\<rparr>"
    by code_simp
  have "of_job ''t'' ''j'' (demo_row ''mem-1'' 0 ''A'' Pending)"
    by (simp add: of_job_def demo_row_def mem_row_def)
  moreover have "mr_entityKey demo_request = ''demo''" "mr_fieldMap demo_request = Some [(''id'', ''name'')]"
    "mem_rows s = [demo_row ''mem-1'' 0 ''A'' Pending]"
    by (simp_all add: demo_request_def s_def demo_store_def mem_rows_def)
  ultimately have "mem_rows s' = [(demo_row ''mem-1'' 0 ''A'' Pending)\<lparr>s_mappedFields := Some [(''name'', VStr ''A'')], s_customFields := []\<rparr>]"
    using applyMapping_rewrites [OF ok run] by (simp add: module demo_getSchema mapped)
  then show ?thesis
    using run by (auto simp: s_def)
qed

text \<open>
  C23. A mapping that is refused answers 400, 404 or 409 and leaves the store as it was, with one
  exception: the missing label of a profile to save is noticed only after every staged row of
  the job was rewritten, while the job keeps its old mapping and status.
\<close>

theorem applyMapping_refused:
  assumes "mem_ok s" "applyMapping (createInMemoryJobStore env) env' reg now t i req s = (Inl e, s')"
  shows "mem_getJob t i s' = mem_getJob t i s
    \<and> (if e = Err (Some 400) ProfileLabelRequired
       then \<exists>md schema. getTargetSchema md (mr_entityKey req) reg = Inr schema
         \<and> mem_rows s' = map (\<lambda>r. if of_job t i r
              then remapped env env' (ts_fields schema) (case mr_fieldMap req of None \<Rightarrow> [] | Some m \<Rightarrow> m) r
              else r) (mem_rows s)
       else s' = s \<and> (status_code e = Some 400 \<or> status_code e = Some 404 \<or> status_code e = Some 409))"
proof -
  define OP where "OP = createInMemoryJobStore env"
  define entries where "entries = (case mr_fieldMap req of None \<Rightarrow> [] | Some m \<Rightarrow> m)"
  have written: "write_all OP MAPPING_CHUNK (map (map_op env' fs entries)
      (so_cursorStaged OP (job_query t i) None None s)) s = mapping_written env env' fs entries t i s" for fs
    by (simp add: mapping_written_def OP_def)
  have job: "so_getJob OP t i s = (case map_of (m_jobs s) (mem_key t i) of None \<Rightarrow> Inl (Err (Some 404) JobNotFound) | Some j \<Rightarrow> Inr j)"
    by (simp add: OP_def mem.get_job)
  have schema_code: "getTargetSchema md ek reg = Inl e' \<Longrightarrow> status_code e' = Some 400 \<and> e' \<noteq> Err (Some 400) ProfileLabelRequired" for md ek e'
    by (auto simp: getTargetSchema_def getTargetDescriptor_def split: option.splits sum.splits)
  have check_code: "check_field_map fs entries = Some e' \<Longrightarrow> status_code e' = Some 400 \<and> e' \<noteq> Err (Some 400) ProfileLabelRequired" for fs e'
    by (auto simp: check_field_map_def Let_def split: if_splits)
  consider (early) "s' = s" "status_code e = Some 400 \<or> status_code e = Some 404 \<or> status_code e = Some 409" "e \<noteq> Err (Some 400) ProfileLabelRequired"
    | (label) md schema where "e = Err (Some 400) ProfileLabelRequired" "getTargetSchema md (mr_entityKey req) reg = Inr schema"
      "s' = mapping_written env env' (ts_fields schema) entries t i s"
  proof (cases "map_of (m_jobs s) (mem_key t i)")
    case None
    then show ?thesis
      using assms(2) early job by (auto simp: applyMapping_def OP_def [symmetric])
  next
    case (Some job0)
    then have ids: "j_id job0 = i" "so_getJob OP t i s = Inr job0"
      using mem_job_ids [OF assms(1) Some] job by simp_all
    show ?thesis
    proof (cases "j_status job0 \<in> {Staged, Mapped}")
      case False
      then show ?thesis
        using assms(2) early ids by (auto simp: applyMapping_def OP_def [symmetric])
    next
      case True
      show ?thesis
      proof (cases "getTargetSchema (j_module job0) (mr_entityKey req) reg")
        case (Inl e')
        then show ?thesis
          using assms(2) early ids True schema_code [OF Inl] by (auto simp: applyMapping_def OP_def [symmetric])
      next
        case (Inr schema)
        show ?thesis
        proof (cases "check_field_map (ts_fields schema) entries")
          case (Some e')
          then show ?thesis
            using assms(2) early ids True Inr check_code [OF Some]
            by (auto simp: applyMapping_def OP_def [symmetric] entries_def [symmetric] Let_def)
        next
          case None
          then have "e = Err (Some 400) ProfileLabelRequired \<and> s' = mapping_written env env' (ts_fields schema) entries t i s"
            using assms(2) ids True Inr
            by (simp add: applyMapping_def OP_def [symmetric] entries_def [symmetric] Let_def written case_prod_beta split: if_splits)
          then show ?thesis using label Inr by blast
        qed
      qed
    qed
  qed
  then show ?thesis
  proof cases
    case label
    then show ?thesis
      using mapping_written_rows [OF assms(1)] unfolding entries_def by (auto simp: mem_getJob_def)
  qed simp
qed

theorem applyMapping_refused_witness:
  "\<exists>s'. applyMapping (createInMemoryJobStore test_env) test_env demo_registry 0 ''t'' ''j''
        (demo_request\<lparr>mr_saveAsProfile := True\<rparr>) (demo_store Staged [demo_row ''mem-1'' 0 ''A'' Pending])
      = (Inl (Err (Some 400) ProfileLabelRequired), s')
    \<and> mem_getJob ''t'' ''j'' s' = mem_getJob ''t'' ''j'' (demo_store Staged [demo_row ''mem-1'' 0 ''A'' Pending])"
proof -
  define s where "s = demo_store Staged [demo_row ''mem-1'' 0 ''A'' Pending]"
  have ok: "mem_ok s"
    unfolding s_def by (rule demo_ok) simp_all
  have "\<exists>s'. applyMapping (createInMemoryJobStore test_env) test_env demo_registry 0 ''t'' ''j''
        (demo_request\<lparr>mr_saveAsProfile := True\<rparr>) s = (Inl (Err (Some 400) ProfileLabelRequired), s')"
    by (simp add: applyMapping_def s_def demo_getJob demo_request_def demo_getSchema demo_check Let_def)
       (simp add: demo_job_def demo_getSchema demo_check Let_def)
  then show ?thesis
    using applyMapping_refused [OF ok] unfolding s_def by blast
qed

end
