(* ===== verification/PipelineCorrect.thy ===== *)
theory PipelineCorrect
  imports Pipeline ValidationProps CommitCorrect MappingJob
begin

text \<open>
  What each step of the import pipeline does to the database, for any document database that keeps
  its promises: staging in chunks, mapping, validation and commit of one job.
\<close>

subsection \<open>Staging\<close>

lemma staged_docs_append:
  "staged_docs t i n (xs @ ys) = staged_docs t i n xs @ staged_docs t i (n + length xs) ys"
  by (rule nth_equalityI)
    (auto simp: staged_docs_def nth_append nth_enumerate_eq split: prod.split)

lemma length_staged_docs [simp]: "length (staged_docs t i n xs) = length xs"
  by (simp add: staged_docs_def)

context mongo_db
begin

lemma insert_rows_all:
  assumes "good s" "db_insertRows db docs s = (None, s')"
  shows "good s'" "jobs s' = jobs s" "sessions s' = sessions s"
    "\<exists>ids. length ids = length docs \<and> mset (rows s') = mset (rows s @ map2 new_row ids docs)"
  using insert_rows(1) [OF assms] insert_rows(2) [OF assms(1), of docs] insert_rows(3,4) [of docs s] assms(2) by simp_all

text \<open>However the records are cut into chunks, they are inserted once each and numbered in file order.\<close>

lemma stage_from_rows:
  "stage_from db t i n k records s = (Inr m, s') \<Longrightarrow> good s \<Longrightarrow>
     m = k + length records \<and> good s' \<and> jobs s' = jobs s \<and> sessions s' = sessions s
     \<and> (\<exists>ids. length ids = length records \<and> mset (rows s') = mset (rows s @ map2 new_row ids (staged_docs t i n records)))"
proof (induction "length records" arbitrary: n k records s rule: less_induct)
  case less
  show ?case
  proof (cases "records = []")
    case True
    then show ?thesis
      using less.prems by (simp add: stage_from.simps [of db])
  next
    case False
    let ?now = "take STAGE_CHUNK_SIZE records" and ?rest = "drop STAGE_CHUNK_SIZE records"
    obtain s1 where s1: "db_insertRows db (staged_docs t i n ?now) s = (None, s1)"
      "stage_from db t i (n + STAGE_CHUNK_SIZE) (k + length ?now) ?rest s1 = (Inr m, s')"
      using less.prems(1) False by (subst (asm) stage_from.simps) (auto simp: Let_def split: prod.splits option.splits)
    note now = insert_rows_all [OF less.prems(2) s1(1)]
    have "length ?rest < length records"
      using False by (simp add: STAGE_CHUNK_SIZE_def)
    note IH = less.hyps [OF this s1(2) now(1)]
    obtain ids1 where ids1: "length ids1 = length ?now"
      "mset (rows s1) = mset (rows s @ map2 new_row ids1 (staged_docs t i n ?now))"
      using now(4) by auto
    obtain ids2 where ids2: "length ids2 = length ?rest"
      "mset (rows s') = mset (rows s1 @ map2 new_row ids2 (staged_docs t i (n + STAGE_CHUNK_SIZE) ?rest))"
      using IH by auto
    have "staged_docs t i n records = staged_docs t i n ?now @ staged_docs t i (n + STAGE_CHUNK_SIZE) ?rest"
    proof (cases "STAGE_CHUNK_SIZE \<le> length records")
      case True
      then show ?thesis
        using staged_docs_append [of t i n ?now ?rest] by simp
    next
      case False
      then show ?thesis by (simp add: staged_docs_def)
    qed
    moreover have "length (ids1 @ ids2) = length records"
      using ids1(1) ids2(1) by simp
    ultimately have "\<exists>ids. length ids = length records
        \<and> mset (rows s') = mset (rows s @ map2 new_row ids (staged_docs t i n records))"
      using ids1 ids2(2) by (intro exI [of _ "ids1 @ ids2"]) (simp add: zip_append)
    then show ?thesis
      using IH now(2,3) by simp
  qed
qed

lemma set_job:
  assumes "good s" "jobs s i = Some job"
  shows "fst (db_updateJob db (id_query i) us s) = Some (fold apply_set us job)"
    "jobs (snd (db_updateJob db (id_query i) us s)) = (jobs s)(i \<mapsto> fold apply_set us job)"
    "sessions (snd (db_updateJob db (id_query i) us s)) = sessions s"
    "rows (snd (db_updateJob db (id_query i) us s)) = rows s" "good (snd (db_updateJob db (id_query i) us s))"
  using update_job(1) [of "id_query i" i] update_job(2) [of "id_query i" i] update_job(3) [of "id_query i"]
    update_job(4) [of "id_query i"] update_job(5) [of s "id_query i"] assms
  by (simp_all add: find_job)

end

text \<open>The rows of a job that has just been staged.\<close>

definition fresh_rows :: "id \<Rightarrow> id \<Rightarrow> obj list \<Rightarrow> srow list \<Rightarrow> bool" where
  "fresh_rows t i records rs \<longleftrightarrow>
     (\<exists>ids. length ids = length records \<and> mset rs = mset (map2 new_row ids (staged_docs t i 0 records)))"

lemma new_rows_job: "r \<in> set (map2 new_row ids (staged_docs t i n records)) \<Longrightarrow> s_importJobId r = i"
  by (auto simp: new_row_def staged_docs_def dest!: set_zip_rightD)

context mongo_db
begin

lemma stage_fresh:
  assumes "stageRows db t i records s = (Inr m, s')" "good s" "\<forall>r \<in> set (rows s). s_importJobId r \<noteq> i"
  shows "m = length records" "good s'" "jobs s' = jobs s" "sessions s' = sessions s"
    "fresh_rows t i records (filter (\<lambda>r. s_importJobId r = i) (rows s'))"
    "mset (filter (\<lambda>r. s_importJobId r \<noteq> i) (rows s')) = mset (rows s)"
proof -
  note staged = stage_from_rows [OF assms(1) [unfolded stageRows_def] assms(2)]
  then show "m = length records" "good s'" "jobs s' = jobs s" "sessions s' = sessions s"
    by simp_all
  obtain ids where ids: "length ids = length records"
    "mset (rows s') = mset (rows s @ map2 new_row ids (staged_docs t i 0 records))"
    using staged by auto
  define new where "new = map2 new_row ids (staged_docs t i 0 records)"
  have own: "filter (\<lambda>r. s_importJobId r = i) (rows s @ new) = new" "filter (\<lambda>r. s_importJobId r \<noteq> i) (rows s @ new) = rows s"
    using assms(3) new_rows_job [of _ ids t i 0 records, folded new_def] by (simp_all add: filter_id_conv filter_empty_conv)
  have "mset (filter p (rows s')) = mset (filter p (rows s @ new))" for p
    by (simp only: mset_filter ids(2) new_def)
  note flt = this
  show "fresh_rows t i records (filter (\<lambda>r. s_importJobId r = i) (rows s'))"
    unfolding fresh_rows_def flt own using ids(1) new_def by (intro exI [of _ ids] conjI) simp_all
  show "mset (filter (\<lambda>r. s_importJobId r \<noteq> i) (rows s')) = mset (rows s)"
    unfolding flt own ..
qed

text \<open>Parsing and staging a file anew replaces whatever the job had staged before.\<close>

lemma parse_and_stage:
  assumes "pl_db P = db" "good s" "jobs s (j_id job) = Some cur" "j_status job \<in> {Uploaded, GuardrailRejected}"
    and "stepParseAndStage P job bucket path s = Some (Inr found, s')"
  shows "\<exists>local fmt v job'. found = Some job' \<and> downloadFromGcs P bucket path = Inr local \<and> detectSourceFormat local = Inr fmt
    \<and> checkGuardrailStreaming (pl_penv P) (pl_libs P) (j_tenantId job) local fmt (j_sqlTable job) = Some (Inr v)
    \<and> good s' \<and> sessions s' = sessions s \<and> jobs s' = (jobs s)(j_id job \<mapsto> job')
    \<and> (if allowed v then
         (let records = (case s_records v of None \<Rightarrow> [] | Some rs \<Rightarrow> rs) in
          j_status job' = Staged \<and> totalRows (j_counts job') = length records \<and> stagedRows (j_counts job') = length records
          \<and> fresh_rows (j_tenantId job) (j_id job) records (filter (\<lambda>r. s_importJobId r = j_id job) (rows s'))
          \<and> mset (filter (\<lambda>r. s_importJobId r \<noteq> j_id job) (rows s'))
              = mset (filter (\<lambda>r. s_importJobId r \<noteq> j_id job) (rows s)))
       else j_status job' = GuardrailRejected \<and> rows s' = rows s)
    \<and> j_module job' = j_module cur \<and> j_entityKey job' = j_entityKey cur \<and> j_fieldMap job' = j_fieldMap cur
    \<and> j_id job' = j_id cur \<and> j_tenantId job' = j_tenantId cur"
proof -
  obtain local where loc: "downloadFromGcs P bucket path = Inr local"
    using assms(4,5) by (auto simp: stepParseAndStage_def split: sum.splits)
  obtain fmt where fmt: "detectSourceFormat local = Inr fmt"
    using assms(4,5) loc by (auto simp: stepParseAndStage_def lift_err_Inr split: sum.splits)
  obtain v where v: "checkGuardrailStreaming (pl_penv P) (pl_libs P) (j_tenantId job) local fmt (j_sqlTable job) = Some (Inr v)"
    using assms(4,5) loc fmt by (auto simp: stepParseAndStage_def lift_err_def split: option.splits sum.splits err.splits)
  define records where "records = (case s_records v of None \<Rightarrow> [] | Some rs \<Rightarrow> rs)"
  let ?us = "[SetSourceFormat fmt, SetStatus Uploaded,
    SetCount TotalRows (length records), SetGuardPassed True,
    SetGuardLimit (v_limit v), SetGuardCheckedAt (pl_now P)]"
  show ?thesis
  proof (cases "allowed v")
    case False
    let ?rej = "[SetSourceFormat fmt, SetStatus GuardrailRejected, SetGuardPassed False, SetGuardReason (v_reason v),
      SetGuardLimit (v_limit v), SetGuardCheckedAt (pl_now P), SetGuardUpgrade (map_option rej_upgrade (v_details v))]"
    have "found = fst (db_updateJob db (id_query (j_id job)) ?rej s)" "s' = snd (db_updateJob db (id_query (j_id job)) ?rej s)"
      using assms(1,4,5) loc fmt v False by (auto simp: stepParseAndStage_def updateJobStatus_def split: prod.splits)
    then show ?thesis
      using set_job [OF assms(2,3), of ?rej] loc fmt v False by simp
  next
    case True
    define s1 where "s1 = snd (db_updateJob db (id_query (j_id job)) ?us s)"
    define s2 where "s2 = snd (clearStagedRows db (j_id job) s1)"
    obtain m s3 where stage: "stageRows db (j_tenantId job) (j_id job) records s2 = (Inr m, s3)"
      "found = fst (db_updateJob db (id_query (j_id job)) [SetStatus Staged, SetCount StagedRows m] s3)"
      "s' = snd (db_updateJob db (id_query (j_id job)) [SetStatus Staged, SetCount StagedRows m] s3)"
      using assms(1,4,5) loc fmt v True
      by (auto simp: stepParseAndStage_def updateJobStatus_def Let_def records_def [symmetric] s1_def [symmetric] s2_def [symmetric]
          split: prod.splits sum.splits)
    note one = set_job [OF assms(2,3), of ?us, folded s1_def]
    have two: "good s2" "jobs s2 = jobs s1" "sessions s2 = sessions s1"
      "rows s2 = filter (\<lambda>r. s_importJobId r \<noteq> j_id job) (rows s)"
      using delete_rows(1) [OF one(5), of "j_id job"] delete_rows(2) [OF one(5), of "j_id job"]
        delete_rows(3) [of "j_id job" s1] delete_rows(4) [of "j_id job" s1] one(4)
      by (simp_all add: s2_def clearStagedRows_def)
    note three = stage_fresh [OF stage(1) two(1)]
    have "jobs s3 (j_id job) = Some (fold apply_set ?us cur)"
      using three(3) two(2,4) one(2) by simp
    then show ?thesis
      using set_job [of s3 "j_id job" _ "[SetStatus Staged, SetCount StagedRows m]"] three two one loc fmt v True stage(2,3)
      by (simp add: records_def [symmetric])
  qed
qed

end

subsection \<open>Mapping\<close>

text \<open>Without a mapping of its own a staged job is never mapped: no suggestion ever reaches the loop.\<close>

lemma auto_map_none: "auto_map P job es s = (job, s)"
  by (induction es) (auto simp: suggestedFieldMap_def split: sum.split)

lemma stepAutoMap_none:
  "j_fieldMap job = None \<or> absent_or_empty (j_entityKey job) \<Longrightarrow> stepAutoMap P job s = (Inr job, s)"
  by (auto simp: stepAutoMap_def auto_map_none)

lemma stepAutoMap_other: "j_status job \<noteq> Staged \<Longrightarrow> stepAutoMap P job s = (Inr job, s)"
  by (simp add: stepAutoMap_def)

lemma stepValidate_other: "j_status job \<noteq> Mapped \<Longrightarrow> stepValidate P job s w = (Inr job, s)"
  by (simp add: stepValidate_def)

lemma stepCommit_other: "j_status job \<noteq> Validated \<Longrightarrow> stepCommit P job (s, w) = (Inr job, s, w)"
  by (simp add: stepCommit_def)

context mongo_db
begin

lemma tenant_job: "good s \<Longrightarrow> of_tenant j_tenantId t (jobs s i) = Some job \<longleftrightarrow> jobs s i = Some job \<and> j_tenantId job = t"
  by (auto simp: of_tenant_Some)

lemma applied:
  assumes "pl_db P = db" "good s" "jobs s (j_id job) = Some cur"
    and "apply_map P job ek fm s = (Inr job', s')"
  shows "good s' \<and> jobs s' (j_id job) = Some job' \<and> j_status job' = Mapped \<and> j_id job' = j_id job
    \<and> j_tenantId job' = j_tenantId job \<and> j_module job' = j_module cur \<and> j_entityKey job' = Some ek"
proof -
  let ?ops = "createMongooseJobStore db" and ?t = "j_tenantId job" and ?i = "j_id job"
  note run = assms(4) [unfolded apply_map_def assms(1) applyMapping_def]
  obtain job0 where job0: "so_getJob ?ops ?t ?i s = Inr job0"
    using run by (auto split: sum.splits)
  then have "of_tenant j_tenantId ?t (jobs s ?i) = Some job0"
    using store.get_job [of ?t ?i s] by (auto split: option.splits)
  then have cur: "job0 = cur" "j_tenantId cur = ?t" "j_id cur = ?i"
    using assms(3) job_id [OF assms(2,3)] by (auto simp: of_tenant_Some split: if_splits)
  obtain schema where schema: "getTargetSchema (j_module cur) ek (pl_registry P) = Inr schema"
    using run job0 by (auto simp: cur plain_request_def split: sum.splits if_splits)
  define f where "f = map_op (pl_env P) (ts_fields schema) fm"
  define s1 where "s1 = write_all ?ops MAPPING_CHUNK (map f (so_cursorStaged ?ops (job_query ?t ?i) None None s)) s"
  have res: "job' = cur\<lparr>j_entityKey := Some ek, j_fieldMap := Some fm, j_status := Mapped\<rparr>" "s' = so_saveJob ?ops job' s1"
    using run job0 schema by (auto simp: cur plain_request_def Let_def s1_def f_def split: sum.splits if_splits option.splits)
  define g where "g r = (case map_row (pl_env P) (fields_by_key (ts_fields schema)) fm (s_rawRow r) of (m, c) \<Rightarrow> SetMapped m c)" for r :: srow
  have "f r = (id_query (s_id r), g r)" for r
    by (simp add: f_def g_def map_op_def)
  note written = store.write_job_rows [OF assms(2) this, of MAPPING_CHUNK ?t ?i, folded s1_def]
  have "of_tenant j_tenantId ?t (jobs s1 ?i) = Some cur"
    using written assms(3) cur by (auto simp: fun_eq_iff)
  then have ok: "of_tenant j_tenantId (j_tenantId job') (jobs s1 (j_id job')) \<noteq> None"
    by (simp add: res(1) cur)
  have "good s'"
    using store.save_good [OF _ ok] written res(2) by simp
  moreover have "jobs s' (j_id job') = Some job'"
    using store.save_job [of job' s1] by (simp add: res(2) of_tenant_Some)
  ultimately show ?thesis
    using cur by (simp add: res(1))
qed

subsection \<open>Validation\<close>

lemma validate_fails:
  "validateImportJob (createMongooseJobStore db) db isObjectId env reg t i s w = (Inl e, s') \<Longrightarrow> s' = s"
  by (auto simp: validateImportJob_def Let_def createMongooseJobStore_def mongoose_updateJob_def split: sum.splits if_splits prod.splits)

lemma validate_keeps:
  assumes "good s" "validateImportJob (createMongooseJobStore db) db isObjectId env reg t i s w = (Inr res, s')"
  shows "good s'"
proof -
  obtain job d facts s1 where v: "so_getJob (createMongooseJobStore db) t i s = Inr job" "j_status job \<in> {Mapped, Validated}"
    "getTargetDescriptor (j_module job) (key_text (j_entityKey job)) reg = Inr d"
    "bf_duplicates facts = duplicate_values (createMongooseJobStore db) t (j_id job) (d_identityField d) s"
    "validate_rows (createMongooseJobStore db) env d facts
       (so_cursorStaged (createMongooseJobStore db) (job_query t (j_id job)) None None s) s
       = (s1, vr_validCount res, vr_invalidCount res)"
    "so_updateJob (createMongooseJobStore db) t (j_id job) [SetStatus Validated, SetCount ValidRows (vr_validCount res),
       SetCount InvalidRows (vr_invalidCount res)] s1 = Inr (vr_job res, s')"
    using validateImportJob_Inr [OF assms(2)] .
  have "good s1"
    using store.validate_rows_correct(2) [OF assms(1) v(5)] .
  then show ?thesis
    using v(6) update_job(5) [of s1 "id_tenant_query (j_id job) t" "[SetStatus Validated, SetCount ValidRows (vr_validCount res),
       SetCount InvalidRows (vr_invalidCount res)]"]
    by (simp add: createMongooseJobStore_def mongoose_updateJob_def)
qed

text \<open>A mapped job is validated or fails; the step itself does not throw.\<close>

lemma validated:
  assumes "pl_db P = db" "pl_jobStore P = core_store P" "good s" "jobs s (j_id job) = Some job" "j_status job = Mapped"
    and "stepValidate P job s w = (r, s')"
  shows "\<exists>job'. r = Inr job' \<and> good s' \<and> jobs s' (j_id job) = Some job' \<and> j_status job' \<in> {Validated, Failed}
    \<and> j_id job' = j_id job \<and> j_tenantId job' = j_tenantId job \<and> j_module job' = j_module job \<and> j_entityKey job' = j_entityKey job"
proof -
  let ?t = "j_tenantId job" and ?i = "j_id job" and ?ops = "createMongooseJobStore db"
  have found: "so_getJob ?ops ?t ?i s2 = Inr job2" if "jobs s2 ?i = Some job2" "j_tenantId job2 = ?t" for s2 job2
    using that store.get_job [of ?t ?i s2] by simp
  show ?thesis
  proof (cases "validateImportJob ?ops db (pl_isObjectId P) (pl_env P) (pl_registry P) ?t ?i s w")
    case (Pair v s1)
    show ?thesis
    proof (cases v)
      case (Inr res)
      note run = Pair [unfolded Inr]
      obtain job' where job': "jobs s1 ?i = Some job'" "job' = job\<lparr>j_status := Validated, j_counts := (j_counts job)\<lparr>
          validRows := vr_validCount res, invalidRows := vr_invalidCount res\<rparr>\<rparr>"
        using validate_judges [OF assms(3) run] assms(4) by auto
      then have "r = Inr job'" "s' = s1"
        using assms(1,2,5,6) Pair Inr found [of s1 job'] by (simp_all add: stepValidate_def)
      then show ?thesis
        using job' validate_keeps [OF assms(3) run] by simp
    next
      case (Inl e)
      let ?us = "[SetStatus Failed, SetError (pl_msg P e)]"
      have s1: "s1 = s"
        by (rule validate_fails) (rule Pair [unfolded Inl])
      have "db_job db (id_tenant_query ?i ?t) s = Some job"
        using assms(4) by (simp add: find_job)
      then have up: "jobs (snd (db_updateJob db (id_tenant_query ?i ?t) ?us s)) ?i = Some (fold apply_set ?us job)"
        "good (snd (db_updateJob db (id_tenant_query ?i ?t) ?us s))"
        using update_job(2) [of "id_tenant_query ?i ?t" ?i ?t ?us s] update_job(5) [of s "id_tenant_query ?i ?t" ?us] assms(3)
        by simp_all
      moreover have "so_updateJob ?ops ?t ?i ?us s = Inr (db_updateJob db (id_tenant_query ?i ?t) ?us s)"
        by (simp add: createMongooseJobStore_def mongoose_updateJob_def)
      ultimately have "r = Inr (fold apply_set ?us job)" "s' = snd (db_updateJob db (id_tenant_query ?i ?t) ?us s)"
        using assms(1,2,5,6) Pair Inl s1 found [OF up(1)]
        by (simp_all add: stepValidate_def case_prod_beta)
      then show ?thesis
        using up by simp
    qed
  qed
qed

subsection \<open>Commit\<close>

lemma update_tenant:
  assumes "good s" "jobs s i = Some job" "j_tenantId job = t"
  shows "so_updateJob (createMongooseJobStore db) t i us s = Inr (db_updateJob db (id_tenant_query i t) us s)"
    "good (snd (db_updateJob db (id_tenant_query i t) us s))"
    "jobs (snd (db_updateJob db (id_tenant_query i t) us s)) = (jobs s)(i \<mapsto> fold apply_set us job)"
    "rows (snd (db_updateJob db (id_tenant_query i t) us s)) = rows s"
  using update_job(2) [of "id_tenant_query i t" i t us s] assms
    update_job(5) [of s "id_tenant_query i t" us] update_job(4) [of "id_tenant_query i t" us s]
  by (simp_all add: createMongooseJobStore_def mongoose_updateJob_def find_job)

lemma final_status_cases: "final_status f n \<in> {Completed, CompletedWithErrors}"
  by (simp add: final_status_def)

text \<open>A validated job whose target is registered is always committed to the end.\<close>

lemma committed:
  assumes "pl_db P = db" "pl_jobStore P = core_store P" "good s" "jobs s (j_id job) = Some job" "j_status job = Validated"
    and "j_module job \<noteq> []" "\<not> absent_or_empty (j_entityKey job)"
    and "getTargetDescriptor (j_module job) (the (j_entityKey job)) (pl_registry P) = Inr d"
  shows "\<exists>job' s' w'. stepCommit P job (s, w) = (Inr job', s', w') \<and> good s' \<and> jobs s' (j_id job) = Some job'
    \<and> committedRows (j_counts job') + commitFailedRows (j_counts job')
        = length (filter (committable (j_tenantId job) (j_id job)) (rows s))
    \<and> skippedRows (j_counts job')
        = validRows (j_counts job) - committedRows (j_counts job') - commitFailedRows (j_counts job')
    \<and> j_status job' = final_status (commitFailedRows (j_counts job')) (skippedRows (j_counts job'))
    \<and> filter (committable (j_tenantId job) (j_id job)) (rows s') = []"
proof -
  let ?ops = "createMongooseJobStore db" and ?t = "j_tenantId job" and ?i = "j_id job"
  let ?us = "[SetStatus Committing, SetStartedAt (pl_now P), SetMode ''async'']"
  define s1 where "s1 = snd (db_updateJob db (id_tenant_query ?i ?t) ?us s)"
  note one = update_tenant [OF assms(3,4) refl, of ?us, folded s1_def]
  have job1: "jobs s1 ?i = Some (fold apply_set ?us job)"
    using one(3) by simp
  then obtain b s2 w2 where batch: "commitBatch ?ops (pl_conn P) ?t ?i d None None (s1, w) = Inr (b, s2, w2)"
    using store.commitBatch_fold [OF one(2), of ?t ?i _ "pl_conn P" d None None w]
    by (fastforce split: prod.split)
  note eff = store.commitBatch_effect [OF one(2) batch]
  obtain e where e: "effect_on (s_id ` set (todo_rows ?t ?i (rows s1))) e" "rows s2 = map (eff e) (rows s1)"
    "b_committed b = length (filter (\<lambda>r. out e (s_id r) = Committed) (todo_rows ?t ?i (rows s1)))"
    "b_failed b = length (filter (\<lambda>r. out e (s_id r) \<noteq> Committed) (todo_rows ?t ?i (rows s1)))"
    using eff by (auto simp: js_limit_def)
  have count: "b_committed b + b_failed b = length (filter (committable ?t ?i) (rows s))"
    unfolding e(3,4) one(4) sum_length_filter_compl by (simp add: todo_rows_def)
  have "todo_rows ?t ?i (rows s2) = []"
    using todo_effect [OF e(1), of ?t ?i "rows s1"] by (simp add: e(2) filter_empty_conv)
  then have left: "filter (committable ?t ?i) (rows s2) = []"
    using set_todo [of ?t ?i "rows s2"] by (auto simp: filter_empty_conv)
  have job2: "of_tenant j_tenantId ?t (jobs s2 ?i) = Some (fold apply_set ?us job)"
    using fun_cong [OF fun_cong [OF conjunct1 [OF conjunct2 [OF eff]], of ?t], of ?i] job1 by simp
  then have job2': "jobs s2 ?i = Some (fold apply_set ?us job)" "good s2"
    using eff by (simp_all add: of_tenant_Some)
  let ?skipped = "validRows (j_counts job) - b_committed b - b_failed b"
  let ?vs = "finish_sets (final_status (b_failed b) ?skipped) (pl_now P) (b_committed b) (b_failed b) ?skipped"
  define s3 where "s3 = snd (db_updateJob db (id_tenant_query ?i ?t) ?vs s2)"
  note three = update_tenant [OF job2'(2,1), of ?t ?vs, folded s3_def]
  let ?job = "fold apply_set ?vs (fold apply_set ?us job)"
  have job3: "jobs s3 ?i = Some ?job"
    using three(3) by simp
  have "so_getJob ?ops ?t ?i s3 = Inr ?job"
    using store.get_job [of ?t ?i s3] job3 by simp
  moreover have "so_updateJob ?ops ?t ?i ?us s = Inr (fst (db_updateJob db (id_tenant_query ?i ?t) ?us s), s1)"
    using one(1) by (simp add: s1_def)
  moreover have "so_updateJob ?ops ?t ?i ?vs s2 = Inr (fst (db_updateJob db (id_tenant_query ?i ?t) ?vs s2), s3)"
    using three(1) by (simp add: s3_def)
  ultimately have "stepCommit P job (s, w) = (Inr ?job, s3, w2)"
    using assms batch
    by (simp add: stepCommit_def update_then_def reread_job_def Let_def)
  moreover have "good s3" "filter (committable ?t ?i) (rows s3) = []"
    using three left by simp_all
  ultimately show ?thesis
    using job3 count
    by (intro exI [of _ ?job] exI [of _ s3] exI [of _ w2] conjI) (assumption | simp add: finish_sets_def)+
qed

lemma committed_terminal:
  assumes "pl_db P = db" "pl_jobStore P = core_store P" "good s" "jobs s (j_id job) = Some job" "j_status job = Validated"
    and "stepCommit P job (s, w) = (Inr job', s', w')"
  shows "jobs s' (j_id job) = Some job' \<and> j_status job' \<in> {Completed, CompletedWithErrors, Failed}"
proof (cases "j_module job = [] \<or> absent_or_empty (j_entityKey job)")
  case True
  let ?us = "[SetStatus Failed, SetError ''Import job reached commit with no module/entityKey'']"
  define s1 where "s1 = snd (db_updateJob db (id_tenant_query (j_id job) (j_tenantId job)) ?us s)"
  note one = update_tenant [OF assms(3,4) refl, of ?us, folded s1_def]
  have job1: "jobs s1 (j_id job) = Some (fold apply_set ?us job)"
    using one(3) by simp
  have "so_updateJob (createMongooseJobStore db) (j_tenantId job) (j_id job) ?us s
      = Inr (fst (db_updateJob db (id_tenant_query (j_id job) (j_tenantId job)) ?us s), s1)"
    using one(1) by (simp add: s1_def)
  moreover have "so_getJob (createMongooseJobStore db) (j_tenantId job) (j_id job) s1 = Inr (fold apply_set ?us job)"
    using store.get_job [of "j_tenantId job" "j_id job" s1] job1 by simp
  ultimately have "job' = fold apply_set ?us job" "s' = s1"
    using assms(1,2,5,6) True by (auto simp: stepCommit_def update_then_def reread_job_def)
  then show ?thesis
    using job1 by simp
next
  case False
  then obtain d where d: "getTargetDescriptor (j_module job) (the (j_entityKey job)) (pl_registry P) = Inr d"
    using assms(5,6) by (auto simp: stepCommit_def lift_err_def split: sum.splits err.splits)
  show ?thesis
    using committed [OF assms(1-5) _ _ d, of w] False assms(6) final_status_cases by auto
qed


subsection \<open>The steps together\<close>

text \<open>Once a staged job has a mapping, the remaining steps end in a final status unless they throw.\<close>

lemma later_ends:
  assumes P: "pl_db P = db" "pl_jobStore P = core_store P" and s: "good s" "jobs s (j_id job) = Some job"
    and status: "j_status job \<in> {Staged, Mapped, Validated, GuardrailRejected}"
    and mapping: "j_fieldMap job \<noteq> None" "\<not> absent_or_empty (j_entityKey job)"
    and run: "later_steps P job (s, w) = (Inr job', s', w')"
  shows "jobs s' (j_id job) = Some job' \<and> j_status job' \<in> {Completed, CompletedWithErrors, Failed, GuardrailRejected}"
proof -
  obtain job1 s1 where map: "stepAutoMap P job s = (Inr job1, s1)"
    using run by (auto simp: later_steps_def split: prod.splits sum.splits)
  have one: "good s1" "jobs s1 (j_id job) = Some job1" "j_id job1 = j_id job"
    "j_status job1 \<in> {Mapped, Validated, GuardrailRejected}"
    using map applied [OF P(1) s, of "the (j_entityKey job)" "the (j_fieldMap job)" job1 s1] s status mapping
    by (auto simp: stepAutoMap_def split: if_splits)
  obtain job2 s2 where val: "stepValidate P job1 s1 w = (Inr job2, s2)"
    using run map by (auto simp: later_steps_def split: prod.splits sum.splits)
  have two: "good s2" "jobs s2 (j_id job) = Some job2" "j_id job2 = j_id job"
    "j_status job2 \<in> {Validated, Failed, GuardrailRejected}"
    using validated [OF P one(1) one(2) [folded one(3)] _ val] val one
    by (cases "j_status job1 = Mapped"; auto simp: stepValidate_other)+
  have "stepCommit P job2 (s2, w) = (Inr job', s', w')"
    using run map val by (simp add: later_steps_def)
  then show ?thesis
    using committed_terminal [OF P two(1) two(2) [folded two(3)], of w job' s' w'] two
    by (cases "j_status job2 = Validated"; auto simp: stepCommit_other)
qed

end

end
