(* ===== verification/PipelineProps.thy ===== *)
theory PipelineProps
  imports PipelineCorrect DemoPipeline
begin

text \<open>
  Properties of the import pipeline of one job: staging replaces what was staged, a job without a
  mapping of its own is never mapped, one with a mapping reaches a final status, a validated job
  is committed to the end, and a job that died while committing is never taken up again.
\<close>

lemma runJobPipeline_steps:
  assumes "runJobPipeline P job (Some (b # bs)) (Some (p # ps)) (s, w) = Some (Inr job', s', w')"
  shows "\<exists>job1 s1. stepParseAndStage P job (b # bs) (p # ps) s = Some (Inr (Some job1), s1)
    \<and> later_steps P job1 (s1, w) = (Inr job', s', w')"
  using assms
  by (auto simp: runJobPipeline_def first_str_def absent_or_empty_def Let_def split: option.splits sum.splits prod.splits)

lemma parse_other:
  "j_status job \<notin> {Uploaded, GuardrailRejected} \<Longrightarrow> stepParseAndStage P job b p s = Some (Inr (Some job), s)"
  by (simp add: stepParseAndStage_def)

lemma runJobPipeline_later:
  "j_status job \<notin> {Uploaded, GuardrailRejected} \<Longrightarrow> runJobPipeline P job b p (s, w) = Some (later_steps P job (s, w))"
  by (simp add: runJobPipeline_def parse_other Let_def)

text \<open>
  C29. Parsing a job's file stages it afresh, whatever was staged for the job before and however the
  insertion is cut into chunks of a thousand: if the guardrail accepts the file, the job's rows
  are then exactly the parsed records, numbered in file order, unvalidated and uncommitted, the
  counters say so, and the rows of other jobs are untouched; if not, no row changes.
\<close>

theorem stepParseAndStage_restages:
  assumes "mongo_db (pl_db P) sessions jobs rows good" "good s" "jobs s (j_id job) = Some cur"
    and "j_status job \<in> {Uploaded, GuardrailRejected}"
    and "stepParseAndStage P job bucket path s = Some (Inr found, s')"
  shows "\<exists>local fmt v job'. found = Some job' \<and> downloadFromGcs P bucket path = Inr local \<and> detectSourceFormat local = Inr fmt
    \<and> checkGuardrailStreaming (pl_penv P) (pl_libs P) (j_tenantId job) local fmt (j_sqlTable job) = Some (Inr v)
    \<and> jobs s' = (jobs s)(j_id job \<mapsto> job') \<and> sessions s' = sessions s
    \<and> (if allowed v then
         (let records = (case s_records v of None \<Rightarrow> [] | Some rs \<Rightarrow> rs) in
          j_status job' = Staged \<and> totalRows (j_counts job') = length records \<and> stagedRows (j_counts job') = length records
          \<and> fresh_rows (j_tenantId job) (j_id job) records (filter (\<lambda>r. s_importJobId r = j_id job) (rows s'))
          \<and> mset (filter (\<lambda>r. s_importJobId r \<noteq> j_id job) (rows s'))
              = mset (filter (\<lambda>r. s_importJobId r \<noteq> j_id job) (rows s)))
       else j_status job' = GuardrailRejected \<and> rows s' = rows s)"
  using mongo_db.parse_and_stage [OF assms(1) refl assms(2-5)] by blast

definition stale_db :: "job_status \<Rightarrow> list_db" where
  "stale_db st = \<lparr>l_sessions = [], l_jobs = [demo_job\<lparr>j_status := st\<rparr>],
     l_rows = [demo_row ''x'' 0 ''old'' Pending, (demo_row ''y'' 0 ''other'' Pending)\<lparr>s_importJobId := ''k''\<rparr>]\<rparr>"

lemma stale_db_ok: "list_ok (stale_db Uploaded)"
  by code_simp

lemma stale_db_find: "by_id j_id ''j'' (l_jobs (stale_db st)) = Some (demo_job\<lparr>j_status := st\<rparr>)"
  by (simp add: stale_db_def by_id_def demo_job_def)

lemma stale_guard: "case checkGuardrailStreaming (pl_penv demo_pipe) (pl_libs demo_pipe) ''t'' ''/tmp/a.json'' ''json'' None of
    Some (Inr v) \<Rightarrow> allowed v \<and> s_records v = Some [[(''id'', VStr ''A'')], [(''id'', VStr ''B'')]] | _ \<Rightarrow> False"
  by code_simp

lemma stale_run: "case stepParseAndStage demo_pipe (demo_job\<lparr>j_status := Uploaded\<rparr>) ''b'' ''a.json'' (stale_db Uploaded) of
    Some (Inr (Some job'), s') \<Rightarrow> True | _ \<Rightarrow> False"
  by code_simp

lemma stale_local: "downloadFromGcs demo_pipe ''b'' ''a.json'' = Inr ''/tmp/a.json''" "detectSourceFormat ''/tmp/a.json'' = Inr ''json''"
  by code_simp+

theorem stepParseAndStage_restages_witness:
  "\<exists>job' s'. stepParseAndStage demo_pipe (demo_job\<lparr>j_status := Uploaded\<rparr>) ''b'' ''a.json'' (stale_db Uploaded)
      = Some (Inr (Some job'), s')
    \<and> fresh_rows ''t'' ''j'' [[(''id'', VStr ''A'')], [(''id'', VStr ''B'')]] (filter (\<lambda>r. s_importJobId r = ''j'') (l_rows s'))"
proof -
  obtain job' s' where run: "stepParseAndStage demo_pipe (demo_job\<lparr>j_status := Uploaded\<rparr>) ''b'' ''a.json'' (stale_db Uploaded)
      = Some (Inr (Some job'), s')"
    using stale_run by (auto split: option.splits prod.splits sum.splits)
  obtain v where v: "checkGuardrailStreaming (pl_penv demo_pipe) (pl_libs demo_pipe) ''t'' ''/tmp/a.json'' ''json'' None = Some (Inr v)"
    "allowed v" "s_records v = Some [[(''id'', VStr ''A'')], [(''id'', VStr ''B'')]]"
    using stale_guard by (auto split: option.splits sum.splits)
  have job: "j_id (demo_job\<lparr>j_status := Uploaded\<rparr>) = ''j''" "j_tenantId (demo_job\<lparr>j_status := Uploaded\<rparr>) = ''t''"
    "j_sqlTable (demo_job\<lparr>j_status := Uploaded\<rparr>) = None"
    by (simp_all add: demo_job_def)
  show ?thesis
    using stepParseAndStage_restages [OF demo_mongo stale_db_ok _ _ run, unfolded job, OF stale_db_find] run stale_local v
    by (simp add: Let_def)
qed

lemma parsed_job:
  assumes "mongo_db (pl_db P) sessions jobs rows good" "good s" "jobs s (j_id job) = Some job"
    and "stepParseAndStage P job b p s = Some (Inr (Some job1), s1)"
  shows "good s1 \<and> jobs s1 (j_id job) = Some job1 \<and> j_id job1 = j_id job \<and> j_fieldMap job1 = j_fieldMap job
    \<and> j_entityKey job1 = j_entityKey job
    \<and> j_status job1 \<in> (if j_status job \<in> {Uploaded, GuardrailRejected} then {Staged, GuardrailRejected} else {j_status job})"
proof (cases "j_status job \<in> {Uploaded, GuardrailRejected}")
  case True
  then show ?thesis
    using mongo_db.parse_and_stage [OF assms(1) refl assms(2,3) True assms(4)] by (auto simp: Let_def split: if_splits)
next
  case False
  then show ?thesis
    using assms(2-4) by (auto simp: parse_other)
qed


lemma stale_pipeline: "case runJobPipeline demo_pipe (demo_job\<lparr>j_status := Uploaded\<rparr>) (Some ''b'') (Some ''a.json'') (stale_db Uploaded, []) of
    Some (Inr job', s', w') \<Rightarrow> True | _ \<Rightarrow> False"
  by code_simp



definition mapped_job :: import_job where
  "mapped_job = demo_job\<lparr>j_status := Uploaded, j_entityKey := Some ''demo'', j_fieldMap := Some [(''id'', ''id'')]\<rparr>"

definition mapped_db :: list_db where
  "mapped_db = \<lparr>l_sessions = [], l_jobs = [mapped_job], l_rows = []\<rparr>"

lemma mapped_run: "case runJobPipeline demo_pipe mapped_job (Some ''b'') (Some ''a.json'') (mapped_db, []) of
    Some (Inr job', s', w') \<Rightarrow> w' = [''B'', ''A''] | _ \<Rightarrow> False"
  by code_simp


text \<open>
  C32. A validated job whose target is registered is carried to its end: the run returns, every
  committable row has been settled and counted, the job is completed exactly when no row failed or
  was missing, that status is stored, and the process reports success.
\<close>

theorem runJobPipeline_commits:
  assumes "mongo_db (pl_db P) sessions jobs rows good" "pl_jobStore P = core_store P" "good s" "jobs s (j_id job) = Some job"
    and "j_status job = Validated" "j_module job \<noteq> []" "\<not> absent_or_empty (j_entityKey job)"
    and "getTargetDescriptor (j_module job) (the (j_entityKey job)) (pl_registry P) = Inr d"
  shows "\<exists>job' s' w'. runJobPipeline P job b p (s, w) = Some (Inr job', s', w') \<and> jobs s' (j_id job) = Some job'
    \<and> committedRows (j_counts job') + commitFailedRows (j_counts job')
        = length (filter (committable (j_tenantId job) (j_id job)) (rows s))
    \<and> filter (committable (j_tenantId job) (j_id job)) (rows s') = []
    \<and> j_status job' = (if commitFailedRows (j_counts job') = 0
          \<and> validRows (j_counts job) \<le> committedRows (j_counts job') then Completed else CompletedWithErrors)
    \<and> exitCodeForStatus (status_name (j_status job')) = 0"
proof -
  obtain job' s' w' where commit: "stepCommit P job (s, w) = (Inr job', s', w')" "jobs s' (j_id job) = Some job'"
    "committedRows (j_counts job') + commitFailedRows (j_counts job')
        = length (filter (committable (j_tenantId job) (j_id job)) (rows s))"
    "skippedRows (j_counts job') = validRows (j_counts job) - committedRows (j_counts job') - commitFailedRows (j_counts job')"
    "j_status job' = final_status (commitFailedRows (j_counts job')) (skippedRows (j_counts job'))"
    "filter (committable (j_tenantId job) (j_id job)) (rows s') = []"
    using mongo_db.committed [OF assms(1) refl assms(2-8), of w] by auto
  have "runJobPipeline P job b p (s, w) = Some (Inr job', s', w')"
    using commit(1) assms(5) by (simp add: runJobPipeline_later later_steps_def stepAutoMap_other stepValidate_other)
  then show ?thesis
    using commit(2-6) by (intro exI conjI) (assumption | simp add: final_status_def exitCodeForStatus_def)+
qed

definition validated_job :: import_job where
  "validated_job = demo_job\<lparr>j_status := Validated, j_entityKey := Some ''demo'',
     j_counts := (j_counts demo_job)\<lparr>validRows := 1\<rparr>\<rparr>"

definition validated_db :: list_db where
  "validated_db = \<lparr>l_sessions = [], l_jobs = [validated_job], l_rows = [demo_row ''x'' 0 ''A'' Pending]\<rparr>"

theorem runJobPipeline_commits_witness:
  "\<exists>job' s' w'. runJobPipeline demo_pipe validated_job None None (validated_db, []) = Some (Inr job', s', w')
     \<and> filter (committable ''t'' ''j'') (l_rows s') = [] \<and> exitCodeForStatus (status_name (j_status job')) = 0"
proof -
  have job: "j_id validated_job = ''j''" "j_tenantId validated_job = ''t''" "j_status validated_job = Validated"
    "j_module validated_job = ''hr''" "j_entityKey validated_job = Some ''demo''"
    "pl_jobStore demo_pipe = core_store demo_pipe" "pl_registry demo_pipe = demo_registry"
    by (simp_all add: validated_job_def demo_job_def demo_pipe_def)
  have db: "list_ok validated_db" "by_id j_id ''j'' (l_jobs validated_db) = Some validated_job"
    using job(1) by (simp_all add: validated_db_def list_ok_def by_id_def)
  show ?thesis
    using runJobPipeline_commits [OF demo_mongo job(6) db(1), of validated_job fields_demo None None "[]"] db(2) job
    by (auto simp: absent_or_empty_def)
qed

text \<open>
  The pipeline leaves alone what it does not expect. A finished job is not run again; but neither is
  one whose process died while committing: it keeps that status and its unsettled rows however
  often the pipeline is started, although the commit engine itself could resume them, and the
  process reports failure.
\<close>

theorem runJobPipeline_idle:
  assumes "j_status job \<notin> {Uploaded, GuardrailRejected, Staged, Mapped, Validated}"
  shows "runJobPipeline P job b p (s, w) = Some (Inr job, s, w)
    \<and> (exitCodeForStatus (status_name (j_status job)) = 0 \<longleftrightarrow> j_status job \<in> {Completed, CompletedWithErrors})"
  using assms
  by (cases "j_status job"; simp add: runJobPipeline_later later_steps_def stepAutoMap_other stepValidate_other
      stepCommit_other exitCodeForStatus_def)

theorem runJobPipeline_idle_witness:
  "runJobPipeline demo_pipe (demo_job\<lparr>j_status := Committing\<rparr>) None None (stale_db Committing, [])
     = Some (Inr (demo_job\<lparr>j_status := Committing\<rparr>), stale_db Committing, [])
   \<and> exitCodeForStatus (status_name Committing) \<noteq> 0"
  using runJobPipeline_idle [of "demo_job\<lparr>j_status := Committing\<rparr>" demo_pipe None None "stale_db Committing" "[]"]
  by simp

end
