(* ===== verification/Http.thy ===== *)
theory Http
  imports Validation ImportService Commit
begin

text \<open>
  http/: the guard of import targets (requireTarget.middleware.js) and the handlers of the operator's
  and of the partners' router (uploadRoutes.js, b2bUploadRoutes.js). The tables of routes and
  the request schemas are in Routes: a handler takes the fields its schema admits. A response is a
  status and a body; an absent tenant id is the empty string.
\<close>

subsection \<open>The guard\<close>

type_synonym import_target = "string \<times> string"

text \<open>The placeholder's answer, whatever the tenant's modules are.\<close>

definition guard_targets :: "import_target list" where
  "guard_targets = [(''*'', ''*'')]"

text \<open>
  \<open>getTenantConfig\<close> and \<open>getTenantAccessDenial\<close> are free identifiers of the file, here \<open>config\<close> and
  \<open>denial\<close>: unless a deployment defines them, using them throws. The answer is the code of the 403,
  or \<open>None\<close> when the request goes on.
\<close>

definition requireMigrationTarget ::
  "(id \<Rightarrow> app_error err + 't option) \<Rightarrow> ('t \<Rightarrow> app_error err + string option) \<Rightarrow> id \<Rightarrow> 't option
     \<Rightarrow> string option \<Rightarrow> string option \<Rightarrow> string option" where
  "requireMigrationTarget config denial tenantId known moduleName entityKey =
     (if tenantId = [] then None
      else (case (case known of Some tenant \<Rightarrow> Inr (Some tenant) | None \<Rightarrow> config tenantId) of
          Inl e \<Rightarrow> Some ''TENANT_RESOLUTION_FAILED''
        | Inr None \<Rightarrow> Some ''TENANT_RESOLUTION_FAILED''
        | Inr (Some tenant) \<Rightarrow>
            (case denial tenant of
               Inl e \<Rightarrow> Some ''TENANT_RESOLUTION_FAILED''
             | Inr (Some c) \<Rightarrow> Some c
             | Inr None \<Rightarrow>
                 if absent_or_empty moduleName then None
                 else if the moduleName \<notin> set (map fst guard_targets) then Some ''MODULE_NOT_UNLOCKED''
                 else if \<not> absent_or_empty entityKey
                   \<and> (the moduleName, the entityKey) \<notin> set guard_targets then Some ''ENTITY_NOT_UNLOCKED''
                 else None)))"

subsection \<open>Responses\<close>

record 'b response =
  rs_status :: nat
  rs_body :: 'b

text \<open>The error's message, with the structured rejection where the error carries one.\<close>

datatype failure =
    ServiceError app_error "rejection option"
  | AccessDenied string
  | NoFile
  | TooLarge rejection

fun details :: "app_error \<Rightarrow> rejection option" where
  "details (OverByteLimit r d) = d"
| "details e = None"

type_synonym 'a answer = "(failure + 'a) response"

definition respond :: "nat \<Rightarrow> app_error err + 'a \<Rightarrow> 'a answer" where
  "respond ok result =
     (case result of
        Inr x \<Rightarrow> \<lparr>rs_status = ok, rs_body = Inr x\<rparr>
      | Inl e \<Rightarrow> \<lparr>rs_status = http_status e, rs_body = Inl (ServiceError (err_msg e) (details (err_msg e)))\<rparr>)"

definition reply :: "nat \<Rightarrow> ('a, 's) reply \<Rightarrow> 'a answer \<times> 's" where
  "reply ok = (\<lambda>(result, s). (respond ok result, s))"

definition guarded :: "string option \<Rightarrow> ('s \<Rightarrow> 'a answer \<times> 's) \<Rightarrow> 's \<Rightarrow> 'a answer \<times> 's" where
  "guarded access handler s =
     (case access of
        Some c \<Rightarrow> (\<lparr>rs_status = 403, rs_body = Inl (AccessDenied c)\<rparr>, s)
      | None \<Rightarrow> handler s)"

text \<open>What the services behind the handlers work with, and the part of a request all handlers read.\<close>

record ('s, 'w) server =
  sv_db :: "'s mongo"
  sv_registry :: "'w registry"
  sv_env :: js_env
  sv_penv :: process_env
  sv_libs :: libs
  sv_storage :: storage
  sv_conn :: connection
  sv_isObjectId :: "id \<Rightarrow> bool"
  sv_msg :: "app_error err \<Rightarrow> string"
  sv_now :: int
  sv_later :: int

record request =
  rq_tenantId :: id
  rq_actor :: "id option"
  rq_id :: id

abbreviation sv_store :: "('s, 'w) server \<Rightarrow> 's store_ops" where
  "sv_store V \<equiv> createMongooseJobStore (sv_db V)"

subsection \<open>uploadRoutes.js: imports\<close>

datatype import_reply = Offered import_job upload_target | Imported import_job

definition post_imports ::
  "('s, 'w) server \<Rightarrow> request \<Rightarrow> string \<Rightarrow> string option \<Rightarrow> jsnum option \<Rightarrow> string option \<Rightarrow> upload_file option \<Rightarrow> 's
     \<Rightarrow> (import_reply answer \<times> 's) option" where
  "post_imports V req moduleName fileName fileSizeBytes sqlTable file s =
     (if \<not> absent_or_empty fileName then
        (case createImportJobDedicated (sv_db V) (sv_penv V) (sv_storage V) (rq_tenantId req) moduleName (the fileName)
                (rq_actor req) fileSizeBytes sqlTable s of
           (result, s) \<Rightarrow> Some (respond 201 (map_sum id (\<lambda>(job, target). Offered job target) result), s))
      else (case file of
          None \<Rightarrow> Some (\<lparr>rs_status = 400, rs_body = Inl NoFile\<rparr>, s)
        | Some f \<Rightarrow>
            (case createImportJob (sv_db V) (sv_penv V) (sv_libs V) (sv_storage V) (sv_msg V) (sv_now V)
                    (rq_tenantId req) moduleName f (rq_actor req) sqlTable s of
               None \<Rightarrow> None
             | Some (result, s) \<Rightarrow> Some (respond 201 (map_sum id Imported result), s))))"

definition post_upload_complete :: "('s, 'w) server \<Rightarrow> request \<Rightarrow> 's \<Rightarrow> (import_job \<times> string) answer \<times> 's" where
  "post_upload_complete V req s =
     reply 200 (completeImportUpload (sv_db V) (sv_penv V) (sv_storage V) (sv_now V) (rq_tenantId req) (rq_id req) s)"

definition get_imports ::
  "('s, 'w) server \<Rightarrow> request \<Rightarrow> string option \<Rightarrow> val option \<Rightarrow> val option \<Rightarrow> 's \<Rightarrow> import_job listing answer" where
  "get_imports V req status pg lmt s = respond 200 (Inr (listImportJobs (sv_db V) (sv_env V) (rq_tenantId req) status pg lmt s))"

definition get_import :: "('s, 'w) server \<Rightarrow> request \<Rightarrow> 's \<Rightarrow> import_job answer" where
  "get_import V req s = respond 200 (getImportJob (sv_db V) (rq_tenantId req) (rq_id req) s)"

datatype schemas = ModuleSchemas string "entity list" | AllSchemas "(string \<times> string \<times> entity list) list"

text \<open>\<open>allowed_targets\<close> is \<open>None\<close> without a resolved tenant.\<close>

definition module_schemas :: "'w registry \<Rightarrow> import_target list option \<Rightarrow> string \<Rightarrow> string \<times> string \<times> entity list" where
  "module_schemas reg allowed_targets moduleName =
     (moduleName,
      (case map_of MODULE_LABELS moduleName of None \<Rightarrow> moduleName | Some l \<Rightarrow> l),
      filter (\<lambda>e. allowed_targets = None
          \<or> ent_entityKey e \<in> set (map snd (filter (\<lambda>t. fst t = moduleName) (the allowed_targets))))
        (listTargetEntities moduleName reg))"

definition get_target_schemas ::
  "('s, 'w) server \<Rightarrow> import_target list option \<Rightarrow> string option \<Rightarrow> schemas answer" where
  "get_target_schemas V allowed_targets moduleName =
     respond 200 (Inr
       (if \<not> absent_or_empty moduleName
        then ModuleSchemas (the moduleName) (listTargetEntities (the moduleName) (sv_registry V))
        else AllSchemas (filter (\<lambda>(_, _, entities). entities \<noteq> [])
          (map (module_schemas (sv_registry V) allowed_targets) (listTargetModules (sv_registry V))))))"

definition get_mapping_suggestions ::
  "('s, 'w) server \<Rightarrow> request \<Rightarrow> string \<Rightarrow> string \<Rightarrow> 's \<Rightarrow> job_suggestion answer" where
  "get_mapping_suggestions V req moduleName entityKey s =
     respond 200 (suggestMappingForJob (sv_store V) (sv_registry V) (rq_tenantId req) (rq_id req) moduleName entityKey s)"

definition post_mapping ::
  "('s, 'w) server \<Rightarrow> request \<Rightarrow> string \<Rightarrow> field_map \<Rightarrow> bool option \<Rightarrow> string option \<Rightarrow> 's \<Rightarrow> import_job answer \<times> 's" where
  "post_mapping V req entityKey fieldMap saveAsProfile profileLabel s =
     reply 200 (applyMapping (sv_store V) (sv_env V) (sv_registry V) (sv_now V) (rq_tenantId req) (rq_id req)
       \<lparr>mr_entityKey = entityKey, mr_fieldMap = Some fieldMap,
        mr_saveAsProfile = (case saveAsProfile of None \<Rightarrow> False | Some b \<Rightarrow> b),
        mr_profileLabel = profileLabel, mr_createdBy = rq_actor req\<rparr> s)"

definition get_mapping_profiles ::
  "('s, 'w) server \<Rightarrow> request \<Rightarrow> string option \<Rightarrow> string option \<Rightarrow> 's \<Rightarrow> profile list answer" where
  "get_mapping_profiles V req moduleName entityKey s =
     respond 200 (Inr (listMappingProfiles (sv_store V) (rq_tenantId req) moduleName entityKey s))"

definition post_validate ::
  "('s, 'w) server \<Rightarrow> request \<Rightarrow> 's \<Rightarrow> 'w \<Rightarrow> (nat \<times> nat \<times> (nat \<times> row_error list) list) answer \<times> 's" where
  "post_validate V req s w =
     (case validateImportJob (sv_store V) (sv_db V) (sv_isObjectId V) (sv_env V) (sv_registry V)
             (rq_tenantId req) (rq_id req) s w of
        (Inl e, s) \<Rightarrow> (respond 200 (Inl e), s)
      | (Inr r, s) \<Rightarrow>
          (respond 200 (Inr (vr_validCount r, vr_invalidCount r,
             getSampleErrors (sv_store V) (rq_tenantId req) (rq_id req) 10 s)), s))"

definition get_rows ::
  "('s, 'w) server \<Rightarrow> request \<Rightarrow> string option \<Rightarrow> val option \<Rightarrow> val option \<Rightarrow> 's \<Rightarrow> srow listing answer" where
  "get_rows V req status pg lmt s =
     respond 200 (Inr (listStagedRows (sv_db V) (sv_env V) (rq_tenantId req) (rq_id req) status pg lmt s))"

definition patch_row ::
  "('s, 'w) server \<Rightarrow> request \<Rightarrow> id \<Rightarrow> obj option \<Rightarrow> bool option \<Rightarrow> 's \<Rightarrow> srow answer \<times> 's" where
  "patch_row V req rowId mappedFields exclude s =
     reply 200 (patchStagedRecordFields (sv_store V) (sv_env V) (sv_registry V) (rq_tenantId req) (rq_id req) rowId
       mappedFields (case exclude of None \<Rightarrow> False | Some b \<Rightarrow> b) s)"

definition post_commit ::
  "('s, 'w) server \<Rightarrow> request \<Rightarrow> 's \<times> 'w \<Rightarrow> commit_outcome answer \<times> 's \<times> 'w \<times> completed_event list" where
  "post_commit V req sw =
     (case commitImportJob (sv_store V) (sv_registry V) (sv_penv V) (sv_conn V) (sv_now V) (sv_later V)
             (rq_tenantId req) (rq_id req) (rq_actor req) sw of
        (result, s, w, events) \<Rightarrow> (respond 200 result, s, w, events))"

subsection \<open>uploadRoutes.js: sessions\<close>

definition post_sessions :: "('s, 'w) server \<Rightarrow> request \<Rightarrow> string option \<Rightarrow> 's \<Rightarrow> session answer \<times> 's" where
  "post_sessions V req label s = reply 201 (createSession (sv_db V) (rq_tenantId req) label (rq_actor req) s)"

definition get_sessions ::
  "('s, 'w) server \<Rightarrow> request \<Rightarrow> string option \<Rightarrow> val option \<Rightarrow> val option \<Rightarrow> 's \<Rightarrow> session listing answer" where
  "get_sessions V req status pg lmt s =
     respond 200 (Inr (listSessions (sv_db V) (sv_env V) (rq_tenantId req) status pg lmt s))"

definition get_session :: "('s, 'w) server \<Rightarrow> request \<Rightarrow> 's \<Rightarrow> session answer" where
  "get_session V req s = respond 200 (getSession (sv_db V) (rq_tenantId req) (rq_id req) s)"

definition post_session_jobs ::
  "('s, 'w) server \<Rightarrow> request \<Rightarrow> id \<Rightarrow> string \<Rightarrow> string \<Rightarrow> 's \<Rightarrow> session answer \<times> 's" where
  "post_session_jobs V req importJobId moduleName entityKey s =
     reply 200 (addJobToSession (sv_db V) (rq_tenantId req) (rq_id req) importJobId moduleName entityKey s)"

definition post_compute_order :: "('s, 'w) server \<Rightarrow> request \<Rightarrow> 's \<Rightarrow> session answer \<times> 's" where
  "post_compute_order V req s = reply 200 (computeSessionOrder (sv_db V) (sv_registry V) (rq_tenantId req) (rq_id req) s)"

definition post_populate :: "('s, 'w) server \<Rightarrow> request \<Rightarrow> 's \<Rightarrow> nat answer \<times> 's" where
  "post_populate V req s = reply 200 (populateSessionExternalIds (sv_db V) (sv_env V) (sv_registry V) (rq_id req) s)"

text \<open>The router's error handler for an upload multer aborted; other errors are passed on.\<close>

definition upload_too_large :: "process_env \<Rightarrow> id \<Rightarrow> bool \<Rightarrow> 'a answer option" where
  "upload_too_large penv tenantId limit_file_size =
     (if \<not> limit_file_size then None
      else
        let mode = (if tenantId = [] then ''shared'' else storageMode (envTierPolicy_resolve penv tenantId));
            d = describeGuardrailRejection penv mode ''bytes'' (SHARED_MAX_IMPORT_BYTES penv) Unknown
        in Some \<lparr>rs_status = 413, rs_body = Inl (TooLarge d)\<rparr>)"

subsection \<open>b2bUploadRoutes.js\<close>

text \<open>
  The partners' error envelope: a code always, the upgrade offer when there is one. The guard's own
  refusals have a code and a fixed text.
\<close>

record b2b_failure =
  bf_code :: string
  bf_message :: "app_error option"
  bf_upgrade :: "cta option"

type_synonym 'a b2b_answer = "(b2b_failure + 'a) response"

definition sendErr :: "app_error err \<Rightarrow> 'a b2b_answer" where
  "sendErr err =
     \<lparr>rs_status = http_status err,
      rs_body = Inl
        \<lparr>bf_code = (case details (err_msg err) of None \<Rightarrow> ''MIGRATION_ERROR'' | Some d \<Rightarrow> rej_code d),
         bf_message = Some (err_msg err), bf_upgrade = map_option rej_upgrade (details (err_msg err))\<rparr>\<rparr>"

definition b2b_respond :: "nat \<Rightarrow> app_error err + 'a \<Rightarrow> 'a b2b_answer" where
  "b2b_respond ok result =
     (case result of Inr x \<Rightarrow> \<lparr>rs_status = ok, rs_body = Inr x\<rparr> | Inl e \<Rightarrow> sendErr e)"

definition b2b_reply :: "nat \<Rightarrow> ('a, 's) reply \<Rightarrow> 'a b2b_answer \<times> 's" where
  "b2b_reply ok = (\<lambda>(result, s). (b2b_respond ok result, s))"

definition b2b_imports ::
  "('s, 'w) server \<Rightarrow> request \<Rightarrow> string \<Rightarrow> string \<Rightarrow> jsnum \<Rightarrow> string option \<Rightarrow> 's
     \<Rightarrow> (import_job \<times> upload_target) b2b_answer \<times> 's" where
  "b2b_imports V req moduleName fileName fileSizeBytes sqlTable s =
     b2b_reply 201 (createImportJobDedicated (sv_db V) (sv_penv V) (sv_storage V) (rq_tenantId req) moduleName fileName
       (rq_actor req) (Some fileSizeBytes) sqlTable s)"

definition b2b_upload_complete :: "('s, 'w) server \<Rightarrow> request \<Rightarrow> 's \<Rightarrow> (import_job \<times> string) b2b_answer \<times> 's" where
  "b2b_upload_complete V req s =
     b2b_reply 200 (completeImportUpload (sv_db V) (sv_penv V) (sv_storage V) (sv_now V) (rq_tenantId req) (rq_id req) s)"

definition b2b_mapping ::
  "('s, 'w) server \<Rightarrow> request \<Rightarrow> string \<Rightarrow> field_map \<Rightarrow> bool option \<Rightarrow> string option \<Rightarrow> 's
     \<Rightarrow> import_job b2b_answer \<times> 's" where
  "b2b_mapping V req entityKey fieldMap saveAsProfile profileLabel s =
     b2b_reply 200 (applyMapping (sv_store V) (sv_env V) (sv_registry V) (sv_now V) (rq_tenantId req) (rq_id req)
       \<lparr>mr_entityKey = entityKey, mr_fieldMap = Some fieldMap, mr_saveAsProfile = (saveAsProfile = Some True),
        mr_profileLabel = profileLabel, mr_createdBy = rq_actor req\<rparr> s)"

definition b2b_validate :: "('s, 'w) server \<Rightarrow> request \<Rightarrow> 's \<Rightarrow> 'w \<Rightarrow> validation_result b2b_answer \<times> 's" where
  "b2b_validate V req s w =
     b2b_reply 200 (validateImportJob (sv_store V) (sv_db V) (sv_isObjectId V) (sv_env V) (sv_registry V)
       (rq_tenantId req) (rq_id req) s w)"

definition b2b_commit ::
  "('s, 'w) server \<Rightarrow> request \<Rightarrow> 's \<times> 'w \<Rightarrow> commit_outcome b2b_answer \<times> 's \<times> 'w \<times> completed_event list" where
  "b2b_commit V req sw =
     (case commitImportJob (sv_store V) (sv_registry V) (sv_penv V) (sv_conn V) (sv_now V) (sv_later V)
             (rq_tenantId req) (rq_id req) (rq_actor req) sw of
        (result, s, w, events) \<Rightarrow> (b2b_respond 200 result, s, w, events))"

definition b2b_get_imports ::
  "('s, 'w) server \<Rightarrow> request \<Rightarrow> string option \<Rightarrow> val option \<Rightarrow> val option \<Rightarrow> 's \<Rightarrow> import_job listing b2b_answer" where
  "b2b_get_imports V req status pg lmt s =
     b2b_respond 200 (Inr (listImportJobs (sv_db V) (sv_env V) (rq_tenantId req) status pg lmt s))"

definition b2b_get_import :: "('s, 'w) server \<Rightarrow> request \<Rightarrow> 's \<Rightarrow> import_job b2b_answer" where
  "b2b_get_import V req s = b2b_respond 200 (getImportJob (sv_db V) (rq_tenantId req) (rq_id req) s)"

definition b2b_target_schemas :: "('s, 'w) server \<Rightarrow> string \<Rightarrow> (string \<times> entity list) b2b_answer" where
  "b2b_target_schemas V moduleName = b2b_respond 200 (Inr (moduleName, listTargetEntities moduleName (sv_registry V)))"

subsection \<open>The guarded routes\<close>

text \<open>
  The guard of \<open>POST /imports\<close> stands before the body of a multipart upload is read, so it sees no
  module there; for an upload address it sees the one of the JSON body.
\<close>

definition imports_route ::
  "(id \<Rightarrow> app_error err + 't option) \<Rightarrow> ('t \<Rightarrow> app_error err + string option) \<Rightarrow> 't option
     \<Rightarrow> bool \<Rightarrow> ('s, 'w) server \<Rightarrow> request \<Rightarrow> string \<Rightarrow> string option \<Rightarrow> jsnum option \<Rightarrow> string option
     \<Rightarrow> upload_file option \<Rightarrow> 's \<Rightarrow> (import_reply answer \<times> 's) option" where
  "imports_route config denial known multipart V req moduleName fileName fileSizeBytes sqlTable file s =
     (let seen = (if multipart then None else Some moduleName) in
      case requireMigrationTarget config denial (rq_tenantId req) known seen None of
        Some c \<Rightarrow> Some (\<lparr>rs_status = 403, rs_body = Inl (AccessDenied c)\<rparr>, s)
      | None \<Rightarrow> post_imports V req moduleName fileName fileSizeBytes sqlTable file s)"

definition mapping_route ::
  "(id \<Rightarrow> app_error err + 't option) \<Rightarrow> ('t \<Rightarrow> app_error err + string option) \<Rightarrow> 't option
     \<Rightarrow> ('s, 'w) server \<Rightarrow> request \<Rightarrow> string option \<Rightarrow> string \<Rightarrow> field_map \<Rightarrow> bool option \<Rightarrow> string option \<Rightarrow> 's
     \<Rightarrow> import_job answer \<times> 's" where
  "mapping_route config denial known V req moduleName entityKey fieldMap saveAsProfile profileLabel =
     guarded (requireMigrationTarget config denial (rq_tenantId req) known moduleName (Some entityKey))
       (post_mapping V req entityKey fieldMap saveAsProfile profileLabel)"

definition session_jobs_route ::
  "(id \<Rightarrow> app_error err + 't option) \<Rightarrow> ('t \<Rightarrow> app_error err + string option) \<Rightarrow> 't option
     \<Rightarrow> ('s, 'w) server \<Rightarrow> request \<Rightarrow> id \<Rightarrow> string \<Rightarrow> string \<Rightarrow> 's \<Rightarrow> session answer \<times> 's" where
  "session_jobs_route config denial known V req importJobId moduleName entityKey =
     guarded (requireMigrationTarget config denial (rq_tenantId req) known (Some moduleName) (Some entityKey))
       (post_session_jobs V req importJobId moduleName entityKey)"

definition b2b_imports_route ::
  "(id \<Rightarrow> app_error err + 't option) \<Rightarrow> ('t \<Rightarrow> app_error err + string option) \<Rightarrow> 't option
     \<Rightarrow> ('s, 'w) server \<Rightarrow> request \<Rightarrow> string \<Rightarrow> string \<Rightarrow> jsnum \<Rightarrow> string option \<Rightarrow> 's
     \<Rightarrow> (import_job \<times> upload_target) b2b_answer \<times> 's" where
  "b2b_imports_route config denial known V req moduleName fileName fileSizeBytes sqlTable s =
     (case requireMigrationTarget config denial (rq_tenantId req) known (Some moduleName) None of
        Some c \<Rightarrow> (\<lparr>rs_status = 403, rs_body = Inl \<lparr>bf_code = c, bf_message = None, bf_upgrade = None\<rparr>\<rparr>, s)
      | None \<Rightarrow> b2b_imports V req moduleName fileName fileSizeBytes sqlTable s)"

end
