(* ===== verification/ImportProps.thy ===== *)
theory ImportProps
  imports ImportService PipelineCorrect DemoPipeline
begin

text \<open>
  Properties of taking a file in: what a created job and its rows are, what becomes of it with the
  storage the services are wired to, and the protocol of a signed upload.
\<close>

subsection \<open>Uploads through the server\<close>

lemma job_valid_keeps [simp]:
  "job_valid (job\<lparr>j_status := st\<rparr>) = job_valid job" "job_valid (job\<lparr>j_error := e\<rparr>) = job_valid job"
  "job_valid (job\<lparr>j_counts := c\<rparr>) = job_valid job"
  by (simp_all add: job_valid_def)

lemma save_job_Inr: "save_job db job s = Inr s' \<longleftrightarrow> job_valid job \<and> s' = db_putJob db job s"
  by (auto simp: save_job_def)

definition shipped_storage :: "process_env \<Rightarrow> storage \<Rightarrow> bool" where
  "shipped_storage penv storage \<longleftrightarrow>
     (\<exists>fs. storage = localFsStorageAdapter penv fs) \<or> (\<exists>gcs stamp. storage = gcsStorageAdapter penv gcs stamp)"

lemma shipped_upload: "shipped_storage penv storage \<Longrightarrow> st_upload storage file dest = Inr props \<Longrightarrow> map_of props ''public_id'' = None"
  by (auto simp: shipped_storage_def localFsStorageAdapter_def localFs_upload_def gcsStorageAdapter_def gcs_upload_def Let_def
      split: if_splits)

lemma local_job_invalid:
  "\<not> job_valid ((blank_job i t m fmt tbl \<lparr>originalName = n, publicId = None, url = u, sizeBytes = z\<rparr> by)
     \<lparr>j_status := st, j_counts := c, j_guardrail := g\<rparr>)"
  by (simp add: job_valid_def blank_job_def absent_or_empty_def)


definition csv_file :: upload_file where
  "csv_file = \<lparr>uf_originalname = Some ''a.json'', uf_mimetype = ''application/json'', uf_path = ''/tmp/a.json'', uf_size = Fin 9\<rparr>"

definition disk :: file_system where
  "disk = \<lparr>fs_exists = (\<lambda>_. True), fs_size = (\<lambda>_. Fin 9), fs_copy = (\<lambda>_ _. True), fs_join = (\<lambda>a b. a @ ''/'' @ b), fs_now = ''0''\<rparr>"

lemma local_run: "case createImportJob (list_mongo test_env) (\<lambda>_. None) two_libs (localFsStorageAdapter (\<lambda>_. None) disk) (\<lambda>_. ''error'') 0
    ''t'' ''hr'' csv_file None None empty_db of Some _ \<Rightarrow> True | None \<Rightarrow> False"
  by code_simp


context mongo_db
begin

lemma put_new:
  assumes "good s"
  shows "good (db_putJob db job s)" "jobs (db_putJob db job s) = (jobs s)(j_id job \<mapsto> job)" "rows (db_putJob db job s) = rows s"
  using put_job assms by simp_all

lemma staged_job:
  assumes "good s" "jobs s (j_id job0) = Some job0" "job_valid job0" "stage_job db msg job0 records s = (Inr job, s')"
  shows "jobs s' = (jobs s)(j_id job0 \<mapsto> job) \<and> j_id job = j_id job0 \<and> j_tenantId job = j_tenantId job0
    \<and> totalRows (j_counts job) = totalRows (j_counts job0)
    \<and> (j_status job = Staged \<and> stagedRows (j_counts job) = length records
         \<and> (\<exists>new. fresh_rows (j_tenantId job0) (j_id job0) records new \<and> mset (rows s') = mset (rows s) + mset new)
       \<or> j_status job = Failed \<and> j_error job \<noteq> None)"
proof (cases "stageAll db (j_tenantId job0) (j_id job0) records s")
  case (Pair e s1)
  have jobs1: "jobs s1 = jobs s"
    using Pair insert_rows(3) [of "staged_docs (j_tenantId job0) (j_id job0) 0 records" s]
    by (auto simp: stageAll_def split: if_splits)
  show ?thesis
  proof (cases e)
    case (Some e')
    then show ?thesis
      using assms(3,4) Pair put_job(1) jobs1
      by (auto simp: stage_job_def mark_failed_def save_reply_def save_job_def)
  next
    case None
    have "\<exists>new. fresh_rows (j_tenantId job0) (j_id job0) records new \<and> mset (rows s1) = mset (rows s) + mset new"
    proof (cases "records = []")
      case True
      then show ?thesis
        using Pair by (auto simp: stageAll_def fresh_rows_def staged_docs_def)
    next
      case False
      then have "db_insertRows db (staged_docs (j_tenantId job0) (j_id job0) 0 records) s = (None, s1)"
        using Pair None by (simp add: stageAll_def)
      from insert_rows_all(4) [OF assms(1) this] obtain ids where ids: "length ids = length records"
        "mset (rows s1) = mset (rows s @ map2 new_row ids (staged_docs (j_tenantId job0) (j_id job0) 0 records))"
        by auto
      then show ?thesis
        unfolding fresh_rows_def
        by (intro exI [of _ "map2 new_row ids (staged_docs (j_tenantId job0) (j_id job0) 0 records)"] conjI exI [of _ ids]) auto
    qed
    then show ?thesis
      using assms(3,4) Pair None put_job(1,3) jobs1
      by (auto simp: stage_job_def save_job_def Let_def)
  qed
qed

end


text \<open>A storage that answers the key the service reads.\<close>

definition keyed_storage :: storage where
  "keyed_storage = (localFsStorageAdapter (\<lambda>_. None) disk)\<lparr>st_upload := (\<lambda>f d. Inr [(''public_id'', ''p'')])\<rparr>"

lemma keyed_run: "case createImportJob (list_mongo test_env) (\<lambda>_. None) two_libs keyed_storage (\<lambda>_. ''error'') 0
    ''t'' ''hr'' csv_file None None empty_db of Some (Inr job, s') \<Rightarrow> length (l_rows s') = 2 | _ \<Rightarrow> False"
  by code_simp

lemma keyed_guard: "case checkGuardrailStreaming (\<lambda>_. None) two_libs ''t'' ''/tmp/a.json'' ''json'' None of
    Some (Inr v) \<Rightarrow> allowed v \<and> s_records v = Some [[(''id'', VStr ''A'')], [(''id'', VStr ''B'')]] | _ \<Rightarrow> False"
  by code_simp


subsection \<open>Signed uploads\<close>

text \<open>The job waits for its file, and the file is there with the given size.\<close>

definition upload_due :: "storage \<Rightarrow> id \<Rightarrow> import_job \<Rightarrow> jsnum \<Rightarrow> bool" where
  "upload_due storage t job sz \<longleftrightarrow>
     j_tenantId job = t \<and> j_status job = PendingUpload
     \<and> \<not> absent_or_empty (bucketName (j_gcs job)) \<and> \<not> absent_or_empty (objectPath (j_gcs job))
     \<and> st_verifyUpload storage (the (bucketName (j_gcs job))) (the (objectPath (j_gcs job))) = Inr (Some sz)"

definition over_ceiling :: "process_env \<Rightarrow> id \<Rightarrow> jsnum \<Rightarrow> bool" where
  "over_ceiling penv t sz = num_gt sz (tier_limitBytes (envTierPolicy_resolve penv t))"

lemma allowed_size: "allowed (checkImportFileSize penv t (Some sz)) \<longleftrightarrow> \<not> over_ceiling penv t sz"
  by (simp add: checkImportFileSize_def over_ceiling_def Let_def)

lemma sized_valid [simp]:
  "job_valid (job\<lparr>j_file := (j_file job)\<lparr>sizeBytes := z\<rparr>\<rparr>) = job_valid job"
  "job_valid (job\<lparr>j_guardrail := g\<rparr>) = job_valid job"
  "objectPath gcs = objectPath (j_gcs job) \<Longrightarrow> job_valid (job\<lparr>j_gcs := gcs\<rparr>) = job_valid job"
  by (simp_all add: job_valid_def)

context mongo_db
begin

lemma complete_due:
  assumes "completeImportUpload db penv storage now t i s = (r, s')"
  shows "(\<exists>e. r = Inl e) \<and> s' = s
    \<or> (\<exists>job sz. jobs s i = Some job \<and> upload_due storage t job sz \<and> job_valid job)"
proof (cases "\<exists>job sz. jobs s i = Some job \<and> upload_due storage t job sz \<and> job_valid job")
  case False
  then show ?thesis
    using assms
    by (auto simp: completeImportUpload_def find_job of_tenant_def Let_def save_job_def upload_due_def
        split: option.splits if_splits sum.splits)
qed simp

lemma complete_run:
  assumes "good s" "jobs s i = Some job" "upload_due storage t job sz" "job_valid job"
    and "completeImportUpload db penv storage now t i s = (r, s')"
  shows "rows s' = rows s \<and> (\<exists>job'. jobs s' = (jobs s)(i \<mapsto> job') \<and> sizeBytes (j_file job') = sz \<and> j_tenantId job' = t
    \<and> (if over_ceiling penv t sz then j_status job' = GuardrailRejected \<and> (\<exists>m. r = Inl (Err (Some 413) m))
       else j_status job' = Uploaded
         \<and> r = (case st_triggerProcessingJob storage t i (the (bucketName (j_gcs job))) (the (objectPath (j_gcs job))) of
             Inl e \<Rightarrow> Inl e | Inr exec \<Rightarrow> Inr (job', exec))
         \<and> (\<forall>out exec. r = Inr (out, exec) \<longrightarrow> executionName (j_gcs job') = Some exec)))"
proof -
  have id: "j_id job = i"
    using job_id [OF assms(1,2)] .
  show ?thesis
    using assms(2-5) put_job(1,3) id
    by (cases "over_ceiling penv t sz";
        cases "st_triggerProcessingJob storage t i (the (bucketName (j_gcs job))) (the (objectPath (j_gcs job)))")
      (auto simp: completeImportUpload_def find_job Let_def save_job_def upload_due_def allowed_size)
qed

end

text \<open>
  C36. A signed upload is completed only when it is due and within bounds: either the call fails and
  nothing changes, or the job is the tenant's, still waits for its file, and the file is there.
  Then the size the storage reports decides, not the one the client declared: above the tenant's
  byte ceiling the job is refused and the answer is 413, otherwise the job is uploaded and the
  answer is that of the processing job's start. No row changes.
\<close>

theorem completeImportUpload_outcome:
  assumes "mongo_db db sessions jobs rows good" "good s"
    and "completeImportUpload db penv storage now t i s = (r, s')"
  shows "rows s' = rows s
    \<and> ((\<exists>e. r = Inl e) \<and> jobs s' = jobs s
       \<or> (\<exists>job job' sz. jobs s i = Some job \<and> upload_due storage t job sz
            \<and> jobs s' = (jobs s)(i \<mapsto> job') \<and> sizeBytes (j_file job') = sz
            \<and> (if over_ceiling penv t sz then j_status job' = GuardrailRejected \<and> (\<exists>m. r = Inl (Err (Some 413) m))
               else j_status job' = Uploaded
                 \<and> r = (case st_triggerProcessingJob storage t i (the (bucketName (j_gcs job))) (the (objectPath (j_gcs job))) of
                     Inl e \<Rightarrow> Inl e | Inr exec \<Rightarrow> Inr (job', exec)))))"
  using mongo_db.complete_due [OF assms(1,3)]
proof (elim disjE exE conjE)
  fix job sz assume "jobs s i = Some job" "upload_due storage t job sz" "job_valid job"
  then show ?thesis
    using mongo_db.complete_run [OF assms(1,2) _ _ _ assms(3), of job sz] by (auto split: if_splits)
qed auto

definition waiting_job :: import_job where
  "waiting_job = demo_job\<lparr>j_status := PendingUpload,
     j_gcs := \<lparr>objectPath = Some ''p'', bucketName = Some ''b'', executionName = None\<rparr>\<rparr>"

definition waiting_db :: list_db where
  "waiting_db = \<lparr>l_sessions = [], l_jobs = [waiting_job], l_rows = []\<rparr>"

lemma waiting: "list_ok waiting_db" "by_id j_id ''j'' (l_jobs waiting_db) = Some waiting_job"
  "job_valid waiting_job" "upload_due keyed_storage ''t'' waiting_job (Fin 9)"
  "\<not> over_ceiling (\<lambda>_. None) ''t'' (Fin 9)"
  by code_simp+

lemma waiting_run: "case completeImportUpload (list_mongo test_env) (\<lambda>_. None) keyed_storage 0 ''t'' ''j'' waiting_db of
    (Inr (job, exec), s') \<Rightarrow> exec = ''local-t-j'' | _ \<Rightarrow> False"
  by code_simp

theorem completeImportUpload_outcome_witness:
  "\<exists>job s'. completeImportUpload (list_mongo test_env) (\<lambda>_. None) keyed_storage 0 ''t'' ''j'' waiting_db = (Inr (job, ''local-t-j''), s')
     \<and> j_status job = Uploaded \<and> sizeBytes (j_file job) = Fin 9"
proof -
  obtain job s' where run: "completeImportUpload (list_mongo test_env) (\<lambda>_. None) keyed_storage 0 ''t'' ''j'' waiting_db
      = (Inr (job, ''local-t-j''), s')"
    using waiting_run by (auto split: prod.splits sum.splits)
  have sz: "sz = Fin 9" if "upload_due keyed_storage ''t'' job0 sz" for job0 sz
    using that by (auto simp: upload_due_def keyed_storage_def localFsStorageAdapter_def localFs_verifyUpload_def disk_def Let_def)
  show ?thesis
    using completeImportUpload_outcome [OF listdb.mongo_db_axioms waiting(1) run] run waiting(5)
    by (auto dest!: sz split: if_splits sum.splits)
qed

text \<open>
  When the processing job cannot be started the upload is lost: the job was already saved as
  uploaded, so the caller gets the error, and completing the upload again is refused with 409.
\<close>

theorem completeImportUpload_trigger_lost:
  assumes "mongo_db db sessions jobs rows good" "good s" "jobs s i = Some job" "job_valid job"
    and "upload_due storage t job sz" "\<not> over_ceiling penv t sz"
    and "st_triggerProcessingJob storage t i (the (bucketName (j_gcs job))) (the (objectPath (j_gcs job))) = Inl e"
  shows "\<exists>s' job'. completeImportUpload db penv storage now t i s = (Inl e, s') \<and> jobs s' = (jobs s)(i \<mapsto> job')
    \<and> j_status job' = Uploaded
    \<and> completeImportUpload db penv storage' now' t i s' = (Inl (Err (Some 409) (WrongStatus ''uploaded'')), s')"
proof -
  obtain r s' where run: "completeImportUpload db penv storage now t i s = (r, s')"
    by (cases "completeImportUpload db penv storage now t i s")
  obtain job' where job': "jobs s' = (jobs s)(i \<mapsto> job')" "j_status job' = Uploaded" "r = Inl e" "j_tenantId job' = t"
    using mongo_db.complete_run [OF assms(1-3,5,4) run] assms(5-7) by auto
  have "db_job db (id_tenant_query i t) s' = Some job'"
    using mongo_db.find_job(2) [OF assms(1)] job'(1,4) by simp
  then show ?thesis
    using run job' by (auto simp: completeImportUpload_def)
qed

definition broken_storage :: storage where
  "broken_storage = keyed_storage\<lparr>st_triggerProcessingJob := (\<lambda>_ _ _ _. Inl (Err None (StorageFailed ''run'')))\<rparr>"

lemma broken_due: "upload_due broken_storage ''t'' waiting_job (Fin 9)"
  by code_simp

theorem completeImportUpload_trigger_lost_witness:
  "\<exists>s'. completeImportUpload (list_mongo test_env) (\<lambda>_. None) broken_storage 0 ''t'' ''j'' waiting_db
       = (Inl (Err None (StorageFailed ''run'')), s')
     \<and> completeImportUpload (list_mongo test_env) (\<lambda>_. None) keyed_storage 1 ''t'' ''j'' s'
       = (Inl (Err (Some 409) (WrongStatus ''uploaded'')), s')"
proof -
  have "st_triggerProcessingJob broken_storage ''t'' ''j'' b p = Inl (Err None (StorageFailed ''run''))" for b p
    by (simp add: broken_storage_def)
  then show ?thesis
    using completeImportUpload_trigger_lost [OF listdb.mongo_db_axioms waiting(1-3) broken_due waiting(5),
        where now = 0 and storage' = keyed_storage and now' = 1] by blast
qed

lemma dedicated_Inr:
  assumes "createImportJobDedicated db penv storage t m name by declared tbl s = (Inr (job, target), s')"
  shows "hasOwnDatabase (storageMode (envTierPolicy_resolve penv t)) \<and>
    (\<exists>fmt i s1. name_format name = Inr fmt \<and> db_objectId db s = (i, s1)
      \<and> job = (blank_job i t m fmt tbl \<lparr>originalName = name, publicId = None, url = None, sizeBytes = Fin 0\<rparr> by)
            \<lparr>j_status := PendingUpload,
             j_gcs := \<lparr>objectPath = Some (ut_objectPath target), bucketName = Some (ut_bucketName target), executionName = None\<rparr>\<rparr>
      \<and> job_valid job \<and> s' = db_putJob db job s1)"
  using assms
  by (auto simp: createImportJobDedicated_def Let_def save_job_def split: if_splits sum.splits prod.splits)


lemma dedicated_run: "case createImportJobDedicated (list_mongo test_env) [''ONBOARDER_TIER_STORAGE_MODE'' \<mapsto> ''dedicated''] keyed_storage
    ''t'' ''hr'' ''a.csv'' None None None empty_db of (Inr (job, target), s') \<Rightarrow>
      ut_bucketName target \<noteq> [] \<and> ut_objectPath target \<noteq> [] | _ \<Rightarrow> False"
  by code_simp


end
