(* ===== verification/HttpProps.thy ===== *)
theory HttpProps
  imports Http ImportProps
begin

text \<open>
  Properties of the routers: whom the guard of import targets lets through, and that the partners'
  routes do what the operator's routes do.
\<close>

lemma guard_refuses:
  assumes "tenantId \<noteq> []" "md \<noteq> []" "md \<noteq> ''*''"
  shows "\<exists>c. requireMigrationTarget config denial tenantId known (Some md) ek = Some c"
  using assms
  by (auto simp: requireMigrationTarget_def guard_targets_def absent_or_empty_def split: option.split sum.split)

lemma guard_blind: "denial tenant = Inr None \<Longrightarrow> requireMigrationTarget config denial tenantId (Some tenant) None ek = None"
  by (simp add: requireMigrationTarget_def absent_or_empty_def)


definition demo_server :: "(list_db, string list) server" where
  "demo_server =
     \<lparr>sv_db = list_mongo test_env, sv_registry = demo_registry, sv_env = test_env, sv_penv = (\<lambda>_. None),
      sv_libs = two_libs, sv_storage = keyed_storage, sv_conn = demo_conn, sv_isObjectId = (\<lambda>_. True),
      sv_msg = (\<lambda>_. ''error''), sv_now = 0, sv_later = 1\<rparr>"


lemma b2b_status: "rs_status (b2b_respond ok r) = rs_status (respond ok r)"
  by (simp add: b2b_respond_def respond_def sendErr_def split: sum.split)

lemma b2b_status_map: "rs_status (respond ok (map_sum id f r)) = rs_status (b2b_respond ok r)"
  by (cases r) (simp_all add: b2b_respond_def respond_def sendErr_def)



end
