(* ===== verification/Routes.thy ===== *)
theory Routes
  imports Http
begin

text \<open>
  The routers of http/uploadRoutes.js and http/b2bUploadRoutes.js as tables: for every route its
  method, path, middlewares and handler, with the request schemas as the values the \<open>Joi\<close> builders
  are called with; and the placeholder middlewares of http/defaultMiddleware.js. What a middleware
  does to a request is a parameter, \<open>step\<close>: it passes the request on or answers it. \<open>modules\<close> is
  \<open>listTargetModules()\<close> when the file is loaded.
\<close>

subsection \<open>Request schemas\<close>

datatype joi_rule = OneOf "string list" | MaxLength nat | Hex | ExactLength nat | Integer | AtLeast nat | AtMost nat

datatype joi_type = JString "joi_rule list" | JNumber "joi_rule list" | JBoolean | JObject | JStringMap nat

text \<open>\<open>when(key, { is: true, then: required(), otherwise: optional() })\<close> is \<open>RequiredIf key\<close>.\<close>

datatype presence = Required | Optional | RequiredIf string

record joi_key =
  jk_name :: string
  jk_type :: joi_type
  jk_presence :: presence

record joi_schema =
  jo_keys :: "joi_key list"
  jo_or :: "string list"

abbreviation key :: "string \<Rightarrow> joi_type \<Rightarrow> presence \<Rightarrow> joi_key" where
  "key k ty p \<equiv> \<lparr>jk_name = k, jk_type = ty, jk_presence = p\<rparr>"

abbreviation joi_object :: "joi_key list \<Rightarrow> joi_schema" where
  "joi_object ks \<equiv> \<lparr>jo_keys = ks, jo_or = []\<rparr>"

definition createImportSchema :: "string list \<Rightarrow> joi_schema" where
  "createImportSchema modules = joi_object
     [key ''module'' (JString [OneOf modules]) Required,
      key ''fileName'' (JString [MaxLength 255]) Optional,
      key ''fileSizeBytes'' (JNumber [Integer, AtLeast 1]) Optional,
      key ''sqlTable'' (JString [MaxLength 128]) Optional]"

definition IMPORT_STATUSES :: "string list" where
  "IMPORT_STATUSES =
     [''pending_upload'', ''uploaded'', ''guardrail_rejected'', ''staged'', ''mapped'', ''validated'',
      ''committing'', ''completed'', ''completed_with_errors'', ''commit_failed'', ''failed'']"

definition listImportsQuerySchema :: joi_schema where
  "listImportsQuerySchema = joi_object
     [key ''status'' (JString [OneOf IMPORT_STATUSES]) Optional,
      key ''page'' (JNumber [Integer, AtLeast 1]) Optional,
      key ''limit'' (JNumber [Integer, AtLeast 1, AtMost 100]) Optional]"

definition object_id :: joi_type where
  "object_id = JString [Hex, ExactLength 24]"

definition importIdParamSchema :: joi_schema where
  "importIdParamSchema = joi_object [key ''id'' object_id Required]"

definition rowIdParamSchema :: joi_schema where
  "rowIdParamSchema = joi_object [key ''id'' object_id Required, key ''rowId'' object_id Required]"

definition targetSchemasQuerySchema :: "string list \<Rightarrow> joi_schema" where
  "targetSchemasQuerySchema modules = joi_object [key ''module'' (JString [OneOf modules]) Optional]"

definition mappingSuggestionsQuerySchema :: "string list \<Rightarrow> joi_schema" where
  "mappingSuggestionsQuerySchema modules = joi_object
     [key ''module'' (JString [OneOf modules]) Required, key ''entityKey'' (JString []) Required]"

definition mappingProfilesQuerySchema :: "string list \<Rightarrow> joi_schema" where
  "mappingProfilesQuerySchema modules = joi_object
     [key ''module'' (JString [OneOf modules]) Optional, key ''entityKey'' (JString []) Optional]"

definition applyMappingSchema :: joi_schema where
  "applyMappingSchema = joi_object
     [key ''entityKey'' (JString []) Required, key ''fieldMap'' (JStringMap 1) Required,
      key ''saveAsProfile'' JBoolean Optional, key ''profileLabel'' (JString []) (RequiredIf ''saveAsProfile'')]"

definition listRowsQuerySchema :: joi_schema where
  "listRowsQuerySchema = joi_object
     [key ''status'' (JString [OneOf [''unvalidated'', ''valid'', ''invalid'']]) Optional,
      key ''page'' (JNumber [Integer, AtLeast 1]) Optional,
      key ''limit'' (JNumber [Integer, AtLeast 1, AtMost 200]) Optional]"

definition patchRowSchema :: joi_schema where
  "patchRowSchema =
     \<lparr>jo_keys = [key ''mappedFields'' JObject Optional, key ''exclude'' JBoolean Optional],
      jo_or = [''mappedFields'', ''exclude'']\<rparr>"

definition createSessionSchema :: joi_schema where
  "createSessionSchema = joi_object [key ''label'' (JString [MaxLength 255]) Optional]"

definition sessionIdParamSchema :: joi_schema where
  "sessionIdParamSchema = joi_object [key ''id'' object_id Required]"

definition listSessionsQuerySchema :: joi_schema where
  "listSessionsQuerySchema = joi_object
     [key ''status'' (JString [OneOf [''pending'', ''processing'', ''completed'', ''completed_with_errors'', ''failed'']]) Optional,
      key ''page'' (JNumber [Integer, AtLeast 1]) Optional,
      key ''limit'' (JNumber [Integer, AtLeast 1, AtMost 100]) Optional]"

definition addJobSessionParamSchema :: joi_schema where
  "addJobSessionParamSchema = joi_object [key ''id'' object_id Required]"

definition addJobToSessionSchema :: "string list \<Rightarrow> joi_schema" where
  "addJobToSessionSchema modules = joi_object
     [key ''importJobId'' object_id Required, key ''module'' (JString [OneOf modules]) Required,
      key ''entityKey'' (JString []) Required]"

definition initiateImportSchema :: "string list \<Rightarrow> joi_schema" where
  "initiateImportSchema modules = joi_object
     [key ''module'' (JString [OneOf modules]) Required,
      key ''fileName'' (JString [MaxLength 255]) Required,
      key ''fileSizeBytes'' (JNumber [Integer, AtLeast 1]) Required,
      key ''sqlTable'' (JString [MaxLength 128]) Optional]"

text \<open>The partners' file repeats the other schemas; the module of its target schemas is required.\<close>

definition b2b_importIdParamSchema :: joi_schema where
  "b2b_importIdParamSchema = joi_object [key ''id'' object_id Required]"

definition b2b_listImportsQuerySchema :: joi_schema where
  "b2b_listImportsQuerySchema = joi_object
     [key ''status'' (JString [OneOf IMPORT_STATUSES]) Optional,
      key ''page'' (JNumber [Integer, AtLeast 1]) Optional,
      key ''limit'' (JNumber [Integer, AtLeast 1, AtMost 100]) Optional]"

definition b2b_targetSchemasQuerySchema :: "string list \<Rightarrow> joi_schema" where
  "b2b_targetSchemasQuerySchema modules = joi_object [key ''module'' (JString [OneOf modules]) Required]"

definition b2b_applyMappingSchema :: joi_schema where
  "b2b_applyMappingSchema = joi_object
     [key ''entityKey'' (JString []) Required, key ''fieldMap'' (JStringMap 1) Required,
      key ''saveAsProfile'' JBoolean Optional, key ''profileLabel'' (JString []) (RequiredIf ''saveAsProfile'')]"

subsection \<open>Middlewares and routes\<close>

datatype request_part = Params | Query | Body

datatype middleware =
    Authenticate
  | Authorize string
  | B2bInboundAuth
  | B2bScope string string
  | RequireTarget string "string option" request_part
  | UploadSingle string
  | Check request_part joi_schema

text \<open>\<open>PERMISSIONS\<close> of defaultMiddleware.js.\<close>

definition MANAGE_MIGRATIONS :: string where
  "MANAGE_MIGRATIONS = ''manage_migrations''"

definition VIEW_MIGRATIONS :: string where
  "VIEW_MIGRATIONS = ''view_migrations''"

text \<open>The handlers, by the call of the service each makes.\<close>

datatype endpoint =
    CreateImport | CompleteUpload | ListImports | GetImport | TargetSchemas | SuggestMapping | ApplyMapping
  | MappingProfiles | ValidateImport | ListRows | PatchRow | CommitImport
  | CreateSession | ListSessions | GetSession | AddSessionJob | ComputeOrder | PopulateExternalIds

datatype http_method = GET | POST | PATCH

datatype segment = Lit string | Par string

record route =
  rt_method :: http_method
  rt_path :: "segment list"
  rt_chain :: "middleware list"
  rt_endpoint :: endpoint

abbreviation route :: "http_method \<Rightarrow> segment list \<Rightarrow> middleware list \<Rightarrow> endpoint \<Rightarrow> route" where
  "route m p ms e \<equiv> \<lparr>rt_method = m, rt_path = p, rt_chain = ms, rt_endpoint = e\<rparr>"

abbreviation an_import :: "segment list" where
  "an_import \<equiv> [Lit ''imports'', Par ''id'']"

abbreviation a_session :: "segment list" where
  "a_session \<equiv> [Lit ''sessions'', Par ''id'']"

subsection \<open>The operator's router\<close>

definition route_create_import :: "string list \<Rightarrow> route" where
  "route_create_import modules = route POST [Lit ''imports'']
     [Authorize MANAGE_MIGRATIONS, RequireTarget ''module'' None Body, UploadSingle ''file'', Check Body (createImportSchema modules)] CreateImport"

definition route_complete_upload :: "route" where
  "route_complete_upload = route POST (an_import @ [Lit ''upload-complete''])
     [Authorize MANAGE_MIGRATIONS, Check Params importIdParamSchema] CompleteUpload"

definition route_list_imports :: "route" where
  "route_list_imports = route GET [Lit ''imports'']
     [Authorize VIEW_MIGRATIONS, Check Query listImportsQuerySchema] ListImports"

definition route_get_import :: "route" where
  "route_get_import = route GET an_import
     [Authorize VIEW_MIGRATIONS, Check Params importIdParamSchema] GetImport"

definition route_target_schemas :: "string list \<Rightarrow> route" where
  "route_target_schemas modules = route GET [Lit ''target-schemas'']
     [Authorize VIEW_MIGRATIONS, RequireTarget ''module'' None Query, Check Query (targetSchemasQuerySchema modules)] TargetSchemas"

definition route_mapping_suggestions :: "string list \<Rightarrow> route" where
  "route_mapping_suggestions modules = route GET (an_import @ [Lit ''mapping-suggestions''])
     [Authorize MANAGE_MIGRATIONS, RequireTarget ''module'' (Some ''entityKey'') Query, Check Params importIdParamSchema, Check Query (mappingSuggestionsQuerySchema modules)] SuggestMapping"

definition route_apply_mapping :: "route" where
  "route_apply_mapping = route POST (an_import @ [Lit ''mapping''])
     [Authorize MANAGE_MIGRATIONS, RequireTarget ''module'' (Some ''entityKey'') Body, Check Params importIdParamSchema, Check Body applyMappingSchema] ApplyMapping"

definition route_mapping_profiles :: "string list \<Rightarrow> route" where
  "route_mapping_profiles modules = route GET [Lit ''mapping-profiles'']
     [Authorize VIEW_MIGRATIONS, Check Query (mappingProfilesQuerySchema modules)] MappingProfiles"

definition route_validate_import :: "route" where
  "route_validate_import = route POST (an_import @ [Lit ''validate''])
     [Authorize MANAGE_MIGRATIONS, Check Params importIdParamSchema] ValidateImport"

definition route_list_rows :: "route" where
  "route_list_rows = route GET (an_import @ [Lit ''rows''])
     [Authorize VIEW_MIGRATIONS, Check Params importIdParamSchema, Check Query listRowsQuerySchema] ListRows"

definition route_patch_row :: "route" where
  "route_patch_row = route PATCH (an_import @ [Lit ''rows'', Par ''rowId''])
     [Authorize MANAGE_MIGRATIONS, Check Params rowIdParamSchema, Check Body patchRowSchema] PatchRow"

definition route_commit_import :: "route" where
  "route_commit_import = route POST (an_import @ [Lit ''commit''])
     [Authorize MANAGE_MIGRATIONS, Check Params importIdParamSchema] CommitImport"

definition route_create_session :: "route" where
  "route_create_session = route POST [Lit ''sessions'']
     [Authorize MANAGE_MIGRATIONS, Check Body createSessionSchema] CreateSession"

definition route_list_sessions :: "route" where
  "route_list_sessions = route GET [Lit ''sessions'']
     [Authorize VIEW_MIGRATIONS, Check Query listSessionsQuerySchema] ListSessions"

definition route_get_session :: "route" where
  "route_get_session = route GET a_session
     [Authorize VIEW_MIGRATIONS, Check Params sessionIdParamSchema] GetSession"

definition route_add_session_job :: "string list \<Rightarrow> route" where
  "route_add_session_job modules = route POST (a_session @ [Lit ''jobs''])
     [Authorize MANAGE_MIGRATIONS, RequireTarget ''module'' (Some ''entityKey'') Body, Check Params addJobSessionParamSchema, Check Body (addJobToSessionSchema modules)] AddSessionJob"

definition route_compute_order :: "route" where
  "route_compute_order = route POST (a_session @ [Lit ''compute-order''])
     [Authorize MANAGE_MIGRATIONS, Check Params sessionIdParamSchema] ComputeOrder"

definition route_populate_external_ids :: "route" where
  "route_populate_external_ids = route POST (a_session @ [Lit ''populate-external-ids''])
     [Authorize MANAGE_MIGRATIONS, Check Params sessionIdParamSchema] PopulateExternalIds"

definition operator_routes :: "string list \<Rightarrow> route list" where
  "operator_routes modules =
     [route_create_import modules, route_complete_upload, route_list_imports,
      route_get_import, route_target_schemas modules, route_mapping_suggestions modules,
      route_apply_mapping, route_mapping_profiles modules, route_validate_import,
      route_list_rows, route_patch_row, route_commit_import,
      route_create_session, route_list_sessions, route_get_session,
      route_add_session_job modules, route_compute_order, route_populate_external_ids]"

subsection \<open>The partners' router\<close>

definition route_b2b_create_import :: "string list \<Rightarrow> route" where
  "route_b2b_create_import modules = route POST [Lit ''imports'']
     [B2bScope ''migration'' ''write'', Check Body (initiateImportSchema modules), RequireTarget ''module'' None Body] CreateImport"

definition route_b2b_complete_upload :: "route" where
  "route_b2b_complete_upload = route POST (an_import @ [Lit ''upload-complete''])
     [B2bScope ''migration'' ''write'', Check Params b2b_importIdParamSchema] CompleteUpload"

definition route_b2b_apply_mapping :: "route" where
  "route_b2b_apply_mapping = route POST (an_import @ [Lit ''mapping''])
     [B2bScope ''migration'' ''write'', Check Params b2b_importIdParamSchema, Check Body b2b_applyMappingSchema] ApplyMapping"

definition route_b2b_validate_import :: "route" where
  "route_b2b_validate_import = route POST (an_import @ [Lit ''validate''])
     [B2bScope ''migration'' ''write'', Check Params b2b_importIdParamSchema] ValidateImport"

definition route_b2b_commit_import :: "route" where
  "route_b2b_commit_import = route POST (an_import @ [Lit ''commit''])
     [B2bScope ''migration'' ''write'', Check Params b2b_importIdParamSchema] CommitImport"

definition route_b2b_list_imports :: "route" where
  "route_b2b_list_imports = route GET [Lit ''imports'']
     [B2bScope ''migration'' ''read'', Check Query b2b_listImportsQuerySchema] ListImports"

definition route_b2b_get_import :: "route" where
  "route_b2b_get_import = route GET an_import
     [B2bScope ''migration'' ''read'', Check Params b2b_importIdParamSchema] GetImport"

definition route_b2b_target_schemas :: "string list \<Rightarrow> route" where
  "route_b2b_target_schemas modules = route GET [Lit ''target-schemas'']
     [B2bScope ''migration'' ''read'', Check Query (b2b_targetSchemasQuerySchema modules), RequireTarget ''module'' None Query] TargetSchemas"

definition b2b_routes :: "string list \<Rightarrow> route list" where
  "b2b_routes modules =
     [route_b2b_create_import modules, route_b2b_complete_upload, route_b2b_apply_mapping,
      route_b2b_validate_import, route_b2b_commit_import, route_b2b_list_imports,
      route_b2b_get_import, route_b2b_target_schemas modules]"

subsection \<open>Serving a request\<close>

text \<open>
  A request as the chain sees it. \<open>hq_params\<close> are the values the path was matched with; the
  \<open>validated\<close> fields are what the placeholders of defaultMiddleware.js set; \<open>hq_user\<close> is the id of the
  operator, or of the partner's credential.
\<close>

record http_request =
  hq_method :: http_method
  hq_path :: "string list"
  hq_params :: obj
  hq_query :: obj
  hq_body :: obj
  hq_tenantId :: id
  hq_user :: "id option"
  hq_validatedParams :: "obj option"
  hq_validatedQuery :: "obj option"
  hq_validatedBody :: "obj option"

fun match_path :: "segment list \<Rightarrow> string list \<Rightarrow> obj option" where
  "match_path [] [] = Some []"
| "match_path (Lit l # ss) (p # ps) = (if l = p then match_path ss ps else None)"
| "match_path (Par n # ss) (p # ps) = map_option ((#) (n, VStr p)) (match_path ss ps)"
| "match_path _ _ = None"

fun find_route :: "route list \<Rightarrow> http_method \<Rightarrow> string list \<Rightarrow> (route \<times> obj) option" where
  "find_route [] m p = None"
| "find_route (r # rs) m p =
     (case if rt_method r = m then match_path (rt_path r) p else None of
        Some params \<Rightarrow> Some (r, params)
      | None \<Rightarrow> find_route rs m p)"

text \<open>
  The middlewares of the router run first, then those of the route, in order; the first that answers
  ends the request. \<open>None\<close> is a request no route takes.
\<close>

definition serve ::
  "(middleware \<Rightarrow> http_request \<Rightarrow> 'a + http_request) \<Rightarrow> middleware list \<Rightarrow> route list \<Rightarrow> http_request
     \<Rightarrow> ('a + endpoint \<times> http_request) option" where
  "serve step uses routes q =
     (case try_fold step uses q of
        Inl a \<Rightarrow> Some (Inl a)
      | Inr q \<Rightarrow>
          (case find_route routes (hq_method q) (hq_path q) of
             None \<Rightarrow> None
           | Some (r, params) \<Rightarrow>
               Some (map_sum id (Pair (rt_endpoint r)) (try_fold step (rt_chain r) (q\<lparr>hq_params := params\<rparr>)))))"

definition operator_router ::
  "(middleware \<Rightarrow> http_request \<Rightarrow> 'a + http_request) \<Rightarrow> string list \<Rightarrow> http_request
     \<Rightarrow> ('a + endpoint \<times> http_request) option" where
  "operator_router step modules = serve step [Authenticate] (operator_routes modules)"

definition b2b_router ::
  "(middleware \<Rightarrow> http_request \<Rightarrow> 'a + http_request) \<Rightarrow> string list \<Rightarrow> http_request
     \<Rightarrow> ('a + endpoint \<times> http_request) option" where
  "b2b_router step modules = serve step [B2bInboundAuth] (b2b_routes modules)"

subsection \<open>The placeholder middlewares\<close>

definition default_authenticate :: "http_request \<Rightarrow> http_request" where
  "default_authenticate q =
     q\<lparr>hq_user := (case hq_user q of None \<Rightarrow> Some ''standalone-actor'' | Some u \<Rightarrow> Some u)\<rparr>"

definition default_authorize :: "string \<Rightarrow> http_request \<Rightarrow> http_request" where
  "default_authorize permission q = q"

definition default_validateParams :: "joi_schema \<Rightarrow> http_request \<Rightarrow> http_request" where
  "default_validateParams schema q = q\<lparr>hq_validatedParams := Some (hq_params q)\<rparr>"

definition default_validateQuery :: "joi_schema \<Rightarrow> http_request \<Rightarrow> http_request" where
  "default_validateQuery schema q = q\<lparr>hq_validatedQuery := Some (hq_query q)\<rparr>"

definition default_validationMiddleware :: "joi_schema \<Rightarrow> http_request \<Rightarrow> http_request" where
  "default_validationMiddleware schema q = q\<lparr>hq_validatedBody := Some (hq_body q)\<rparr>"

text \<open>The two middlewares the file does not replace, the guard of targets and multer, stay parameters.\<close>

definition default_step ::
  "(middleware \<Rightarrow> http_request \<Rightarrow> 'a + http_request) \<Rightarrow> middleware \<Rightarrow> http_request \<Rightarrow> 'a + http_request" where
  "default_step other m q =
     (case m of
        Authenticate \<Rightarrow> Inr (default_authenticate q)
      | Authorize p \<Rightarrow> Inr (default_authorize p q)
      | Check Params s \<Rightarrow> Inr (default_validateParams s q)
      | Check Query s \<Rightarrow> Inr (default_validateQuery s q)
      | Check Body s \<Rightarrow> Inr (default_validationMiddleware s q)
      | _ \<Rightarrow> other m q)"

subsection \<open>Who reaches a handler\<close>

text \<open>The middlewares of the route that was taken have all passed the request on.\<close>

lemma try_fold_passed:
  assumes "try_fold step ms q = Inr q'" "m \<in> set ms"
  shows "\<exists>q1 q2 before after. ms = before @ m # after \<and> try_fold step before q = Inr q1
    \<and> step m q1 = Inr q2 \<and> try_fold step after q2 = Inr q'"
proof -
  obtain bs as where ms: "ms = bs @ m # as"
    using assms(2) by (auto dest: split_list)
  then show ?thesis
    using assms(1) by (auto simp: try_fold_append split: sum.splits)
qed

lemma find_route_member: "find_route rs m p = Some (r, params) \<Longrightarrow> r \<in> set rs"
  by (induction rs m p rule: find_route.induct) (auto split: option.splits if_splits)

lemma serve_reaches:
  assumes "serve step uses routes q = Some (Inr (e, q'))"
  obtains r params q1 where "r \<in> set routes" "rt_endpoint r = e" "try_fold step uses q = Inr q1"
    "try_fold step (rt_chain r) (q1\<lparr>hq_params := params\<rparr>) = Inr q'"
proof -
  from assms obtain r params q1 where q1: "try_fold step uses q = Inr q1"
    "find_route routes (hq_method q1) (hq_path q1) = Some (r, params)"
    "map_sum id (Pair (rt_endpoint r)) (try_fold step (rt_chain r) (q1\<lparr>hq_params := params\<rparr>)) = Inr (e, q')"
    by (auto simp: serve_def split: sum.splits option.splits)
  then show thesis
    using that [OF find_route_member] by (cases "try_fold step (rt_chain r) (q1\<lparr>hq_params := params\<rparr>)") auto
qed

text \<open>The handlers that only list or show; suggesting a mapping belongs to managing an import.\<close>

definition shows_only :: "endpoint \<Rightarrow> bool" where
  "shows_only e \<longleftrightarrow> e \<in> {ListImports, GetImport, TargetSchemas, MappingProfiles, ListRows, ListSessions, GetSession}"

definition needed :: "endpoint \<Rightarrow> string" where
  "needed e = (if shows_only e then VIEW_MIGRATIONS else MANAGE_MIGRATIONS)"

lemmas operator_route_defs =
  route_create_import_def route_complete_upload_def route_list_imports_def route_get_import_def
  route_target_schemas_def route_mapping_suggestions_def route_apply_mapping_def route_mapping_profiles_def
  route_validate_import_def route_list_rows_def route_patch_row_def route_commit_import_def
  route_create_session_def route_list_sessions_def route_get_session_def route_add_session_job_def
  route_compute_order_def route_populate_external_ids_def

lemmas b2b_route_defs =
  route_b2b_create_import_def route_b2b_complete_upload_def route_b2b_apply_mapping_def
  route_b2b_validate_import_def route_b2b_commit_import_def route_b2b_list_imports_def
  route_b2b_get_import_def route_b2b_target_schemas_def

definition needed_scope :: "endpoint \<Rightarrow> string" where
  "needed_scope e = (if shows_only e then ''read'' else ''write'')"

lemma operator_permissions:
  "r \<in> set (operator_routes modules) \<Longrightarrow>
     Authorize (needed (rt_endpoint r)) \<in> set (rt_chain r) \<and> set (rt_chain r) \<inter> {Authenticate, B2bInboundAuth} = {}"
proof -
  have "list_all (\<lambda>r. Authorize (needed (rt_endpoint r)) \<in> set (rt_chain r)
      \<and> Authenticate \<notin> set (rt_chain r) \<and> B2bInboundAuth \<notin> set (rt_chain r)) (operator_routes modules)"
    by (simp add: operator_routes_def operator_route_defs needed_def shows_only_def)
  then show "r \<in> set (operator_routes modules) \<Longrightarrow> ?thesis"
    by (auto simp: list_all_iff)
qed

lemma b2b_scopes:
  "r \<in> set (b2b_routes modules) \<Longrightarrow>
     B2bScope ''migration'' (needed_scope (rt_endpoint r)) \<in> set (rt_chain r)
     \<and> set (rt_chain r) \<inter> {Authenticate, B2bInboundAuth} = {}"
proof -
  have "list_all (\<lambda>r. B2bScope ''migration'' (needed_scope (rt_endpoint r)) \<in> set (rt_chain r)
      \<and> Authenticate \<notin> set (rt_chain r) \<and> B2bInboundAuth \<notin> set (rt_chain r)) (b2b_routes modules)"
    by (simp add: b2b_routes_def b2b_route_defs needed_scope_def shows_only_def)
  then show "r \<in> set (b2b_routes modules) \<Longrightarrow> ?thesis"
    by (auto simp: list_all_iff)
qed

lemma serve_passed:
  assumes "serve step [auth] routes q = Some (Inr (e, q'))"
    and keeps: "\<And>m q q'. m \<notin> {Authenticate, B2bInboundAuth} \<Longrightarrow> step m q = Inr q' \<Longrightarrow> hq_user q' = hq_user q"
    and routes: "\<And>r. r \<in> set routes \<Longrightarrow>
      guard (rt_endpoint r) \<in> set (rt_chain r) \<and> set (rt_chain r) \<inter> {Authenticate, B2bInboundAuth} = {}"
  shows "\<exists>q1 q2 q3. step auth q = Inr q1 \<and> step (guard e) q2 = Inr q3 \<and> hq_user q1 = hq_user q' \<and> hq_user q2 = hq_user q'"
proof -
  obtain r params q1 where r: "r \<in> set routes" "rt_endpoint r = e" "try_fold step [auth] q = Inr q1"
    "try_fold step (rt_chain r) (q1\<lparr>hq_params := params\<rparr>) = Inr q'"
    using serve_reaches [OF assms(1)] .
  then obtain q2 q3 bs as where pass: "rt_chain r = bs @ guard e # as" "try_fold step bs (q1\<lparr>hq_params := params\<rparr>) = Inr q2"
    "step (guard e) q2 = Inr q3" "try_fold step as q3 = Inr q'"
    using try_fold_passed [OF r(4)] routes [OF r(1)] by metis
  have who: "hq_user y = hq_user x" if "set ms \<subseteq> set (rt_chain r)" "try_fold step ms x = Inr y" for ms x y
    using that(2) by (rule try_fold_invariant [where P = "\<lambda>z. hq_user z = hq_user x"])
      (use keeps that(1) routes [OF r(1)] in \<open>auto simp: disjoint_iff subset_iff\<close>)
  have "hq_user q2 = hq_user q1" "hq_user q' = hq_user q3" "hq_user q' = hq_user q1"
    using who [OF _ pass(2)] who [OF _ pass(4)] who [OF _ r(4)] pass(1) by auto
  then show ?thesis
    using r(3) pass(3) by (auto split: sum.splits)
qed

text \<open>
  C33. Whatever the middlewares do, as long as only the authentication decides who the caller is: a
  request that reaches a handler of the operator's router was authenticated, and its user passed the
  permission check for managing migrations, or for viewing them when the handler only lists or shows; one
  that reaches a handler of the partners' router was authenticated too, and its credential holds the
  write scope, or the read scope when the handler only lists or shows.
\<close>

theorem handlers_authorized:
  assumes "\<And>m q q'. m \<notin> {Authenticate, B2bInboundAuth} \<Longrightarrow> step m q = Inr q' \<Longrightarrow> hq_user q' = hq_user q"
    and "\<And>p q q'. step (Authorize p) q = Inr q' \<Longrightarrow> may p (hq_user q)"
    and "\<And>scope q q'. step (B2bScope ''migration'' scope) q = Inr q' \<Longrightarrow> holds scope (hq_user q)"
  shows "(operator_router step modules q = Some (Inr (e, q')) \<longrightarrow>
      (\<exists>q1. step Authenticate q = Inr q1 \<and> hq_user q1 = hq_user q')
      \<and> may (if shows_only e then VIEW_MIGRATIONS else MANAGE_MIGRATIONS) (hq_user q'))
    \<and> (b2b_router step modules q = Some (Inr (e, q')) \<longrightarrow>
      (\<exists>q1. step B2bInboundAuth q = Inr q1 \<and> hq_user q1 = hq_user q')
      \<and> holds (if shows_only e then ''read'' else ''write'') (hq_user q'))"
proof -
  have "(\<exists>q1. step Authenticate q = Inr q1 \<and> hq_user q1 = hq_user q') \<and> may (needed e) (hq_user q')"
    if "operator_router step modules q = Some (Inr (e, q'))"
    using serve_passed [OF that [unfolded operator_router_def], where guard = "\<lambda>e. Authorize (needed e)"]
      assms(1,2) operator_permissions by metis
  moreover have "(\<exists>q1. step B2bInboundAuth q = Inr q1 \<and> hq_user q1 = hq_user q') \<and> holds (needed_scope e) (hq_user q')"
    if "b2b_router step modules q = Some (Inr (e, q'))"
    using serve_passed [OF that [unfolded b2b_router_def], where guard = "\<lambda>e. B2bScope ''migration'' (needed_scope e)"]
      assms(1,3) b2b_scopes by metis
  ultimately show ?thesis
    by (auto simp: needed_def needed_scope_def)
qed

text \<open>Middlewares that know one user and one credential.\<close>

definition known_caller :: "middleware \<Rightarrow> http_request \<Rightarrow> nat + http_request" where
  "known_caller m q =
     (case m of
        Authenticate \<Rightarrow> if hq_user q = None then Inl 401 else Inr q
      | B2bInboundAuth \<Rightarrow> if hq_user q = None then Inl 401 else Inr q
      | Authorize p \<Rightarrow> if hq_user q = Some ''admin'' then Inr q else Inl 403
      | B2bScope r scope \<Rightarrow> if hq_user q = Some ''admin'' then Inr q else Inl 403
      | _ \<Rightarrow> Inr q)"

definition commit_request :: "id \<Rightarrow> http_request" where
  "commit_request user =
     \<lparr>hq_method = POST, hq_path = [''imports'', ''1'', ''commit''], hq_params = [], hq_query = [], hq_body = [],
      hq_tenantId = ''t'', hq_user = Some user, hq_validatedParams = None, hq_validatedQuery = None, hq_validatedBody = None\<rparr>"

theorem handlers_authorized_witness:
  "(\<exists>q'. operator_router known_caller [''hr''] (commit_request ''admin'') = Some (Inr (CommitImport, q'))
      \<and> hq_user q' = Some ''admin'')
   \<and> operator_router known_caller [''hr''] (commit_request ''guest'') = Some (Inl 403)"
proof -
  have "case operator_router known_caller [''hr''] (commit_request ''admin'') of
      Some (Inr (CommitImport, q')) \<Rightarrow> True | _ \<Rightarrow> False"
    by code_simp
  then obtain q' where q': "operator_router known_caller [''hr''] (commit_request ''admin'') = Some (Inr (CommitImport, q'))"
    by (auto split: option.splits sum.splits prod.splits endpoint.splits)
  have "known_caller m q = Inr q1 \<Longrightarrow> hq_user q1 = hq_user q" for m q q1
    by (auto simp: known_caller_def split: middleware.splits if_splits)
  moreover have "hq_user q = Some ''admin''" if "known_caller (Authorize p) q = Inr q1" for p q q1
    using that by (simp add: known_caller_def split: if_splits)
  moreover have "hq_user q = Some ''admin''" if "known_caller (B2bScope ''migration'' scope) q = Inr q1" for scope q q1
    using that by (simp add: known_caller_def split: if_splits)
  ultimately have "hq_user q' = Some ''admin''"
    using handlers_authorized [where step = known_caller and may = "\<lambda>_ u. u = Some ''admin''"
        and holds = "\<lambda>_ u. u = Some ''admin''", THEN conjunct1, rule_format, OF _ _ _ q'] by blast
  moreover have "operator_router known_caller [''hr''] (commit_request ''guest'') = Some (Inl 403)"
    by code_simp
  ultimately show ?thesis
    using q' by blast
qed

text \<open>
  The partners' mapping route is not guarded by the tenant's entitlements, the operator's is; neither
  router guards validating and committing.
\<close>

lemma mapping_guards:
  "RequireTarget ''module'' (Some ''entityKey'') Body \<in> set (rt_chain route_apply_mapping)"
  "RequireTarget md ek part \<notin> set (rt_chain route_b2b_apply_mapping)"
  "RequireTarget md ek part \<notin> set (rt_chain route_commit_import)"
  "RequireTarget md ek part \<notin> set (rt_chain route_b2b_commit_import)"
  by (simp_all add: operator_route_defs b2b_route_defs)

end
