(* ===== verification/Wiring.thy ===== *)
theory Wiring
  imports Pipeline Routes
begin

text \<open>
  How the processes are put together: the connection resolvers of topology/, the BullMQ adapter and the
  commit worker with the module-level variables they keep, the event bus and the logger of utils/, and
  the development server of http/swaggerServer.js. Drivers, Redis and the console are parameters: a
  connection is what \<open>connect\<close> answers, a line on the console is a value.
\<close>

subsection \<open>Connections\<close>

record connect_options =
  serverSelectionTimeoutMS :: nat
  socketTimeoutMS :: nat
  maxPoolSize :: nat

text \<open>\<open>mongoose\<close> is the default connection.\<close>

definition singleConnectionResolver_resolve :: "process_env \<Rightarrow> 'c \<Rightarrow> id \<Rightarrow> app_error err + 'c \<times> string" where
  "singleConnectionResolver_resolve penv mongoose tenantId =
     Inr (mongoose, env_str penv ''ONBOARDER_TIER_STORAGE_MODE'' ''shared'')"

definition mongoUri :: "process_env \<Rightarrow> string" where
  "mongoUri penv = env_str penv ''MONGO_URI'' (env_str penv ''MONGODB_URI'' [])"

definition mongooseTenantAdapter_resolve ::
  "process_env \<Rightarrow> (string \<Rightarrow> connect_options \<Rightarrow> app_error err + 'c) \<Rightarrow> 'c \<Rightarrow> id \<Rightarrow> app_error err + 'c \<times> string" where
  "mongooseTenantAdapter_resolve penv connect mongoose tenantId =
     (if mongoUri penv \<noteq> []
      then (case connect (mongoUri penv) \<lparr>serverSelectionTimeoutMS = 10000, socketTimeoutMS = 45000, maxPoolSize = 10\<rparr> of
          Inl e \<Rightarrow> Inl e
        | Inr conn \<Rightarrow> Inr (conn, env_str penv ''ONBOARDER_TIER_STORAGE_MODE'' ''dedicated''))
      else singleConnectionResolver_resolve penv mongoose tenantId)"

definition mongooseTenantAdapter_hasOwnDatabase :: "string \<Rightarrow> bool" where
  "mongooseTenantAdapter_hasOwnDatabase mode \<longleftrightarrow> mode = ''dedicated'' \<or> mode = ''byod''"

datatype resolver = SingleResolver | TenantResolver

text \<open>
  The resolver \<open>buildAdapters\<close> chooses. The name it imports for \<open>mongoose-tenant\<close> is not exported by
  topology/ConnectionResolver.js, so destructuring the module gives undefined, here \<open>None\<close>.
\<close>

definition chosen_resolver :: "process_env \<Rightarrow> resolver option" where
  "chosen_resolver penv =
     (if env_str penv ''CONNECTION_ADAPTER'' ''single'' = ''mongoose-tenant'' then None else Some SingleResolver)"

definition resolveTenantConnection ::
  "process_env \<Rightarrow> (string \<Rightarrow> connect_options \<Rightarrow> app_error err + 'c) \<Rightarrow> 'c \<Rightarrow> id \<Rightarrow> resolver option
     \<Rightarrow> app_error err + 'c \<times> string" where
  "resolveTenantConnection penv connect mongoose tenantId connectionResolver =
     (case connectionResolver of
        Some TenantResolver \<Rightarrow> mongooseTenantAdapter_resolve penv connect mongoose tenantId
      | _ \<Rightarrow> singleConnectionResolver_resolve penv mongoose tenantId)"

text \<open>The entrypoint works on the default connection whatever its environment asks for.\<close>

lemma entry_connection:
  "resolveTenantConnection penv connect mongoose tenantId (chosen_resolver penv)
     = Inr (mongoose, env_str penv ''ONBOARDER_TIER_STORAGE_MODE'' ''shared'')"
  by (simp add: resolveTenantConnection_def chosen_resolver_def singleConnectionResolver_resolve_def)

subsection \<open>The BullMQ queue and the commit worker\<close>

record job_options =
  jo_attempts :: nat
  jo_backoffDelay :: nat
  jo_keepCompleted :: nat
  jo_keepFailed :: nat

record queue =
  qu_name :: string
  qu_redis :: string
  qu_options :: job_options

definition getRedisUrl :: "process_env \<Rightarrow> string" where
  "getRedisUrl penv = env_str penv ''REDIS_URL'' ''redis://localhost:6379''"

definition getQueueName :: "process_env \<Rightarrow> string" where
  "getQueueName penv = env_str penv ''QUEUE_NAME'' ''onboarder-migration-commit''"

text \<open>\<open>_queue\<close> is the adapter's variable: the queue is made at the first use and kept.\<close>

definition getQueue :: "process_env \<Rightarrow> queue option \<Rightarrow> queue \<times> queue option" where
  "getQueue penv q =
     (case q of
        Some queue \<Rightarrow> (queue, q)
      | None \<Rightarrow>
          let queue = \<lparr>qu_name = getQueueName penv, qu_redis = getRedisUrl penv,
                qu_options = \<lparr>jo_attempts = 3, jo_backoffDelay = 5000, jo_keepCompleted = 200, jo_keepFailed = 100\<rparr>\<rparr>
          in (queue, Some queue))"

definition bullmq_enqueue :: "id \<Rightarrow> id \<Rightarrow> app_error err + unit" where
  "bullmq_enqueue tenantId importJobId = enqueueMigrationCommit tenantId importJobId"

text \<open>The interface's \<open>startConsumer\<close> is a placeholder.\<close>

definition bullmq_startConsumer :: "('h \<Rightarrow> unit) \<Rightarrow> queue option \<Rightarrow> queue option" where
  "bullmq_startConsumer handler q = q"

definition bullmq_stopConsumer :: "queue option \<Rightarrow> queue option" where
  "bullmq_stopConsumer q = None"

record worker =
  wk_queue :: string
  wk_redis :: string
  wk_concurrency :: nat

text \<open>
  \<open>_worker\<close> is the worker's variable. \<open>loaded\<close> is the environment when the module was loaded, which is
  when it reads the names.
\<close>

definition startMigrationCommitWorker :: "process_env \<Rightarrow> worker option \<Rightarrow> worker \<times> worker option" where
  "startMigrationCommitWorker loaded wk =
     (case wk of
        Some worker \<Rightarrow> (worker, wk)
      | None \<Rightarrow>
          let worker = \<lparr>wk_queue = env_str loaded ''QUEUE_NAME'' ''onboarder-migration-commit'',
                wk_redis = env_str loaded ''REDIS_URL'' ''redis://localhost:6379'', wk_concurrency = 2\<rparr>
          in (worker, Some worker))"

definition stopMigrationCommitWorker :: "worker option \<Rightarrow> worker option" where
  "stopMigrationCommitWorker wk = None"

lemma worker_serves_queue:
  "wk_queue (fst (startMigrationCommitWorker penv None)) = qu_name (fst (getQueue penv None))"
  "wk_redis (fst (startMigrationCommitWorker penv None)) = qu_redis (fst (getQueue penv None))"
  by (simp_all add: startMigrationCommitWorker_def getQueue_def getQueueName_def getRedisUrl_def Let_def)

lemma worker_started_once:
  "startMigrationCommitWorker loaded wk = (worker, wk') \<Longrightarrow> startMigrationCommitWorker loaded' wk' = (worker, wk')"
  by (auto simp: startMigrationCommitWorker_def Let_def split: option.splits)

subsection \<open>Console\<close>

datatype console = ConsoleLog string | ConsoleWarn string | ConsoleError string

text \<open>\<open>stringify\<close> is \<open>JSON.stringify\<close>.\<close>

definition log_line :: "(val \<Rightarrow> string) \<Rightarrow> string \<Rightarrow> string \<Rightarrow> val option \<Rightarrow> console" where
  "log_line stringify level msg meta =
     (let line = (case meta of
            Some v \<Rightarrow> if v = VNull then ''[onboarder] '' @ msg else ''[onboarder] '' @ msg @ '' '' @ stringify v
          | None \<Rightarrow> ''[onboarder] '' @ msg)
      in if level = ''error'' then ConsoleError line
         else if level = ''warn'' then ConsoleWarn line
         else ConsoleLog line)"

definition consoleEventBus_emit :: "(val \<Rightarrow> string) \<Rightarrow> string \<Rightarrow> val \<Rightarrow> console" where
  "consoleEventBus_emit stringify eventType payload = ConsoleLog (''[event] '' @ eventType @ '' '' @ stringify payload)"

subsection \<open>The development server\<close>

definition standalone_tenant :: "process_env \<Rightarrow> http_request \<Rightarrow> http_request" where
  "standalone_tenant penv q = q\<lparr>hq_tenantId := env_str penv ''TENANT_ID'' ''standalone''\<rparr>"

definition PORT :: "process_env \<Rightarrow> string" where
  "PORT penv = env_str penv ''PORT'' ''3099''"

text \<open>
  It names a tenant in every request, so the guard of import targets always looks the tenant up; with no
  such function every guarded route is refused.
\<close>

lemma standalone_refused:
  "requireMigrationTarget (\<lambda>_. Inl e) denial (hq_tenantId (standalone_tenant penv q)) None moduleName entityKey
     = Some ''TENANT_RESOLUTION_FAILED''"
  by (auto simp: requireMigrationTarget_def standalone_tenant_def env_str_def split: option.split)

end
