(* ===== verification/Wizard.thy ===== *)
theory Wizard
  imports JsValue
begin

text \<open>
  packages/react-ui: the import wizard. The state is App.jsx's (the step and the data of the wizard)
  together with the local state of the one step component that is mounted; the handlers of the
  components, with the conditions under which the page offers them, are the events. A timer is a
  callback a component instance has pending; the demo's answers are those of api/mockData.js. Markup
  and styles are not modelled.
\<close>

subsection \<open>The demo's data\<close>

record ui_field =
  uf_key :: string
  uf_label :: string
  uf_type :: string
  uf_required :: bool
  uf_options :: "string list"

record ui_entity =
  ue_entityKey :: string
  ue_label :: string
  ue_fields :: "ui_field list"

record ui_module =
  um_module :: string
  um_label :: string
  um_entities :: "ui_entity list"

abbreviation ui_field :: "string \<Rightarrow> string \<Rightarrow> string \<Rightarrow> bool \<Rightarrow> ui_field" where
  "ui_field k l t r \<equiv> \<lparr>uf_key = k, uf_label = l, uf_type = t, uf_required = r, uf_options = []\<rparr>"

definition mockModules :: "ui_module list" where
  "mockModules =
     [\<lparr>um_module = ''hr'', um_label = ''HR'', um_entities =
        [\<lparr>ue_entityKey = ''employee'', ue_label = ''Employee'', ue_fields =
           [ui_field ''employeeId'' ''Employee ID'' ''string'' True,
            ui_field ''fullName'' ''Full Name'' ''string'' True,
            ui_field ''email'' ''Email'' ''string'' True,
            ui_field ''department'' ''Department'' ''string'' True,
            ui_field ''role'' ''Role'' ''string'' False,
            ui_field ''salary'' ''Salary'' ''number'' False,
            ui_field ''startDate'' ''Start Date'' ''date'' False,
            (ui_field ''status'' ''Status'' ''enum'' False)\<lparr>uf_options := [''active'', ''inactive'', ''terminated'']\<rparr>]\<rparr>,
         \<lparr>ue_entityKey = ''department'', ue_label = ''Department'', ue_fields =
           [ui_field ''code'' ''Code'' ''string'' True,
            ui_field ''name'' ''Name'' ''string'' True,
            ui_field ''headId'' ''Head Employee ID'' ''string'' False]\<rparr>,
         \<lparr>ue_entityKey = ''branch'', ue_label = ''Branch'', ue_fields =
           [ui_field ''code'' ''Branch Code'' ''string'' True,
            ui_field ''name'' ''Branch Name'' ''string'' True,
            ui_field ''address'' ''Address'' ''string'' False]\<rparr>]\<rparr>,
      \<lparr>um_module = ''finance'', um_label = ''Finance'', um_entities =
        [\<lparr>ue_entityKey = ''invoice'', ue_label = ''Invoice'', ue_fields =
           [ui_field ''invoiceNumber'' ''Invoice #'' ''string'' True,
            ui_field ''amount'' ''Amount'' ''number'' True,
            ui_field ''currency'' ''Currency'' ''string'' True,
            ui_field ''dueDate'' ''Due Date'' ''date'' True,
            (ui_field ''status'' ''Status'' ''enum'' False)\<lparr>uf_options := [''pending'', ''paid'', ''overdue'']\<rparr>]\<rparr>,
         \<lparr>ue_entityKey = ''transaction'', ue_label = ''Transaction'', ue_fields =
           [ui_field ''transactionId'' ''Transaction ID'' ''string'' True,
            ui_field ''type'' ''Type'' ''string'' True,
            ui_field ''amount'' ''Amount'' ''number'' True,
            ui_field ''timestamp'' ''Timestamp'' ''date'' True]\<rparr>]\<rparr>,
      \<lparr>um_module = ''biz'', um_label = ''Business Ops'', um_entities =
        [\<lparr>ue_entityKey = ''product'', ue_label = ''Product'', ue_fields =
           [ui_field ''sku'' ''SKU'' ''string'' True,
            ui_field ''productName'' ''Product Name'' ''string'' True,
            ui_field ''price'' ''Price'' ''number'' True,
            ui_field ''category'' ''Category'' ''string'' False]\<rparr>,
         \<lparr>ue_entityKey = ''order'', ue_label = ''Order'', ue_fields =
           [ui_field ''orderId'' ''Order ID'' ''string'' True,
            ui_field ''customerId'' ''Customer ID'' ''string'' True,
            ui_field ''total'' ''Total'' ''number'' True,
            (ui_field ''status'' ''Status'' ''enum'' False)\<lparr>uf_options := [''pending'', ''shipped'', ''delivered'']\<rparr>]\<rparr>]\<rparr>,
      \<lparr>um_module = ''communication'', um_label = ''Communication'', um_entities =
        [\<lparr>ue_entityKey = ''document'', ue_label = ''Document'', ue_fields =
           [ui_field ''title'' ''Title'' ''string'' True,
            ui_field ''type'' ''Type'' ''string'' True,
            ui_field ''authorId'' ''Author ID'' ''string'' True]\<rparr>]\<rparr>]"

definition mockColumns :: "string list" where
  "mockColumns =
     [''ID'', ''Full Name'', ''Email Address'', ''Dept Code'', ''Job Title'', ''Annual Salary'', ''Start Date'', ''Status'']"

definition mockFields :: "ui_field list" where
  "mockFields =
     [ui_field ''employeeId'' ''Employee ID'' ''string'' True, ui_field ''fullName'' ''Full Name'' ''string'' True,
      ui_field ''email'' ''Email'' ''string'' True, ui_field ''department'' ''Department'' ''string'' True,
      ui_field ''role'' ''Role'' ''string'' False, ui_field ''salary'' ''Salary'' ''number'' False]"

record preview =
  pv_columns :: "string list"
  pv_rows :: nat
  pv_sampleRows :: "string list list"
  pv_sourceFormat :: string

text \<open>A sample row lists its cells in the order of the columns.\<close>

definition mockParsePreview :: "string \<Rightarrow> preview" where
  "mockParsePreview fileName =
     \<lparr>pv_columns = mockColumns, pv_rows = 47,
      pv_sampleRows =
        [[''EMP001'', ''Alice Johnson'', ''alice@acme.com'', ''ENG'', ''Senior Engineer'', ''95000'', ''2024-03-15'', ''active''],
         [''EMP002'', ''Bob Smith'', ''bob@acme.com'', ''MKT'', ''Marketing Lead'', ''82000'', ''2024-01-10'', ''active''],
         [''EMP003'', ''Carol Davis'', ''carol@acme.com'', ''FIN'', ''Analyst'', ''72000'', ''2023-11-01'', ''active''],
         [''EMP004'', ''David Lee'', ''david@acme.com'', ''ENG'', ''Engineer'', ''85000'', ''2024-06-01'', ''active''],
         [''EMP005'', ''Eva Martinez'', ''eva@acme.com'', ''HR'', ''HR Manager'', ''78000'', ''2023-08-20'', ''inactive'']],
      pv_sourceFormat = (let ext = last (split_on (CHR ''.'') fileName) in if ext = [] then ''csv'' else ext)\<rparr>"

record ui_validation =
  uv_total :: nat
  uv_valid :: nat
  uv_invalid :: nat
  uv_sampleErrors :: "(nat \<times> string) list"

definition mockValidationResult :: ui_validation where
  "mockValidationResult =
     \<lparr>uv_total = 47, uv_valid = 44, uv_invalid = 3,
      uv_sampleErrors =
        [(12, ''Missing required field: Email Address''),
         (23, ''Invalid salary format: '' @ [CHR 0x27] @ ''N/A'' @ [CHR 0x27] @ '' is not a number''),
         (31, ''Duplicate Employee ID: EMP015 already exists'')]\<rparr>"

record ui_commit =
  uc_status :: string
  uc_committed :: nat
  uc_skipped :: nat
  uc_failed :: nat
  uc_message :: string
  uc_importJobId :: string

definition mockCommitResult :: ui_commit where
  "mockCommitResult =
     \<lparr>uc_status = ''completed_with_errors'', uc_committed = 42, uc_skipped = 2, uc_failed = 3,
      uc_message = ''42 rows committed successfully. 2 rows were duplicates (skipped). 3 rows failed due to validation errors.'',
      uc_importJobId = ''507f1f77bcf86cd799439011''\<rparr>"

subsection \<open>State\<close>

definition STEPS :: "string list" where
  "STEPS = [''target'', ''upload'', ''mapping'', ''validate'', ''commit'']"

record ui_job =
  uj_file :: "string option"
  uj_preview :: preview
  uj_sourceFormat :: string

type_synonym ui_map = "(string \<times> string option) list"

record wizard_data =
  wd_modules :: "ui_module list"
  wd_selectedModule :: "string option"
  wd_selectedEntity :: "ui_entity option"
  wd_importJob :: "ui_job option"
  wd_fieldMap :: ui_map
  wd_validationResult :: "ui_validation option"
  wd_commitResult :: "ui_commit option"

text \<open>The mounted component with its \<open>useState\<close> values; a file is its name.\<close>

datatype screen =
    HeroScreen
  | TargetScreen string "ui_entity option"
  | UploadScreen "string option" bool bool "preview option"
  | MappingScreen ui_map
  | ValidationScreen bool "ui_validation option"
  | CommitScreen bool "ui_commit option"

datatype timer = Parse string | Validate | Commit

text \<open>\<open>ap_instance\<close> counts the components mounted so far; a timer remembers the one that set it.\<close>

record app =
  ap_currentStep :: nat
  ap_wizardData :: wizard_data
  ap_screen :: screen
  ap_instance :: nat
  ap_timers :: "(nat \<times> timer) list"

definition initialData :: wizard_data where
  "initialData =
     \<lparr>wd_modules = mockModules, wd_selectedModule = None, wd_selectedEntity = None, wd_importJob = None,
      wd_fieldMap = [], wd_validationResult = None, wd_commitResult = None\<rparr>"

definition initialApp :: app where
  "initialApp =
     \<lparr>ap_currentStep = 0, ap_wizardData = initialData, ap_screen = HeroScreen, ap_instance = 0, ap_timers = []\<rparr>"

subsection \<open>Moving between steps\<close>

definition defaultModule :: string where
  "defaultModule = ''hr''"

text \<open>The component of a step as it is mounted.\<close>

definition mounted :: "nat \<Rightarrow> wizard_data \<Rightarrow> screen" where
  "mounted step wd =
     (if step = 1 then TargetScreen (case wd_selectedModule wd of None \<Rightarrow> defaultModule | Some m \<Rightarrow> m) (wd_selectedEntity wd)
      else if step = 2 then UploadScreen (case wd_importJob wd of None \<Rightarrow> None | Some j \<Rightarrow> uj_file j) False False
        (map_option uj_preview (wd_importJob wd))
      else if step = 3 then MappingScreen (wd_fieldMap wd)
      else if step = 4 then ValidationScreen False (wd_validationResult wd)
      else if step = 5 then CommitScreen False (wd_commitResult wd)
      else HeroScreen)"

definition go_to :: "nat \<Rightarrow> wizard_data \<Rightarrow> app \<Rightarrow> app" where
  "go_to step wd a =
     a\<lparr>ap_currentStep := step, ap_wizardData := wd, ap_screen := mounted step wd, ap_instance := ap_instance a + 1\<rparr>"

definition goNext :: "wizard_data \<Rightarrow> app \<Rightarrow> app" where
  "goNext wd a = go_to (min (ap_currentStep a + 1) (length STEPS)) wd a"

definition goBack :: "app \<Rightarrow> app" where
  "goBack a = go_to (ap_currentStep a - 1) (ap_wizardData a) a"

definition reset :: "app \<Rightarrow> app" where
  "reset a = go_to 0 initialData a"

text \<open>The header marks the step whose index is the current step, and ticks those before it.\<close>

definition highlighted :: "nat \<Rightarrow> string option" where
  "highlighted currentStep = (if currentStep < length STEPS then Some (STEPS ! currentStep) else None)"

subsection \<open>The step components\<close>

definition entities_of :: "ui_module list \<Rightarrow> string \<Rightarrow> ui_entity list" where
  "entities_of modules m = (case find (\<lambda>um. um_module um = m) modules of None \<Rightarrow> [] | Some um \<Rightarrow> um_entities um)"

definition sourceFormat :: "string option \<Rightarrow> string" where
  "sourceFormat fl =
     (case fl of None \<Rightarrow> ''csv'' | Some name \<Rightarrow>
        (let ext = to_lower (last (split_on (CHR ''.'') name)) in if ext = [] then ''csv'' else ext))"

text \<open>\<open>fieldMap[f.key]\<close> is truthy.\<close>

definition is_mapped :: "ui_map \<Rightarrow> ui_field \<Rightarrow> bool" where
  "is_mapped fm f \<longleftrightarrow> (case map_of fm (uf_key f) of Some (Some c) \<Rightarrow> c \<noteq> [] | _ \<Rightarrow> False)"

definition fields_of :: "ui_entity option \<Rightarrow> ui_field list" where
  "fields_of e = (case e of None \<Rightarrow> mockFields | Some e \<Rightarrow> ue_fields e)"

definition allRequired :: "ui_entity option \<Rightarrow> ui_map \<Rightarrow> bool" where
  "allRequired e fm \<longleftrightarrow>
     (let requiredFields = filter uf_required (fields_of e)
      in length (filter (is_mapped fm) requiredFields) = length requiredFields)"

definition autoMap :: "ui_entity option \<Rightarrow> ui_map" where
  "autoMap e =
     fold (\<lambda>f m.
       (case find (\<lambda>c. to_lower c = to_lower (uf_key f) \<or> to_lower c = to_lower (uf_label f)) mockColumns of
          None \<Rightarrow> m
        | Some c \<Rightarrow> oset (uf_key f) (Some c) m)) (fields_of e) []"

datatype event =
    Start
  | SelectModule string
  | SelectEntity ui_entity
  | ContinueTarget
  | Drag bool
  | ChooseFile string
  | RemoveFile
  | ContinueUpload
  | UpdateMapping string "string option"
  | AutoMap
  | ContinueMapping
  | RunValidation
  | ContinueValidation
  | RunCommit
  | Back
  | Reset
  | Fire nat

definition target_event :: "event \<Rightarrow> string \<Rightarrow> ui_entity option \<Rightarrow> app \<Rightarrow> app option" where
  "target_event ev m e a =
     (case ev of
        SelectModule m' \<Rightarrow>
          if m' \<in> set (map um_module (wd_modules (ap_wizardData a)))
          then Some (a\<lparr>ap_screen := TargetScreen m' None\<rparr>) else None
      | SelectEntity e' \<Rightarrow>
          if e' \<in> set (entities_of (wd_modules (ap_wizardData a)) m)
          then Some (a\<lparr>ap_screen := TargetScreen m (Some e')\<rparr>) else None
      | ContinueTarget \<Rightarrow>
          if e = None then None
          else Some (goNext ((ap_wizardData a)\<lparr>wd_selectedModule := Some m, wd_selectedEntity := e\<rparr>) a)
      | _ \<Rightarrow> None)"

text \<open>The drop zone is shown while there is no file, \<open>Remove\<close> while there is one.\<close>

definition upload_event ::
  "event \<Rightarrow> string option \<Rightarrow> bool \<Rightarrow> bool \<Rightarrow> preview option \<Rightarrow> app \<Rightarrow> app option" where
  "upload_event ev fl dragging parsing pv a =
     (case ev of
        Drag b \<Rightarrow> if fl = None then Some (a\<lparr>ap_screen := UploadScreen fl b parsing pv\<rparr>) else None
      | ChooseFile name \<Rightarrow>
          if fl = None
          then Some (a\<lparr>ap_screen := UploadScreen (Some name) False True pv,
                       ap_timers := ap_timers a @ [(ap_instance a, Parse name)]\<rparr>)
          else None
      | RemoveFile \<Rightarrow> if fl = None then None else Some (a\<lparr>ap_screen := UploadScreen None dragging parsing None\<rparr>)
      | ContinueUpload \<Rightarrow>
          (case pv of
             None \<Rightarrow> None
           | Some p \<Rightarrow>
               if parsing then None
               else Some (goNext ((ap_wizardData a)\<lparr>wd_importJob :=
                 Some \<lparr>uj_file = fl, uj_preview = p, uj_sourceFormat = sourceFormat fl\<rparr>\<rparr>) a))
      | Back \<Rightarrow> Some (goBack a)
      | _ \<Rightarrow> None)"

text \<open>The select offers the columns, no column and \<open>__skip__\<close>; the cross sets null.\<close>

definition mapping_event :: "event \<Rightarrow> ui_map \<Rightarrow> app \<Rightarrow> app option" where
  "mapping_event ev fm a =
     (let e = wd_selectedEntity (ap_wizardData a) in
      case ev of
        UpdateMapping k c \<Rightarrow>
          if k \<in> set (map uf_key (fields_of e))
            \<and> (case c of None \<Rightarrow> is_mapped fm (ui_field k [] [] False)
                | Some col \<Rightarrow> col \<in> set ([] # ''__skip__'' # mockColumns))
          then Some (a\<lparr>ap_screen := MappingScreen (oset k c fm)\<rparr>) else None
      | AutoMap \<Rightarrow> Some (a\<lparr>ap_screen := MappingScreen (autoMap e)\<rparr>)
      | ContinueMapping \<Rightarrow>
          if allRequired e fm then Some (goNext ((ap_wizardData a)\<lparr>wd_fieldMap := fm\<rparr>) a) else None
      | Back \<Rightarrow> Some (goBack a)
      | _ \<Rightarrow> None)"

definition validation_event :: "event \<Rightarrow> bool \<Rightarrow> ui_validation option \<Rightarrow> app \<Rightarrow> app option" where
  "validation_event ev validating r a =
     (case ev of
        RunValidation \<Rightarrow>
          if r = None \<and> \<not> validating
          then Some (a\<lparr>ap_screen := ValidationScreen True r, ap_timers := ap_timers a @ [(ap_instance a, Validate)]\<rparr>)
          else None
      | ContinueValidation \<Rightarrow>
          if r = None then None else Some (goNext ((ap_wizardData a)\<lparr>wd_validationResult := r\<rparr>) a)
      | Back \<Rightarrow> Some (goBack a)
      | _ \<Rightarrow> None)"

definition commit_event :: "event \<Rightarrow> bool \<Rightarrow> ui_commit option \<Rightarrow> app \<Rightarrow> app option" where
  "commit_event ev committing r a =
     (case ev of
        RunCommit \<Rightarrow>
          if r = None \<and> \<not> committing
          then Some (a\<lparr>ap_screen := CommitScreen True r, ap_timers := ap_timers a @ [(ap_instance a, Commit)]\<rparr>)
          else None
      | Back \<Rightarrow> if r = None then Some (goBack a) else None
      | _ \<Rightarrow> None)"

subsection \<open>Timers\<close>

text \<open>
  Setting the state of a component that is no longer mounted does nothing; the commit's callback also
  updates the data of the wizard, whichever component is shown.
\<close>

definition fire :: "nat \<Rightarrow> timer \<Rightarrow> app \<Rightarrow> app" where
  "fire i t a =
     (case t of
        Parse name \<Rightarrow>
          (case ap_screen a of
             UploadScreen fl d p pv \<Rightarrow>
               if i = ap_instance a then a\<lparr>ap_screen := UploadScreen fl d False (Some (mockParsePreview name))\<rparr> else a
           | _ \<Rightarrow> a)
      | Validate \<Rightarrow>
          (case ap_screen a of
             ValidationScreen v r \<Rightarrow>
               if i = ap_instance a then a\<lparr>ap_screen := ValidationScreen False (Some mockValidationResult)\<rparr> else a
           | _ \<Rightarrow> a)
      | Commit \<Rightarrow>
          (let a = a\<lparr>ap_wizardData := (ap_wizardData a)\<lparr>wd_commitResult := Some mockCommitResult\<rparr>\<rparr> in
           (case ap_screen a of
              CommitScreen c r \<Rightarrow>
                if i = ap_instance a then a\<lparr>ap_screen := CommitScreen False (Some mockCommitResult)\<rparr> else a
            | _ \<Rightarrow> a)))"

definition fire_nth :: "nat \<Rightarrow> app \<Rightarrow> app option" where
  "fire_nth n a =
     (if n < length (ap_timers a)
      then (case ap_timers a ! n of (i, t) \<Rightarrow>
        Some (fire i t (a\<lparr>ap_timers := take n (ap_timers a) @ drop (n + 1) (ap_timers a)\<rparr>)))
      else None)"

subsection \<open>Runs\<close>

text \<open>One event; \<open>None\<close> when the page does not offer it. The logo in the header resets every step.\<close>

definition act :: "event \<Rightarrow> app \<Rightarrow> app option" where
  "act ev a =
     (case ev of
        Fire n \<Rightarrow> fire_nth n a
      | Reset \<Rightarrow> if ap_currentStep a = 0 then None else Some (reset a)
      | _ \<Rightarrow>
          (case ap_screen a of
             HeroScreen \<Rightarrow> if ev = Start then Some (go_to 1 (ap_wizardData a) a) else None
           | TargetScreen m e \<Rightarrow> target_event ev m e a
           | UploadScreen fl d p pv \<Rightarrow> upload_event ev fl d p pv a
           | MappingScreen fm \<Rightarrow> mapping_event ev fm a
           | ValidationScreen v r \<Rightarrow> validation_event ev v r a
           | CommitScreen c r \<Rightarrow> commit_event ev c r a))"

inductive wizard_run :: "app \<Rightarrow> event list \<Rightarrow> app \<Rightarrow> bool" where
  idle: "wizard_run a [] a"
| step: "wizard_run a evs b \<Longrightarrow> act ev b = Some c \<Longrightarrow> wizard_run a (evs @ [ev]) c"

fun run_events :: "event list \<Rightarrow> app \<Rightarrow> app option" where
  "run_events [] a = Some a"
| "run_events (ev # evs) a = (case act ev a of None \<Rightarrow> None | Some b \<Rightarrow> run_events evs b)"

end
