(* ===== verification/WizardProps.thy ===== *)
theory WizardProps
  imports Wizard
begin

text \<open>
  The invariant of the import wizard under every sequence of events and timers, and runs that show what
  it does not promise.
\<close>

definition target_chosen :: "wizard_data \<Rightarrow> bool" where
  "target_chosen wd \<longleftrightarrow>
     (\<exists>m e. wd_selectedModule wd = Some m \<and> wd_selectedEntity wd = Some e \<and> e \<in> set (entities_of mockModules m))"

definition data_ok :: "nat \<Rightarrow> wizard_data \<Rightarrow> bool" where
  "data_ok n wd \<longleftrightarrow>
     wd_modules wd = mockModules \<and> (wd_selectedEntity wd \<noteq> None \<longrightarrow> target_chosen wd)
     \<and> (2 \<le> n \<longrightarrow> wd_selectedEntity wd \<noteq> None) \<and> (3 \<le> n \<longrightarrow> wd_importJob wd \<noteq> None)
     \<and> (4 \<le> n \<longrightarrow> allRequired (wd_selectedEntity wd) (wd_fieldMap wd)) \<and> (5 \<le> n \<longrightarrow> wd_validationResult wd \<noteq> None)"

definition screen_step :: "screen \<Rightarrow> nat" where
  "screen_step s =
     (case s of HeroScreen \<Rightarrow> 0 | TargetScreen m e \<Rightarrow> 1 | UploadScreen fl d p pv \<Rightarrow> 2 | MappingScreen fm \<Rightarrow> 3
      | ValidationScreen v r \<Rightarrow> 4 | CommitScreen c r \<Rightarrow> 5)"

definition screen_ok :: "screen \<Rightarrow> bool" where
  "screen_ok s \<longleftrightarrow> (case s of TargetScreen m (Some e) \<Rightarrow> e \<in> set (entities_of mockModules m) | _ \<Rightarrow> True)"

definition wizard_ok :: "app \<Rightarrow> bool" where
  "wizard_ok a \<longleftrightarrow>
     data_ok (ap_currentStep a) (ap_wizardData a) \<and> screen_ok (ap_screen a) \<and> screen_step (ap_screen a) = ap_currentStep a"

lemma screen_step_simps [simp]:
  "screen_step HeroScreen = 0" "screen_step (TargetScreen m e) = 1" "screen_step (UploadScreen fl d p pv) = 2"
  "screen_step (MappingScreen fm) = 3" "screen_step (ValidationScreen v r) = 4" "screen_step (CommitScreen c r') = 5"
  by (simp_all add: screen_step_def)

lemma screen_ok_simps [simp]:
  "screen_ok HeroScreen" "screen_ok (UploadScreen fl d p pv)" "screen_ok (MappingScreen fm)"
  "screen_ok (ValidationScreen v r)" "screen_ok (CommitScreen c r')" "screen_ok (TargetScreen m None)"
  "screen_ok (TargetScreen m (Some e)) \<longleftrightarrow> e \<in> set (entities_of mockModules m)"
  by (simp_all add: screen_ok_def)

lemma data_ok_mono: "data_ok n wd \<Longrightarrow> m \<le> n \<Longrightarrow> data_ok m wd"
  by (auto simp: data_ok_def)

lemma mounted_ok:
  "n \<le> 5 \<Longrightarrow> data_ok n wd \<Longrightarrow> screen_ok (mounted n wd) \<and> screen_step (mounted n wd) = n"
  by (cases "wd_selectedEntity wd") (auto simp: mounted_def data_ok_def target_chosen_def screen_step_def)

lemma go_to_ok: "n \<le> 5 \<Longrightarrow> data_ok n wd \<Longrightarrow> wizard_ok (go_to n wd a)"
  using mounted_ok [of n wd] by (simp add: wizard_ok_def go_to_def)

lemma screen_step_le: "wizard_ok a \<Longrightarrow> ap_currentStep a \<le> 5"
  by (cases "ap_screen a") (auto simp: wizard_ok_def)

lemma goBack_ok: "wizard_ok a \<Longrightarrow> wizard_ok (goBack a)"
  using screen_step_le [of a] data_ok_mono [of "ap_currentStep a" "ap_wizardData a" "ap_currentStep a - 1"]
  by (simp add: goBack_def go_to_ok wizard_ok_def [of a])

lemma goNext_ok: "ap_currentStep a < 5 \<Longrightarrow> data_ok (ap_currentStep a + 1) wd \<Longrightarrow> wizard_ok (goNext wd a)"
  by (simp add: goNext_def STEPS_def go_to_ok)

lemma reset_ok: "wizard_ok (reset a)"
  by (simp add: reset_def go_to_ok data_ok_def initialData_def)

lemma screen_update_ok:
  "wizard_ok a \<Longrightarrow> screen_ok s \<Longrightarrow> screen_step s = screen_step (ap_screen a) \<Longrightarrow> wizard_ok (a\<lparr>ap_screen := s\<rparr>)"
  by (simp add: wizard_ok_def)

lemma data_ok_commitResult [simp]: "data_ok n (wd\<lparr>wd_commitResult := r\<rparr>) = data_ok n wd"
  by (simp add: data_ok_def target_chosen_def)

lemma fire_ok:
  assumes "wizard_ok a"
  shows "wizard_ok (fire i t a)"
proof -
  let ?a = "a\<lparr>ap_wizardData := (ap_wizardData a)\<lparr>wd_commitResult := Some mockCommitResult\<rparr>\<rparr>"
  have "wizard_ok ?a"
    using assms by (simp add: wizard_ok_def)
  then show ?thesis
    using assms screen_update_ok [of a] screen_update_ok [of ?a]
    by (cases t; cases "ap_screen a") (simp_all add: fire_def Let_def)
qed

lemma timers_ok [simp]: "wizard_ok (a\<lparr>ap_timers := ts\<rparr>) = wizard_ok a"
  by (simp add: wizard_ok_def)

lemma step_of [dest]: "wizard_ok a \<Longrightarrow> ap_screen a = s \<Longrightarrow> ap_currentStep a = screen_step s"
  by (auto simp: wizard_ok_def)

lemma data_of: "wizard_ok a \<Longrightarrow> data_ok (ap_currentStep a) (ap_wizardData a)"
  by (simp add: wizard_ok_def)

lemma modules_of: "wizard_ok a \<Longrightarrow> wd_modules (ap_wizardData a) = mockModules"
  by (simp add: wizard_ok_def data_ok_def)

lemma target_event_ok:
  assumes "wizard_ok a" "ap_screen a = TargetScreen m e" "target_event ev m e a = Some b"
  shows "wizard_ok b"
proof -
  have "wizard_ok (goNext ((ap_wizardData a)\<lparr>wd_selectedModule := Some m, wd_selectedEntity := e\<rparr>) a)" if "e \<noteq> None"
    using assms(1,2) that step_of [OF assms(1,2)]
    by (intro goNext_ok) (auto simp: data_ok_def target_chosen_def wizard_ok_def)
  then show ?thesis
    using assms modules_of [OF assms(1)]
    by (cases ev) (auto simp: target_event_def intro!: screen_update_ok split: if_splits)
qed

lemma upload_event_ok:
  assumes "wizard_ok a" "ap_screen a = UploadScreen fl d p pv" "upload_event ev fl d p pv a = Some b"
  shows "wizard_ok b"
proof -
  have "wizard_ok (goNext ((ap_wizardData a)\<lparr>wd_importJob := Some j\<rparr>) a)" for j
    using data_of [OF assms(1)] step_of [OF assms(1,2)]
    by (intro goNext_ok) (auto simp: data_ok_def target_chosen_def)
  then show ?thesis
    using assms by (cases ev) (auto simp: upload_event_def goBack_ok screen_update_ok split: if_splits option.splits)
qed

lemma mapping_event_ok:
  assumes "wizard_ok a" "ap_screen a = MappingScreen fm" "mapping_event ev fm a = Some b"
  shows "wizard_ok b"
proof -
  have "wizard_ok (goNext ((ap_wizardData a)\<lparr>wd_fieldMap := fm\<rparr>) a)" if "allRequired (wd_selectedEntity (ap_wizardData a)) fm"
    using data_of [OF assms(1)] step_of [OF assms(1,2)] that
    by (intro goNext_ok) (auto simp: data_ok_def target_chosen_def)
  then show ?thesis
    using assms by (cases ev) (auto simp: mapping_event_def goBack_ok screen_update_ok Let_def split: if_splits)
qed

lemma validation_event_ok:
  assumes "wizard_ok a" "ap_screen a = ValidationScreen v r" "validation_event ev v r a = Some b"
  shows "wizard_ok b"
proof -
  have "wizard_ok (goNext ((ap_wizardData a)\<lparr>wd_validationResult := r\<rparr>) a)" if "r \<noteq> None"
    using data_of [OF assms(1)] step_of [OF assms(1,2)] that
    by (intro goNext_ok) (auto simp: data_ok_def target_chosen_def)
  then show ?thesis
    using assms by (cases ev) (auto simp: validation_event_def goBack_ok screen_update_ok split: if_splits)
qed

lemma commit_event_ok:
  assumes "wizard_ok a" "ap_screen a = CommitScreen c r" "commit_event ev c r a = Some b"
  shows "wizard_ok b"
  using assms by (cases ev) (auto simp: commit_event_def goBack_ok screen_update_ok split: if_splits)

lemma act_ok:
  assumes "wizard_ok a" "act ev a = Some b"
  shows "wizard_ok b"
proof -
  have fire: "wizard_ok b" if "fire_nth n a = Some b" for n
    using that assms(1) by (auto simp: fire_nth_def fire_ok split: if_splits prod.splits)
  have screen: "wizard_ok b" if "\<forall>n. ev \<noteq> Fire n" "ev \<noteq> Reset"
  proof -
    note run = assms(2) [unfolded act_def]
    show ?thesis
    proof (cases "ap_screen a")
      case HeroScreen
      then have "b = go_to 1 (ap_wizardData a) a"
        using run that by (cases ev) (simp_all split: if_splits)
      then show ?thesis
        using data_of [OF assms(1)] step_of [OF assms(1) HeroScreen] by (auto simp: data_ok_def intro!: go_to_ok)
    next
      case (TargetScreen m e)
      have "target_event ev m e a = Some b"
        using run that TargetScreen by (cases ev) simp_all
      then show ?thesis
        by (rule target_event_ok [OF assms(1) TargetScreen])
    next
      case (UploadScreen fl d p pv)
      have "upload_event ev fl d p pv a = Some b"
        using run that UploadScreen by (cases ev) simp_all
      then show ?thesis
        by (rule upload_event_ok [OF assms(1) UploadScreen])
    next
      case (MappingScreen fm)
      have "mapping_event ev fm a = Some b"
        using run that MappingScreen by (cases ev) simp_all
      then show ?thesis
        by (rule mapping_event_ok [OF assms(1) MappingScreen])
    next
      case (ValidationScreen v r)
      have "validation_event ev v r a = Some b"
        using run that ValidationScreen by (cases ev) simp_all
      then show ?thesis
        by (rule validation_event_ok [OF assms(1) ValidationScreen])
    next
      case (CommitScreen c r)
      have "commit_event ev c r a = Some b"
        using run that CommitScreen by (cases ev) simp_all
      then show ?thesis
        by (rule commit_event_ok [OF assms(1) CommitScreen])
    qed
  qed
  show ?thesis
  proof (cases ev)
    case Reset
    then show ?thesis
      using assms(2) reset_ok by (auto simp: act_def split: if_splits)
  next
    case (Fire n)
    then show ?thesis
      using assms(2) fire by (simp add: act_def)
  qed (use screen in auto)
qed

lemma wizard_run_ok: "wizard_run a evs b \<Longrightarrow> wizard_ok a \<Longrightarrow> wizard_ok b"
  by (induction rule: wizard_run.induct) (auto intro: act_ok)

lemma initial_ok: "wizard_ok initialApp"
  by (simp add: wizard_ok_def initialApp_def data_ok_def initialData_def)

lemma allRequired_all: "allRequired e fm \<longleftrightarrow> (\<forall>f \<in> set (fields_of e). uf_required f \<longrightarrow> is_mapped fm f)"
proof -
  have "length (filter P xs) = length xs \<longleftrightarrow> (\<forall>x \<in> set xs. P x)" for P and xs :: "ui_field list"
    using length_filter_less [of _ xs P] by (metis filter_True nat_less_le)
  then show ?thesis
    by (auto simp: allRequired_def Let_def)
qed

text \<open>
  C37. Whatever the user clicks, in whichever order, and whenever the timers fire: the wizard is always at
  one of its steps with that step's component mounted, and it has not got past a step without its
  outcome. From the upload on an entity of the chosen module is selected, from the mapping on a file was
  previewed, from the validation on every required field of the selected entity is mapped, and at the
  commit there is a validation result.
\<close>

theorem wizard_invariant:
  assumes "wizard_run initialApp evs a"
  shows "ap_currentStep a \<le> 5 \<and> ap_currentStep a = screen_step (ap_screen a)
    \<and> (2 \<le> ap_currentStep a \<longrightarrow> target_chosen (ap_wizardData a))
    \<and> (3 \<le> ap_currentStep a \<longrightarrow> wd_importJob (ap_wizardData a) \<noteq> None)
    \<and> (4 \<le> ap_currentStep a \<longrightarrow>
         (\<forall>e. wd_selectedEntity (ap_wizardData a) = Some e \<longrightarrow>
           (\<forall>f \<in> set (ue_fields e). uf_required f \<longrightarrow> is_mapped (wd_fieldMap (ap_wizardData a)) f)))
    \<and> (ap_currentStep a = 5 \<longrightarrow> wd_validationResult (ap_wizardData a) \<noteq> None)"
  using wizard_run_ok [OF assms initial_ok] screen_step_le [of a]
  by (auto simp: wizard_ok_def data_ok_def allRequired_all fields_of_def)

lemma run_events_run: "run_events evs b = Some c \<Longrightarrow> wizard_run a pre b \<Longrightarrow> wizard_run a (pre @ evs) c"
proof (induction evs arbitrary: b pre)
  case (Cons ev evs)
  then obtain b' where b': "act ev b = Some b'" "run_events evs b' = Some c"
    by (auto split: option.splits)
  then show ?case
    using Cons.IH [OF b'(2), of "pre @ [ev]"] Cons.prems(2) wizard_run.step by fastforce
qed (auto intro: wizard_run.intros)

theorem wizard_invariant_witness:
  "\<exists>evs a. wizard_run initialApp evs a \<and> ap_currentStep a = 5
     \<and> (\<exists>e. wd_selectedEntity (ap_wizardData a) = Some e \<and> ue_entityKey e = ''document'')
     \<and> wd_validationResult (ap_wizardData a) \<noteq> None"
proof -
  define doc where "doc = hd (entities_of mockModules ''communication'')"
  define evs where "evs =
    [Start, SelectModule ''communication'', SelectEntity doc, ContinueTarget, ChooseFile ''docs.csv'', Fire 0, ContinueUpload,
     UpdateMapping ''title'' (Some ''ID''), UpdateMapping ''type'' (Some ''Status''), UpdateMapping ''authorId'' (Some ''Full Name''),
     ContinueMapping, RunValidation, Fire 0, ContinueValidation]"
  have "case run_events evs initialApp of None \<Rightarrow> False
      | Some a \<Rightarrow> ap_currentStep a = 5 \<and> map_option ue_entityKey (wd_selectedEntity (ap_wizardData a)) = Some ''document''"
    unfolding evs_def doc_def by code_simp
  then obtain a where a: "run_events evs initialApp = Some a" "ap_currentStep a = 5"
    "map_option ue_entityKey (wd_selectedEntity (ap_wizardData a)) = Some ''document''"
    by (auto split: option.splits)
  have run: "wizard_run initialApp evs a"
    using run_events_run [OF a(1) wizard_run.idle] by simp
  show ?thesis
    using wizard_invariant [OF run] run a(2,3) by auto
qed

text \<open>What the invariant leaves out, as runs that the page allows.\<close>

definition document :: ui_entity where
  "document = hd (entities_of mockModules ''communication'')"

definition to_upload :: "event list" where
  "to_upload = [Start, SelectModule ''communication'', SelectEntity document, ContinueTarget]"

text \<open>A file removed while it is parsed leaves its preview behind: the wizard goes on without a file.\<close>

lemma wizard_without_file:
  "case run_events (to_upload @ [ChooseFile ''a.csv'', RemoveFile, Fire 0, ContinueUpload]) initialApp of
     Some a \<Rightarrow> ap_currentStep a = 3 \<and> map_option uj_file (wd_importJob (ap_wizardData a)) = Some None
   | None \<Rightarrow> False"
  unfolding to_upload_def document_def by code_simp

text \<open>Required fields may be skipped: \<open>__skip__\<close> counts as a column.\<close>

lemma wizard_skips_required:
  "case run_events (to_upload @ [ChooseFile ''a.csv'', Fire 0, ContinueUpload,
      UpdateMapping ''title'' (Some ''__skip__''), UpdateMapping ''type'' (Some ''__skip__''),
      UpdateMapping ''authorId'' (Some ''__skip__''), ContinueMapping]) initialApp of
     Some a \<Rightarrow> ap_currentStep a = 4 | None \<Rightarrow> False"
  unfolding to_upload_def document_def by code_simp

text \<open>A commit still running when the user starts over fills the next run's result in.\<close>

lemma wizard_late_commit:
  "case run_events (to_upload @ [ChooseFile ''a.csv'', Fire 0, ContinueUpload,
      UpdateMapping ''title'' (Some ''ID''), UpdateMapping ''type'' (Some ''ID''), UpdateMapping ''authorId'' (Some ''ID''),
      ContinueMapping, RunValidation, Fire 0, ContinueValidation, RunCommit, Reset, Fire 0]) initialApp of
     Some a \<Rightarrow> ap_currentStep a = 0 \<and> wd_commitResult (ap_wizardData a) = Some mockCommitResult | None \<Rightarrow> False"
  unfolding to_upload_def document_def by code_simp

text \<open>The header marks the step after the one that is shown.\<close>

lemma highlight_off_by_one: "0 < n \<Longrightarrow> n < 5 \<Longrightarrow> highlighted n = Some (STEPS ! n) \<and> STEPS ! (n - 1) \<noteq> STEPS ! n"
  by (auto simp: highlighted_def STEPS_def less_Suc_eq numeral_eq_Suc)

end
