(* ===== verification/Spec2Isabelle.thy ===== *)
theory Spec2Isabelle
  imports DependencyGraphCorrect SqlDumpCorrect TargetsProps CommitProps MappingProps SessionProps PipelineProps HttpProps Wiring WizardProps
begin

text \<open>
  A verification development for the universal data onboarder.

  \<^bold>\<open>The program.\<close> The onboarder takes an uploaded CSV, JSON, Excel or SQL file into a host application. A
  target descriptor says what an entity's fields are and how a row is written. A file is parsed under a
  row and byte ceiling (the guardrail) and its records are staged in a job; the columns are mapped to
  the target's fields, every row is validated, and the valid rows are committed one by one, each row
  reserved before it is written so that a commit can be repeated. Jobs can be grouped in a session,
  whose jobs run in the order of their entities' dependencies. The operations are reached through
  HTTP routers, by a queue worker, and by a Cloud Run process that runs the whole pipeline; a web page
  walks a user through a demonstration of the steps. Everything persistent goes through a job store,
  over Mongoose or in memory.

  \<^bold>\<open>Theories and the code they model.\<close> Files are named relative to src/; a definition has the name of
  the function, type or constant it models, with a suffix or prefix where names clash.

  \<^item> Prelude: errors as values, association lists for objects and \<open>Map\<close>s, first occurrences for
    \<open>Set\<close>s, folds that stop at an error.
  \<^item> JsNumber, JsValue: the language's numbers (binary64 with its rounding, the infinities and NaN, as
    exact rationals), white space and letter case, values, objects with their key order, conversions.
  \<^item> SqlDump, SqlDumpCorrect: core/parsing/sqlDumpParser.js.
  \<^item> StreamParser: core/parsing/streamingParser.js. Guardrail: core/guardrail/.
  \<^item> Registry: registry/registerTarget.js and importTargetRegistry.service.js.
  \<^item> JobStore: the documents of orchestration/adapters/mongoose/schemas as records, and the interface
    orchestration/jobStore.js as the record \<open>store_ops\<close> of operations on a state \<open>'s\<close>.
  \<^item> MemStore: orchestration/adapters/inMemoryJobStore.js. Mongo: mongooseJobStore.js over the record
    \<open>mongo\<close> of the operations of Mongoose it calls. MongoModel: a database of three lists that provides them.
  \<^item> Mapping, MappingJob, MappingProps: core/mapping/applyMapping.js.
  \<^item> Validation, ValidationCorrect, ValidationProps: core/validation/validateRows.js.
  \<^item> Commit, CommitCorrect, CommitProps: core/commit/ and the job handler of worker/bullmqCommitWorker.js.
  \<^item> DependencyGraph, DependencyGraphCorrect: orchestration/dependencyGraph.js. Session, SessionProps:
    orchestration/sessionManager.js.
  \<^item> ImportService, ImportProps: orchestration/migrationImport.service.js, storage/adapters, and
    queueing/adapters/inMemoryAdapter.js.
  \<^item> Pipeline, PipelineCorrect, PipelineProps: worker/importPipeline.js and worker/cloudRunEntrypoint.js.
  \<^item> Http, HttpProps: the handlers of http/uploadRoutes.js and b2bUploadRoutes.js and the guard
    requireTarget.middleware.js. Routes: the routers of these files as tables of method, path,
    middlewares and handler, their request schemas, and http/defaultMiddleware.js.
  \<^item> Targets, TargetsProps: the descriptors of examples/offerberries-targets/ over the record
    \<open>offerberries\<close> of the host application's models and services.
  \<^item> Wizard, WizardProps: packages/react-ui/src, App.jsx and the step components as a transition
    function on events, with the pending timers in the state.
  \<^item> Wiring: topology/adapters, queueing/adapters/bullmqAdapter.js, starting and stopping the worker,
    utils/ and http/swaggerServer.js.
  \<^item> Demo, DemoPipeline: small targets, stores and pipelines on which witnesses are evaluated.

  \<^bold>\<open>How the state is kept.\<close> An operation takes the store state \<open>'s\<close> and the host application's data \<open>'w\<close>
  and answers both with its result, also when it throws: a result is \<open>Inl\<close> of an error or \<open>Inr\<close> of a
  value, and what was written before a throw stays written. An operation over a store takes the
  \<open>store_ops\<close> record; an operation over models takes the \<open>mongo\<close> record.

  \<^bold>\<open>Interfaces.\<close>
  \<^item> \<open>write_once\<close> (Registry): a table whose keys are set once and refuse a second value;
    interpreted on the registry as \<open>reg\<close>.
  \<^item> \<open>bounded_parser\<close> (StreamParser): a parser that a ceiling only cuts; interpreted on each of the four
    formats (\<open>csv\<close>, \<open>json\<close>, \<open>excel\<close>, \<open>sql\<close>) and on their dispatch (\<open>streaming\<close>).
  \<^item> \<open>staging_store\<close> (JobStore): what mapping, validation and commit need of a store: distinct row ids,
    the two cursors, and which row an update changes. Their lemmas are proved once inside it;
    interpreted on the in-memory store as \<open>mem\<close>.
  \<^item> \<open>mongo_db\<close> (Mongo): what the document database promises of the calls the code makes; interpreted
    on the list database as \<open>listdb\<close>. The Mongoose store over any such database is a
    \<open>staging_store\<close> (a \<open>sublocale\<close>), so the same lemmas hold for both stores.

  \<^bold>\<open>What is shown.\<close>
  \<^item> Parsing: a printed dump is read back; for every format a ceiling leaves the unlimited result or
    answers that it was exceeded; the two guardrail checks agree and decide by the tenant's ceilings.
  \<^item> Registry and mapping: distinct keys register and resolve; coercion is typed and stable; edit
    distance is the least number of edits; suggestions claim a field once; an accepted mapping
    rewrites exactly the rows of the job.
  \<^item> Validation: each row is judged by its own content, and all but one of the rows that share an identity
    value are duplicates; the stored counts are the numbers of rows so marked.
  \<^item> Commit: a batch settles exactly the committable rows; the worker's loop over chunks ends and equals
    one batch; after any number of crashes a completed run has written every accepted row once.
  \<^item> Ordering and sessions: the sort succeeds exactly on acyclic graphs and puts dependencies first; a
    session document keeps its invariant under every operation.
  \<^item> Import and pipeline: staging replaces the job's rows by the parsed records; a run leaves a
    mapped job in a final status; a validated job is carried through; signed uploads are completed
    only within the ceiling.
  \<^item> Routers: a handler runs only behind authentication and the permission or scope of its kind; the
    partner routes do what the operator routes do.
  \<^item> Wizard: no step is reached without the outcome of the steps before it.
  \<^item> Errors: where the code does not do what it means to (dropped rows of mixed dumps, a crash after a refused
    duplicate, the asynchronous commit, a session's pipeline, the automatic mapping, the shipped
    storages, the guard, dependencies of the shipped targets), that behaviour is a theorem too.

  \<^bold>\<open>Bounds and fuel.\<close> Constants are the source's: chunks of 1000 staged rows, of 500 writes in mapping,
  validation and external ids, of 200 rows in the worker. Only the worker's endless loop has fuel; each full chunk
  settles 200 rows, so more fuel than the number of committable rows divided by 200 is enough, and the
  theorems on the worker show that the loop then returns. Other loops are recursive on their input
  or have a measure (the shorter rest of a text, the vertices not yet taken from the queue).

  \<^bold>\<open>Parameters.\<close> What is not in the repository is an argument: the operations of Mongoose, the parsing
  packages and the file system (\<open>libs\<close>), the storage and Cloud Run clients, a descriptor's
  functions, the host application's models and services, the connection a resolver opens, what Express and Joi do
  with a middleware, the process environment, the wording of error messages, date conversions, and the
  two functions of the guard that no file defines (\<open>getTenantConfig\<close>, \<open>getTenantAccessDenial\<close>). \<open>listTargetEntities\<close> is
  an argument of the pipeline because the module it is imported from does not export it. Making an
  entity write and its mark atomic is \<open>withTransaction\<close>'s documented behaviour.

  \<^bold>\<open>Not modelled.\<close>
  \<^item> http/swaggerConfig.js (a constant API document), files that only re-export or describe an
    interface (core/index.js, registry/resolveDescriptor.js, queueing/QueueAdapter.js,
    topology/ConnectionResolver.js), page mounting, the welcome page and build settings, the contract
    tests. Of the page's components the markup and help texts are left out.
  \<^item> Strings are lists of code units below 256, with \<open>toUpperCase\<close> on ASCII letters only; a
    long dash in a text is a hyphen. Objects have no inherited properties. Tenant and record ids contain no
    colon, which the in-memory store uses as a separator.
  \<^item> A SQL table whose quoted name is empty. The sort of the runtime is taken to be stable.
  \<^item> A cursor reads the rows present when it is opened; a saved document is not aliased afterwards. The
    cache of model objects on a connection, and closing connections, have no effect on the data and are left out.
  \<^item> The validators that run when \<open>saveJob\<close> of the Mongoose store saves a changed job; authentication itself. An
    absent tenant id is the empty string.
\<close>

end
